(* ===== verification/Hdl_Prelude.thy ===== *)
theory Hdl_Prelude
  imports Main "HOL-Library.Word"
begin

text \<open>
  Shared vocabulary of the development.  Gateware modules are synchronous machines: one
  function from the inputs of a clock cycle and the register values to the register values
  after the clock edge.  This theory holds the run of such a machine over a list of input
  cycles, the collected outputs, the two interfaces every module is shown to meet (an
  invariant kept by each clock edge, and the conservation law of a stream stage), the result
  type of the Python tools, and the decimal and hexadecimal printing that the tools use.
\<close>

unbundle bit_operations_syntax

named_theorems module_defs \<open>step and output functions of the gateware modules\<close>
named_theorems unat_simps \<open>words read as natural numbers\<close>

section \<open>Types of the Python tools\<close>

datatype py_error =
    AssertionError
  | ValueError
  | KeyError
  | IndexError
  | SystemError
  | StructError
  | TypeError
  | ConstraintError
  | AttributeError
  | NameError
  | ZeroDivisionError
  | FileNotFoundError
  | FileExistsError
  | NotADirectoryError
  | IsADirectoryError
  | SameFileError
  | CsvError
  | ImportError
  | NotImplementedError
  | CalledProcessError
  | UnicodeError

type_synonym 'a py_result = "py_error + 'a"

definition py_bind :: "'a py_result \<Rightarrow> ('a \<Rightarrow> 'b py_result) \<Rightarrow> 'b py_result" where
  "py_bind r f = (case r of Inl e \<Rightarrow> Inl e | Inr x \<Rightarrow> f x)"

definition py_assert :: "bool \<Rightarrow> unit py_result" where
  "py_assert b = (if b then Inr () else Inl AssertionError)"

lemma py_bind_simps [simp]:
  "py_bind (Inl e) f = Inl e"
  "py_bind (Inr x) f = f x"
  by (simp_all add: py_bind_def)

lemma py_bind_Inr_iff: "py_bind r f = Inr y \<longleftrightarrow> (\<exists>x. r = Inr x \<and> f x = Inr y)"
  by (cases r) auto

lemma py_bindE:
  assumes "py_bind r f = Inr y"
  obtains x where "r = Inr x" "f x = Inr y"
  using assms by (auto simp: py_bind_Inr_iff)

lemma py_assert_iff [simp]: "py_assert b = Inr u \<longleftrightarrow> b" "py_assert b = Inl e \<longleftrightarrow> \<not> b \<and> e = AssertionError"
  by (auto simp: py_assert_def)

lemma py_bind_assert [simp]: "py_bind (py_assert b) f = (if b then f () else Inl AssertionError)"
  by (simp add: py_assert_def)

section \<open>Runs of synchronous machines\<close>

fun run :: "('i \<Rightarrow> 's \<Rightarrow> 's) \<Rightarrow> 'i list \<Rightarrow> 's \<Rightarrow> 's" where
  "run step [] s = s"
| "run step (i # is) s = run step is (step i s)"

fun collect :: "('i \<Rightarrow> 's \<Rightarrow> 's) \<Rightarrow> ('i \<Rightarrow> 's \<Rightarrow> 'o list) \<Rightarrow> 'i list \<Rightarrow> 's \<Rightarrow> 'o list" where
  "collect step out [] s = []"
| "collect step out (i # is) s = out i s @ collect step out is (step i s)"

lemma run_append [simp]: "run step (is @ js) s = run step js (run step is s)"
  by (induction "is" arbitrary: s) auto

lemma collect_append [simp]:
  "collect step out (is @ js) s = collect step out is s @ collect step out js (run step is s)"
  by (induction "is" arbitrary: s) auto

lemma run_replicate: "run step (replicate n i) s = (step i ^^ n) s"
  by (induction n arbitrary: s) (auto simp: funpow_swap1)

lemma run_replicate_Suc:
  "run step (replicate (Suc n) i) s = step i (run step (replicate n i) s)"
  by (simp add: run_replicate funpow_swap1 [symmetric])

lemma run_snoc: "run step (is @ [i]) s = step i (run step is s)"
  by simp

subsection \<open>Interface: an invariant of every clock edge\<close>

locale sync_module =
  fixes step :: "'i \<Rightarrow> 's \<Rightarrow> 's"
    and init :: 's
    and inv :: "'s \<Rightarrow> bool"
  assumes inv_init: "inv init"
    and inv_step: "inv s \<Longrightarrow> inv (step i s)"
begin

lemma inv_run: "inv s \<Longrightarrow> inv (run step is s)"
  by (induction "is" arbitrary: s) (auto intro: inv_step)

lemma inv_reachable: "inv (run step is init)"
  by (rule inv_run) (rule inv_init)

end

subsection \<open>Interface: a stage of a stream\<close>

text \<open>
  A stream stage takes tokens (\<open>taken\<close>), gives tokens (\<open>given\<close>) and holds what is still in
  flight (\<open>pending\<close>).  Each token taken stands for the tokens \<open>conv\<close> of the output side.  The
  law is local to one cycle; the lemma is about whole runs: nothing is lost, repeated or
  reordered.
\<close>

locale stream_module = sync_module step init inv
  for step :: "'i \<Rightarrow> 's \<Rightarrow> 's" and init :: 's and inv :: "'s \<Rightarrow> bool" +
  fixes taken :: "'i \<Rightarrow> 's \<Rightarrow> 'a list"
    and given :: "'i \<Rightarrow> 's \<Rightarrow> 'b list"
    and conv :: "'a \<Rightarrow> 'b list"
    and pending :: "'s \<Rightarrow> 'b list"
  assumes pending_init: "pending init = []"
    and pending_step:
      "inv s \<Longrightarrow> pending s @ concat (map conv (taken i s)) = given i s @ pending (step i s)"
begin

lemma conservation_from:
  "inv s \<Longrightarrow>
   pending s @ concat (map conv (collect step taken is s))
     = collect step given is s @ pending (run step is s)"
proof (induction "is" arbitrary: s)
  case Nil
  then show ?case by simp
next
  case (Cons i "is")
  have "pending s @ concat (map conv (collect step taken (i # is) s))
      = (pending s @ concat (map conv (taken i s))) @ concat (map conv (collect step taken is (step i s)))"
    by simp
  also have "\<dots> = given i s @ pending (step i s) @ concat (map conv (collect step taken is (step i s)))"
    using pending_step [OF Cons.prems] by simp
  also have "\<dots> = given i s @ collect step given is (step i s) @ pending (run step is (step i s))"
    using Cons.IH [OF inv_step [OF Cons.prems]] by simp
  finally show ?case by simp
qed

lemma conservation:
  "concat (map conv (collect step taken is init))
     = collect step given is init @ pending (run step is init)"
  using conservation_from [OF inv_init] by (simp add: pending_init)

end

section \<open>Words\<close>

lemma unat_lt2p [unat_simps]: "unat (x :: 'a::len word) < 2 ^ LENGTH('a)"
  by (rule unsigned_less)

lemma unat_plus_one [unat_simps]:
  fixes x :: "'a::len word"
  assumes "unat x + 1 < 2 ^ LENGTH('a)"
  shows "unat (x + 1) = unat x + 1"
  using assms by (simp add: unat_word_ariths)

lemma unat_minus_one_eq [unat_simps]:
  fixes x :: "'a::len word"
  assumes "0 < unat x"
  shows "unat (x - 1) = unat x - 1"
  using assms by (metis unat_eq_zero not_gr_zero unat_minus_one)

section \<open>Printing numbers\<close>

definition digit_char :: "nat \<Rightarrow> char" where
  "digit_char d = ''0123456789abcdef'' ! d"

function show_base :: "nat \<Rightarrow> nat \<Rightarrow> string" where
  "show_base b n =
     (if b < 2 \<or> n < b then [digit_char n] else show_base b (n div b) @ [digit_char (n mod b)])"
  by pat_completeness auto
termination
  by (relation "measure (\<lambda>(b, n). n)") (auto simp: div_less_dividend)

declare show_base.simps [simp del]

text \<open>Python's \<open>str\<close> and \<open>hex\<close> of a non-negative integer, and the format \<open>{:08x}\<close>.\<close>

definition py_str :: "nat \<Rightarrow> string" where
  "py_str n = show_base 10 n"

definition py_hex :: "nat \<Rightarrow> string" where
  "py_hex n = ''0x'' @ show_base 16 n"

definition fmt_08x :: "nat \<Rightarrow> string" where
  "fmt_08x n = replicate (8 - length (show_base 16 n)) CHR ''0'' @ show_base 16 n"

definition char_digit :: "char \<Rightarrow> nat" where
  "char_digit c =
     (let k = of_char c in if 97 \<le> k then k - 87 else k - (48::nat))"

definition read_base :: "nat \<Rightarrow> string \<Rightarrow> nat" where
  "read_base b s = foldl (\<lambda>a c. a * b + char_digit c) 0 s"

lemma char_digit_digit_char: "d < 16 \<Longrightarrow> char_digit (digit_char d) = d"
proof -
  have "\<forall>d \<in> set [0..<16]. char_digit (digit_char d) = d" by code_simp
  then show "d < 16 \<Longrightarrow> char_digit (digit_char d) = d" by simp
qed

lemma read_base_snoc: "read_base b (s @ [c]) = read_base b s * b + char_digit c"
  by (simp add: read_base_def)

lemma read_show_base:
  assumes "2 \<le> b" "b \<le> 16"
  shows "read_base b (show_base b n) = n"
  using assms
proof (induction b n rule: show_base.induct)
  case (1 b n)
  show ?case
  proof (cases "n < b")
    case True
    with "1.prems" show ?thesis
      by (simp add: show_base.simps [of b n] read_base_def char_digit_digit_char)
  next
    case False
    with "1.prems" "1.IH" have IH: "read_base b (show_base b (n div b)) = n div b" by simp
    have m: "char_digit (digit_char (n mod b)) = n mod b"
      using "1.prems" by (intro char_digit_digit_char) (meson le_trans mod_less_divisor not_le order_less_le_trans less_le_trans zero_less_numeral)
    from False "1.prems" IH m show ?thesis
      by (simp add: show_base.simps [of b n] read_base_snoc)
  qed
qed

lemma show_base_inject:
  "2 \<le> b \<Longrightarrow> b \<le> 16 \<Longrightarrow> show_base b m = show_base b n \<longleftrightarrow> m = n"
  by (metis read_show_base)

lemma py_str_inject [simp]: "py_str m = py_str n \<longleftrightarrow> m = n"
  by (simp add: py_str_def show_base_inject)

lemma py_hex_inject [simp]: "py_hex m = py_hex n \<longleftrightarrow> m = n"
  by (simp add: py_hex_def show_base_inject)

end
