(* ===== verification/Freq_Measurement.thy ===== *)
theory Freq_Measurement
  imports Hdl_Prelude
begin

text \<open>
  The frequency counter of \<open>gateware/freq_measurement.py\<close>: the sampler that adds up
  the increments of a free-running (Gray coded, resynchronised) event counter, and the period
  counter that latches the sum.  The event counter and its synchroniser are Migen library cells;
  the decoded count they deliver is the input \<open>i\<close> of each cycle.
\<close>

section \<open>Sampler\<close>

record (overloaded) ('m, 'c) sampler =
  smp_i_d :: "'m word"
  smp_counter :: "'c word"
  smp_value :: "'c word"

definition sampler_init :: "('m::len, 'c::len) sampler" where
  "sampler_init = \<lparr>smp_i_d = 0, smp_counter = 0, smp_value = 0\<rparr>"

definition counter_inc :: "'m::len word \<Rightarrow> ('m, 'c::len) sampler \<Rightarrow> 'm word" where
  "counter_inc i s = i - smp_i_d s"

definition sampler_step ::
    "'m::len word \<times> bool \<Rightarrow> ('m, 'c::len) sampler \<Rightarrow> ('m, 'c) sampler" where
  "sampler_step inp s =
     (let (i, latch) = inp in
      s\<lparr>smp_i_d := i,
        smp_counter := (if latch then 0 else smp_counter s + ucast (counter_inc i s)),
        smp_value := (if latch then smp_counter s else smp_value s)\<rparr>)"

section \<open>Measurement period\<close>

record (overloaded) ('m, 'c) freq_meas =
  fm_period_counter :: "'c word"
  fm_sampler :: "('m, 'c) sampler"

definition freq_init :: "('m::len, 'c::len) freq_meas" where
  "freq_init = \<lparr>fm_period_counter = 0, fm_sampler = sampler_init\<rparr>"

definition period_done :: "'c::len word \<Rightarrow> ('m::len, 'c) freq_meas \<Rightarrow> bool" where
  "period_done measure_period s = (fm_period_counter s = measure_period)"

definition freq_step ::
    "'c::len word \<Rightarrow> 'm::len word \<Rightarrow> ('m, 'c) freq_meas \<Rightarrow> ('m, 'c) freq_meas" where
  "freq_step measure_period gray s =
     s\<lparr>fm_period_counter :=
         (if period_done measure_period s then 0 else fm_period_counter s + 1),
       fm_sampler := sampler_step (gray, period_done measure_period s) (fm_sampler s)\<rparr>"

definition freq_value :: "('m::len, 'c::len) freq_meas \<Rightarrow> 'c word" where
  "freq_value s = smp_value (fm_sampler s)"

section \<open>Properties\<close>

text \<open>
  The reference: the number of events between consecutive samples of a true, unbounded event
  count, as long as fewer than \<open>2 ^ m\<close> events happen per system clock cycle.
\<close>

definition event_count_ok :: "nat \<Rightarrow> nat list \<Rightarrow> nat \<Rightarrow> bool" where
  "event_count_ok m es e0 = (\<forall>(a, b) \<in> set (zip (e0 # es) es). a \<le> b \<and> b - a < 2 ^ m)"

lemma event_count_ok_simps [simp]:
  "event_count_ok m [] e0"
  "event_count_ok m (e # es) e0 \<longleftrightarrow> e0 \<le> e \<and> e - e0 < 2 ^ m \<and> event_count_ok m es e"
  by (auto simp: event_count_ok_def)

lemma unat_diff_of_nat:
  assumes "a \<le> b" "b - a < 2 ^ LENGTH('m)"
  shows "unat (of_nat b - of_nat a :: 'm::len word) = b - a"
proof -
  have "(of_nat b - of_nat a :: 'm word) = of_nat (b - a)" using assms(1) by (simp add: of_nat_diff)
  then show ?thesis using assms(2) by (simp add: unat_of_nat)
qed

lemma ucast_of_nat_small:
  "n < 2 ^ LENGTH('m) \<Longrightarrow> (ucast (of_nat n :: 'm::len word) :: 'c::len word) = of_nat n"
  by (simp add: unsigned_of_nat take_bit_nat_eq_self)

lemma last_ge_event_count: "event_count_ok m es e0 \<Longrightarrow> e0 \<le> last (e0 # es)"
  by (induction es arbitrary: e0) (auto intro: le_trans)

lemma sampler_run_sum:
  fixes s :: "('m::len, 'c::len) sampler"
  assumes "event_count_ok LENGTH('m) es e0" "smp_i_d s = of_nat e0"
  shows "smp_counter (run sampler_step (map (\<lambda>e. (of_nat e, False)) es) s)
           = smp_counter s + of_nat (last (e0 # es) - e0)"
    and "smp_i_d (run sampler_step (map (\<lambda>e. (of_nat e, False)) es) s) = of_nat (last (e0 # es))"
  using assms
proof (induction es arbitrary: e0 s)
  case Nil
  { case 1 then show ?case by simp next case 2 then show ?case by simp }
next
  case (Cons e es)
  {
    case 1
    let ?s = "sampler_step (of_nat e, False) s"
    have inc: "counter_inc (of_nat e) s = of_nat (e - e0)"
      using 1 by (simp add: counter_inc_def of_nat_diff)
    have c: "smp_counter ?s = smp_counter s + of_nat (e - e0)"
    proof -
      have "smp_counter ?s = smp_counter s + ucast (counter_inc (of_nat e) s)"
        by (simp add: sampler_step_def)
      also have "(ucast (counter_inc (of_nat e) s) :: 'c word) = of_nat (e - e0)"
        unfolding inc using 1 by (intro ucast_of_nat_small) simp
      finally show ?thesis .
    qed
    have l: "e \<le> last (e # es)" using 1 by (intro last_ge_event_count [of "LENGTH('m)"]) simp
    have IH: "smp_counter (run sampler_step (map (\<lambda>e. (of_nat e, False)) es) ?s)
                = smp_counter ?s + of_nat (last (e # es) - e)"
      using 1 by (intro Cons.IH(1)) (simp_all add: sampler_step_def)
    have "(of_nat (e - e0) :: 'c word) + of_nat (last (e # es) - e) = of_nat (last (e # es) - e0)"
      using 1 l by (simp flip: of_nat_add)
    with IH c show ?case by (simp add: add.assoc)
  next
    case 2
    then show ?case using Cons.IH(2) [of e "sampler_step (of_nat e, False) s"] by (simp add: sampler_step_def)
  }
qed

text \<open>
  Whatever the true event count does, as long as it never advances by \<open>2 ^ m\<close> or
  more within one system clock cycle, one latch publishes the number of events since the
  counter was cleared (modulo the width of the result register), although the gateware only
  ever sees the event count modulo \<open>2 ^ m\<close>.
\<close>

theorem sampler_counts_events:
  fixes s :: "('m::len, 'c::len) sampler"
  assumes "event_count_ok LENGTH('m) es e0"
    and "smp_i_d s = of_nat e0" and "smp_counter s = 0"
  shows "smp_value (run sampler_step (map (\<lambda>e. (of_nat e, False)) es @ [(x, True)]) s)
           = of_nat (last (e0 # es) - e0)"
  using sampler_run_sum(1) [OF assms(1,2)] assms(3)
  by (simp add: sampler_step_def)

theorem sampler_counts_events_witness:
  "smp_value (run sampler_step (map (\<lambda>e. (of_nat e, False)) [60, 70, 130] @ [(0, True)])
     \<lparr>smp_i_d = (of_nat 40 :: 6 word), smp_counter = 0, smp_value = (7 :: 32 word)\<rparr>) = 90"
proof -
  have ok: "event_count_ok LENGTH(6) [60, 70, 130] 40" by simp
  show ?thesis
    using sampler_counts_events [OF ok,
      of "\<lparr>smp_i_d = (of_nat 40 :: 6 word), smp_counter = 0, smp_value = (7 :: 32 word)\<rparr>" 0]
    by simp
qed

lemma freq_period_run:
  fixes s :: "('m::len, 'c::len) freq_meas"
  assumes "fm_period_counter s = 0" "length gs \<le> unat p"
  shows "unat (fm_period_counter (run (freq_step p) gs s)) = length gs"
  using assms(2)
proof (induction gs rule: rev_induct)
  case Nil
  with assms show ?case by simp
next
  case (snoc g gs)
  let ?t = "run (freq_step p) gs s"
  from snoc have IH: "unat (fm_period_counter ?t) = length gs" by simp
  have lt: "unat p < 2 ^ LENGTH('c)" by (rule unat_lt2p)
  from snoc.prems IH have ne: "fm_period_counter ?t \<noteq> p" by auto
  have "unat (fm_period_counter ?t + 1) = length gs + 1"
  proof -
    from snoc.prems have "length gs + 1 \<le> unat p" by simp
    with lt have "length gs + 1 < 2 ^ LENGTH('c)" by linarith
    then show ?thesis using IH unat_plus_one [of "fm_period_counter ?t"] by simp
  qed
  with ne show ?case by (simp add: freq_step_def [of p g ?t] period_done_def)
qed

text \<open>
  The result register is rewritten once every \<open>measure_period + 1\<close> system
  clock cycles: during the first \<open>measure_period\<close> cycles of a window no latch happens and the
  next cycle latches.
\<close>

theorem freq_latch_period:
  fixes s :: "('m::len, 'c::len) freq_meas"
  assumes "fm_period_counter s = 0" "length gs < unat p + 1"
  shows "period_done p (run (freq_step p) gs s) = (length gs = unat p)"
  using freq_period_run [OF assms(1), of gs p] assms(2)
  by (auto simp: period_done_def word_unat_eq_iff)

theorem freq_latch_period_witness:
  "period_done 3 (run (freq_step 3) [1, 2, 3 :: 6 word] (freq_init :: (6, 32) freq_meas)) = True"
  by (subst freq_latch_period) (simp_all add: freq_init_def)

end
