(* ===== verification/Encoder_Dma.thy ===== *)
theory Encoder_Dma
  imports Hdl_Prelude "HOL-Library.Multiset"
begin

text \<open>
  The frame reader of the JPEG encoder, \<open>EncoderDMAReader\<close> in \<open>gateware/encoder/core.py\<close>.  It
  walks a frame of 16-bit pixels in blocks of eight by eight, one DRAM burst at a time.  The
  LiteDRAM DMA engine, a library, is the environment: \<open>dmar_ready\<close> is its \<open>sink.ready\<close>, and
  the port geometry (data width, address width, \<open>bits_for\<close>) comes in as parameters.  Shown: the
  order of the bursts equals the nested loops over block rows, blocks, lines and bursts under any
  pattern of stalls, the scan ends, every burst of the frame is fetched exactly once, and the
  address presented for each of them.
\<close>

section \<open>Model\<close>

datatype dma_fsm = DMA_IDLE | DMA_READ

record dma_reader =
  dmar_fsm :: dma_fsm
  dmar_base :: "32 word"
  dmar_h :: "16 word"
  dmar_v :: "16 word"

record dma_reader_in =
  dmar_start :: bool
  dmar_base_csr :: "32 word"
  dmar_h_width :: "16 word"
  dmar_v_width :: "16 word"
  dmar_ready :: bool

definition dma_reader_init :: dma_reader where
  "dma_reader_init = \<lparr>dmar_fsm = DMA_IDLE, dmar_base = 0, dmar_h = 0, dmar_v = 0\<rparr>"

definition pixel_bits :: nat where
  "pixel_bits = 16"

definition burst_pixels :: "nat \<Rightarrow> nat" where
  "burst_pixels dw = dw div pixel_bits"

definition alignment_bits :: "(nat \<Rightarrow> nat) \<Rightarrow> nat \<Rightarrow> nat" where
  "alignment_bits bits_for dw = bits_for (dw div 8) - 1"

text \<open>The strobes that the state machine drives in one cycle, and its next state.\<close>

record dma_strobes =
  ds_next :: dma_fsm
  ds_done :: bool
  ds_valid :: bool
  ds_h_clr :: bool
  ds_h_clr_lsb :: bool
  ds_h_inc :: bool
  ds_v_clr :: bool
  ds_v_inc :: bool
  ds_v_dec7 :: bool

definition dma_no_strobes :: "dma_fsm \<Rightarrow> dma_strobes" where
  "dma_no_strobes st =
     \<lparr>ds_next = st, ds_done = False, ds_valid = False, ds_h_clr = False, ds_h_clr_lsb = False,
      ds_h_inc = False, ds_v_clr = False, ds_v_inc = False, ds_v_dec7 = False\<rparr>"

definition dma_h_next :: "nat \<Rightarrow> dma_reader \<Rightarrow> 16 word" where
  "dma_h_next bp s = dmar_h s + of_nat bp"

definition dma_fsm_act :: "nat \<Rightarrow> dma_reader_in \<Rightarrow> dma_reader \<Rightarrow> dma_strobes" where
  "dma_fsm_act bp i s =
     (case dmar_fsm s of
        DMA_IDLE \<Rightarrow>
          (let o1 = (dma_no_strobes DMA_IDLE)\<lparr>ds_h_clr := True, ds_v_clr := True\<rparr>
           in if dmar_start i then o1\<lparr>ds_next := DMA_READ\<rparr> else o1\<lparr>ds_done := True\<rparr>)
      | DMA_READ \<Rightarrow>
          (let o1 = (dma_no_strobes DMA_READ)\<lparr>ds_valid := True\<rparr>
           in if dmar_ready i then
                if take_bit 3 (dma_h_next bp s) = 0 then
                  if take_bit 3 (dmar_v s) = 7 then
                    if dmar_h s \<ge> dmar_h_width i - of_nat bp then
                      (let o2 = o1\<lparr>ds_h_clr := True, ds_v_inc := True\<rparr>
                       in if dmar_v s \<ge> dmar_v_width i - 1 then o2\<lparr>ds_next := DMA_IDLE\<rparr> else o2)
                    else o1\<lparr>ds_h_inc := True, ds_v_dec7 := True\<rparr>
                  else o1\<lparr>ds_h_clr_lsb := True, ds_v_inc := True\<rparr>
                else o1\<lparr>ds_h_inc := True\<rparr>
              else o1))"

definition dma_reader_step :: "nat \<Rightarrow> dma_reader_in \<Rightarrow> dma_reader \<Rightarrow> dma_reader" where
  "dma_reader_step bp i s =
     (let a = dma_fsm_act bp i s in
      \<lparr>dmar_fsm = ds_next a,
       dmar_base = (if dmar_start i then dmar_base_csr i else dmar_base s),
       dmar_h = (if ds_h_clr a then 0
                 else if ds_h_clr_lsb a then push_bit 3 (drop_bit 3 (dmar_h s))
                 else if ds_h_inc a then dma_h_next bp s else dmar_h s),
       dmar_v = (if ds_v_clr a then 0
                 else if ds_v_inc a then dmar_v s + 1
                 else if ds_v_dec7 a then dmar_v s - 7 else dmar_v s)\<rparr>)"

text \<open>
  The burst address on \<open>dma.sink.address\<close>.  \<open>read_address\<close> has \<open>aw + alignment_bits\<close> bits and the
  sum is cut to the \<open>aw\<close> address bits of the port.
\<close>

definition dma_read_address :: "nat \<Rightarrow> nat \<Rightarrow> dma_reader_in \<Rightarrow> dma_reader \<Rightarrow> nat" where
  "dma_read_address aw ab i s =
     take_bit (aw + ab) (unat (dmar_v s) * unat (dmar_h_width i) + unat (dmar_h s))"

definition dma_address :: "nat \<Rightarrow> nat \<Rightarrow> dma_reader_in \<Rightarrow> dma_reader \<Rightarrow> nat" where
  "dma_address aw ab i s =
     take_bit aw (drop_bit ab (unat (dmar_base s)) + drop_bit (ab - 1) (dma_read_address aw ab i s))"

text \<open>The pixel position of the burst accepted by the DMA engine in a cycle, if there is one.\<close>

definition dma_accepted :: "nat \<Rightarrow> dma_reader_in \<Rightarrow> dma_reader \<Rightarrow> (nat \<times> nat) list" where
  "dma_accepted bp i s =
     (if ds_valid (dma_fsm_act bp i s) \<and> dmar_ready i
      then [(unat (dmar_v s), unat (dmar_h s))] else [])"

section \<open>Reference: nested loops over the frame\<close>

definition scan_row :: "nat \<Rightarrow> nat \<Rightarrow> nat \<Rightarrow> nat \<Rightarrow> (nat \<times> nat) list" where
  "scan_row b bv bh y = map (\<lambda>x. (8 * bv + y, 8 * bh + b * x)) [0..<8 div b]"

definition scan_block :: "nat \<Rightarrow> nat \<Rightarrow> nat \<Rightarrow> (nat \<times> nat) list" where
  "scan_block b bv bh = concat (map (scan_row b bv bh) [0..<8])"

definition scan_band :: "nat \<Rightarrow> nat \<Rightarrow> nat \<Rightarrow> (nat \<times> nat) list" where
  "scan_band b H bv = concat (map (scan_block b bv) [0..<H div 8])"

definition scan_frame :: "nat \<Rightarrow> nat \<Rightarrow> nat \<Rightarrow> (nat \<times> nat) list" where
  "scan_frame b H V = concat (map (scan_band b H) [0..<V div 8])"

text \<open>A frame the reader is meant for, and a burst that is a whole part of eight pixels.\<close>

definition frame_ok :: "nat \<Rightarrow> 16 word \<Rightarrow> 16 word \<Rightarrow> bool" where
  "frame_ok b H V \<longleftrightarrow>
     0 < b \<and> b dvd 8 \<and> 0 < unat H \<and> 0 < unat V \<and> 8 dvd unat H \<and> 8 dvd unat V"

text \<open>What is left to fetch from burst \<open>x\<close> of line \<open>y\<close> of block \<open>(bv, bh)\<close> on.\<close>

definition scan_rest :: "nat \<Rightarrow> nat \<Rightarrow> nat \<Rightarrow> nat \<Rightarrow> nat \<Rightarrow> nat \<Rightarrow> nat \<Rightarrow> (nat \<times> nat) list" where
  "scan_rest b H V bv bh y x =
     map (\<lambda>x. (8 * bv + y, 8 * bh + b * x)) [x..<8 div b]
     @ concat (map (scan_row b bv bh) [Suc y..<8])
     @ concat (map (scan_block b bv) [Suc bh..<H div 8])
     @ concat (map (scan_band b H) [Suc bv..<V div 8])"

definition dma_at :: "nat \<Rightarrow> nat \<Rightarrow> nat \<Rightarrow> nat \<Rightarrow> nat \<Rightarrow> nat \<Rightarrow> nat \<Rightarrow> dma_reader \<Rightarrow> bool" where
  "dma_at b H V bv bh y x s \<longleftrightarrow>
     dmar_fsm s = DMA_READ \<and> bv < V div 8 \<and> bh < H div 8 \<and> y < 8 \<and> x < 8 div b
     \<and> unat (dmar_v s) = 8 * bv + y \<and> unat (dmar_h s) = 8 * bh + b * x"

section \<open>One step of the scan\<close>

lemma unat_take_bit3 [simp]: "unat (take_bit 3 (w :: 16 word)) = unat w mod 8"
  by (simp only: unsigned_take_bit_eq) (simp add: take_bit_eq_mod)

lemma take_bit3_eq_iff:
  "take_bit 3 (w :: 16 word) = 0 \<longleftrightarrow> unat w mod 8 = 0"
  "take_bit 3 (w :: 16 word) = 7 \<longleftrightarrow> unat w mod 8 = 7"
  by (simp_all add: word_unat_eq_iff)

lemma unat_clear_low3: "unat (push_bit 3 (drop_bit 3 (w :: 16 word))) = 8 * (unat w div 8)"
proof -
  have "unat w < 2 ^ 16" using unat_lt2p [of w] by simp
  then have "8 * (unat w div 8) < 2 ^ 16" by linarith
  then show ?thesis
    unfolding unsigned_push_bit_eq unsigned_drop_bit_eq
    by (simp add: take_bit_nat_eq_self push_bit_eq_mult drop_bit_eq_div \<open>unat w < 2 ^ 16\<close> mult.commute)
qed

lemma frame_okD:
  assumes "frame_ok b H V"
  shows "b * (8 div b) = 8" "0 < 8 div b" "b \<le> 8" "8 \<le> unat H" "8 \<le> unat V"
    "8 * (unat H div 8) = unat H" "8 * (unat V div 8) = unat V" "0 < b"
    "unat H < 65536" "unat V < 65536"
proof -
  from assms have b: "0 < b" "b dvd 8" and H: "0 < unat H" "8 dvd unat H" and V: "0 < unat V" "8 dvd unat V"
    by (auto simp: frame_ok_def)
  show "b * (8 div b) = 8" using b by simp
  show "0 < 8 div b" using b by (simp add: dvd_imp_le div_greater_zero_iff)
  show "b \<le> 8" using b by (simp add: dvd_imp_le)
  show "8 \<le> unat H" "8 \<le> unat V" using H V by (simp_all add: dvd_imp_le)
  show "8 * (unat H div 8) = unat H" "8 * (unat V div 8) = unat V" using H V by simp_all
  show "0 < b" by (rule b)
  show "unat H < 65536" "unat V < 65536" using unat_lt2p [of H] unat_lt2p [of V] by simp_all
qed

lemma unat_plus_of_nat16:
  "unat (w :: 16 word) + n < 65536 \<Longrightarrow> unat (w + of_nat n) = unat w + n"
  by (simp add: unat_word_ariths unat_of_nat)

lemma unat_minus_of_nat16:
  assumes "n \<le> unat (w :: 16 word)"
  shows "unat (w - of_nat n) = unat w - n"
proof -
  have "unat w < 65536" using unat_lt2p [of w] by simp
  then have "unat (of_nat n :: 16 word) = n" using assms by (simp add: unat_of_nat)
  then show ?thesis using assms by (simp add: unat_sub word_le_nat_alt)
qed

lemma dma_at_h_next:
  assumes f: "frame_ok b H V" and a: "dma_at b (unat H) (unat V) bv bh y x s"
  shows "unat (dma_h_next b s) = 8 * bh + b * Suc x"
    and "take_bit 3 (dma_h_next b s) = 0 \<longleftrightarrow> Suc x = 8 div b"
    and "dmar_h s \<ge> H - of_nat b \<longleftrightarrow> 8 * bh + b * Suc x \<ge> unat H"
    and "b * Suc x \<le> 8"
proof -
  note fd = frame_okD [OF f]
  from a have x: "x < 8 div b" and bh: "bh < unat H div 8" and h: "unat (dmar_h s) = 8 * bh + b * x"
    by (auto simp: dma_at_def)
  show le: "b * Suc x \<le> 8" using x fd(1) by (metis Suc_leI mult_le_mono2)
  have lt: "8 * bh + 8 \<le> unat H" using bh fd(6) by linarith
  show hn: "unat (dma_h_next b s) = 8 * bh + b * Suc x"
    unfolding dma_h_next_def using h le lt fd(9)
    by (subst unat_plus_of_nat16) auto
  have "take_bit 3 (dma_h_next b s) = 0 \<longleftrightarrow> (8 * bh + b * Suc x) mod 8 = 0"
    by (simp only: take_bit3_eq_iff hn)
  also have "\<dots> \<longleftrightarrow> b * Suc x = 8"
  proof -
    have "(8 * bh + b * Suc x) mod 8 = b * Suc x mod 8" by simp
    moreover have "b * Suc x mod 8 = 0 \<longleftrightarrow> b * Suc x = 8"
      using le fd(8) by (metis dvd_imp_le dvd_imp_mod_0 le_antisym mod_0_imp_dvd mult_pos_pos mod_self zero_less_Suc)
    ultimately show ?thesis by simp
  qed
  also have "\<dots> \<longleftrightarrow> Suc x = 8 div b" using fd(1,8) by (metis nat_mult_eq_cancel1)
  finally show "take_bit 3 (dma_h_next b s) = 0 \<longleftrightarrow> Suc x = 8 div b" .
  have "unat (H - of_nat b) = unat H - b" using fd(3,4) by (intro unat_minus_of_nat16) linarith
  then show "dmar_h s \<ge> H - of_nat b \<longleftrightarrow> 8 * bh + b * Suc x \<ge> unat H"
    using h fd(3,4) by (auto simp: word_le_nat_alt)
qed

lemma dma_at_v:
  assumes f: "frame_ok b H V" and a: "dma_at b (unat H) (unat V) bv bh y x s"
  shows "take_bit 3 (dmar_v s) = 7 \<longleftrightarrow> y = 7"
    and "unat (dmar_v s + 1) = 8 * bv + Suc y"
    and "dmar_v s \<ge> V - 1 \<longleftrightarrow> 8 * bv + Suc y \<ge> unat V"
    and "y = 7 \<Longrightarrow> unat (dmar_v s - 7) = 8 * bv"
proof -
  note fd = frame_okD [OF f]
  from a have y: "y < 8" and bv: "bv < unat V div 8" and v: "unat (dmar_v s) = 8 * bv + y"
    by (auto simp: dma_at_def)
  have lt: "8 * bv + 8 \<le> unat V" using bv fd(7) by linarith
  show "take_bit 3 (dmar_v s) = 7 \<longleftrightarrow> y = 7" using y by (simp only: take_bit3_eq_iff v) simp
  show "unat (dmar_v s + 1) = 8 * bv + Suc y"
    using v y lt fd(10) unat_plus_of_nat16 [of "dmar_v s" 1] by simp
  have "unat (V - 1) = unat V - 1" using fd(5) unat_minus_of_nat16 [of 1 V] by simp
  then show "dmar_v s \<ge> V - 1 \<longleftrightarrow> 8 * bv + Suc y \<ge> unat V"
    using v fd(5) by (auto simp: word_le_nat_alt)
  show "unat (dmar_v s - 7) = 8 * bv" if "y = 7"
    using v that unat_minus_of_nat16 [of 7 "dmar_v s"] by simp
qed

text \<open>The bursts that are still to be fetched, as a relation between states and lists.\<close>

definition dma_rest :: "nat \<Rightarrow> 16 word \<Rightarrow> 16 word \<Rightarrow> dma_reader \<Rightarrow> (nat \<times> nat) list \<Rightarrow> bool" where
  "dma_rest b H V s L \<longleftrightarrow>
     (dmar_fsm s = DMA_IDLE \<and> L = [])
     \<or> (\<exists>bv bh y x. dma_at b (unat H) (unat V) bv bh y x s
          \<and> L = scan_rest b (unat H) (unat V) bv bh y x)"

lemma scan_rest_Cons:
  "x < 8 div b \<Longrightarrow>
   scan_rest b H V bv bh y x = (8 * bv + y, 8 * bh + b * x) #
     (if Suc x < 8 div b then scan_rest b H V bv bh y (Suc x)
      else concat (map (scan_row b bv bh) [Suc y..<8])
           @ concat (map (scan_block b bv) [Suc bh..<H div 8])
           @ concat (map (scan_band b H) [Suc bv..<V div 8]))"
  by (simp add: scan_rest_def upt_conv_Cons)

lemma scan_rest_row:
  "y < 8 \<Longrightarrow> 
   concat (map (scan_row b bv bh) [y..<8]) @ R
     = map (\<lambda>x. (8 * bv + y, 8 * bh + b * x)) [0..<8 div b] @ concat (map (scan_row b bv bh) [Suc y..<8]) @ R"
  by (simp add: upt_conv_Cons scan_row_def)

lemma scan_rest_block:
  "bh < m \<Longrightarrow>
   concat (map (scan_block b bv) [bh..<m]) @ R
     = map (\<lambda>x. (8 * bv + 0, 8 * bh + b * x)) [0..<8 div b] @ concat (map (scan_row b bv bh) [Suc 0..<8])
       @ concat (map (scan_block b bv) [Suc bh..<m]) @ R"
  by (simp add: upt_conv_Cons scan_block_def scan_row_def)

lemma scan_rest_band:
  "bv < V div 8 \<Longrightarrow> 0 < H div 8 \<Longrightarrow>
   concat (map (scan_band b H) [bv..<V div 8]) = scan_rest b H V bv 0 0 0"
  by (simp add: upt_conv_Cons scan_band_def scan_block_def scan_row_def scan_rest_def)

lemma scan_frame_rest: "0 < V div 8 \<Longrightarrow> 0 < H div 8 \<Longrightarrow> scan_frame b H V = scan_rest b H V 0 0 0 0"
  unfolding scan_frame_def by (rule scan_rest_band)

lemma dma_step_stalled:
  assumes "dma_rest b H V s L" "dmar_fsm s = DMA_READ" "\<not> dmar_ready i"
  shows "dma_rest b H V (dma_reader_step b i s) L"
proof -
  from assms(1,2) obtain bv bh y x where
    "dma_at b (unat H) (unat V) bv bh y x s" "L = scan_rest b (unat H) (unat V) bv bh y x"
    by (auto simp: dma_rest_def)
  moreover have "dmar_fsm (dma_reader_step b i s) = DMA_READ"
    "dmar_h (dma_reader_step b i s) = dmar_h s" "dmar_v (dma_reader_step b i s) = dmar_v s"
    using assms(2,3) by (simp_all add: dma_reader_step_def dma_fsm_act_def dma_no_strobes_def)
  ultimately show ?thesis by (auto simp: dma_rest_def dma_at_def)
qed

lemma dma_step_idle:
  assumes "dmar_fsm s = DMA_IDLE" "\<not> dmar_start i"
  shows "dmar_fsm (dma_reader_step b i s) = DMA_IDLE"
  using assms by (simp add: dma_reader_step_def dma_fsm_act_def dma_no_strobes_def)

lemma dma_step_next_burst:
  assumes f: "frame_ok b H V" and a: "dma_at b (unat H) (unat V) bv bh y x s"
    and i: "dmar_h_width i = H" "dmar_v_width i = V" "dmar_ready i"
    and c: "Suc x < 8 div b"
  shows "dma_at b (unat H) (unat V) bv bh y (Suc x) (dma_reader_step b i s)"
  using a i c dma_at_h_next [OF f a]
  by (auto simp: dma_at_def dma_reader_step_def dma_fsm_act_def dma_no_strobes_def)

lemma dma_step_next_line:
  assumes f: "frame_ok b H V" and a: "dma_at b (unat H) (unat V) bv bh y x s"
    and i: "dmar_h_width i = H" "dmar_v_width i = V" "dmar_ready i"
    and c: "Suc x = 8 div b" "y \<noteq> 7"
  shows "dma_at b (unat H) (unat V) bv bh (Suc y) 0 (dma_reader_step b i s)"
proof -
  have "x * b < 8"
    using dma_at_h_next(4) [OF f a] frame_okD(8) [OF f] by (simp add: mult.commute)
  then have "unat (push_bit 3 (drop_bit 3 (dmar_h s))) = 8 * bh"
    using a by (simp only: unat_clear_low3) (simp add: dma_at_def mult.commute)
  then show ?thesis
    using a i c dma_at_h_next(2) [OF f a] dma_at_v(1,2) [OF f a] frame_okD(2) [OF f]
    by (auto simp: dma_at_def dma_reader_step_def dma_fsm_act_def dma_no_strobes_def)
qed

lemma dma_step_next_block:
  assumes f: "frame_ok b H V" and a: "dma_at b (unat H) (unat V) bv bh y x s"
    and i: "dmar_h_width i = H" "dmar_v_width i = V" "dmar_ready i"
    and c: "Suc x = 8 div b" "y = 7" "Suc bh < unat H div 8"
  shows "dma_at b (unat H) (unat V) bv (Suc bh) 0 0 (dma_reader_step b i s)"
proof -
  have "b * Suc x = 8" using c(1) frame_okD(1) [OF f] by simp
  moreover from this have "\<not> dmar_h s \<ge> H - of_nat b"
    using c(3) frame_okD(6) [OF f] unfolding dma_at_h_next(3) [OF f a] by linarith
  ultimately show ?thesis
    using a i c dma_at_h_next(1,2) [OF f a] dma_at_v(1,4) [OF f a] frame_okD(2) [OF f]
    by (auto simp: dma_at_def dma_reader_step_def dma_fsm_act_def dma_no_strobes_def)
qed

lemma dma_step_next_band:
  assumes f: "frame_ok b H V" and a: "dma_at b (unat H) (unat V) bv bh y x s"
    and i: "dmar_h_width i = H" "dmar_v_width i = V" "dmar_ready i"
    and c: "Suc x = 8 div b" "y = 7" "Suc bh = unat H div 8"
  shows "if Suc bv < unat V div 8
         then dma_at b (unat H) (unat V) (Suc bv) 0 0 0 (dma_reader_step b i s)
         else dmar_fsm (dma_reader_step b i s) = DMA_IDLE"
proof -
  have "b * Suc x = 8" using c(1) frame_okD(1) [OF f] by simp
  then have h: "dmar_h s \<ge> H - of_nat b"
    using c(3) frame_okD(6) [OF f] unfolding dma_at_h_next(3) [OF f a] by linarith
  have v: "dmar_v s \<ge> V - 1 \<longleftrightarrow> \<not> Suc bv < unat V div 8"
    using a c(2) frame_okD(7) [OF f] unfolding dma_at_v(3) [OF f a] dma_at_def by linarith
  show ?thesis
    using a i c h v dma_at_h_next(2) [OF f a] dma_at_v(1,2) [OF f a] frame_okD(2,4) [OF f]
    by (auto simp: dma_at_def dma_reader_step_def dma_fsm_act_def dma_no_strobes_def)
qed

lemma dma_step_accept:
  assumes f: "frame_ok b H V" and r: "dma_rest b H V s L" and st: "dmar_fsm s = DMA_READ"
    and i: "dmar_h_width i = H" "dmar_v_width i = V" "dmar_ready i"
  shows "\<exists>L'. L = (unat (dmar_v s), unat (dmar_h s)) # L' \<and> dma_rest b H V (dma_reader_step b i s) L'"
proof -
  from r st obtain bv bh y x where a: "dma_at b (unat H) (unat V) bv bh y x s"
    and L: "L = scan_rest b (unat H) (unat V) bv bh y x" by (auto simp: dma_rest_def)
  from a have x: "x < 8 div b" and y: "y < 8" and bh: "bh < unat H div 8"
    and pos: "unat (dmar_v s) = 8 * bv + y" "unat (dmar_h s) = 8 * bh + b * x"
    by (auto simp: dma_at_def)
  note L' = L [unfolded scan_rest_Cons [OF x]]
  consider "Suc x < 8 div b" | "Suc x = 8 div b" "y \<noteq> 7"
    | "Suc x = 8 div b" "y = 7" "Suc bh < unat H div 8"
    | "Suc x = 8 div b" "y = 7" "Suc bh = unat H div 8"
    using x y bh by linarith
  then show ?thesis
  proof cases
    case 1
    with L' pos dma_step_next_burst [OF f a i] show ?thesis by (auto simp: dma_rest_def)
  next
    case 2
    with y have "Suc y < 8" by simp
    with 2 L' pos have "L = (unat (dmar_v s), unat (dmar_h s)) # scan_rest b (unat H) (unat V) bv bh (Suc y) 0"
      by (simp add: scan_rest_def scan_rest_row [of "Suc y"])
    with dma_step_next_line [OF f a i 2] show ?thesis by (auto simp: dma_rest_def)
  next
    case 3
    with L' pos have "L = (unat (dmar_v s), unat (dmar_h s)) # scan_rest b (unat H) (unat V) bv (Suc bh) 0 0"
      by (simp add: scan_rest_def scan_rest_block [of "Suc bh"])
    with dma_step_next_block [OF f a i 3] show ?thesis by (auto simp: dma_rest_def)
  next
    case 4
    have H: "0 < unat H div 8" using bh by simp
    from 4 L' pos dma_step_next_band [OF f a i 4] H show ?thesis
      by (cases "Suc bv < unat V div 8") (auto simp: dma_rest_def scan_rest_band [of "Suc bv"])
  qed
qed

section \<open>Whole scans\<close>

definition dma_input_ok :: "16 word \<Rightarrow> 16 word \<Rightarrow> dma_reader_in \<Rightarrow> bool" where
  "dma_input_ok H V i \<longleftrightarrow> \<not> dmar_start i \<and> dmar_h_width i = H \<and> dmar_v_width i = V"

lemma dma_run_rest:
  assumes f: "frame_ok b H V" and "dma_rest b H V s L" and "list_all (dma_input_ok H V) is"
  shows "collect (dma_reader_step b) (dma_accepted b) is s = take (length (filter dmar_ready is)) L
         \<and> dma_rest b H V (run (dma_reader_step b) is s) (drop (length (filter dmar_ready is)) L)"
  using assms(2,3)
proof (induction "is" arbitrary: s L)
  case Nil
  then show ?case by simp
next
  case (Cons i "is")
  from Cons.prems(2) have i: "dma_input_ok H V i" and rest: "list_all (dma_input_ok H V) is" by auto
  consider "dmar_fsm s = DMA_IDLE" | "dmar_fsm s = DMA_READ" "\<not> dmar_ready i"
    | "dmar_fsm s = DMA_READ" "dmar_ready i" by (cases "dmar_fsm s") auto
  then show ?case
  proof cases
    case 1
    then have L: "L = []" using Cons.prems(1) by (auto simp: dma_rest_def dma_at_def)
    have "dma_rest b H V (dma_reader_step b i s) []"
      using dma_step_idle [OF 1] i by (simp add: dma_rest_def dma_input_ok_def)
    moreover have "dma_accepted b i s = []"
      using 1 i by (simp add: dma_accepted_def dma_fsm_act_def dma_no_strobes_def dma_input_ok_def)
    ultimately show ?thesis using Cons.IH [OF _ rest] L by force
  next
    case 2
    then have "dma_accepted b i s = []" by (simp add: dma_accepted_def)
    with Cons.IH [OF dma_step_stalled [OF Cons.prems(1) 2] rest] 2 show ?thesis by simp
  next
    case 3
    then obtain L' where L': "L = (unat (dmar_v s), unat (dmar_h s)) # L'"
      and r: "dma_rest b H V (dma_reader_step b i s) L'"
      using dma_step_accept [OF f Cons.prems(1) 3(1)] i by (auto simp: dma_input_ok_def)
    have "dma_accepted b i s = [(unat (dmar_v s), unat (dmar_h s))]"
      using 3 by (simp add: dma_accepted_def dma_fsm_act_def dma_no_strobes_def Let_def)
    with Cons.IH [OF r rest] L' 3 show ?thesis by simp
  qed
qed

lemma dma_start_rest:
  assumes f: "frame_ok b H V" and s: "dmar_fsm s = DMA_IDLE" "dmar_start i"
  shows "dma_rest b H V (dma_reader_step b i s) (scan_frame b (unat H) (unat V))"
proof -
  have p: "0 < unat H div 8" "0 < unat V div 8" using frame_okD(4,5) [OF f] by simp_all
  have "dma_at b (unat H) (unat V) 0 0 0 0 (dma_reader_step b i s)"
    using s p frame_okD(2) [OF f]
    by (simp add: dma_at_def dma_reader_step_def dma_fsm_act_def dma_no_strobes_def)
  then show ?thesis unfolding dma_rest_def scan_frame_rest [OF p(2,1)] by blast
qed

subsection \<open>The bursts of a frame\<close>

lemma length_concat_const: "(\<And>x. x \<in> set xs \<Longrightarrow> length (f x) = n) \<Longrightarrow> length (concat (map f xs)) = length xs * n"
  by (induction xs) auto

lemma length_scan_frame:
  "length (scan_frame b H V) = V div 8 * (H div 8 * (8 * (8 div b)))"
proof -
  have row: "length (scan_row b bv bh y) = 8 div b" for bv bh y by (simp add: scan_row_def)
  have block: "length (scan_block b bv bh) = 8 * (8 div b)" for bv bh
    unfolding scan_block_def by (subst length_concat_const [where n = "8 div b"]) (auto simp: row)
  have band: "length (scan_band b H bv) = H div 8 * (8 * (8 div b))" for bv
    unfolding scan_band_def by (subst length_concat_const [where n = "8 * (8 div b)"]) (auto simp: block)
  show ?thesis
    unfolding scan_frame_def
    by (subst length_concat_const [where n = "H div 8 * (8 * (8 div b))"]) (auto simp: band)
qed

lemma set_scan_frame:
  "set (scan_frame b H V) =
     {(8 * bv + y, 8 * bh + b * x) | bv bh y x. bv < V div 8 \<and> bh < H div 8 \<and> y < 8 \<and> x < 8 div b}"
  by (fastforce simp: scan_frame_def scan_band_def scan_block_def scan_row_def)

lemma burst_in_frame:
  assumes f: "frame_ok b H V" and v: "v < unat V" and h: "h < unat H" "b dvd h"
  shows "(v, h) \<in> set (scan_frame b (unat H) (unat V))"
proof -
  note fd = frame_okD [OF f]
  have b8: "b dvd 8" using f by (simp add: frame_ok_def)
  have "b dvd h mod 8" using h(2) b8 by (simp add: dvd_mod)
  then obtain x where x: "h mod 8 = b * x" by (auto elim: dvdE)
  have "b * x < b * (8 div b)" using x fd(1) by (metis mod_less_divisor zero_less_numeral)
  then have "x < 8 div b" by simp
  moreover have "v div 8 < unat V div 8" "h div 8 < unat H div 8" using v h(1) fd(6,7) by linarith+
  moreover have "v = 8 * (v div 8) + v mod 8" "h = 8 * (h div 8) + b * x" using x by (metis mult_div_mod_eq)+
  ultimately show ?thesis unfolding set_scan_frame
    by (intro CollectI exI [of _ "v div 8"] exI [of _ "h div 8"] exI [of _ "v mod 8"] exI [of _ x]) simp
qed

lemma frame_burst_set:
  assumes f: "frame_ok b H V"
  shows "set (scan_frame b (unat H) (unat V)) = {..<unat V} \<times> {h. h < unat H \<and> b dvd h}"
proof (intro equalityI subrelI)
  note fd = frame_okD [OF f]
  have b8: "b dvd 8" using f by (simp add: frame_ok_def)
  fix v h assume "(v, h) \<in> set (scan_frame b (unat H) (unat V))"
  then obtain bv bh y x where e: "v = 8 * bv + y" "h = 8 * bh + b * x" "bv < unat V div 8"
    "bh < unat H div 8" "y < 8" "x < 8 div b" unfolding set_scan_frame by blast
  have "b * x < 8" using e(6) fd(1,8) by (metis mult_less_mono2)
  with e fd(6,7) have "v < unat V" "h < unat H" by linarith+
  with e(2) b8 show "(v, h) \<in> {..<unat V} \<times> {h. h < unat H \<and> b dvd h}"
    by (auto intro!: dvd_add dvd_mult2)
next
  fix v h assume "(v, h) \<in> {..<unat V} \<times> {h. h < unat H \<and> b dvd h}"
  then show "(v, h) \<in> set (scan_frame b (unat H) (unat V))" by (auto intro: burst_in_frame [OF f])
qed

lemma card_multiples: "0 < b \<Longrightarrow> b dvd n \<Longrightarrow> card {h. h < n \<and> b dvd h} = n div (b::nat)"
proof -
  assume b: "0 < b" "b dvd n"
  have "{h. h < n \<and> b dvd h} = (\<lambda>k. b * k) ` {..<n div b}"
    using b by (auto simp: image_iff elim!: dvdE intro!: bexI)
  then show ?thesis using b by (simp add: card_image inj_on_def)
qed

lemma distinct_scan_frame:
  assumes f: "frame_ok b H V"
  shows "distinct (scan_frame b (unat H) (unat V))"
proof (rule card_distinct)
  note fd = frame_okD [OF f]
  have b8: "b dvd 8" using f by (simp add: frame_ok_def)
  have d: "b dvd unat H" using b8 fd(6) by (metis dvd_trans dvd_triv_left)
  have "unat H div b = unat H div 8 * (8 div b)"
    using b8 fd(6,8) by (metis div_mult_swap mult.commute)
  then have "card (set (scan_frame b (unat H) (unat V))) = unat V * (unat H div 8 * (8 div b))"
    unfolding frame_burst_set [OF f] by (simp add: card_cartesian_product card_multiples [OF fd(8) d])
  then show "card (set (scan_frame b (unat H) (unat V))) = length (scan_frame b (unat H) (unat V))"
    unfolding length_scan_frame using fd(7) by (metis mult.assoc mult.left_commute)
qed

subsection \<open>Properties\<close>

text \<open>
  C2 (scan order): once started, and whatever the stalls of the DMA engine, the bursts that
  the reader has issued after \<open>n\<close> accepted transfers are the first \<open>n\<close> of the reference scan:
  bands of eight lines from top to bottom, blocks from left to right, lines of a block from top
  to bottom, bursts of a line from left to right.
\<close>

theorem dma_scan_order:
  assumes "frame_ok b H V" "dmar_fsm s = DMA_IDLE" "dmar_start i0"
    and "list_all (dma_input_ok H V) is"
  shows "collect (dma_reader_step b) (dma_accepted b) is (dma_reader_step b i0 s)
           = take (length (filter dmar_ready is)) (scan_frame b (unat H) (unat V))"
  using dma_run_rest [OF assms(1) dma_start_rest [OF assms(1-3)] assms(4)] by blast

text \<open>
  C3 (a frame is fetched once): after as many accepted transfers as the frame has bursts, the
  reader is back in its idle state, reports done, and has fetched every burst of the frame exactly
  once.
\<close>

theorem dma_frame_complete:
  assumes "frame_ok b H V" "dmar_fsm s = DMA_IDLE" "dmar_start i0"
    and "list_all (dma_input_ok H V) is"
    and "length (filter dmar_ready is) = length (scan_frame b (unat H) (unat V))"
  shows "let fetched = collect (dma_reader_step b) (dma_accepted b) is (dma_reader_step b i0 s);
             final = run (dma_reader_step b) is (dma_reader_step b i0 s)
         in distinct fetched \<and> set fetched = {..<unat V} \<times> {h. h < unat H \<and> b dvd h}
            \<and> dmar_fsm final = DMA_IDLE
            \<and> (\<forall>i. \<not> dmar_start i \<longrightarrow> ds_done (dma_fsm_act b i final))"
proof -
  let ?final = "run (dma_reader_step b) is (dma_reader_step b i0 s)"
  have r: "collect (dma_reader_step b) (dma_accepted b) is (dma_reader_step b i0 s)
             = scan_frame b (unat H) (unat V)"
    and d: "dma_rest b H V ?final []"
    using dma_run_rest [OF assms(1) dma_start_rest [OF assms(1-3)] assms(4)] assms(5) by simp_all
  from d have st: "dmar_fsm ?final = DMA_IDLE"
    by (auto simp: dma_rest_def dma_at_def scan_rest_def)
  then have "\<forall>i. \<not> dmar_start i \<longrightarrow> ds_done (dma_fsm_act b i ?final)"
    by (simp add: dma_fsm_act_def dma_no_strobes_def)
  with r st distinct_scan_frame [OF assms(1)] frame_burst_set [OF assms(1)] show ?thesis
    by (simp add: Let_def)
qed

text \<open>
  For a port whose data width is \<open>2 ^ k\<close> bytes (so that \<open>bits_for\<close> of it is
  \<open>k + 1\<close>), the address of a burst is the base address in units of bursts plus the pixel index in
  units of bursts, wherever the product fits the port.
\<close>

theorem dma_burst_address:
  assumes "dw div 8 = 2 ^ k" "0 < k" "bits_for (2 ^ k) = Suc k"
    and "unat (dmar_v s) * unat (dmar_h_width i) + unat (dmar_h s) < 2 ^ (aw + k)"
  shows "dma_address aw (alignment_bits bits_for dw) i s =
           (unat (dmar_base s) div 2 ^ k
            + (unat (dmar_v s) * unat (dmar_h_width i) + unat (dmar_h s)) div burst_pixels dw)
           mod 2 ^ aw"
proof -
  have ab: "alignment_bits bits_for dw = k" using assms(1,3) by (simp add: alignment_bits_def)
  have "dw div 16 = 2 ^ (k - 1)"
  proof -
    have "dw div 16 = dw div 8 div 2" by (simp flip: div_mult2_eq)
    also have "\<dots> = 2 ^ (k - 1)" using assms(1,2) by (cases k) simp_all
    finally show ?thesis .
  qed
  then have bp: "burst_pixels dw = 2 ^ (k - 1)" by (simp add: burst_pixels_def pixel_bits_def)
  show ?thesis
    using assms(4)
    by (simp add: dma_address_def dma_read_address_def ab bp take_bit_nat_eq_self drop_bit_eq_div take_bit_eq_mod)
qed

definition dma_demo_in :: "bool \<Rightarrow> dma_reader_in" where
  "dma_demo_in r =
     \<lparr>dmar_start = False, dmar_base_csr = 0, dmar_h_width = 16, dmar_v_width = 8, dmar_ready = r\<rparr>"

theorem dma_scan_order_witness:
  "collect (dma_reader_step 8) (dma_accepted 8) (map dma_demo_in [True, False, True])
     (dma_reader_step 8 ((dma_demo_in False)\<lparr>dmar_start := True\<rparr>) dma_reader_init)
     = [(0, 0), (1, 0)]"
proof -
  have f: "frame_ok 8 16 8" by (simp add: frame_ok_def)
  have t: "take (Suc (Suc 0)) (scan_frame 8 16 8) = [(0, 0), (1, 0)]" by code_simp
  show ?thesis
    by (subst dma_scan_order [OF f]) (simp_all add: dma_reader_init_def dma_demo_in_def dma_input_ok_def t)
qed

theorem dma_frame_complete_witness:
  "distinct (collect (dma_reader_step 8) (dma_accepted 8) (replicate 16 (dma_demo_in True))
     (dma_reader_step 8 ((dma_demo_in False)\<lparr>dmar_start := True\<rparr>) dma_reader_init))"
proof -
  have f: "frame_ok 8 16 8" by (simp add: frame_ok_def)
  have l: "length (scan_frame 8 16 8) = 16" by (simp add: length_scan_frame)
  show ?thesis
    using dma_frame_complete [OF f, of dma_reader_init "(dma_demo_in False)\<lparr>dmar_start := True\<rparr>"
        "replicate 16 (dma_demo_in True)"]
    by (simp add: dma_reader_init_def dma_demo_in_def dma_input_ok_def l list_all_iff Let_def)
qed

theorem dma_burst_address_witness:
  "dma_address 24 (alignment_bits (\<lambda>n. if n = 16 then 5 else 0) 128) (dma_demo_in True)
     \<lparr>dmar_fsm = DMA_READ, dmar_base = 32, dmar_h = 8, dmar_v = 3\<rparr> = 9"
  by (subst dma_burst_address [where k = 4]) (simp_all add: dma_demo_in_def burst_pixels_def pixel_bits_def)

end
