(* ===== verification/Encoder_Buffer.thy ===== *)
theory Encoder_Buffer
  imports Hdl_Prelude
begin

text \<open>
  The block buffer between the frame reader and the JPEG core (\<open>EncoderBuffer\<close>), and the
  Python-side wiring of the core itself (\<open>Encoder\<close>), both of \<open>gateware/encoder/core.py\<close>.  The
  buffer is a double-banked memory of sixteen 128-bit words with a writing and a reading state
  machine.  Migen's \<open>chooser\<close>, which picks one of the eight pixels of a word, is the parameter
  \<open>chooser\<close>.  Shown: the invariant that keeps the two machines on different banks, the
  refinement of the buffer to a queue (pixels leave in the order their words came in, none lost
  or repeated, the last flag on every 64th), absence of deadlock, and the latency of the encoder's
  input pipeline.
\<close>

section \<open>Model of the buffer\<close>

datatype write_fsm = W_IDLE | W_WRITE
datatype read_fsm = R_IDLE | R_READ

record enc_buffer =
  eb_mem :: "128 word list"
  eb_write_sel :: bool
  eb_read_sel :: bool
  eb_write_fsm :: write_fsm
  eb_v_write :: "3 word"
  eb_read_fsm :: read_fsm
  eb_h_read :: "3 word"
  eb_v_read :: "3 word"

record enc_buffer_in =
  sink_valid :: bool
  sink_data :: "128 word"
  source_ready :: bool

definition enc_buffer_init :: enc_buffer where
  "enc_buffer_init =
     \<lparr>eb_mem = replicate 16 0, eb_write_sel = False, eb_read_sel = True,
      eb_write_fsm = W_IDLE, eb_v_write = 0,
      eb_read_fsm = R_IDLE, eb_h_read = 0, eb_v_read = 0\<rparr>"

text \<open>A port address: the three-bit line number with the bank select as its top bit.\<close>

definition port_adr :: "3 word \<Rightarrow> bool \<Rightarrow> nat" where
  "port_adr v sel = unat v + (if sel then 8 else 0)"

definition sink_ready :: "enc_buffer \<Rightarrow> bool" where
  "sink_ready s = (eb_write_fsm s = W_WRITE)"

definition write_swap :: "enc_buffer_in \<Rightarrow> enc_buffer \<Rightarrow> bool" where
  "write_swap i s = (eb_write_fsm s = W_WRITE \<and> sink_valid i \<and> eb_v_write s = 7)"

definition write_fsm_next :: "enc_buffer_in \<Rightarrow> enc_buffer \<Rightarrow> write_fsm" where
  "write_fsm_next i s =
     (case eb_write_fsm s of
        W_IDLE \<Rightarrow> if eb_write_sel s \<noteq> eb_read_sel s then W_WRITE else W_IDLE
      | W_WRITE \<Rightarrow> if sink_valid i \<and> eb_v_write s = 7 then W_IDLE else W_WRITE)"

definition v_write_next :: "enc_buffer_in \<Rightarrow> enc_buffer \<Rightarrow> 3 word" where
  "v_write_next i s =
     (case eb_write_fsm s of
        W_IDLE \<Rightarrow> 0
      | W_WRITE \<Rightarrow> if sink_valid i \<and> eb_v_write s \<noteq> 7 then eb_v_write s + 1 else eb_v_write s)"

definition source_valid :: "enc_buffer \<Rightarrow> bool" where
  "source_valid s = (eb_read_fsm s = R_READ)"

definition source_last :: "enc_buffer \<Rightarrow> bool" where
  "source_last s = (eb_read_fsm s = R_READ \<and> eb_h_read s = 7 \<and> eb_v_read s = 7)"

definition source_data :: "(128 word \<Rightarrow> 3 word \<Rightarrow> 'p) \<Rightarrow> enc_buffer \<Rightarrow> 'p" where
  "source_data chooser s = chooser (eb_mem s ! port_adr (eb_v_read s) (eb_read_sel s)) (eb_h_read s)"

definition read_swap :: "enc_buffer \<Rightarrow> bool" where
  "read_swap s = (eb_read_fsm s = R_IDLE \<and> eb_read_sel s = eb_write_sel s)"

definition read_fsm_next :: "enc_buffer_in \<Rightarrow> enc_buffer \<Rightarrow> read_fsm" where
  "read_fsm_next i s =
     (case eb_read_fsm s of
        R_IDLE \<Rightarrow> if eb_read_sel s = eb_write_sel s then R_READ else R_IDLE
      | R_READ \<Rightarrow> if source_ready i \<and> eb_h_read s = 7 \<and> eb_v_read s = 7 then R_IDLE else R_READ)"

definition h_read_next :: "enc_buffer_in \<Rightarrow> enc_buffer \<Rightarrow> 3 word" where
  "h_read_next i s =
     (case eb_read_fsm s of
        R_IDLE \<Rightarrow> 0
      | R_READ \<Rightarrow> if source_ready i then (if eb_h_read s = 7 then 0 else eb_h_read s + 1) else eb_h_read s)"

definition v_read_next :: "enc_buffer_in \<Rightarrow> enc_buffer \<Rightarrow> 3 word" where
  "v_read_next i s =
     (case eb_read_fsm s of
        R_IDLE \<Rightarrow> 0
      | R_READ \<Rightarrow> if source_ready i \<and> eb_h_read s = 7 \<and> eb_v_read s \<noteq> 7 then eb_v_read s + 1 else eb_v_read s)"

definition enc_buffer_step :: "enc_buffer_in \<Rightarrow> enc_buffer \<Rightarrow> enc_buffer" where
  "enc_buffer_step i s =
     \<lparr>eb_mem = (if sink_valid i \<and> sink_ready s
                then (eb_mem s)[port_adr (eb_v_write s) (eb_write_sel s) := sink_data i] else eb_mem s),
      eb_write_sel = (if write_swap i s then \<not> eb_write_sel s else eb_write_sel s),
      eb_read_sel = (if read_swap s then \<not> eb_read_sel s else eb_read_sel s),
      eb_write_fsm = write_fsm_next i s,
      eb_v_write = v_write_next i s,
      eb_read_fsm = read_fsm_next i s,
      eb_h_read = h_read_next i s,
      eb_v_read = v_read_next i s\<rparr>"

section \<open>Model of the encoder wiring\<close>

text \<open>
  The pipeline that feeds the JPEG core: five 24-bit registers, the fourth of which is the data
  bus of the core.  The chroma upsampler and the core are outside; their signals are inputs.
\<close>

record fdct_pipe =
  fdct_d1 :: "24 word"
  fdct_d2 :: "24 word"
  fdct_d3 :: "24 word"
  fdct_d4 :: "24 word"
  fdct_d5 :: "24 word"

record fdct_in =
  fdct_fifo_rd :: bool
  up_y :: "8 word"
  up_cb :: "8 word"
  up_cr :: "8 word"

definition ycbcr_cat :: "8 word \<Rightarrow> 8 word \<Rightarrow> 8 word \<Rightarrow> 24 word" where
  "ycbcr_cat y cb cr = ucast y OR push_bit 8 (ucast cb) OR push_bit 16 (ucast cr)"

definition fdct_step :: "fdct_in \<Rightarrow> fdct_pipe \<Rightarrow> fdct_pipe" where
  "fdct_step i s =
     \<lparr>fdct_d1 = (if fdct_fifo_rd i then ycbcr_cat (up_y i) (up_cb i) (up_cr i) else fdct_d1 s),
      fdct_d2 = fdct_d1 s, fdct_d3 = fdct_d2 s, fdct_d4 = fdct_d3 s, fdct_d5 = fdct_d4 s\<rparr>"

definition fdct_fifo_q :: "fdct_pipe \<Rightarrow> 24 word" where
  "fdct_fifo_q s = fdct_d4 s"

definition sink_y :: "16 word \<Rightarrow> 8 word" where
  "sink_y d = ucast d"

definition sink_cb_cr :: "16 word \<Rightarrow> 8 word" where
  "sink_cb_cr d = ucast (drop_bit 8 d)"

definition output_fifo_almost_full :: "nat \<Rightarrow> bool" where
  "output_fifo_almost_full level = (level > 1024 - 128)"

definition opb_abus :: "30 word \<Rightarrow> 32 word" where
  "opb_abus adr = push_bit 2 (ucast adr) AND 0x3ff"

section \<open>The invariant\<close>

definition enc_buffer_inv :: "enc_buffer \<Rightarrow> bool" where
  "enc_buffer_inv s \<longleftrightarrow>
     length (eb_mem s) = 16
     \<and> (eb_write_fsm s = W_WRITE \<longrightarrow> eb_write_sel s \<noteq> eb_read_sel s)"

lemma enc_buffer_inv_step: "enc_buffer_inv s \<Longrightarrow> enc_buffer_inv (enc_buffer_step i s)"
  by (cases "eb_write_fsm s"; cases "eb_read_fsm s")
     (auto simp: enc_buffer_inv_def enc_buffer_step_def write_fsm_next_def write_swap_def read_swap_def
       split: if_splits)

section \<open>Refinement to a queue of pixels\<close>

text \<open>
  A word taken on line \<open>v\<close> of a block stands for its eight pixels, each with its last flag.
\<close>

definition word_pixels :: "(128 word \<Rightarrow> 3 word \<Rightarrow> 'p) \<Rightarrow> 3 word \<times> 128 word \<Rightarrow> ('p \<times> bool) list" where
  "word_pixels chooser w = (case w of (v, d) \<Rightarrow>
     map (\<lambda>h. (chooser d h, h = 7 \<and> v = 7)) [0, 1, 2, 3, 4, 5, 6, 7])"

definition eb_taken :: "enc_buffer_in \<Rightarrow> enc_buffer \<Rightarrow> (3 word \<times> 128 word) list" where
  "eb_taken i s = (if sink_valid i \<and> sink_ready s then [(eb_v_write s, sink_data i)] else [])"

definition eb_given ::
    "(128 word \<Rightarrow> 3 word \<Rightarrow> 'p) \<Rightarrow> enc_buffer_in \<Rightarrow> enc_buffer \<Rightarrow> ('p \<times> bool) list" where
  "eb_given chooser i s =
     (if source_valid s \<and> source_ready i then [(source_data chooser s, source_last s)] else [])"

definition bank_word :: "128 word list \<Rightarrow> bool \<Rightarrow> nat \<Rightarrow> 3 word \<times> 128 word" where
  "bank_word mem sel n = (of_nat n, mem ! (n + (if sel then 8 else 0)))"

definition bank_pixels ::
    "(128 word \<Rightarrow> 3 word \<Rightarrow> 'p) \<Rightarrow> 128 word list \<Rightarrow> bool \<Rightarrow> nat \<Rightarrow> ('p \<times> bool) list" where
  "bank_pixels chooser mem sel n = concat (map (word_pixels chooser) (map (bank_word mem sel) [0..<n]))"

definition eb_reading :: "(128 word \<Rightarrow> 3 word \<Rightarrow> 'p) \<Rightarrow> enc_buffer \<Rightarrow> ('p \<times> bool) list" where
  "eb_reading chooser s =
     (if eb_read_fsm s = R_READ
      then drop (8 * unat (eb_v_read s) + unat (eb_h_read s))
             (bank_pixels chooser (eb_mem s) (eb_read_sel s) 8)
      else [])"

definition eb_waiting :: "(128 word \<Rightarrow> 3 word \<Rightarrow> 'p) \<Rightarrow> enc_buffer \<Rightarrow> ('p \<times> bool) list" where
  "eb_waiting chooser s =
     (if eb_write_sel s = eb_read_sel s
      then bank_pixels chooser (eb_mem s) (\<not> eb_read_sel s) 8 else [])"

definition eb_writing :: "(128 word \<Rightarrow> 3 word \<Rightarrow> 'p) \<Rightarrow> enc_buffer \<Rightarrow> ('p \<times> bool) list" where
  "eb_writing chooser s =
     (if eb_write_fsm s = W_WRITE
      then bank_pixels chooser (eb_mem s) (eb_write_sel s) (unat (eb_v_write s)) else [])"

definition eb_pending :: "(128 word \<Rightarrow> 3 word \<Rightarrow> 'p) \<Rightarrow> enc_buffer \<Rightarrow> ('p \<times> bool) list" where
  "eb_pending chooser s = eb_reading chooser s @ eb_waiting chooser s @ eb_writing chooser s"

lemma unat3_le: "unat (w :: 3 word) \<le> 7"
  using unat_lt2p [of w] by simp

lemma unat3_eq_7: "(w :: 3 word) = 7 \<longleftrightarrow> unat w = 7"
  by (simp add: word_unat_eq_iff)

lemma unat3_Suc: "(w :: 3 word) \<noteq> 7 \<Longrightarrow> unat (w + 1) = Suc (unat w)"
  using unat3_le [of w] unat_plus_one [of w] unfolding unat3_eq_7 by auto

lemma length_word_pixels [simp]: "length (word_pixels ch w) = 8"
  by (simp add: word_pixels_def split: prod.split)

lemma bank_pixels_simps [simp]:
  "bank_pixels ch mem sel 0 = []"
  "bank_pixels ch mem sel (Suc n) = bank_pixels ch mem sel n @ word_pixels ch (bank_word mem sel n)"
  by (simp_all add: bank_pixels_def)

lemma length_bank_pixels [simp]: "length (bank_pixels ch mem sel n) = 8 * n"
  by (induction n) simp_all

lemma nth_word_pixels: "word_pixels ch (v, d) ! unat h = (ch d h, h = 7 \<and> v = 7)"
proof -
  have "unat h \<in> {0, 1, 2, 3, 4, 5, 6, 7}" using unat3_le [of h] by auto
  then have "h \<in> {0, 1, 2, 3, 4, 5, 6, 7}" by (simp add: word_unat_eq_iff)
  then show ?thesis by (auto simp: word_pixels_def)
qed

lemma nth_bank_pixels:
  "v < n \<Longrightarrow> k < 8 \<Longrightarrow> bank_pixels ch mem sel n ! (8 * v + k) = word_pixels ch (bank_word mem sel v) ! k"
proof (induction n)
  case 0
  then show ?case by simp
next
  case (Suc n)
  show ?case
  proof (cases "v = n")
    case True
    with Suc.prems show ?thesis by (simp add: nth_append)
  next
    case False
    with Suc.prems have "v < n" "8 * v + k < 8 * n" by simp_all
    with Suc show ?thesis by (simp add: nth_append)
  qed
qed

lemma bank_word_update_other:
  "sel \<noteq> sel' \<Longrightarrow> n < 8 \<Longrightarrow> bank_word (mem[port_adr v sel := d]) sel' n = bank_word mem sel' n"
  using unat3_le [of v] by (auto simp: bank_word_def port_adr_def intro!: nth_list_update_neq)

lemma bank_pixels_update_other:
  "sel \<noteq> sel' \<Longrightarrow> n \<le> 8 \<Longrightarrow> bank_pixels ch (mem[port_adr v sel := d]) sel' n = bank_pixels ch mem sel' n"
  by (induction n) (simp_all add: bank_word_update_other)

lemma bank_pixels_update_later:
  "n \<le> unat v \<Longrightarrow> bank_pixels ch (mem[port_adr v sel := d]) sel n = bank_pixels ch mem sel n"
  by (induction n) (auto simp: bank_word_def port_adr_def nth_list_update_neq)

lemma bank_pixels_write:
  "length mem = 16 \<Longrightarrow>
   bank_pixels ch (mem[port_adr v sel := d]) sel (Suc (unat v))
     = bank_pixels ch mem sel (unat v) @ word_pixels ch (v, d)"
  using unat3_le [of v] by (simp add: bank_pixels_update_later) (simp add: bank_word_def port_adr_def)

lemma eb_reading_step:
  assumes inv: "enc_buffer_inv s" and ns: "\<not> read_swap s"
  shows "eb_reading ch s = eb_given ch i s @ eb_reading ch (enc_buffer_step i s)"
proof (cases "eb_read_fsm s")
  case R_IDLE
  with ns show ?thesis
    by (simp add: eb_reading_def eb_given_def source_valid_def enc_buffer_step_def read_fsm_next_def read_swap_def)
next
  case R_READ
  let ?v = "eb_v_read s" and ?h = "eb_h_read s" and ?s = "enc_buffer_step i s"
  let ?bank = "bank_pixels ch (eb_mem s) (eb_read_sel s) 8"
  have mem: "bank_pixels ch (eb_mem ?s) (eb_read_sel s) 8 = ?bank"
    using inv by (auto simp: enc_buffer_step_def enc_buffer_inv_def sink_ready_def bank_pixels_update_other)
  have sel: "eb_read_sel ?s = eb_read_sel s" using ns by (simp add: enc_buffer_step_def)
  have lt: "8 * unat ?v + unat ?h < length ?bank" using unat3_le [of ?v] unat3_le [of ?h] by simp
  have "?bank ! (8 * unat ?v + unat ?h) = word_pixels ch (bank_word (eb_mem s) (eb_read_sel s) (unat ?v)) ! unat ?h"
    using unat3_le [of ?v] unat3_le [of ?h] by (intro nth_bank_pixels) linarith+
  then have hd: "?bank ! (8 * unat ?v + unat ?h) = (source_data ch s, source_last s)"
    using R_READ by (simp add: bank_word_def nth_word_pixels source_data_def source_last_def port_adr_def)
  show ?thesis
  proof (cases "source_ready i")
    case False
    with R_READ mem sel show ?thesis
      by (simp add: eb_reading_def eb_given_def enc_buffer_step_def read_fsm_next_def h_read_next_def v_read_next_def)
  next
    case True
    have "eb_reading ch ?s = drop (Suc (8 * unat ?v + unat ?h)) ?bank"
    proof (cases "?h = 7 \<and> ?v = 7")
      case True
      with R_READ \<open>source_ready i\<close> show ?thesis
        by (simp add: eb_reading_def enc_buffer_step_def read_fsm_next_def)
    next
      case False
      with R_READ \<open>source_ready i\<close> have r: "eb_read_fsm ?s = R_READ"
        "8 * unat (eb_v_read ?s) + unat (eb_h_read ?s) = Suc (8 * unat ?v + unat ?h)"
        by (auto simp: enc_buffer_step_def read_fsm_next_def h_read_next_def v_read_next_def unat3_Suc)
      with mem sel show ?thesis by (simp add: eb_reading_def)
    qed
    with True R_READ hd lt show ?thesis
      by (simp add: eb_reading_def eb_given_def source_valid_def Cons_nth_drop_Suc [symmetric])
  qed
qed

lemma eb_back_step:
  assumes inv: "enc_buffer_inv s" and ns: "\<not> read_swap s"
  shows "eb_waiting ch s @ eb_writing ch s @ concat (map (word_pixels ch) (eb_taken i s))
           = eb_waiting ch (enc_buffer_step i s) @ eb_writing ch (enc_buffer_step i s)"
proof (cases "eb_write_fsm s")
  case W_IDLE
  with ns show ?thesis
    by (simp add: eb_waiting_def eb_writing_def eb_taken_def enc_buffer_step_def sink_ready_def
        write_fsm_next_def write_swap_def v_write_next_def)
next
  case W_WRITE
  with inv have d: "eb_write_sel s \<noteq> eb_read_sel s" and l: "length (eb_mem s) = 16"
    by (auto simp: enc_buffer_inv_def)
  consider "\<not> sink_valid i" | "sink_valid i" "eb_v_write s \<noteq> 7" | "sink_valid i" "eb_v_write s = 7" by blast
  then show ?thesis
  proof cases
    case 1
    with W_WRITE d ns show ?thesis
      by (simp add: eb_waiting_def eb_writing_def eb_taken_def enc_buffer_step_def
          write_fsm_next_def write_swap_def v_write_next_def)
  next
    case 2
    with W_WRITE d ns l bank_pixels_write [OF l, of ch "eb_v_write s"] show ?thesis
      by (simp add: eb_waiting_def eb_writing_def eb_taken_def enc_buffer_step_def sink_ready_def
          write_fsm_next_def write_swap_def v_write_next_def unat3_Suc del: bank_pixels_simps)
  next
    case 3
    then have "Suc (unat (eb_v_write s)) = 8" by simp
    with 3 W_WRITE d ns bank_pixels_write [OF l, of ch "eb_v_write s"] show ?thesis
      by (simp add: eb_waiting_def eb_writing_def eb_taken_def enc_buffer_step_def sink_ready_def
          write_fsm_next_def write_swap_def del: bank_pixels_simps)
  qed
qed

lemma eb_pending_step:
  assumes inv: "enc_buffer_inv s"
  shows "eb_pending ch s @ concat (map (word_pixels ch) (eb_taken i s))
           = eb_given ch i s @ eb_pending ch (enc_buffer_step i s)"
proof (cases "read_swap s")
  case False
  then show ?thesis
    using eb_reading_step [OF inv False, of ch i] eb_back_step [OF inv False, of ch i]
    by (simp add: eb_pending_def)
next
  case True
  with inv have "eb_write_fsm s = W_IDLE"
    by (cases "eb_write_fsm s") (auto simp: enc_buffer_inv_def read_swap_def)
  with True show ?thesis
    by (simp add: eb_pending_def eb_reading_def eb_waiting_def eb_writing_def eb_taken_def eb_given_def
        enc_buffer_step_def read_swap_def source_valid_def sink_ready_def write_fsm_next_def write_swap_def
        read_fsm_next_def h_read_next_def v_read_next_def)
qed

interpretation enc_buf: stream_module enc_buffer_step enc_buffer_init enc_buffer_inv
    eb_taken "eb_given chooser" "word_pixels chooser" "eb_pending chooser" for chooser
proof (unfold_locales, goal_cases)
  case 1 show ?case by (simp add: enc_buffer_inv_def enc_buffer_init_def)
next
  case (2 s i) then show ?case by (rule enc_buffer_inv_step)
next
  case 3 show ?case
    by (simp add: eb_pending_def eb_reading_def eb_waiting_def eb_writing_def enc_buffer_init_def)
next
  case (4 s i) then show ?case by (rule eb_pending_step)
qed

section \<open>Properties\<close>

lemma eight_mod_3: "(7 :: 3 word) + 1 = 0" "(8 :: 3 word) = 0"
  by code_simp+

lemma eb_taken_lines:
  assumes "enc_buffer_inv s"
    and "of_nat c = (if eb_write_fsm s = W_WRITE then eb_v_write s else 0)"
  shows "map fst (collect enc_buffer_step eb_taken is s)
           = map of_nat [c..<c + length (collect enc_buffer_step eb_taken is s)]"
  using assms
proof (induction "is" arbitrary: s c)
  case Nil
  then show ?case by simp
next
  case (Cons i "is")
  let ?s = "enc_buffer_step i s"
  have inv: "enc_buffer_inv ?s" by (rule enc_buffer_inv_step) (rule Cons.prems)
  show ?case
  proof (cases "sink_valid i \<and> sink_ready s")
    case False
    then have "of_nat c = (if eb_write_fsm ?s = W_WRITE then eb_v_write ?s else 0)"
      using Cons.prems(2)
      by (cases "eb_write_fsm s") (auto simp: enc_buffer_step_def write_fsm_next_def v_write_next_def sink_ready_def)
    note IH = Cons.IH [OF inv this]
    have "eb_taken i s = []" using False by (simp add: eb_taken_def)
    with IH show ?thesis by simp
  next
    case True
    then have w: "eb_write_fsm s = W_WRITE" by (simp add: sink_ready_def)
    have "of_nat (Suc c) = (if eb_write_fsm ?s = W_WRITE then eb_v_write ?s else 0)"
      using Cons.prems(2) True w eight_mod_3
      by (cases "eb_v_write s = 7")
         (simp_all add: enc_buffer_step_def write_fsm_next_def v_write_next_def add.commute)
    note IH = Cons.IH [OF inv this]
    let ?n = "length (collect enc_buffer_step eb_taken is ?s)"
    have "[c..<c + Suc ?n] = c # [Suc c..<Suc c + ?n]" by (simp add: upt_conv_Cons del: upt_Suc)
    with IH True w Cons.prems(2) show ?thesis
      by (simp add: eb_taken_def [of i s] del: upt_Suc)
  qed
qed

text \<open>
  C4 (the buffer is a queue): after any number of cycles, under any pattern of valid and ready,
  the pixels that left the buffer followed by the pixels it still holds are exactly the pixels of
  the words it took, in order.  The \<open>k\<close>-th word taken is line \<open>k mod 8\<close> of its block, so the
  last flag accompanies the last pixel of every eighth word and no other.
\<close>

theorem enc_buffer_is_queue:
  "let words = map snd (collect enc_buffer_step eb_taken is enc_buffer_init)
   in concat (map (word_pixels chooser) (zip (map of_nat [0..<length words]) words))
        = collect enc_buffer_step (eb_given chooser) is enc_buffer_init
          @ eb_pending chooser (run enc_buffer_step is enc_buffer_init)"
proof -
  let ?t = "collect enc_buffer_step eb_taken is enc_buffer_init"
  have "map fst ?t = map of_nat [0..<length ?t]"
    using eb_taken_lines [OF enc_buf.inv_init, of 0 "is"] by (simp add: enc_buffer_init_def)
  then have "zip (map of_nat [0..<length (map snd ?t)]) (map snd ?t) = ?t"
    by (metis length_map zip_map_fst_snd)
  then show ?thesis using enc_buf.conservation [of chooser "is"] by (simp add: Let_def)
qed

text \<open>
  C5 (banks are kept apart): in every reachable state the machine that writes and the machine
  that reads work on different banks, so a write never hits the line being read, and the buffer
  never holds more than two blocks.
\<close>

theorem enc_buffer_banks_apart:
  "let s = run enc_buffer_step is enc_buffer_init
   in (sink_ready s \<longrightarrow> eb_write_sel s \<noteq> eb_read_sel s)
      \<and> (sink_ready s \<longrightarrow> port_adr (eb_v_write s) (eb_write_sel s) \<noteq> port_adr (eb_v_read s) (eb_read_sel s))
      \<and> length (eb_pending chooser s) \<le> 128"
proof -
  let ?s = "run enc_buffer_step is enc_buffer_init"
  have inv: "enc_buffer_inv ?s" by (rule enc_buf.inv_reachable)
  have "sink_ready ?s \<Longrightarrow> port_adr (eb_v_write ?s) (eb_write_sel ?s) \<noteq> port_adr (eb_v_read ?s) (eb_read_sel ?s)"
    using inv unat3_le [of "eb_v_write ?s"] unat3_le [of "eb_v_read ?s"]
    by (auto simp: enc_buffer_inv_def sink_ready_def port_adr_def)
  moreover have "length (eb_pending chooser ?s) \<le> 128"
    using inv unat3_le [of "eb_v_write ?s"]
    by (auto simp: eb_pending_def eb_reading_def eb_waiting_def eb_writing_def enc_buffer_inv_def)
  ultimately show ?thesis using inv by (auto simp: Let_def enc_buffer_inv_def sink_ready_def)
qed

theorem enc_buffer_banks_apart_witness:
  "let s = run enc_buffer_step [\<lparr>sink_valid = False, sink_data = 0, source_ready = False\<rparr>] enc_buffer_init
   in sink_ready s \<and> eb_write_sel s \<noteq> eb_read_sel s"
proof -
  let ?s = "run enc_buffer_step [\<lparr>sink_valid = False, sink_data = 0, source_ready = False\<rparr>] enc_buffer_init"
  have "sink_ready ?s"
    by (simp add: enc_buffer_step_def enc_buffer_init_def sink_ready_def write_fsm_next_def)
  with enc_buffer_banks_apart [of "[\<lparr>sink_valid = False, sink_data = 0, source_ready = False\<rparr>]"]
  show ?thesis unfolding Let_def by blast
qed

text \<open>
  C6 (no deadlock): from every reachable state, whatever the inputs, the buffer accepts a word or
  offers a pixel now or in the next cycle.
\<close>

theorem enc_buffer_no_deadlock:
  "let s = run enc_buffer_step is enc_buffer_init; s' = enc_buffer_step i s
   in sink_ready s \<or> source_valid s \<or> sink_ready s' \<or> source_valid s'"
  by (cases "eb_write_fsm (run enc_buffer_step is enc_buffer_init)";
      cases "eb_read_fsm (run enc_buffer_step is enc_buffer_init)")
     (auto simp: Let_def sink_ready_def source_valid_def enc_buffer_step_def write_fsm_next_def read_fsm_next_def)

lemma ycbcr_cat_fields:
  "ucast (ycbcr_cat y cb cr) = y" (is ?y)
  "ucast (drop_bit 8 (ycbcr_cat y cb cr)) = cb" (is ?cb)
  "ucast (drop_bit 16 (ycbcr_cat y cb cr)) = cr" (is ?cr)
proof -
  show ?y ?cb ?cr
    by (rule bit_word_eqI; auto simp: ycbcr_cat_def bit_simps dest: bit_imp_le_length)+
qed

text \<open>
  A pixel popped from the chroma upsampler is on the data bus of the
  JPEG core after four clock edges, with luma in the low byte, then blue and red chroma, whatever
  happens in the three cycles after the pop.
\<close>

theorem encoder_pixel_latency:
  assumes "fdct_fifo_rd i"
  shows "let q = fdct_fifo_q (run fdct_step [i, i2, i3, i4] s)
         in ucast q = up_y i \<and> ucast (drop_bit 8 q) = up_cb i \<and> ucast (drop_bit 16 q) = up_cr i"
  using assms by (simp add: fdct_step_def fdct_fifo_q_def ycbcr_cat_fields Let_def)

theorem encoder_pixel_latency_witness:
  "let i = \<lparr>fdct_fifo_rd = True, up_y = 1, up_cb = 2, up_cr = 3\<rparr>;
       q = fdct_fifo_q (run fdct_step [i, i, i, i]
             \<lparr>fdct_d1 = 0, fdct_d2 = 0, fdct_d3 = 0, fdct_d4 = 0, fdct_d5 = 0\<rparr>)
   in ucast q = (1 :: 8 word) \<and> ucast (drop_bit 8 q) = (2 :: 8 word) \<and> ucast (drop_bit 16 q) = (3 :: 8 word)"
  using encoder_pixel_latency [of "\<lparr>fdct_fifo_rd = True, up_y = 1, up_cb = 2, up_cr = 3\<rparr>"]
  by (simp add: Let_def)

lemma opb_abus_window: "unat (opb_abus adr) = 4 * unat adr mod 1024"
proof -
  have "unat adr < 2 ^ 30" using unat_lt2p [of adr] by simp
  have "opb_abus adr = take_bit 10 (push_bit 2 (ucast adr))"
    unfolding opb_abus_def by (simp add: take_bit_eq_mask mask_eq_exp_minus_1)
  then have "unat (opb_abus adr) = take_bit 10 (unat (push_bit 2 (ucast adr) :: 32 word))"
    by (simp only: unsigned_take_bit_eq)
  also have "unat (push_bit 2 (ucast adr) :: 32 word) = 4 * unat adr"
    using \<open>unat adr < 2 ^ 30\<close>
    unfolding unsigned_push_bit_eq unsigned_ucast_eq
    by (simp add: take_bit_nat_eq_self push_bit_eq_mult)
  finally show ?thesis by (simp add: take_bit_eq_mod)
qed

end
