(* ===== verification/Py_Strings.thy ===== *)
theory Py_Strings
  imports Hdl_Prelude "HOL-Library.AList"
begin

text \<open>
  The parts of Python's standard library that the tools use, on byte strings (all names and paths
  of the repository are ASCII): case conversion, prefix and suffix tests, \<open>int\<close> of a string,
  \<open>os.path\<close> on POSIX, ordered dictionaries as association lists, and file objects opened for
  writing.
\<close>

section \<open>Strings\<close>

definition py_lower :: "string \<Rightarrow> string" where
  "py_lower s = map (\<lambda>c. let k = (of_char c :: nat) in if 65 \<le> k \<and> k \<le> 90 then char_of (k + 32) else c) s"

definition py_upper :: "string \<Rightarrow> string" where
  "py_upper s = map (\<lambda>c. let k = (of_char c :: nat) in if 97 \<le> k \<and> k \<le> 122 then char_of (k - 32) else c) s"

definition startswith :: "string \<Rightarrow> string \<Rightarrow> bool" where
  "startswith s p = (take (length p) s = p)"

definition endswith :: "string \<Rightarrow> string \<Rightarrow> bool" where
  "endswith s p = (length p \<le> length s \<and> drop (length s - length p) s = p)"

text \<open>Python's \<open>t in s\<close>, \<open>s.split(c)\<close> for one character and \<open>sep.join\<close>.\<close>

definition contains :: "string \<Rightarrow> string \<Rightarrow> bool" where
  "contains s t = list_ex (\<lambda>k. startswith (drop k s) t) [0..<length s + 1]"

fun split_char :: "char \<Rightarrow> string \<Rightarrow> string \<Rightarrow> string list" where
  "split_char d [] w = [w]"
| "split_char d (c # cs) w = (if c = d then w # split_char d cs [] else split_char d cs (w @ [c]))"

fun join_with :: "string \<Rightarrow> string list \<Rightarrow> string" where
  "join_with sep [] = []"
| "join_with sep [s] = s"
| "join_with sep (s # t # ss) = s @ sep @ join_with sep (t # ss)"

text \<open>A value from \<open>argparse\<close> counts as given when it is neither \<open>None\<close> nor empty.\<close>

definition truthy :: "string option \<Rightarrow> bool" where
  "truthy x = (case x of None \<Rightarrow> False | Some s \<Rightarrow> s \<noteq> [])"

definition is_space :: "char \<Rightarrow> bool" where
  "is_space c = (let k = (of_char c :: nat) in k = 32 \<or> (9 \<le> k \<and> k \<le> 13) \<or> (28 \<le> k \<and> k \<le> 31))"

definition py_strip :: "string \<Rightarrow> string" where
  "py_strip s = rev (dropWhile is_space (rev (dropWhile is_space s)))"

text \<open>\<open>s.split()\<close>, \<open>s.splitlines()\<close> and \<open>s.replace(old, new)\<close> for ASCII text and a nonempty \<open>old\<close>.\<close>

fun split_space :: "string \<Rightarrow> string \<Rightarrow> string list" where
  "split_space [] w = (if w = [] then [] else [w])"
| "split_space (c # cs) w =
     (if is_space c then (if w = [] then split_space cs [] else w # split_space cs [])
      else split_space cs (w @ [c]))"

definition is_line_end :: "char \<Rightarrow> bool" where
  "is_line_end c = (let k = (of_char c :: nat) in (10 \<le> k \<and> k \<le> 13) \<or> (28 \<le> k \<and> k \<le> 30))"

fun split_lines :: "string \<Rightarrow> string \<Rightarrow> string list" where
  "split_lines [] w = (if w = [] then [] else [w])"
| "split_lines (c # cs) w =
     (if c = CHR 0x0D \<and> cs \<noteq> [] \<and> hd cs = CHR 0x0A then w # split_lines (tl cs) []
      else if is_line_end c then w # split_lines cs []
      else split_lines cs (w @ [c]))"

function py_replace :: "string \<Rightarrow> string \<Rightarrow> string \<Rightarrow> string" where
  "py_replace old new s =
     (if s = [] \<or> old = [] then s
      else if startswith s old then new @ py_replace old new (drop (length old) s)
      else hd s # py_replace old new (tl s))"
  by pat_completeness auto
termination by (relation "measure (\<lambda>(old, new, s). length s)") auto

declare py_replace.simps [simp del]

definition is_digit :: "char \<Rightarrow> bool" where
  "is_digit c = (let k = (of_char c :: nat) in 48 \<le> k \<and> k \<le> 57)"

text \<open>Decimal digits, single underscores allowed between them.\<close>

fun int_digits :: "string \<Rightarrow> nat \<Rightarrow> nat option" where
  "int_digits [] a = Some a"
| "int_digits (c # cs) a =
     (if is_digit c then int_digits cs (10 * a + char_digit c)
      else if c = CHR ''_'' then
        (case cs of d # ds \<Rightarrow> if is_digit d then int_digits ds (10 * a + char_digit d) else None
         | [] \<Rightarrow> None)
      else None)"

definition int_body :: "string \<Rightarrow> nat option" where
  "int_body s = (case s of [] \<Rightarrow> None | c # cs \<Rightarrow> if is_digit c then int_digits s 0 else None)"

definition py_int :: "string \<Rightarrow> int py_result" where
  "py_int s =
     (let t = py_strip s;
          r = (case t of
                 c # cs \<Rightarrow> if c = CHR ''-'' then map_option (\<lambda>n. - int n) (int_body cs)
                          else if c = CHR ''+'' then map_option int (int_body cs)
                          else map_option int (int_body t)
               | [] \<Rightarrow> None)
      in case r of None \<Rightarrow> Inl ValueError | Some n \<Rightarrow> Inr n)"

section \<open>Paths\<close>

definition path_join :: "string \<Rightarrow> string \<Rightarrow> string" where
  "path_join a b =
     (if startswith b ''/'' then b
      else if a = [] \<or> last a = CHR ''/'' then a @ b
      else a @ ''/'' @ b)"

fun path_joins :: "string \<Rightarrow> string list \<Rightarrow> string" where
  "path_joins a [] = a"
| "path_joins a (b # bs) = path_joins (path_join a b) bs"

definition rstrip_slash :: "string \<Rightarrow> string" where
  "rstrip_slash s = rev (dropWhile (\<lambda>c. c = CHR ''/'') (rev s))"

definition path_dirname :: "string \<Rightarrow> string" where
  "path_dirname p =
     (let head = rev (dropWhile (\<lambda>c. c \<noteq> CHR ''/'') (rev p))
      in if rstrip_slash head = [] then head else rstrip_slash head)"

text \<open>\<open>os.path.normpath\<close> on POSIX.\<close>

fun norm_comps :: "bool \<Rightarrow> string list \<Rightarrow> string list \<Rightarrow> string list" where
  "norm_comps absolute [] acc = rev acc"
| "norm_comps absolute (c # cs) acc =
     (if c = [] \<or> c = ''.'' then norm_comps absolute cs acc
      else if c \<noteq> ''..'' \<or> (\<not> absolute \<and> acc = []) \<or> (acc \<noteq> [] \<and> hd acc = ''..'')
      then norm_comps absolute cs (c # acc)
      else norm_comps absolute cs (tl acc))"

definition normpath :: "string \<Rightarrow> string" where
  "normpath path =
     (let slashes = (if startswith path ''//'' \<and> \<not> startswith path ''///'' then ''//''
                     else if startswith path ''/'' then ''/'' else []);
          p = slashes @ join_with ''/'' (norm_comps (slashes \<noteq> []) (split_char CHR ''/'' path []) [])
      in if p = [] then ''.'' else p)"

section \<open>Dictionaries\<close>

type_synonym ('k, 'v) dict = "('k \<times> 'v) list"

definition dict_update :: "('k, 'v) dict \<Rightarrow> ('k, 'v) dict \<Rightarrow> ('k, 'v) dict" where
  "dict_update d e = fold (\<lambda>(k, v). AList.update k v) e d"

definition dict_of :: "('k \<times> 'v) list \<Rightarrow> ('k, 'v) dict" where
  "dict_of ps = dict_update [] ps"

definition dict_keys :: "('k, 'v) dict \<Rightarrow> 'k list" where
  "dict_keys d = map fst d"

definition dict_values :: "('k, 'v) dict \<Rightarrow> 'v list" where
  "dict_values d = map snd d"

definition dict_get :: "('k, 'v) dict \<Rightarrow> 'k \<Rightarrow> 'v py_result" where
  "dict_get d k = (case map_of d k of None \<Rightarrow> Inl KeyError | Some v \<Rightarrow> Inr v)"

section \<open>Files opened for writing\<close>

type_synonym byte = "8 word"

record wfile =
  f_data :: "byte list"
  f_pos :: nat

definition file_open :: wfile where
  "file_open = \<lparr>f_data = [], f_pos = 0\<rparr>"

definition file_seek :: "nat \<Rightarrow> wfile \<Rightarrow> wfile" where
  "file_seek p f = f\<lparr>f_pos := p\<rparr>"

text \<open>Writing nothing leaves the file as it is; writing past the end fills the gap with zeros.\<close>

definition file_write :: "byte list \<Rightarrow> wfile \<Rightarrow> wfile" where
  "file_write bs f =
     (if bs = [] then f
      else f\<lparr>f_data := take (f_pos f) (f_data f) @ replicate (f_pos f - length (f_data f)) 0
                        @ bs @ drop (f_pos f + length bs) (f_data f),
             f_pos := f_pos f + length bs\<rparr>)"

section \<open>Laws\<close>

lemma endswith_append [simp]: "endswith (s @ p) p"
  by (simp add: endswith_def)

lemma py_lower_append [simp]: "py_lower (a @ b) = py_lower a @ py_lower b"
  by (simp add: py_lower_def)

lemma py_lower_Nil [simp]: "py_lower [] = []"
  by (simp add: py_lower_def)

lemma dict_update_simps [simp]:
  "dict_update d [] = d"
  "dict_update d ((k, v) # e) = dict_update (AList.update k v d) e"
  by (simp_all add: dict_update_def)

lemma dict_update_append: "dict_update d (e @ f) = dict_update (dict_update d e) f"
  by (simp add: dict_update_def)

lemma map_of_dict_update: "map_of (dict_update d e) = map_of d ++ map_of (rev e)"
proof (induction e arbitrary: d)
  case Nil
  then show ?case by simp
next
  case (Cons p e)
  obtain k v where p: "p = (k, v)" by force
  show ?case
    by (simp add: p Cons update_conv' fun_eq_iff map_add_def map_of_append split: option.splits)
qed

lemma distinct_dict_update: "distinct (map fst d) \<Longrightarrow> distinct (map fst (dict_update d e))"
proof (induction e arbitrary: d)
  case Nil
  then show ?case by simp
next
  case (Cons p e)
  obtain k v where p: "p = (k, v)" by force
  show ?case using Cons by (simp add: p distinct_update)
qed

lemma set_dict_keys_update: "set (map fst (dict_update d e)) = set (map fst d) \<union> set (map fst e)"
proof (induction e arbitrary: d)
  case Nil
  then show ?case by simp
next
  case (Cons p e)
  obtain k v where p: "p = (k, v)" by force
  show ?case using Cons [of "AList.update k v d"] by (auto simp: p dom_update)
qed

lemma length_file_write:
  "length (f_data (file_write bs f)) =
     (if bs = [] then length (f_data f) else max (length (f_data f)) (f_pos f + length bs))"
  by (auto simp: file_write_def max_def min_def)

lemma file_write_pos [simp]: "f_pos (file_write bs f) = f_pos f + length bs"
  by (simp add: file_write_def)

lemma file_write_slice:
  "take (length bs) (drop (f_pos f) (f_data (file_write bs f))) = bs"
  by (simp add: file_write_def)

lemma file_write_before:
  "n \<le> f_pos f \<Longrightarrow> n \<le> length (f_data f) \<Longrightarrow> take n (f_data (file_write bs f)) = take n (f_data f)"
  by (auto simp: file_write_def min_def)

lemma nth_file_write:
  "n < length (f_data (file_write bs f)) \<Longrightarrow>
   f_data (file_write bs f) ! n =
     (if f_pos f \<le> n \<and> n < f_pos f + length bs then bs ! (n - f_pos f)
      else if n < length (f_data f) then f_data f ! n else 0)"
  by (auto simp: file_write_def nth_append min_def)

lemma file_append_at:
  "length (f_data f) \<le> f_pos f \<Longrightarrow> bs \<noteq> [] \<Longrightarrow>
   f_data (file_write bs f) = f_data f @ replicate (f_pos f - length (f_data f)) 0 @ bs"
  by (simp add: file_write_def)

end
