(* ===== verification/Build_Tools.thy ===== *)
theory Build_Tools
  imports Py_Strings
begin

text \<open>
  The command line tools at the root of the repository: \<open>make.py\<close>, \<open>mkimage.py\<close>, \<open>flash.py\<close>
  and \<open>load.py\<close>.  The parsed arguments are a record; the platform and SoC objects, which are built
  by importing other modules, contribute the few attributes the tools read.  The file system is a
  record of the files and directories that exist; reading a file gives its bytes, and every
  assertion and exception is a result.  Shown: where each part of a flash image lies, that the
  padding gives the requested size, that flashing stays inside its region, and how the tools agree
  and disagree with each other.
\<close>

section \<open>Arguments and environment\<close>

record tool_args =
  arg_platform :: "string option"
  arg_target :: "string option"
  arg_cpu_type :: "string option"
  arg_cpu_variant :: "string option"
  arg_target_option :: "(string \<times> string) list"
  arg_no_compile_firmware :: bool
  arg_override_firmware :: "string option"
  arg_build_option :: "(string \<times> string) list"

record file_system =
  fs_files :: "string \<rightharpoonup> byte list"
  fs_dirs :: "string set"
  fs_realpath :: "string \<Rightarrow> string"

definition path_exists :: "file_system \<Rightarrow> string \<Rightarrow> bool" where
  "path_exists fs p = (fs_files fs p \<noteq> None \<or> p \<in> fs_dirs fs)"

definition read_file :: "file_system \<Rightarrow> string \<Rightarrow> byte list py_result" where
  "read_file fs p = (case fs_files fs p of None \<Rightarrow> Inl SystemError | Some bs \<Rightarrow> Inr bs)"

text \<open>What the tools read of the platform and SoC objects.\<close>

record board =
  gateware_size :: nat
  spiflash_total_size :: nat
  mem_regions :: "(string \<times> nat) list"

section \<open>make.py\<close>

fun full_platform :: "string \<Rightarrow> (string \<times> string) list \<Rightarrow> string" where
  "full_platform p [] = p"
| "full_platform p ((name, value) # opts) =
     full_platform (if name = ''tofe_board'' then p @ ''.'' @ value else p) opts"

definition full_cpu :: "string \<Rightarrow> string option \<Rightarrow> string" where
  "full_cpu cpu variant = (if truthy variant then cpu @ ''.'' @ the variant else cpu)"

definition get_builddir :: "tool_args \<Rightarrow> string py_result" where
  "get_builddir a =
     (case (arg_platform a, arg_target a, arg_cpu_type a) of
        (Some p, Some t, Some c) \<Rightarrow>
          Inr (''build/'' @ py_lower (full_platform p (arg_target_option a)) @ ''_'' @ py_lower t
               @ ''_'' @ py_lower (full_cpu c (arg_cpu_variant a)) @ ''/'')
      | _ \<Rightarrow> Inl AssertionError)"

definition get_testdir :: "tool_args \<Rightarrow> string py_result" where
  "get_testdir a = py_bind (get_builddir a) (\<lambda>d. Inr (d @ ''/test''))"

definition get_image :: "string \<Rightarrow> string \<Rightarrow> string py_result" where
  "get_image builddir filetype =
     (if filetype = ''flash'' then Inr (path_join builddir ''image.bin'') else Inl AssertionError)"

text \<open>\<open>get_gateware\<close> falls off its end for any other file type, so it returns \<open>None\<close>.\<close>

definition get_gateware :: "string \<Rightarrow> string \<Rightarrow> string option" where
  "get_gateware builddir filetype =
     (let basedir = path_joins builddir [''gateware'', ''top'']
      in if filetype = ''load'' then Some (basedir @ ''.bit'')
         else if filetype = ''flash'' then Some (basedir @ ''.bin'')
         else None)"

definition get_bios :: "string \<Rightarrow> string \<Rightarrow> string py_result" where
  "get_bios builddir filetype =
     (let basedir = path_joins builddir [''software'', ''bios'', ''bios'']
      in if filetype \<in> {''load'', ''flash''} then Inr (basedir @ ''.bin'')
         else if filetype = ''debug'' then Inr (basedir @ ''.elf'')
         else Inl AssertionError)"

fun get_bios_maxsize :: "(string \<times> nat) list \<Rightarrow> nat" where
  "get_bios_maxsize [] = 0x8000"
| "get_bios_maxsize ((name, len) # regions) = (if name = ''rom'' then len else get_bios_maxsize regions)"

definition get_firmware :: "string \<Rightarrow> string \<Rightarrow> string py_result" where
  "get_firmware builddir filetype =
     (let basedir = path_joins builddir [''software'', ''firmware'', ''firmware'']
      in if filetype = ''load'' then Inr (basedir @ ''.bin'')
         else if filetype = ''flash'' then Inr (basedir @ ''.fbi'')
         else if filetype = ''debug'' then Inr (basedir @ ''.elf'')
         else Inl AssertionError)"

text \<open>
  The build itself.  The LiteX builder is a library; what \<open>main\<close> asks of it is a list of actions.
\<close>

record soc_facts =
  soc_has_cpu_type :: bool
  soc_has_main_ram :: bool
  soc_has_pcie_phy :: bool
  soc_has_do_exit :: bool

record build_args =
  bld_output_dir :: "string option"
  bld_csr_csv :: "string option"
  bld_csr_json :: "string option"

datatype build_action =
    MakeBuilder build_args
  | AddSoftwarePackage string string
  | BuilderBuild "(string \<times> string) list"
  | PlatformBuild string
  | MakeDirs string
  | WriteFile string
  | DoExit string

definition default_to :: "string option \<Rightarrow> string \<Rightarrow> string option" where
  "default_to x d = (if truthy x then x else Some d)"

definition make_software :: "string \<Rightarrow> tool_args \<Rightarrow> soc_facts \<Rightarrow> build_action list" where
  "make_software cwd a soc =
     (if \<not> arg_no_compile_firmware a \<or> truthy (arg_override_firmware a)
      then [AddSoftwarePackage ''uip'' (cwd @ ''/firmware/uip''),
            (if soc_has_main_ram soc
             then AddSoftwarePackage ''firmware'' (cwd @ ''/firmware'')
             else AddSoftwarePackage ''stub'' (cwd @ ''/firmware/stub''))]
      else [])"

definition make_main ::
    "string \<Rightarrow> tool_args \<Rightarrow> build_args \<Rightarrow> soc_facts \<Rightarrow> build_action list py_result" where
  "make_main cwd a ba soc =
     py_bind (get_builddir a) (\<lambda>builddir.
     py_bind (get_testdir a) (\<lambda>testdir.
       let ba1 = ba\<lparr>bld_output_dir := default_to (bld_output_dir ba) builddir\<rparr>;
           ba2 = ba1\<lparr>bld_csr_csv := default_to (bld_csr_csv ba1) (path_join testdir ''csr.csv''),
                     bld_csr_json := default_to (bld_csr_json ba1) (path_join testdir ''csr.json'')\<rparr>;
           build = (if soc_has_cpu_type soc
                    then MakeBuilder ba2 # make_software cwd a soc @ [BuilderBuild (arg_build_option a)]
                    else [PlatformBuild (path_join builddir ''gateware'')]);
           kerneldir = path_joins builddir [''software'', ''pcie'', ''kernel''];
           headers = (if soc_has_pcie_phy soc
                      then [MakeDirs kerneldir, WriteFile (path_join kerneldir ''csr.h''),
                            WriteFile (path_join kerneldir ''soc.h'')]
                      else []);
           exits = (if soc_has_do_exit soc then [DoExit (testdir @ ''/analyzer.csv'')] else [])
       in Inr (build @ headers @ exits)))"

section \<open>mkimage.py\<close>

record image_args =
  img_output_file :: string
  img_override_gateware :: "string option"
  img_override_bios :: "string option"
  img_force_image_size :: "string option"

definition override :: "string option \<Rightarrow> string option \<Rightarrow> string option" where
  "override ov dflt =
     (if truthy ov then (if py_lower (the ov) = ''none'' then None else ov) else dflt)"

definition load_part :: "file_system \<Rightarrow> string option \<Rightarrow> byte list py_result" where
  "load_part fs p = (if truthy p then read_file fs (the p) else Inr [])"

definition check_part :: "file_system \<Rightarrow> string option \<Rightarrow> string \<Rightarrow> unit py_result" where
  "check_part fs p suffix =
     (if truthy p
      then py_bind (py_assert (path_exists fs (the p))) (\<lambda>_. py_assert (endswith (the p) suffix))
      else Inr ())"

definition forced_size :: "string option \<Rightarrow> nat \<Rightarrow> int option py_result" where
  "forced_size arg tot =
     (if truthy arg then
        if py_lower (the arg) \<in> {''true'', ''1''} then Inr (Some (int tot))
        else py_bind (py_int (the arg)) (\<lambda>n. Inr (Some n))
      else Inr None)"

definition image_parts ::
    "file_system \<Rightarrow> tool_args \<Rightarrow> image_args \<Rightarrow> string
     \<Rightarrow> (string option \<times> string option \<times> string option) py_result" where
  "image_parts fs a ia builddir =
     (let gateware = override (img_override_gateware ia) (get_gateware builddir ''flash'')
      in py_bind (check_part fs gateware ''.bin'') (\<lambda>_.
         py_bind (get_bios builddir ''flash'') (\<lambda>bios0.
         let bios = override (img_override_bios ia) (Some bios0)
         in py_bind (check_part fs bios '''') (\<lambda>_.
            py_bind (get_firmware builddir ''flash'') (\<lambda>firmware0.
            let firmware = override (arg_override_firmware a) (Some firmware0)
            in py_bind (check_part fs firmware ''.fbi'') (\<lambda>_. Inr (gateware, bios, firmware)))))))"

definition bios_pos :: "board \<Rightarrow> nat" where
  "bios_pos b = gateware_size b"

definition firmware_pos :: "board \<Rightarrow> nat" where
  "firmware_pos b = gateware_size b + get_bios_maxsize (mem_regions b)"

text \<open>
  The writes to the image file: the three parts at their positions, then the padding up to the
  forced size, which continues where the last write (or seek) left the file.
\<close>

definition write_gateware :: "byte list \<Rightarrow> wfile" where
  "write_gateware gateware_data = file_write gateware_data (file_seek 0 file_open)"

definition write_bios :: "board \<Rightarrow> byte list \<Rightarrow> wfile \<Rightarrow> wfile" where
  "write_bios b bios_data f = file_write bios_data (file_seek (bios_pos b) f)"

definition write_firmware :: "board \<Rightarrow> byte list \<Rightarrow> wfile \<Rightarrow> wfile" where
  "write_firmware b firmware_data f = file_write firmware_data (file_seek (firmware_pos b) f)"

definition pad_image :: "int option \<Rightarrow> wfile \<Rightarrow> wfile" where
  "pad_image force f =
     (case force of None \<Rightarrow> f
      | Some flash_size \<Rightarrow> file_write (replicate (nat (flash_size - int (f_pos f))) 0xff) f)"

definition image_output_file :: "image_args \<Rightarrow> string \<Rightarrow> string" where
  "image_output_file ia builddir =
     (if CHR ''/'' \<in> set (img_output_file ia) then img_output_file ia
      else path_join builddir (img_output_file ia))"

definition mkimage_main ::
    "file_system \<Rightarrow> board \<Rightarrow> tool_args \<Rightarrow> image_args \<Rightarrow> (string \<times> byte list) py_result" where
  "mkimage_main fs b a ia =
     py_bind (get_builddir a) (\<lambda>builddir.
     let output_file = image_output_file ia builddir
     in py_bind (py_assert (path_exists fs (path_dirname output_file))) (\<lambda>_.
        py_bind (image_parts fs a ia builddir) (\<lambda>(gateware, bios, firmware).
        let fs' = fs\<lparr>fs_files := (fs_files fs)(output_file \<mapsto> [])\<rparr>
        in py_bind (load_part fs' gateware) (\<lambda>gateware_data.
           py_bind (py_assert (length gateware_data < gateware_size b)) (\<lambda>_.
           py_bind (load_part fs' bios) (\<lambda>bios_data.
           py_bind (py_assert (length bios_data < get_bios_maxsize (mem_regions b))) (\<lambda>_.
           py_bind (load_part fs' firmware) (\<lambda>firmware_data.
           py_bind (forced_size (img_force_image_size ia) (spiflash_total_size b)) (\<lambda>force.
             Inr (output_file,
                  f_data (pad_image force
                    (write_firmware b firmware_data
                      (write_bios b bios_data (write_gateware gateware_data))))))))))))))"

section \<open>flash.py\<close>

datatype flash_mode = ModeImage | ModeGateware | ModeBios | ModeFirmware | ModeOther

record flash_args =
  fl_mode :: flash_mode
  fl_other_file :: "string option"
  fl_address :: "int option"

text \<open>File name, first address and end of the region for each mode.\<close>

definition flash_region ::
    "board \<Rightarrow> tool_args \<Rightarrow> flash_args \<Rightarrow> string
     \<Rightarrow> (string option \<times> int option \<times> nat) py_result" where
  "flash_region b a fa builddir =
     (let bios_maxsize = get_bios_maxsize (mem_regions b) in
      case fl_mode fa of
        ModeImage \<Rightarrow> py_bind (get_image builddir ''flash'') (\<lambda>f.
          Inr (Some f, Some 0, spiflash_total_size b))
      | ModeGateware \<Rightarrow> Inr (get_gateware builddir ''flash'', Some 0, gateware_size b)
      | ModeBios \<Rightarrow> py_bind (get_bios builddir ''flash'') (\<lambda>f.
          Inr (Some f, Some (int (gateware_size b)), gateware_size b + bios_maxsize))
      | ModeFirmware \<Rightarrow>
          (if truthy (arg_override_firmware a)
           then Inr (arg_override_firmware a, Some (int (gateware_size b + bios_maxsize)), spiflash_total_size b)
           else py_bind (get_firmware builddir ''flash'') (\<lambda>f.
             Inr (Some f, Some (int (gateware_size b + bios_maxsize)), spiflash_total_size b)))
      | ModeOther \<Rightarrow> Inr (fl_other_file fa, fl_address fa, spiflash_total_size b))"

text \<open>The programmer call: address and bytes.\<close>

definition flash_main ::
    "file_system \<Rightarrow> board \<Rightarrow> tool_args \<Rightarrow> flash_args \<Rightarrow> (nat \<times> byte list) py_result" where
  "flash_main fs b a fa =
     py_bind (get_builddir a) (\<lambda>builddir.
     py_bind (flash_region b a fa builddir) (\<lambda>(filename, start, end_addr).
       case filename of None \<Rightarrow> Inl TypeError
       | Some fn \<Rightarrow>
         (let filepath = fs_realpath fs fn in
          case start of None \<Rightarrow> Inl TypeError
          | Some address_start \<Rightarrow>
            py_bind (py_assert (address_start \<ge> 0)) (\<lambda>_.
            py_bind (py_assert (path_exists fs filepath)) (\<lambda>_.
            py_bind (read_file fs filepath) (\<lambda>bs.
            py_bind (py_assert (address_start + int (length bs) < int end_addr)) (\<lambda>_.
              Inr (nat address_start, bs))))))))"

section \<open>load.py\<close>

datatype programmer = iMPACT | VivadoProgrammer

text \<open>The environment variables are looked up only when no file name is given.\<close>

definition load_fname :: "(string \<rightharpoonup> string) \<Rightarrow> string list \<Rightarrow> string py_result" where
  "load_fname env argv =
     (if length argv = 3 then Inr (argv ! 2)
      else (case (env ''PLATFORM'', env ''TARGET'', env ''CPU'') of
              (Some p, Some t, Some c) \<Rightarrow>
                Inr (''build/'' @ p @ ''_'' @ t @ ''_'' @ c @ ''/gateware/top.bit'')
            | _ \<Rightarrow> Inl KeyError))"

definition load_main ::
    "file_system \<Rightarrow> (string \<rightharpoonup> string) \<Rightarrow> string list \<Rightarrow> (programmer \<times> string) py_result" where
  "load_main fs env argv =
     (if length argv < 2 then Inl ValueError
      else py_bind (load_fname env argv) (\<lambda>fname.
        py_bind (if argv ! 1 = ''ise'' then Inr iMPACT
                 else if argv ! 1 = ''vivado'' then Inr VivadoProgrammer
                 else Inl SystemError) (\<lambda>prog.
          if \<not> path_exists fs fname then Inl SystemError
          else if \<not> endswith fname ''.bit'' then Inl SystemError
          else Inr (prog, fname))))"

section \<open>Properties of images\<close>

text \<open>The byte that belongs at an offset of an image, from the parts and the two positions.\<close>

definition image_byte :: "board \<Rightarrow> byte list \<Rightarrow> byte list \<Rightarrow> byte list \<Rightarrow> nat \<Rightarrow> byte" where
  "image_byte b G B F n =
     (if n < length G then G ! n
      else if n < bios_pos b then 0
      else if n < bios_pos b + length B then B ! (n - bios_pos b)
      else if n < firmware_pos b then 0
      else if n < firmware_pos b + length F then F ! (n - firmware_pos b)
      else 0xff)"

definition image_file :: "board \<Rightarrow> byte list \<Rightarrow> byte list \<Rightarrow> byte list \<Rightarrow> int option \<Rightarrow> wfile" where
  "image_file b G B F force = pad_image force (write_firmware b F (write_bios b B (write_gateware G)))"

lemma file_seek_simps [simp]: "f_data (file_seek p f) = f_data f" "f_pos (file_seek p f) = p"
  by (simp_all add: file_seek_def)

lemma write_gateware_simps [simp]: "f_data (write_gateware G) = G" "f_pos (write_gateware G) = length G"
  by (simp_all add: write_gateware_def file_write_def file_seek_def file_open_def)

lemma write_bios_simps:
  assumes "length G < gateware_size b"
  shows "n < length (f_data (write_bios b B (write_gateware G))) \<Longrightarrow>
           f_data (write_bios b B (write_gateware G)) ! n =
             (if n < length G then G ! n else if n < bios_pos b then 0 else B ! (n - bios_pos b))"
    and "length (f_data (write_bios b B (write_gateware G))) =
           (if B = [] then length G else bios_pos b + length B)"
proof -
  show "length (f_data (write_bios b B (write_gateware G))) =
          (if B = [] then length G else bios_pos b + length B)"
    using assms by (simp add: write_bios_def length_file_write bios_pos_def)
  then show "n < length (f_data (write_bios b B (write_gateware G))) \<Longrightarrow>
           f_data (write_bios b B (write_gateware G)) ! n =
             (if n < length G then G ! n else if n < bios_pos b then 0 else B ! (n - bios_pos b))"
    using assms nth_file_write [of n B "file_seek (bios_pos b) (write_gateware G)"]
    by (auto simp: write_bios_def bios_pos_def split: if_splits)
qed

lemma write_firmware_simps:
  fixes F :: "byte list"
  assumes "length G < gateware_size b" "length B < get_bios_maxsize (mem_regions b)"
  defines "f \<equiv> write_firmware b F (write_bios b B (write_gateware G))"
  shows "n < length (f_data f) \<Longrightarrow> f_data f ! n = image_byte b G B F n"
    and "length (f_data f) =
           (if F \<noteq> [] then firmware_pos b + length F
            else if B \<noteq> [] then bios_pos b + length B else length G)"
    and "f_pos f = firmware_pos b + length F"
proof -
  let ?g = "write_bios b B (write_gateware G)"
  note g = write_bios_simps [OF assms(1), where B = B]
  have le: "length (f_data ?g) \<le> firmware_pos b"
    using assms(1,2) g(2) by (simp add: firmware_pos_def bios_pos_def)
  show len: "length (f_data f) =
           (if F \<noteq> [] then firmware_pos b + length F
            else if B \<noteq> [] then bios_pos b + length B else length G)"
    using le g(2) by (simp add: f_def write_firmware_def length_file_write)
  show "f_pos f = firmware_pos b + length F" by (simp add: f_def write_firmware_def)
  show "f_data f ! n = image_byte b G B F n" if "n < length (f_data f)"
    using that len le g nth_file_write [of n F "file_seek (firmware_pos b) ?g"] assms(1,2)
    by (auto simp: f_def write_firmware_def image_byte_def bios_pos_def firmware_pos_def split: if_splits)
qed

lemma image_file_length:
  assumes "length G < gateware_size b" "length B < get_bios_maxsize (mem_regions b)"
    and "firmware_pos b + length F \<le> tot" "firmware_pos b < tot"
  shows "length (f_data (image_file b G B F (Some (int tot)))) = tot"
proof -
  let ?f = "write_firmware b F (write_bios b B (write_gateware G))"
  note f = write_firmware_simps [OF assms(1,2), where F = F]
  have n: "nat (int tot - int (f_pos ?f)) = tot - (firmware_pos b + length F)" using f(3) by linarith
  have lt: "length G < firmware_pos b" "bios_pos b + length B < firmware_pos b"
    using assms(1,2) by (simp_all add: firmware_pos_def bios_pos_def)
  show ?thesis
    unfolding image_file_def pad_image_def option.case n length_file_write
    using f(2,3) assms(3,4) lt by (auto simp: max_def)
qed

lemma image_file_bytes:
  assumes "length G < gateware_size b" "length B < get_bios_maxsize (mem_regions b)"
    and "n < length (f_data (image_file b G B F force))"
  shows "f_data (image_file b G B F force) ! n = image_byte b G B F n"
proof (cases force)
  case None
  with assms write_firmware_simps(1) [OF assms(1,2)] show ?thesis
    by (simp add: image_file_def pad_image_def)
next
  case (Some m)
  let ?f = "write_firmware b F (write_bios b B (write_gateware G))"
  let ?p = "replicate (nat (m - int (f_pos ?f))) 0xff"
  note f = write_firmware_simps [OF assms(1,2), where F = F]
  have lt: "length G < firmware_pos b" "bios_pos b + length B < firmware_pos b" "length G < bios_pos b"
    using assms(1,2) by (simp_all add: firmware_pos_def bios_pos_def)
  have le: "length (f_data ?f) \<le> f_pos ?f" using f(2,3) lt by auto
  from assms(3) Some have n: "n < length (f_data (file_write ?p ?f))"
    by (simp add: image_file_def pad_image_def)
  have "f_data (file_write ?p ?f) ! n = image_byte b G B F n"
  proof (cases "n < length (f_data ?f)")
    case True
    with le nth_file_write [OF n] f(1) show ?thesis by simp
  next
    case False
    have "image_byte b G B F n = (if f_pos ?f \<le> n then 0xff else 0)"
      using False f(2,3) lt by (auto simp: image_byte_def split: if_splits)
    with False n nth_file_write [OF n] show ?thesis by (auto simp: length_file_write split: if_splits)
  qed
  with Some show ?thesis by (simp add: image_file_def pad_image_def)
qed

lemma image_slices:
  fixes F :: "byte list" and force :: "int option"
  assumes g: "length G < gateware_size b" "length B < get_bios_maxsize (mem_regions b)"
  defines "img \<equiv> f_data (image_file b G B F force)"
  shows "take (length G) img = G"
    and "take (length B) (drop (bios_pos b) img) = B"
    and "take (length F) (drop (firmware_pos b) img) = F"
proof -
  note bytes = image_file_bytes [OF g, where F = F and force = force, folded img_def]
  have lens: "length G \<le> length img" "B \<noteq> [] \<Longrightarrow> bios_pos b + length B \<le> length img"
    "F \<noteq> [] \<Longrightarrow> firmware_pos b + length F \<le> length img"
    using g write_firmware_simps(2) [OF g, of F]
    by (auto simp: img_def image_file_def pad_image_def length_file_write bios_pos_def firmware_pos_def
        split: option.splits)
  have lB: "length B \<le> length img - bios_pos b" using lens(2) by (cases "B = []") auto
  have lF: "length F \<le> length img - firmware_pos b" using lens(3) by (cases "F = []") auto
  show "take (length G) img = G" using lens(1) bytes by (intro nth_equalityI) (auto simp: image_byte_def)
  show "take (length B) (drop (bios_pos b) img) = B"
    using lB bytes g by (intro nth_equalityI) (auto simp: image_byte_def bios_pos_def)
  show "take (length F) (drop (firmware_pos b) img) = F"
    using lF bytes g by (intro nth_equalityI) (auto simp: image_byte_def bios_pos_def firmware_pos_def)
qed

lemma mkimage_mainD:
  assumes "mkimage_main fs b a ia = Inr (out, img)"
  obtains d gw bi fw G B F force where
    "get_builddir a = Inr d" "image_parts fs a ia d = Inr (gw, bi, fw)"
    "out = image_output_file ia d"
    "load_part (fs\<lparr>fs_files := (fs_files fs)(out \<mapsto> [])\<rparr>) gw = Inr G"
    "load_part (fs\<lparr>fs_files := (fs_files fs)(out \<mapsto> [])\<rparr>) bi = Inr B"
    "load_part (fs\<lparr>fs_files := (fs_files fs)(out \<mapsto> [])\<rparr>) fw = Inr F"
    "length G < gateware_size b" "length B < get_bios_maxsize (mem_regions b)"
    "forced_size (img_force_image_size ia) (spiflash_total_size b) = Inr force"
    "img = f_data (image_file b G B F force)"
  using assms unfolding mkimage_main_def image_file_def Let_def
  by (auto elim!: py_bindE split: if_splits prod.splits)


lemma forced_image_length:
  assumes "mkimage_main fs b a ia = Inr (out, img)" "img_force_image_size ia = Some ''true''"
    and "firmware_pos b < spiflash_total_size b"
    and "\<And>p bs. fs_files fs p = Some bs \<Longrightarrow> firmware_pos b + length bs \<le> spiflash_total_size b"
  shows "length img = spiflash_total_size b"
proof -
  from assms(1) obtain d fw G B F force where
    g: "length G < gateware_size b" "length B < get_bios_maxsize (mem_regions b)"
    and F: "load_part (fs\<lparr>fs_files := (fs_files fs)(out \<mapsto> [])\<rparr>) fw = Inr F"
    and fo: "forced_size (img_force_image_size ia) (spiflash_total_size b) = Inr force"
    and img: "img = f_data (image_file b G B F force)" by (rule mkimage_mainD)
  have "force = Some (int (spiflash_total_size b))"
    using fo assms(2) by (simp add: forced_size_def truthy_def py_lower_def)
  moreover have "firmware_pos b + length F \<le> spiflash_total_size b"
    using F assms(3,4) by (auto simp: load_part_def read_file_def split: if_splits option.splits)
  ultimately show ?thesis using img image_file_length [OF g _ assms(3)] by simp
qed

text \<open>
  Padding: asked to force the image size, \<open>mkimage.py\<close> writes an image of exactly the size of
  the flash chip whenever the firmware fits behind the BIOS area.
\<close>

theorem mkimage_forced_size:
  assumes "mkimage_main fs b a ia = Inr (out, img)" "img_force_image_size ia = Some ''true''"
    and "firmware_pos b < spiflash_total_size b"
    and "\<And>p bs. fs_files fs p = Some bs \<Longrightarrow> firmware_pos b + length bs \<le> spiflash_total_size b"
  shows "length img = spiflash_total_size b"
  by (rule forced_image_length [OF assms])

section \<open>Properties of flashing\<close>

lemma flash_mainD:
  assumes "flash_main fs b a fa = Inr (addr, bs)"
  obtains d fn start e where
    "get_builddir a = Inr d" "flash_region b a fa d = Inr (Some fn, Some start, e)"
    "start \<ge> 0" "addr = nat start" "read_file fs (fs_realpath fs fn) = Inr bs"
    "start + int (length bs) < int e"
  using assms unfolding flash_main_def Let_def
  by (auto elim!: py_bindE split: if_splits prod.splits option.splits)

definition region_of :: "board \<Rightarrow> flash_mode \<Rightarrow> nat \<times> nat" where
  "region_of b m = (case m of
     ModeImage \<Rightarrow> (0, spiflash_total_size b)
   | ModeGateware \<Rightarrow> (0, bios_pos b)
   | ModeBios \<Rightarrow> (bios_pos b, firmware_pos b)
   | ModeFirmware \<Rightarrow> (firmware_pos b, spiflash_total_size b)
   | ModeOther \<Rightarrow> (0, spiflash_total_size b))"

text \<open>
  When \<open>flash.py\<close> reaches the programmer, the bytes it hands over
  start and end inside the region of the mode: the gateware never reaches the BIOS, the BIOS never
  reaches the firmware, and nothing is written past the chip.
\<close>

theorem flash_in_region:
  assumes "flash_main fs b a fa = Inr (addr, bs)"
  shows "fst (region_of b (fl_mode fa)) \<le> addr
         \<and> addr + length bs < snd (region_of b (fl_mode fa))"
proof -
  from assms obtain d fn start e where
    r: "flash_region b a fa d = Inr (Some fn, Some start, e)"
    and s: "start \<ge> 0" "addr = nat start" "start + int (length bs) < int e" by (rule flash_mainD)
  show ?thesis
    using r s
    by (cases "fl_mode fa")
       (auto simp: flash_region_def region_of_def bios_pos_def firmware_pos_def Let_def
         elim!: py_bindE split: if_splits)
qed

lemma image_path:
  "get_builddir a = Inr d \<Longrightarrow> img_output_file ia = ''image.bin'' \<Longrightarrow>
   get_image d ''flash'' = Inr (image_output_file ia d)"
  by (simp add: get_image_def image_output_file_def)

lemma flash_too_big:
  assumes "get_builddir a = Inr d" "flash_region b a fa d = Inr (Some fn, Some (int start), e)"
    and "fs_files fs (fs_realpath fs fn) = Some bs" "e \<le> start + length bs"
  shows "flash_main fs b a fa = Inl AssertionError"
  using assms by (simp add: flash_main_def path_exists_def read_file_def)

text \<open>
  The image that \<open>mkimage.py --force-image-size=true\<close>
  leaves in the build directory fills the chip, and \<open>flash.py\<close>, which demands that a file end
  strictly before the end of its region, refuses it with an assertion.
\<close>

theorem forced_image_is_rejected:
  assumes "mkimage_main fs b a ia = Inr (out, img)"
    and "img_output_file ia = ''image.bin''" "img_force_image_size ia = Some ''true''"
    and "firmware_pos b < spiflash_total_size b"
    and "\<And>p bs. fs_files fs p = Some bs \<Longrightarrow> firmware_pos b + length bs \<le> spiflash_total_size b"
    and "fs_realpath fs out = out" "fl_mode fa = ModeImage"
  shows "flash_main (fs\<lparr>fs_files := (fs_files fs)(out \<mapsto> img)\<rparr>) b a fa = Inl AssertionError"
proof -
  from assms(1) obtain d gw bi fw where d: "get_builddir a = Inr d" "out = image_output_file ia d"
    by (rule mkimage_mainD)
  have len: "length img = spiflash_total_size b" by (rule forced_image_length [OF assms(1,3-5)])
  show ?thesis
    using assms(6,7) d image_path [OF d(1) assms(2)] len
    by (intro flash_too_big [where start = 0, OF d(1)]) (auto simp: flash_region_def)
qed

text \<open>
  C29 (both ways of flashing agree): with the default file names, each part that \<open>flash.py\<close> writes on
  its own goes to the address at which \<open>mkimage.py\<close> places the same bytes in the image.
\<close>

theorem flash_matches_image:
  assumes "mkimage_main fs b a ia = Inr (out, img)"
    and "img_override_gateware ia = None" "img_override_bios ia = None" "arg_override_firmware a = None"
    and "flash_main fs b a fa = Inr (addr, bs)" "fl_mode fa \<in> {ModeGateware, ModeBios, ModeFirmware}"
    and "\<And>p. fs_realpath fs p = p" "fs_files fs out = None"
  shows "take (length bs) (drop addr img) = bs"
proof -
  from assms(1) obtain d gw bi fw G B F force where
    d: "get_builddir a = Inr d" and parts: "image_parts fs a ia d = Inr (gw, bi, fw)"
    and G: "load_part (fs\<lparr>fs_files := (fs_files fs)(out \<mapsto> [])\<rparr>) gw = Inr G"
    and B: "load_part (fs\<lparr>fs_files := (fs_files fs)(out \<mapsto> [])\<rparr>) bi = Inr B"
    and F: "load_part (fs\<lparr>fs_files := (fs_files fs)(out \<mapsto> [])\<rparr>) fw = Inr F"
    and g: "length G < gateware_size b" "length B < get_bios_maxsize (mem_regions b)"
    and img: "img = f_data (image_file b G B F force)" by (rule mkimage_mainD)
  note slices = image_slices [OF g, of F force, folded img]
  from assms(5) obtain d' fn start e where
    f: "get_builddir a = Inr d'" "flash_region b a fa d' = Inr (Some fn, Some start, e)"
      "addr = nat start" "read_file fs (fs_realpath fs fn) = Inr bs" by (rule flash_mainD)
  have p: "gw = get_gateware d ''flash''" "\<exists>x. bi = Some x \<and> get_bios d ''flash'' = Inr x"
    "\<exists>x. fw = Some x \<and> get_firmware d ''flash'' = Inr x"
    using parts assms(2-4) unfolding image_parts_def Let_def
    by (auto elim!: py_bindE simp: override_def truthy_def split: if_splits)
  have rd: "load_part (fs\<lparr>fs_files := (fs_files fs)(out \<mapsto> [])\<rparr>) (Some fn) = Inr bs" if "fn \<noteq> []"
    using f(4) assms(7,8) that
    by (auto simp: load_part_def truthy_def read_file_def split: option.splits if_splits)
  from f(1) d have d': "d' = d" by simp
  from assms(6) consider "fl_mode fa = ModeGateware" | "fl_mode fa = ModeBios" | "fl_mode fa = ModeFirmware"
    by auto
  then show ?thesis
  proof cases
    case 1
    with f(2) d' p(1) have "gw = Some fn" "start = 0" "fn \<noteq> []"
      by (auto simp: flash_region_def get_gateware_def)
    with rd G slices(1) f(3) show ?thesis by simp
  next
    case 2
    with f(2) d' p(2) have "bi = Some fn" "start = int (bios_pos b)" "fn \<noteq> []"
      by (auto simp: flash_region_def get_bios_def bios_pos_def)
    with rd B slices(2) f(3) show ?thesis by simp
  next
    case 3
    with f(2) d' p(3) assms(4) have "fw = Some fn" "start = int (firmware_pos b)" "fn \<noteq> []"
      by (auto simp: flash_region_def get_firmware_def firmware_pos_def truthy_def)
    with rd F slices(3) f(3) show ?thesis by simp
  qed
qed

section \<open>Properties of make.py and load.py\<close>

text \<open>
  What a build does: with a complete set of arguments \<open>make.py\<close> always reaches the build.  A
  SoC with a CPU goes through the LiteX builder with an output directory, a CSR listing and a CSR
  JSON file set, and gets the full firmware exactly when it has main RAM and the stub otherwise,
  unless firmware compilation is switched off without an override; a SoC without a CPU is built
  by the platform alone and gets no software.
\<close>

theorem make_main_plan:
  assumes "get_builddir a = Inr d"
  shows "\<exists>acts. make_main cwd a ba soc = Inr acts
     \<and> (soc_has_cpu_type soc \<longrightarrow>
          (\<exists>ba'. hd acts = MakeBuilder ba' \<and> truthy (bld_output_dir ba') \<and> truthy (bld_csr_csv ba')
                 \<and> truthy (bld_csr_json ba'))
          \<and> BuilderBuild (arg_build_option a) \<in> set acts)
     \<and> (AddSoftwarePackage ''firmware'' (cwd @ ''/firmware'') \<in> set acts \<longleftrightarrow>
          soc_has_cpu_type soc \<and> soc_has_main_ram soc
          \<and> (arg_no_compile_firmware a \<longrightarrow> truthy (arg_override_firmware a)))
     \<and> (AddSoftwarePackage ''stub'' (cwd @ ''/firmware/stub'') \<in> set acts \<longleftrightarrow>
          soc_has_cpu_type soc \<and> \<not> soc_has_main_ram soc
          \<and> (arg_no_compile_firmware a \<longrightarrow> truthy (arg_override_firmware a)))
     \<and> (\<not> soc_has_cpu_type soc \<longrightarrow> hd acts = PlatformBuild (path_join d ''gateware''))"
proof -
  have t: "truthy (default_to x y)" if "y \<noteq> []" for x y using that by (simp add: default_to_def truthy_def split: option.split)
  have d: "d \<noteq> []" using assms by (auto simp: get_builddir_def split: option.splits)
  have j: "path_join (d @ ''/test'') n \<noteq> []" if "n \<noteq> []" for n using that by (simp add: path_join_def)
  show ?thesis
    using assms by (auto simp: make_main_def get_testdir_def make_software_def Let_def t d j)
qed

lemma load_main_bit:
  "load_main fs env argv = Inr (prog, fname) \<Longrightarrow> endswith fname ''.bit'' \<and> path_exists fs fname"
  by (auto simp: load_main_def elim!: py_bindE split: if_splits)

section \<open>Witnesses\<close>

definition demo_board :: board where
  "demo_board = \<lparr>gateware_size = 8, spiflash_total_size = 32, mem_regions = [(''sram'', 4), (''rom'', 8)]\<rparr>"

definition demo_args :: tool_args where
  "demo_args = \<lparr>arg_platform = Some ''opsis'', arg_target = Some ''base'', arg_cpu_type = Some ''lm32'',
     arg_cpu_variant = None, arg_target_option = [], arg_no_compile_firmware = False,
     arg_override_firmware = None, arg_build_option = []\<rparr>"

definition demo_image_args :: "string option \<Rightarrow> image_args" where
  "demo_image_args force = \<lparr>img_output_file = ''image.bin'', img_override_gateware = None,
     img_override_bios = None, img_force_image_size = force\<rparr>"

definition demo_fs :: file_system where
  "demo_fs = \<lparr>fs_files = map_of
       [(''build/opsis_base_lm32/gateware/top.bin'', [1, 2, 3]),
        (''build/opsis_base_lm32/software/bios/bios.bin'', [4, 5]),
        (''build/opsis_base_lm32/software/firmware/firmware.fbi'', [6])],
     fs_dirs = {''build/opsis_base_lm32''}, fs_realpath = id\<rparr>"

lemma demo_fs_small: "fs_files demo_fs p = Some bs \<Longrightarrow> length bs \<le> 3"
  by (auto simp: demo_fs_def split: if_splits)

lemma demo_image:
  "mkimage_main demo_fs demo_board demo_args (demo_image_args None) =
     Inr (''build/opsis_base_lm32/image.bin'', [1, 2, 3, 0, 0, 0, 0, 0, 4, 5, 0, 0, 0, 0, 0, 0, 6])"
  by code_simp

lemma demo_image_forced:
  "mkimage_main demo_fs demo_board demo_args (demo_image_args (Some ''true'')) =
     Inr (''build/opsis_base_lm32/image.bin'',
          [1, 2, 3, 0, 0, 0, 0, 0, 4, 5, 0, 0, 0, 0, 0, 0, 6] @ replicate 15 0xff)"
  by code_simp

lemma demo_firmware_pos: "firmware_pos demo_board = 16" "spiflash_total_size demo_board = 32"
  by code_simp+


theorem mkimage_forced_size_witness:
  "length ([1, 2, 3, 0, 0, 0, 0, 0, 4, 5, 0, 0, 0, 0, 0, 0, 6 :: byte] @ replicate 15 0xff)
     = spiflash_total_size demo_board"
proof (rule mkimage_forced_size [OF demo_image_forced])
  show "firmware_pos demo_board + length bs \<le> spiflash_total_size demo_board"
    if "fs_files demo_fs p = Some bs" for p bs
    using demo_fs_small [OF that] by (simp add: demo_firmware_pos)
qed (simp_all add: demo_image_args_def demo_firmware_pos)

theorem flash_in_region_witness:
  "flash_main demo_fs demo_board demo_args \<lparr>fl_mode = ModeBios, fl_other_file = None, fl_address = None\<rparr>
     = Inr (8, [4, 5]) \<and> 8 + length [4, 5 :: byte] < snd (region_of demo_board ModeBios)"
proof -
  have r: "flash_main demo_fs demo_board demo_args \<lparr>fl_mode = ModeBios, fl_other_file = None, fl_address = None\<rparr>
     = Inr (8, [4, 5])" by code_simp
  show ?thesis using r flash_in_region [OF r] by simp
qed

theorem forced_image_is_rejected_witness:
  "flash_main (demo_fs\<lparr>fs_files := (fs_files demo_fs)(''build/opsis_base_lm32/image.bin''
       \<mapsto> [1, 2, 3, 0, 0, 0, 0, 0, 4, 5, 0, 0, 0, 0, 0, 0, 6] @ replicate 15 0xff)\<rparr>) demo_board demo_args
     \<lparr>fl_mode = ModeImage, fl_other_file = None, fl_address = None\<rparr> = Inl AssertionError"
proof (rule forced_image_is_rejected [OF demo_image_forced])
  show "firmware_pos demo_board < spiflash_total_size demo_board" by code_simp
  show "firmware_pos demo_board + length bs \<le> spiflash_total_size demo_board"
    if "fs_files demo_fs p = Some bs" for p bs
    using demo_fs_small [OF that] by (simp add: demo_firmware_pos)
qed (simp_all add: demo_image_args_def demo_fs_def)

theorem flash_matches_image_witness:
  "take (length [4, 5 :: byte]) (drop 8 [1, 2, 3, 0, 0, 0, 0, 0, 4, 5, 0, 0, 0, 0, 0, 0, 6 :: byte]) = [4, 5]"
proof -
  have r: "flash_main demo_fs demo_board demo_args \<lparr>fl_mode = ModeBios, fl_other_file = None, fl_address = None\<rparr>
     = Inr (8, [4, 5])" by code_simp
  have n: "fs_files demo_fs ''build/opsis_base_lm32/image.bin'' = None" by code_simp
  show ?thesis
    by (rule flash_matches_image [OF demo_image _ _ _ r _ _ n])
       (simp_all add: demo_image_args_def demo_args_def demo_fs_def)
qed

theorem make_main_plan_witness:
  "\<exists>acts. make_main ''/w'' demo_args \<lparr>bld_output_dir = None, bld_csr_csv = None, bld_csr_json = None\<rparr>
      \<lparr>soc_has_cpu_type = True, soc_has_main_ram = True, soc_has_pcie_phy = False, soc_has_do_exit = False\<rparr> = Inr acts
    \<and> AddSoftwarePackage ''firmware'' ''/w/firmware'' \<in> set acts"
proof -
  have d: "get_builddir demo_args = Inr ''build/opsis_base_lm32/''" by code_simp
  show ?thesis
    using make_main_plan [OF d, of "''/w''" "\<lparr>bld_output_dir = None, bld_csr_csv = None, bld_csr_json = None\<rparr>"
        "\<lparr>soc_has_cpu_type = True, soc_has_main_ram = True, soc_has_pcie_phy = False, soc_has_do_exit = False\<rparr>"]
    by (auto simp: demo_args_def)
qed

end
