(* ===== verification/Opsis_I2c.thy ===== *)
theory Opsis_I2c
  imports Hdl_Prelude
begin

text \<open>
  The I2C target that feeds firmware to the FX2 on the Opsis board: \<open>I2CShiftReg\<close> in
  \<open>gateware/opsis_i2c.py\<close>.  The synchronised pad levels and the values of the three CSRs (with the
  write pulse of the address register) are the inputs of a cycle; the writes that the gateware
  makes to the status and shift CSRs are outputs.  Migen's \<open>chooser\<close> is a parameter.  The
  second half shows how bytes come in, who acknowledges, when the clock is stretched and what is
  driven onto the data line.
\<close>

section \<open>State\<close>

datatype i2c_fsm =
    WAIT_START | RCV_ADDRESS
  | ACK_ADDRESS0 | ACK_ADDRESS1 | ACK_ADDRESS2
  | PAUSE
  | DO_READ | ACK_READ0 | ACK_READ1
  | DO_WRITE | ACK_WRITE0 | ACK_WRITE1 | ACK_WRITE2

definition STATUS_FULL :: "2 word" where "STATUS_FULL = 1"
definition STATUS_EMPTY :: "2 word" where "STATUS_EMPTY = 2"

record i2c_shift =
  is_fsm :: i2c_fsm
  is_sda_drv_reg :: bool
  is_scl_drv_reg :: bool
  is_samp_count :: "3 word"
  is_samp_carry :: bool
  is_scl_i :: bool
  is_sda_i :: bool
  is_scl_r :: bool
  is_sda_r :: bool
  is_din :: "8 word"
  is_counter :: "4 word"
  is_is_read :: bool
  is_data_bit :: bool
  is_data_drv :: bool

record i2c_shift_in =
  in_scl_raw :: bool
  in_sda_raw :: bool
  in_shift_reg :: "8 word"
  in_status :: "2 word"
  in_slave_addr :: "7 word"
  in_slave_addr_re :: bool

definition i2c_shift_init :: i2c_shift where
  "i2c_shift_init =
     \<lparr>is_fsm = WAIT_START, is_sda_drv_reg = False, is_scl_drv_reg = False,
      is_samp_count = 0, is_samp_carry = False, is_scl_i = False, is_sda_i = False,
      is_scl_r = False, is_sda_r = False, is_din = 0, is_counter = 0, is_is_read = False,
      is_data_bit = False, is_data_drv = False\<rparr>"

section \<open>Combinational signals\<close>

definition shift_reg_full :: "i2c_shift_in \<Rightarrow> bool" where
  "shift_reg_full i = bit (in_status i) 0"

definition shift_reg_empty :: "i2c_shift_in \<Rightarrow> bool" where
  "shift_reg_empty i = bit (in_status i) 1"

definition scl_rising :: "i2c_shift \<Rightarrow> bool" where
  "scl_rising s = (is_scl_i s \<and> \<not> is_scl_r s)"

definition scl_falling :: "i2c_shift \<Rightarrow> bool" where
  "scl_falling s = (\<not> is_scl_i s \<and> is_scl_r s)"

definition sda_falling :: "i2c_shift \<Rightarrow> bool" where
  "sda_falling s = (\<not> is_sda_i s \<and> is_sda_r s)"

definition i2c_start :: "i2c_shift \<Rightarrow> bool" where
  "i2c_start s = (is_scl_i s \<and> sda_falling s)"

text \<open>What the state machine drives in a cycle.\<close>

record i2c_act =
  ac_next :: i2c_fsm
  ac_data_drv_stop :: bool
  ac_data_drv_en :: bool
  ac_update_is_read :: bool
  ac_counter_reset :: bool
  ac_zero_drv :: bool
  ac_pause_drv :: bool
  ac_status_w :: "2 word option"
  ac_shift_w :: "8 word option"

definition i2c_no_act :: "i2c_fsm \<Rightarrow> i2c_act" where
  "i2c_no_act st =
     \<lparr>ac_next = st, ac_data_drv_stop = False, ac_data_drv_en = False, ac_update_is_read = False,
      ac_counter_reset = False, ac_zero_drv = False, ac_pause_drv = False,
      ac_status_w = None, ac_shift_w = None\<rparr>"

definition address_matches :: "i2c_shift_in \<Rightarrow> i2c_shift \<Rightarrow> bool" where
  "address_matches i s = ((ucast (drop_bit 1 (is_din s)) :: 7 word) = in_slave_addr i)"

text \<open>The actions of each state, before the two rules that hold in every state.\<close>

definition i2c_state_act :: "i2c_shift_in \<Rightarrow> i2c_shift \<Rightarrow> i2c_act" where
  "i2c_state_act i s =
     (let o0 = i2c_no_act (is_fsm s); rst = o0\<lparr>ac_counter_reset := True\<rparr> in
      case is_fsm s of
        WAIT_START \<Rightarrow> o0\<lparr>ac_data_drv_stop := True\<rparr>
      | RCV_ADDRESS \<Rightarrow>
          (let o1 = o0\<lparr>ac_data_drv_stop := True\<rparr> in
           if is_counter s = 8 then
             if address_matches i s
             then o1\<lparr>ac_update_is_read := True, ac_next := ACK_ADDRESS0\<rparr>
             else o1\<lparr>ac_next := WAIT_START\<rparr>
           else o1)
      | ACK_ADDRESS0 \<Rightarrow> (if \<not> is_scl_i s then rst\<lparr>ac_next := ACK_ADDRESS1\<rparr> else rst)
      | ACK_ADDRESS1 \<Rightarrow>
          (let o1 = rst\<lparr>ac_zero_drv := True\<rparr> in
           if is_scl_i s then o1\<lparr>ac_next := ACK_ADDRESS2\<rparr> else o1)
      | ACK_ADDRESS2 \<Rightarrow>
          (let o1 = rst\<lparr>ac_zero_drv := True\<rparr> in
           if \<not> is_scl_i s then o1\<lparr>ac_next := PAUSE\<rparr> else o1)
      | PAUSE \<Rightarrow>
          (let o1 = rst\<lparr>ac_pause_drv := True\<rparr> in
           if \<not> shift_reg_empty i \<and> is_is_read s then o1\<lparr>ac_next := DO_READ\<rparr>
           else if \<not> shift_reg_full i \<and> \<not> is_is_read s then o1\<lparr>ac_next := DO_WRITE\<rparr>
           else o1)
      | DO_READ \<Rightarrow>
          (if \<not> is_scl_i s then
             if is_counter s = 8
             then o0\<lparr>ac_data_drv_stop := True, ac_status_w := Some STATUS_EMPTY, ac_next := ACK_READ0\<rparr>
             else o0\<lparr>ac_data_drv_en := True\<rparr>
           else o0)
      | ACK_READ0 \<Rightarrow>
          (if scl_rising s then
             if is_sda_i s then rst\<lparr>ac_next := WAIT_START\<rparr> else rst\<lparr>ac_next := ACK_READ1\<rparr>
           else rst)
      | ACK_READ1 \<Rightarrow> (if scl_falling s then rst\<lparr>ac_next := PAUSE\<rparr> else rst)
      | DO_WRITE \<Rightarrow>
          (if is_counter s = 8
           then o0\<lparr>ac_shift_w := Some (is_din s), ac_next := ACK_WRITE0\<rparr> else o0)
      | ACK_WRITE0 \<Rightarrow> (if \<not> is_scl_i s then rst\<lparr>ac_next := ACK_WRITE1\<rparr> else rst)
      | ACK_WRITE1 \<Rightarrow>
          (let o1 = rst\<lparr>ac_zero_drv := True\<rparr> in
           if is_scl_i s then o1\<lparr>ac_next := ACK_WRITE2\<rparr> else o1)
      | ACK_WRITE2 \<Rightarrow>
          (let o1 = rst\<lparr>ac_zero_drv := True\<rparr> in
           if \<not> is_scl_i s
           then o1\<lparr>ac_next := PAUSE, ac_status_w := Some STATUS_FULL\<rparr> else o1))"

text \<open>
  In every state a start condition goes to \<open>RCV_ADDRESS\<close>, and then, with the last word, a write
  to the address register goes to \<open>WAIT_START\<close>.
\<close>

definition i2c_shift_act :: "i2c_shift_in \<Rightarrow> i2c_shift \<Rightarrow> i2c_act" where
  "i2c_shift_act i s =
     (let o0 = i2c_state_act i s;
          o1 = (if i2c_start s then o0\<lparr>ac_next := RCV_ADDRESS\<rparr> else o0)
      in if in_slave_addr_re i then o1\<lparr>ac_next := WAIT_START\<rparr> else o1)"

definition sda_drv :: "i2c_shift_in \<Rightarrow> i2c_shift \<Rightarrow> bool" where
  "sda_drv i s =
     (if ac_zero_drv (i2c_shift_act i s) then True
      else if is_data_drv s then \<not> is_data_bit s else False)"

definition scl_drv :: "i2c_shift_in \<Rightarrow> i2c_shift \<Rightarrow> bool" where
  "scl_drv i s = ac_pause_drv (i2c_shift_act i s)"

section \<open>One clock edge\<close>

definition counter_next :: "i2c_shift_in \<Rightarrow> i2c_shift \<Rightarrow> 4 word" where
  "counter_next i s =
     (let c1 = (if i2c_start s \<or> ac_counter_reset (i2c_shift_act i s) then 0 else is_counter s)
      in if scl_rising s then (if is_counter s = 8 then 0 else is_counter s + 1) else c1)"

definition din_next :: "i2c_shift \<Rightarrow> 8 word" where
  "din_next s =
     (if scl_rising s \<and> is_counter s \<noteq> 8
      then push_bit 1 (is_din s) OR of_bool (is_sda_i s) else is_din s)"

definition i2c_shift_step ::
    "(8 word \<Rightarrow> 4 word \<Rightarrow> bool) \<Rightarrow> i2c_shift_in \<Rightarrow> i2c_shift \<Rightarrow> i2c_shift" where
  "i2c_shift_step chooser i s =
     (let a = i2c_shift_act i s in
      \<lparr>is_fsm = ac_next a,
       is_sda_drv_reg = sda_drv i s,
       is_scl_drv_reg = scl_drv i s,
       is_samp_count = is_samp_count s + 1,
       is_samp_carry = (is_samp_count s = 7),
       is_scl_i = (if is_samp_carry s then in_scl_raw i else is_scl_i s),
       is_sda_i = (if is_samp_carry s then in_sda_raw i else is_sda_i s),
       is_scl_r = is_scl_i s,
       is_sda_r = is_sda_i s,
       is_din = din_next s,
       is_counter = counter_next i s,
       is_is_read = (if ac_update_is_read a then bit (is_din s) 0 else is_is_read s),
       is_data_bit = (if ac_data_drv_en a then chooser (in_shift_reg i) (is_counter s) else is_data_bit s),
       is_data_drv = (if ac_data_drv_en a then True else if ac_data_drv_stop a then False else is_data_drv s)\<rparr>)"


section \<open>Counter invariant\<close>

definition i2c_shift_inv :: "i2c_shift \<Rightarrow> bool" where
  "i2c_shift_inv s = (is_counter s \<le> 8)"

lemma counter_next_le: "is_counter s \<le> 8 \<Longrightarrow> counter_next i s \<le> 8"
proof -
  assume "is_counter s \<le> 8"
  moreover have "c \<le> 8 \<Longrightarrow> c \<noteq> 8 \<Longrightarrow> c + 1 \<le> 8" for c :: "4 word"
    by (simp add: inc_le order_le_neq_trans)
  ultimately show ?thesis by (auto simp: counter_next_def Let_def)
qed

interpretation i2c_target: sync_module "i2c_shift_step chooser" i2c_shift_init i2c_shift_inv
  for chooser
  by unfold_locales
     (simp_all add: i2c_shift_inv_def i2c_shift_init_def i2c_shift_step_def Let_def counter_next_le)

section \<open>Receiving a byte\<close>

text \<open>The bits that the rising clock edges of a run sample, and the value they spell.\<close>

definition sampled :: "i2c_shift_in \<Rightarrow> i2c_shift \<Rightarrow> bool list" where
  "sampled i s = (if scl_rising s then [is_sda_i s] else [])"

definition msb_value :: "bool list \<Rightarrow> nat" where
  "msb_value bs = foldl (\<lambda>a b. 2 * a + of_bool b) 0 bs"

lemma msb_value_snoc [simp]: "msb_value (bs @ [b]) = 2 * msb_value bs + of_bool b"
  by (simp add: msb_value_def)

lemma msb_value_Nil [simp]: "msb_value [] = 0"
  by (simp add: msb_value_def)

lemma msb_value_less: "msb_value bs < 2 ^ length bs"
  by (induction bs rule: rev_induct) (auto simp: of_bool_def)

text \<open>A run in which nothing interrupts the byte: no start condition, no write to the address CSR.\<close>

fun undisturbed :: "(8 word \<Rightarrow> 4 word \<Rightarrow> bool) \<Rightarrow> i2c_shift_in list \<Rightarrow> i2c_shift \<Rightarrow> bool" where
  "undisturbed ch [] s = True"
| "undisturbed ch (i # is) s =
     (\<not> i2c_start s \<and> \<not> in_slave_addr_re i \<and> undisturbed ch is (i2c_shift_step ch i s))"

lemma undisturbed_append [simp]:
  "undisturbed ch (is @ js) s \<longleftrightarrow>
     undisturbed ch is s \<and> undisturbed ch js (run (i2c_shift_step ch) is s)"
  by (induction "is" arbitrary: s) auto

lemma shift_in_bit: "push_bit 1 (d :: 8 word) OR of_bool b = 2 * d + of_bool b"
proof -
  have "push_bit 1 d AND of_bool b = 0"
    by (rule bit_eqI) (auto simp: bit_simps bit_0)
  then show ?thesis
    by (simp add: disjunctive_add_eq_or [symmetric] push_bit_eq_mult)
qed

lemma shift_in_one: "is_din s * 2 OR 1 = 2 * is_din s + 1"
  using shift_in_bit [of "is_din s" True] by (simp add: push_bit_eq_mult)

lemma step_fields:
  "is_fsm (i2c_shift_step ch i s) = ac_next (i2c_shift_act i s)"
  "is_counter (i2c_shift_step ch i s) = counter_next i s"
  "is_din (i2c_shift_step ch i s) = din_next s"
  "is_scl_r (i2c_shift_step ch i s) = is_scl_i s"
  "is_scl_drv_reg (i2c_shift_step ch i s) = scl_drv i s"
  "is_sda_drv_reg (i2c_shift_step ch i s) = sda_drv i s"
  "is_scl_i (i2c_shift_step ch i s) = (if is_samp_carry s then in_scl_raw i else is_scl_i s)"
  by (simp_all add: i2c_shift_step_def Let_def)

lemma receiving_step:
  assumes "is_fsm s \<in> {RCV_ADDRESS, DO_WRITE}" "is_counter s \<noteq> 8"
    and "\<not> i2c_start s" "\<not> in_slave_addr_re i"
  shows "is_fsm (i2c_shift_step ch i s) = is_fsm s"
    and "is_counter (i2c_shift_step ch i s) = is_counter s + of_nat (length (sampled i s))"
    and "is_din (i2c_shift_step ch i s)
           = 2 ^ length (sampled i s) * is_din s + of_nat (msb_value (sampled i s))"
  using assms
  by (auto simp: step_fields i2c_shift_act_def i2c_state_act_def i2c_no_act_def Let_def
      counter_next_def din_next_def sampled_def shift_in_bit shift_in_one msb_value_def)

lemma msb_value_append: "msb_value (bs @ cs) = 2 ^ length cs * msb_value bs + msb_value cs"
  by (induction cs rule: rev_induct) (simp_all add: algebra_simps flip: append_assoc)

lemma receiving_run:
  fixes ch "is" s
  defines "bs \<equiv> collect (i2c_shift_step ch) sampled is s"
    and "t \<equiv> run (i2c_shift_step ch) is s"
  assumes "is_fsm s \<in> {RCV_ADDRESS, DO_WRITE}" "is_counter s = 0"
    and "undisturbed ch is s" "length bs < 8"
  shows "is_fsm t = is_fsm s \<and> is_counter t = of_nat (length bs)
       \<and> is_din t = 2 ^ length bs * is_din s + of_nat (msb_value bs)"
  using assms(3-6) unfolding bs_def t_def
proof (induction "is" rule: rev_induct)
  case Nil
  then show ?case by simp
next
  case (snoc i "is")
  let ?u = "run (i2c_shift_step ch) is s" and ?b = "collect (i2c_shift_step ch) sampled is s"
  from snoc have IH: "is_fsm ?u = is_fsm s" "is_counter ?u = of_nat (length ?b)"
      "is_din ?u = 2 ^ length ?b * is_din s + of_nat (msb_value ?b)"
    by auto
  have "is_counter ?u \<noteq> 8"
  proof
    assume "is_counter ?u = 8"
    then have "unat (is_counter ?u) = 8" by simp
    moreover have "unat (is_counter ?u) = length ?b"
      using IH(2) snoc.prems(4) by (simp add: unat_of_nat)
    ultimately show False using snoc.prems(4) by simp
  qed
  with IH snoc.prems
    receiving_step [of ?u i ch]
  show ?case
    by (simp add: msb_value_append power_add algebra_simps)
qed

lemma receiving_eighth:
  fixes ch "is" s i
  defines "bs \<equiv> collect (i2c_shift_step ch) sampled (is @ [i]) s"
    and "t \<equiv> run (i2c_shift_step ch) (is @ [i]) s"
  assumes "is_fsm s \<in> {RCV_ADDRESS, DO_WRITE}" "is_counter s = 0"
    and "undisturbed ch (is @ [i]) s" "length bs = 8"
    and "length (collect (i2c_shift_step ch) sampled is s) = 7"
  shows "is_fsm t = is_fsm s" "is_counter t = 8" "unat (is_din t) = msb_value bs"
    "\<not> scl_rising t"
proof -
  let ?u = "run (i2c_shift_step ch) is s" and ?b = "collect (i2c_shift_step ch) sampled is s"
  have IH: "is_fsm ?u = is_fsm s" "is_counter ?u = 7"
      "is_din ?u = 2 ^ 7 * is_din s + of_nat (msb_value ?b)"
    using receiving_run [of s ch "is"] assms by auto
  have r: "scl_rising ?u"
    using assms(6,7) by (auto simp: bs_def sampled_def split: if_splits)
  then show "\<not> scl_rising t"
    by (auto simp: t_def scl_rising_def step_fields)
  have st: "is_fsm t = is_fsm ?u" "is_counter t = is_counter ?u + 1"
      "is_din t = 2 * is_din ?u + of_nat (msb_value [is_sda_i ?u])"
    using receiving_step [of ?u i ch] IH assms r by (auto simp: t_def sampled_def)
  show "is_fsm t = is_fsm s" "is_counter t = 8"
    using st IH by simp_all
  have bs: "bs = ?b @ [is_sda_i ?u]"
    using r by (simp add: bs_def sampled_def)
  have "is_din t = 256 * is_din s + of_nat (msb_value bs)"
    using st(3) IH(3) unfolding bs by (simp add: msb_value_def [of "[_]"] algebra_simps)
  also have "256 = (0 :: 8 word)" by simp
  finally have "is_din t = of_nat (msb_value bs)" by simp
  moreover have "msb_value bs < 256"
    using msb_value_less [of bs] assms(6) by simp
  ultimately show "unat (is_din t) = msb_value bs"
    by (simp add: unat_of_nat)
qed

lemma address_matches_iff:
  assumes "unat (is_din t) = msb_value (bs @ [b])"
  shows "address_matches i t \<longleftrightarrow> msb_value bs = unat (in_slave_addr i)"
    and "bit (is_din t) 0 = b"
proof -
  have "unat (drop_bit 1 (is_din t)) = msb_value bs"
    using assms by (simp add: drop_bit_eq_div unat_div)
  moreover have "unat (drop_bit 1 (is_din t)) < 128"
    using unat_lt2p [of "is_din t"] by (simp add: drop_bit_eq_div unat_div)
  ultimately show "address_matches i t \<longleftrightarrow> msb_value bs = unat (in_slave_addr i)"
    by (simp add: address_matches_def word_eq_iff_unsigned [where 'a = nat] unsigned_ucast_eq take_bit_nat_eq_self)
  have "bit (is_din t) 0 \<longleftrightarrow> odd (unat (is_din t))"
    by (simp only: bit_0 [of "unat (is_din t)", symmetric] bit_unsigned_iff) simp
  then show "bit (is_din t) 0 = b"
    using assms by (simp add: of_bool_def)
qed

lemma address_decided:
  assumes "is_fsm u = RCV_ADDRESS" "is_counter u = 8" "\<not> i2c_start u" "\<not> in_slave_addr_re j"
  shows "is_fsm (i2c_shift_step ch j u)
           = (if address_matches j u then ACK_ADDRESS0 else WAIT_START)"
    and "is_is_read (i2c_shift_step ch j u)
           = (if address_matches j u then bit (is_din u) 0 else is_is_read u)"
  using assms
  by (simp_all add: i2c_shift_step_def i2c_shift_act_def i2c_state_act_def i2c_no_act_def Let_def)


text \<open>
  C13 (i2c write byte): in a write transfer the eight sampled bits are handed to the shift CSR as
  one byte, most significant bit first, in the cycle after the eighth rising edge, and the target
  then acknowledges.
\<close>

theorem i2c_write_byte:
  fixes ch "is" i j s
  defines "u \<equiv> run (i2c_shift_step ch) (is @ [i]) s"
  assumes "is_fsm s = DO_WRITE" "is_counter s = 0"
    and "undisturbed ch (is @ [i, j]) s"
    and "length (collect (i2c_shift_step ch) sampled is s) = 7"
    and "collect (i2c_shift_step ch) sampled (is @ [i]) s = bs" "length bs = 8"
  shows "\<exists>w. ac_shift_w (i2c_shift_act j u) = Some w \<and> unat w = msb_value bs
           \<and> is_fsm (i2c_shift_step ch j u) = ACK_WRITE0"
proof -
  have "is_fsm s \<in> {RCV_ADDRESS, DO_WRITE}" "undisturbed ch (is @ [i]) s"
      "length (collect (i2c_shift_step ch) sampled (is @ [i]) s) = 8"
    using assms(2,4,7) unfolding assms(6) by simp_all
  note e = receiving_eighth [OF this(1) assms(3) this(2-3) assms(5), folded u_def]
  have u: "is_fsm u = DO_WRITE" "is_counter u = 8" "unat (is_din u) = msb_value bs"
    using e(1) [unfolded assms(2)] e(2) e(3) [unfolded assms(6)] .
  have q: "\<not> i2c_start u" "\<not> in_slave_addr_re j" using assms(4) by (simp_all add: u_def)
  from u q show ?thesis
    by (simp add: step_fields i2c_shift_act_def i2c_state_act_def i2c_no_act_def Let_def)
qed

section \<open>Clock stretching and read-out\<close>

lemma scl_drv_iff: "scl_drv i s \<longleftrightarrow> is_fsm s = PAUSE"
  by (auto simp: scl_drv_def i2c_shift_act_def i2c_state_act_def i2c_no_act_def Let_def
      split: i2c_fsm.splits)

text \<open>The CSR state that lets a paused transfer go on.\<close>

definition serviced :: "bool \<Rightarrow> i2c_shift_in \<Rightarrow> bool" where
  "serviced rd i = (if rd then \<not> shift_reg_empty i else \<not> shift_reg_full i)"

lemma pause_step:
  assumes "is_fsm s = PAUSE" "\<not> is_scl_i s" "\<not> in_slave_addr_re i" "\<not> in_scl_raw i"
  shows "is_fsm (i2c_shift_step ch i s)
           = (if serviced (is_is_read s) i then if is_is_read s then DO_READ else DO_WRITE else PAUSE)"
    and "\<not> is_scl_i (i2c_shift_step ch i s)"
    and "is_counter (i2c_shift_step ch i s) = 0"
    and "is_is_read (i2c_shift_step ch i s) = is_is_read s"
    and "is_scl_drv_reg (i2c_shift_step ch i s)"
  using assms
  by (auto simp: i2c_shift_step_def i2c_shift_act_def i2c_state_act_def i2c_no_act_def Let_def
      serviced_def i2c_start_def counter_next_def scl_rising_def scl_drv_def)

lemma pause_run:
  assumes "is_fsm s = PAUSE" "is_scl_drv_reg s" "\<not> is_scl_i s" "is_is_read s = rd"
    and "\<forall>j \<in> set is. \<not> in_slave_addr_re j \<and> \<not> in_scl_raw j \<and> \<not> serviced rd j"
  shows "is_fsm (run (i2c_shift_step ch) is s) = PAUSE
       \<and> is_scl_drv_reg (run (i2c_shift_step ch) is s)
       \<and> \<not> is_scl_i (run (i2c_shift_step ch) is s)
       \<and> is_is_read (run (i2c_shift_step ch) is s) = rd"
  using assms
proof (induction "is" arbitrary: s)
  case (Cons i "is")
  have "is_fsm (i2c_shift_step ch i s) = PAUSE" "is_scl_drv_reg (i2c_shift_step ch i s)"
    "\<not> is_scl_i (i2c_shift_step ch i s)" "is_is_read (i2c_shift_step ch i s) = rd"
    using Cons.prems by (simp_all add: pause_step)
  then show ?case using Cons.IH [of "i2c_shift_step ch i s"] Cons.prems(5) by simp
qed simp

text \<open>
  C14 (i2c clock stretching): while the firmware has not serviced the status register, a paused
  target stays paused and holds the clock line low, however long that takes; the first serviced
  cycle starts the read or the write, with the bit counter at zero.
\<close>

theorem i2c_stretch_until_serviced:
  fixes ch "is" i s
  defines "rd \<equiv> is_is_read s"
    and "t \<equiv> run (i2c_shift_step ch) is s"
  assumes "is_fsm s = PAUSE" "is_scl_drv_reg s" "\<not> is_scl_i s"
    and "\<forall>j \<in> set (is @ [i]). \<not> in_slave_addr_re j \<and> \<not> in_scl_raw j"
    and "\<forall>j \<in> set is. \<not> serviced rd j" "serviced rd i"
  shows "is_fsm t = PAUSE \<and> is_scl_drv_reg t
    \<and> is_fsm (i2c_shift_step ch i t) = (if rd then DO_READ else DO_WRITE)
    \<and> is_counter (i2c_shift_step ch i t) = 0"
proof -
  have held: "is_fsm t = PAUSE \<and> is_scl_drv_reg t \<and> \<not> is_scl_i t \<and> is_is_read t = rd"
    unfolding t_def using assms(3-7) by (intro pause_run) (simp_all add: rd_def)
  moreover have "is_fsm (i2c_shift_step ch i t) = (if rd then DO_READ else DO_WRITE)"
    "is_counter (i2c_shift_step ch i t) = 0"
    using held assms(6,8) pause_step [of t i ch] by simp_all
  ultimately show ?thesis by simp
qed

text \<open>The state of the target while it presents bit \<open>b\<close>, number \<open>k\<close> of the byte.\<close>

definition presenting :: "4 word \<Rightarrow> bool \<Rightarrow> i2c_shift \<Rightarrow> bool" where
  "presenting k b s =
     (is_fsm s = DO_READ \<and> is_data_drv s \<and> is_data_bit s = b \<and> is_sda_drv_reg s = (\<not> b)
      \<and> (is_scl_i s \<or> is_counter s = k))"

lemma presenting_step:
  assumes "presenting k b s" "k \<noteq> 8" "b = ch (in_shift_reg i) k"
    and "\<not> i2c_start s" "\<not> in_slave_addr_re i" "in_scl_raw i \<or> \<not> is_scl_i s"
  shows "presenting k b (i2c_shift_step ch i s)"
  using assms
  by (auto simp: presenting_def i2c_shift_step_def i2c_shift_act_def i2c_state_act_def
      i2c_no_act_def Let_def sda_drv_def counter_next_def scl_rising_def)

lemma read_low_step:
  assumes "is_fsm s = DO_READ" "is_counter s = k" "k \<noteq> 8" "\<not> is_scl_i s"
    and "\<not> in_slave_addr_re i" "\<not> in_scl_raw i"
  shows "is_fsm (i2c_shift_step ch i s) = DO_READ" "is_counter (i2c_shift_step ch i s) = k"
    "\<not> is_scl_i (i2c_shift_step ch i s)"
    "is_data_drv (i2c_shift_step ch i s)"
    "is_data_bit (i2c_shift_step ch i s) = ch (in_shift_reg i) k"
    "is_data_drv s \<Longrightarrow> is_sda_drv_reg (i2c_shift_step ch i s) = (\<not> is_data_bit s)"
  using assms
  by (auto simp: i2c_shift_step_def i2c_shift_act_def i2c_state_act_def i2c_start_def
      i2c_no_act_def Let_def sda_drv_def counter_next_def scl_rising_def)

lemma presenting_low_run:
  assumes "presenting k b s" "\<not> is_scl_i s" "k \<noteq> 8"
    and "\<forall>i \<in> set is. \<not> in_slave_addr_re i \<and> \<not> in_scl_raw i \<and> ch (in_shift_reg i) k = b"
  shows "presenting k b (run (i2c_shift_step ch) is s)"
  using assms
proof (induction "is" arbitrary: s)
  case (Cons i "is")
  have "presenting k b (i2c_shift_step ch i s)"
    using Cons.prems by (intro presenting_step) (auto simp: i2c_start_def)
  moreover have "\<not> is_scl_i (i2c_shift_step ch i s)"
    using Cons.prems by (simp add: step_fields)
  ultimately show ?case using Cons.IH Cons.prems(3,4) by simp
qed simp

lemma presenting_high_run:
  assumes "presenting k b s" "k \<noteq> 8" "undisturbed ch is s"
    and "\<forall>i \<in> set is. in_scl_raw i \<and> ch (in_shift_reg i) k = b"
  shows "presenting k b (run (i2c_shift_step ch) is s)"
  using assms
proof (induction "is" arbitrary: s)
  case (Cons i "is")
  have "presenting k b (i2c_shift_step ch i s)"
    using Cons.prems by (intro presenting_step) auto
  then show ?case using Cons.IH Cons.prems by simp
qed simp

text \<open>
  In a read transfer, from the second cycle of the low phase of the clock and
  through the whole high phase that follows, the data line carries bit 7 - k of the shift CSR,
  where k counts the clock edges of the byte: it is pulled low exactly when that bit is 0.
\<close>

theorem i2c_read_bit:
  fixes ch lows highs s and w :: "8 word" and k :: "4 word"
  assumes chooser: "\<forall>v c. unat c < 8 \<longrightarrow> ch v c = bit v (7 - unat (c :: 4 word))"
    and "is_fsm s = DO_READ" "is_counter s = k" "k < 8" "\<not> is_scl_i s"
    and "2 \<le> length lows" "\<forall>i \<in> set lows. \<not> in_scl_raw i \<and> \<not> in_slave_addr_re i"
    and "\<forall>i \<in> set highs. in_scl_raw i"
    and "undisturbed ch highs (run (i2c_shift_step ch) lows s)"
    and "\<forall>i \<in> set (lows @ highs). in_shift_reg i = w"
  shows "is_sda_drv_reg (run (i2c_shift_step ch) (lows @ highs) s) = (\<not> bit w (7 - unat k))"
proof -
  obtain i j js where lows: "lows = i # j # js"
    using assms(6) by (cases lows; cases "tl lows") auto
  have k: "k \<noteq> 8" "unat k < 8" using assms(4) by (auto simp: word_less_nat_alt)
  let ?s1 = "i2c_shift_step ch i s" and ?b = "bit w (7 - unat k)"
  let ?s2 = "i2c_shift_step ch j ?s1"
  have c: "ch w k = ?b" using chooser k(2) by blast
  have ij: "\<not> in_slave_addr_re i" "\<not> in_scl_raw i" "\<not> in_slave_addr_re j" "\<not> in_scl_raw j"
      "ch (in_shift_reg i) k = ?b" "ch (in_shift_reg j) k = ?b"
    using assms(7,10) c by (simp_all add: lows)
  note s1 = read_low_step [OF assms(2,3) k(1) assms(5) ij(1,2), of ch, unfolded ij(5)]
  note s2' = read_low_step [OF s1(1,2) k(1) s1(3) ij(3,4), of ch, unfolded ij(6)]
  have s2: "presenting k ?b ?s2" "\<not> is_scl_i ?s2"
    unfolding presenting_def using s2' s1(4,5) by simp_all
  have "presenting k ?b (run (i2c_shift_step ch) js ?s2)"
    by (rule presenting_low_run [OF s2 k(1)]) (use assms(7,10) c in \<open>simp add: lows\<close>)
  then have "presenting k ?b (run (i2c_shift_step ch) lows s)"
    by (simp only: lows run.simps)
  then have "presenting k ?b (run (i2c_shift_step ch) highs (run (i2c_shift_step ch) lows s))"
    by (rule presenting_high_run [OF _ k(1) assms(9)]) (use assms(8,10) c in simp)
  then show ?thesis by (simp add: presenting_def)
qed

section \<open>Concrete transfers\<close>

definition demo_i2c_in :: "bool \<Rightarrow> bool \<Rightarrow> i2c_shift_in" where
  "demo_i2c_in scl sda =
     \<lparr>in_scl_raw = scl, in_sda_raw = sda, in_shift_reg = 0xA5, in_status = STATUS_EMPTY,
      in_slave_addr = 0x50, in_slave_addr_re = False\<rparr>"

definition demo_bit :: "bool \<Rightarrow> i2c_shift_in list" where
  "demo_bit b = replicate 8 (demo_i2c_in False b) @ replicate 8 (demo_i2c_in True b)"

definition demo_cycles :: "i2c_shift_in list" where
  "demo_cycles = concat (map demo_bit [True, False, True, False, False, False, False, True])"

definition demo_chooser :: "8 word \<Rightarrow> 4 word \<Rightarrow> bool" where
  "demo_chooser w c = bit w (7 - unat c)"

definition demo_state :: "i2c_fsm \<Rightarrow> i2c_shift" where
  "demo_state f = i2c_shift_init\<lparr>is_fsm := f, is_samp_carry := True, is_sda_r := True, is_sda_i := True\<rparr>"

lemma demo_cycles_split:
  "take 121 demo_cycles @ [demo_i2c_in True True, demo_i2c_in True True] = take 123 demo_cycles"
  "take 121 demo_cycles @ [demo_i2c_in True True] = take 122 demo_cycles"
  by code_simp+

lemma demo_address_undisturbed:
  "undisturbed demo_chooser (take 123 demo_cycles) (demo_state RCV_ADDRESS)"
  by code_simp

lemma demo_address_samples:
  "collect (i2c_shift_step demo_chooser) sampled (take 122 demo_cycles) (demo_state RCV_ADDRESS)
     = [True, False, True, False, False, False, False] @ [True]"
  "collect (i2c_shift_step demo_chooser) sampled (take 121 demo_cycles) (demo_state RCV_ADDRESS)
     = [True, False, True, False, False, False, False]"
  by code_simp+

lemma demo_write_undisturbed:
  "undisturbed demo_chooser (take 123 demo_cycles) (demo_state DO_WRITE)"
  by code_simp

lemma demo_write_samples:
  "collect (i2c_shift_step demo_chooser) sampled (take 122 demo_cycles) (demo_state DO_WRITE)
     = [True, False, True, False, False, False, False, True]"
  "length (collect (i2c_shift_step demo_chooser) sampled (take 121 demo_cycles) (demo_state DO_WRITE)) = 7"
  by code_simp+


theorem i2c_write_byte_witness:
  "\<exists>w. ac_shift_w (i2c_shift_act (demo_i2c_in True True)
          (run (i2c_shift_step demo_chooser) (take 122 demo_cycles) (demo_state DO_WRITE))) = Some w
     \<and> unat w = 0xA1"
proof -
  have "msb_value [True, False, True, False, False, False, False, True] = 0xA1"
    by code_simp
  then show ?thesis
    using i2c_write_byte [of "demo_state DO_WRITE" demo_chooser "take 121 demo_cycles"
        "demo_i2c_in True True" "demo_i2c_in True True", unfolded demo_cycles_split,
        OF _ _ demo_write_undisturbed demo_write_samples(2) demo_write_samples(1)]
    by (auto simp: demo_state_def i2c_shift_init_def)
qed

theorem i2c_stretch_until_serviced_witness:
  "is_fsm (i2c_shift_step demo_chooser ((demo_i2c_in False True)\<lparr>in_status := STATUS_FULL\<rparr>)
     (run (i2c_shift_step demo_chooser) (replicate 5 (demo_i2c_in False True))
       ((demo_state PAUSE)\<lparr>is_is_read := True, is_scl_drv_reg := True\<rparr>))) = DO_READ"
  using i2c_stretch_until_serviced [of "(demo_state PAUSE)\<lparr>is_is_read := True, is_scl_drv_reg := True\<rparr>"
      "replicate 5 (demo_i2c_in False True)" "(demo_i2c_in False True)\<lparr>in_status := STATUS_FULL\<rparr>"
      demo_chooser]
  by (simp add: demo_state_def i2c_shift_init_def demo_i2c_in_def serviced_def shift_reg_full_def
      shift_reg_empty_def STATUS_FULL_def STATUS_EMPTY_def)

theorem i2c_read_bit_witness:
  "is_sda_drv_reg (run (i2c_shift_step demo_chooser)
      (replicate 3 (demo_i2c_in False True) @ []) ((demo_state DO_READ)\<lparr>is_counter := 1\<rparr>))"
  using i2c_read_bit [of demo_chooser "(demo_state DO_READ)\<lparr>is_counter := 1\<rparr>" 1
      "replicate 3 (demo_i2c_in False True)" "[]" "0xA5"]
  by (simp add: demo_state_def i2c_shift_init_def demo_i2c_in_def demo_chooser_def del: run.simps)

end
