(* ===== verification/Spi_Flash.thy ===== *)
theory Spi_Flash
  imports Hdl_Prelude
begin

text \<open>
  The memory-mapped SPI flash reader, \<open>gateware/spi_flash.py\<close>: the command formatter, the
  constructor checks of \<open>SpiFlashDualQuad\<close> and \<open>SpiFlashSingle\<close>, the shift engine both have, the
  sequence of timed statements each hands to Migen's \<open>timeline\<close>, and the pads in bit-bang and in
  hardware mode.  Signals are lists of bits, most significant bit first, so that the width of the
  bus is an argument.  \<open>timeline\<close> is library code: it is a parameter that tells which statements
  fire in which cycle after the trigger.
\<close>

section \<open>Formatting the command\<close>

definition FAST_READ :: int where "FAST_READ = 0x0b"
definition DIOFR :: int where "DIOFR = 0xbb"
definition QIOFR :: int where "QIOFR = 0xeb"

definition clear_line :: "int \<Rightarrow> nat \<Rightarrow> int \<Rightarrow> nat \<Rightarrow> int" where
  "clear_line cmd spi_width c b =
     (if drop_bit b cmd mod 2 = 0 then c AND NOT (push_bit (b * spi_width) 1) else c)"

definition format_cmd :: "int \<Rightarrow> nat \<Rightarrow> int" where
  "format_cmd cmd spi_width = foldl (clear_line cmd spi_width) (2 ^ (8 * spi_width) - 1) [0..<8]"

text \<open>The low \<open>n\<close> bits of an integer, most significant first.\<close>

definition bits_msb :: "nat \<Rightarrow> int \<Rightarrow> bool list" where
  "bits_msb n x = map (bit x) (rev [0..<n])"

section \<open>Parameters and constructor checks\<close>

record spi_params =
  sp_width :: nat
  sp_dummy :: nat
  sp_div :: nat
  sp_wbone_width :: nat

definition addr_width :: nat where "addr_width = 24"

text \<open>The read command and its width on the data lines: a table for two and four lines.\<close>

definition read_cmd_params :: "nat \<Rightarrow> (int \<times> nat) py_result" where
  "read_cmd_params spi_width =
     (if spi_width = 4 then Inr (format_cmd QIOFR 4, 4 * 8)
      else if spi_width = 2 then Inr (format_cmd DIOFR 2, 2 * 8)
      else Inl KeyError)"

definition check_div :: "nat \<Rightarrow> unit py_result" where
  "check_div d = (if d < 2 then Inl ValueError else Inr ())"

text \<open>
  A constructor that returns gives the read command, its width, and the number of zero bits put
  below the bus address: \<open>log2_int\<close> of the library, a parameter, applied to the bytes of a word.
\<close>

definition SpiFlashDualQuad_init ::
    "(nat \<Rightarrow> nat py_result) \<Rightarrow> spi_params \<Rightarrow> (int \<times> nat \<times> nat) py_result" where
  "SpiFlashDualQuad_init log2_int p =
     py_bind (py_assert (2 \<le> sp_width p)) (\<lambda>_.
     py_bind (read_cmd_params (sp_width p)) (\<lambda>(read_cmd, cmd_width).
     py_bind (check_div (sp_div p)) (\<lambda>_.
     py_bind (log2_int (sp_wbone_width p div 8)) (\<lambda>z. Inr (read_cmd, cmd_width, z)))))"

definition SpiFlashSingle_init ::
    "(nat \<Rightarrow> nat py_result) \<Rightarrow> spi_params \<Rightarrow> (int \<times> nat \<times> nat) py_result" where
  "SpiFlashSingle_init log2_int p =
     py_bind (check_div (sp_div p)) (\<lambda>_.
     py_bind (log2_int (sp_wbone_width p div 8)) (\<lambda>z. Inr (FAST_READ, 8, z)))"

text \<open>\<open>SpiFlash\<close> picks the class by the pads it is given.\<close>

definition SpiFlash ::
    "(nat \<Rightarrow> nat py_result) \<Rightarrow> bool \<Rightarrow> spi_params \<Rightarrow> (int \<times> nat \<times> nat) py_result" where
  "SpiFlash log2_int has_mosi p =
     (if has_mosi then SpiFlashSingle_init log2_int p else SpiFlashDualQuad_init log2_int p)"

section \<open>The shift engine\<close>

record spi_flash =
  sf_cs_n :: bool
  sf_clk :: bool
  sf_dq_oe :: bool
  sf_i :: nat
  sf_dqi :: "bool list"
  sf_sr :: "bool list"
  sf_ack :: bool

definition sr_width :: "nat \<Rightarrow> nat \<Rightarrow> nat" where
  "sr_width cmd_width wbone_width = max (max cmd_width addr_width) wbone_width"

definition spi_flash_init :: "nat \<Rightarrow> nat \<Rightarrow> nat \<Rightarrow> spi_flash" where
  "spi_flash_init spi_width cmd_width wbone_width =
     \<lparr>sf_cs_n = True, sf_clk = False, sf_dq_oe = False, sf_i = 0,
      sf_dqi = replicate spi_width False,
      sf_sr = replicate (sr_width cmd_width wbone_width) False, sf_ack = False\<rparr>"

text \<open>The clock divider and the shift register, with the sampled input lines \<open>dq\<close>.\<close>

definition spi_shift_step :: "nat \<Rightarrow> nat \<Rightarrow> bool list \<Rightarrow> spi_flash \<Rightarrow> spi_flash" where
  "spi_shift_step spi_width d dq s =
     (let s1 = (if sf_i s = d div 2 - 1 then s\<lparr>sf_clk := True, sf_dqi := dq\<rparr> else s)
      in if sf_i s = d - 1
         then s1\<lparr>sf_i := 0, sf_clk := False, sf_sr := drop spi_width (sf_sr s) @ sf_dqi s\<rparr>
         else s1\<lparr>sf_i := sf_i s + 1\<rparr>)"

section \<open>The timed statements\<close>

datatype spi_stmt =
    Set_dq_oe bool
  | Set_cs_n bool
  | Set_ack bool
  | Load_cmd nat int
  | Load_adr

text \<open>
  \<open>sr[-n:].eq(v)\<close> replaces the top \<open>n\<close> bits of the shift register.  The address is the word
  address of the bus above \<open>z\<close> zero bits, cut to 24 bits.
\<close>

definition byte_address :: "nat \<Rightarrow> int \<Rightarrow> int" where
  "byte_address z adr = adr * 2 ^ z"

definition exec_stmt :: "nat \<Rightarrow> int \<Rightarrow> spi_stmt \<Rightarrow> spi_flash \<Rightarrow> spi_flash" where
  "exec_stmt z adr st s =
     (case st of
        Set_dq_oe b \<Rightarrow> s\<lparr>sf_dq_oe := b\<rparr>
      | Set_cs_n b \<Rightarrow> s\<lparr>sf_cs_n := b\<rparr>
      | Set_ack b \<Rightarrow> s\<lparr>sf_ack := b\<rparr>
      | Load_cmd n c \<Rightarrow> s\<lparr>sf_sr := bits_msb n c @ drop n (sf_sr s)\<rparr>
      | Load_adr \<Rightarrow>
          s\<lparr>sf_sr := bits_msb addr_width (byte_address z adr) @ drop addr_width (sf_sr s)\<rparr>)"

definition dual_quad_seq :: "spi_params \<Rightarrow> int \<Rightarrow> nat \<Rightarrow> (nat \<times> spi_stmt list) list" where
  "dual_quad_seq p read_cmd cmd_width =
     [(cmd_width div sp_width p * sp_div p,
         [Set_dq_oe True, Set_cs_n False, Load_cmd cmd_width read_cmd]),
      (addr_width div sp_width p * sp_div p, [Load_adr]),
      ((sp_dummy p + sp_wbone_width p div sp_width p) * sp_div p, [Set_dq_oe False]),
      (1, [Set_ack True, Set_cs_n True]),
      (sp_div p, [Set_ack False]),
      (0, [])]"

definition single_seq :: "spi_params \<Rightarrow> (nat \<times> spi_stmt list) list" where
  "single_seq p =
     [(8 * sp_div p, [Set_cs_n False, Load_cmd 8 FAST_READ]),
      (addr_width * sp_div p, [Load_adr]),
      ((sp_dummy p + sp_wbone_width p) * sp_div p, []),
      (1, [Set_ack True, Set_cs_n True]),
      (sp_div p, [Set_ack False]),
      (0, [])]"

fun accumulate :: "nat \<Rightarrow> (nat \<times> 'a) list \<Rightarrow> (nat \<times> 'a) list" where
  "accumulate t [] = []"
| "accumulate t ((dt, a) # seq) = (t, a) # accumulate (t + dt) seq"

text \<open>
  One clock edge, with the statements the timeline fires in it.  The timeline comes after the
  shift engine in the list of synchronous statements, so what it assigns wins.
\<close>

definition spi_flash_step ::
    "nat \<Rightarrow> nat \<Rightarrow> nat \<Rightarrow> int \<Rightarrow> spi_stmt list \<Rightarrow> bool list \<Rightarrow> spi_flash \<Rightarrow> spi_flash" where
  "spi_flash_step spi_width d z adr stmts dq s =
     fold (exec_stmt z adr) stmts (spi_shift_step spi_width d dq s)"

definition spi_trigger :: "nat \<Rightarrow> bool \<Rightarrow> bool \<Rightarrow> spi_flash \<Rightarrow> bool" where
  "spi_trigger d cyc stb s = (cyc \<and> stb \<and> sf_i s = d - 1)"

definition bus_dat_r :: "nat \<Rightarrow> (bool list \<Rightarrow> bool list) \<Rightarrow> bool \<Rightarrow> spi_flash \<Rightarrow> bool list" where
  "bus_dat_r wbone_width reverse_bytes big_endian s =
     (let v = (if big_endian then sf_sr s else reverse_bytes (sf_sr s))
      in drop (length v - wbone_width) v)"

section \<open>The pads\<close>

record spi_pads =
  pd_clk :: bool
  pd_cs_n :: bool
  pd_out :: "bool list"
  pd_oe :: bool

record bitbang_csr =
  bb_storage :: "4 word"
  bb_en :: bool

text \<open>
  \<open>dq.o\<close> in bit-bang mode is \<open>Cat(storage[0], Replicate(1, n-1))\<close>: the data bit on line 0, the
  other lines high.  \<open>None\<close> stands for a core built without the bit-bang registers.
\<close>

definition dual_quad_pads :: "nat \<Rightarrow> bitbang_csr option \<Rightarrow> spi_flash \<Rightarrow> spi_pads" where
  "dual_quad_pads spi_width bb s =
     (let hw = \<lparr>pd_clk = sf_clk s, pd_cs_n = sf_cs_n s, pd_out = take spi_width (sf_sr s),
                pd_oe = sf_dq_oe s\<rparr>
      in case bb of
           None \<Rightarrow> hw
         | Some b \<Rightarrow>
             if bb_en b
             then \<lparr>pd_clk = bit (bb_storage b) 1, pd_cs_n = bit (bb_storage b) 2,
                   pd_out = replicate (spi_width - 1) True @ [bit (bb_storage b) 0],
                   pd_oe = (if bit (bb_storage b) 3 then False else True)\<rparr>
             else hw)"

definition single_pads :: "bitbang_csr option \<Rightarrow> spi_flash \<Rightarrow> spi_pads" where
  "single_pads bb s =
     (let hw = \<lparr>pd_clk = sf_clk s, pd_cs_n = sf_cs_n s, pd_out = take 1 (sf_sr s), pd_oe = True\<rparr>
      in case bb of
           None \<Rightarrow> hw
         | Some b \<Rightarrow>
             if bb_en b
             then \<lparr>pd_clk = bit (bb_storage b) 1, pd_cs_n = bit (bb_storage b) 2,
                   pd_out = [bit (bb_storage b) 0], pd_oe = True\<rparr>
             else hw)"

text \<open>The \<open>miso\<close> status: the input line while the bit-banged clock is high, else its default 0.\<close>

definition miso_status :: "bitbang_csr \<Rightarrow> bool \<Rightarrow> bool" where
  "miso_status b line = (if bb_en b \<and> bit (bb_storage b) 1 then line else False)"


section \<open>The command on the lines\<close>

lemma bit_format_cmd_prefix:
  assumes "0 < w"
  shows "bit (foldl (clear_line cmd w) (2 ^ (8 * w) - 1) [0..<n]) k \<longleftrightarrow>
     k < 8 * w \<and> (w dvd k \<and> k div w < n \<longrightarrow> bit cmd (k div w))"
proof (induction n)
  case 0
  then show ?case by (simp add: bit_mask_iff flip: mask_eq_exp_minus_1)
next
  case (Suc n)
  have k: "k = n * w \<longleftrightarrow> w dvd k \<and> k div w = n" using assms by auto
  have c: "drop_bit n cmd mod 2 = 0 \<longleftrightarrow> \<not> bit cmd n"
    by (simp add: bit_iff_odd_drop_bit even_iff_mod_2_eq_zero)
  have "bit (clear_line cmd w c n) k \<longleftrightarrow> bit c k \<and> (k = n * w \<longrightarrow> bit cmd n)" for c
    unfolding clear_line_def c by (auto simp: bit_simps)
  with Suc show ?case by (auto simp: k less_Suc_eq)
qed

text \<open>Extended to the data lines, the command keeps its bits on line 0 and holds the others high.\<close>

lemma format_cmd_bits:
  assumes "0 < w"
  shows "bit (format_cmd cmd w) k \<longleftrightarrow> k < 8 * w \<and> (w dvd k \<longrightarrow> bit cmd (k div w))"
  using bit_format_cmd_prefix [OF assms, of cmd 8 k] assms
  by (auto simp: format_cmd_def less_mult_imp_div_less mult.commute)

section \<open>Whole periods of the serial clock\<close>

lemma length_bits_msb [simp]: "length (bits_msb n x) = n"
  by (simp add: bits_msb_def)

text \<open>A run of the shift engine in which the timeline is silent.\<close>

definition shift_run :: "nat \<Rightarrow> nat \<Rightarrow> (nat \<Rightarrow> bool list) \<Rightarrow> nat list \<Rightarrow> spi_flash \<Rightarrow> spi_flash" where
  "shift_run w d dq ns s = run (\<lambda>n. spi_shift_step w d (dq n)) ns s"

lemma shift_run_append: "shift_run w d dq (ms @ ns) s = shift_run w d dq ns (shift_run w d dq ms s)"
  by (simp add: shift_run_def)

lemma shift_run_part:
  assumes "2 \<le> d" "sf_i s = 0" "m < d"
  shows "shift_run w d dq [c..<c + m] s =
     s\<lparr>sf_i := m, sf_clk := (d div 2 \<le> m \<or> sf_clk s),
       sf_dqi := (if d div 2 \<le> m then dq (c + d div 2 - 1) else sf_dqi s)\<rparr>"
  using assms(3)
proof (induction m)
  case 0
  from assms(1) have "\<not> d div 2 \<le> 0" by simp
  with assms(2) show ?case by (simp add: shift_run_def)
next
  case (Suc m)
  have "[c..<c + Suc m] = [c..<c + m] @ [c + m]" by simp
  then have "shift_run w d dq [c..<c + Suc m] s = spi_shift_step w d (dq (c + m)) (shift_run w d dq [c..<c + m] s)"
    by (simp only: shift_run_append) (simp add: shift_run_def)
  moreover have "m = d div 2 - 1 \<longleftrightarrow> Suc m = d div 2" "m = d div 2 - 1 \<Longrightarrow> c + m = c + d div 2 - 1"
    using assms(1) by auto
  ultimately show ?case
    using Suc assms(1) by (auto simp: spi_shift_step_def Let_def)
qed

lemma shift_run_period:
  assumes "2 \<le> d" "sf_i s = 0"
  shows "shift_run w d dq [c..<c + d] s =
     s\<lparr>sf_i := 0, sf_clk := False, sf_dqi := dq (c + d div 2 - 1),
       sf_sr := drop w (sf_sr s) @ dq (c + d div 2 - 1)\<rparr>"
proof -
  have "[c..<c + d] = [c..<c + (d - 1)] @ [c + (d - 1)]"
    using assms(1) upt_Suc_append [of c "c + (d - 1)"] by (simp add: Suc_diff_Suc)
  then show ?thesis
    using assms shift_run_part [OF assms, of "d - 1"]
    by (simp only: shift_run_append) (auto simp: shift_run_def spi_shift_step_def Let_def)
qed

text \<open>The cycle in which period \<open>p\<close> of a run from cycle \<open>c\<close> samples the lines.\<close>

definition sample_cycle :: "nat \<Rightarrow> nat \<Rightarrow> nat \<Rightarrow> nat" where
  "sample_cycle d c p = c + p * d + d div 2 - 1"

definition samples :: "nat \<Rightarrow> nat \<Rightarrow> (nat \<Rightarrow> bool list) \<Rightarrow> nat \<Rightarrow> bool list" where
  "samples d c dq q = concat (map (\<lambda>p. dq (sample_cycle d c p)) [0..<q])"

lemma samples_Suc: "samples d c dq (Suc q) = samples d c dq q @ dq (sample_cycle d c q)"
  by (simp add: samples_def)

lemma length_samples: "\<forall>n. length (dq n) = w \<Longrightarrow> length (samples d c dq q) = q * w"
  by (induction q) (simp_all add: samples_Suc, simp add: samples_def)

lemma drop_short_append: "n \<le> length xs \<Longrightarrow> drop n (xs @ ys) = drop n xs @ ys"
  by simp

lemma shift_run_periods:
  assumes "2 \<le> d" "sf_i s = 0" "w \<le> length (sf_sr s)" "\<forall>n. length (dq n) = w"
  shows "sf_i (shift_run w d dq [c..<c + q * d] s) = 0"
    and "sf_sr (shift_run w d dq [c..<c + q * d] s) = drop (q * w) (sf_sr s @ samples d c dq q)"
    and "sf_cs_n (shift_run w d dq [c..<c + q * d] s) = sf_cs_n s"
    and "sf_dq_oe (shift_run w d dq [c..<c + q * d] s) = sf_dq_oe s"
    and "sf_ack (shift_run w d dq [c..<c + q * d] s) = sf_ack s"
proof (induction q)
  case 0
  { case 1 then show ?case using assms by (simp add: shift_run_def)
  next case 2 then show ?case by (simp add: shift_run_def samples_def)
  next case 3 then show ?case by (simp add: shift_run_def)
  next case 4 then show ?case by (simp add: shift_run_def)
  next case 5 then show ?case by (simp add: shift_run_def) }
next
  case (Suc q)
  let ?u = "shift_run w d dq [c..<c + q * d] s"
  have "[c..<c + Suc q * d] = [c..<c + q * d] @ [c + q * d..<(c + q * d) + d]"
    using upt_add_eq_append [of c "c + q * d" d] by (simp add: algebra_simps)
  then have st: "shift_run w d dq [c..<c + Suc q * d] s =
     ?u\<lparr>sf_i := 0, sf_clk := False, sf_dqi := dq (sample_cycle d c q),
        sf_sr := drop w (sf_sr ?u) @ dq (sample_cycle d c q)\<rparr>"
    using shift_run_period [OF assms(1) Suc(1)]
    by (simp only: shift_run_append sample_cycle_def)
  { case 1 then show ?case by (simp only: st) simp
  next
    case 2
    have "length (samples d c dq q) = q * w" using assms(4) by (rule length_samples)
    then have "w + q * w \<le> length (sf_sr s @ samples d c dq q)" using assms(3) by simp
    note d = drop_short_append [OF this, of "dq (sample_cycle d c q)"]
    have "sf_sr (shift_run w d dq [c..<c + Suc q * d] s) = drop w (sf_sr ?u) @ dq (sample_cycle d c q)"
      by (simp only: st) simp
    also have "\<dots> = drop (Suc q * w) (sf_sr s @ samples d c dq (Suc q))"
      using d by (simp only: Suc(2) drop_drop samples_Suc append_assoc mult_Suc)
    finally show ?case .
  next case 3 then show ?case using Suc(3) by (simp only: st) simp
  next case 4 then show ?case using Suc(4) by (simp only: st) simp
  next case 5 then show ?case using Suc(5) by (simp only: st) simp }
qed


section \<open>A read transaction\<close>

text \<open>
  Cycle 0 is the cycle in which the trigger holds; \<open>tml tseq n\<close> are the statements that the
  timeline fires in cycle \<open>n\<close>.  The documented behaviour of \<open>timeline\<close> is that each entry fires
  once, its offset after the trigger.
\<close>

definition timeline_spec :: "((nat \<times> spi_stmt list) list \<Rightarrow> nat \<Rightarrow> spi_stmt list) \<Rightarrow> bool" where
  "timeline_spec tml \<longleftrightarrow>
     (\<forall>tseq n. tml tseq n = concat (map snd (filter (\<lambda>e. fst e = n) tseq)))"

definition spi_cycle ::
    "nat \<Rightarrow> nat \<Rightarrow> nat \<Rightarrow> int \<Rightarrow> (nat \<Rightarrow> spi_stmt list) \<Rightarrow> (nat \<Rightarrow> bool list) \<Rightarrow> nat \<Rightarrow> spi_flash \<Rightarrow> spi_flash" where
  "spi_cycle w d z adr ev dq n = spi_flash_step w d z adr (ev n) (dq n)"

lemma silent_run:
  assumes "\<And>n. n \<in> set ns \<Longrightarrow> ev n = []"
  shows "run (spi_cycle w d z adr ev dq) ns s = shift_run w d dq ns s"
  using assms
  by (induction ns arbitrary: s) (simp_all add: spi_cycle_def spi_flash_step_def shift_run_def)

lemma phase_run:
  assumes "0 < q" "0 < d" and silent: "\<And>n. c \<le> n \<Longrightarrow> n < c + q * d - 1 \<Longrightarrow> ev n = []"
  shows "run (spi_cycle w d z adr ev dq) [c..<c + q * d] s
     = fold (exec_stmt z adr) (ev (c + q * d - 1)) (shift_run w d dq [c..<c + q * d] s)"
proof -
  let ?l = "c + q * d - 1"
  have "c \<le> ?l" using assms(1,2) by (cases "q * d") auto
  then have "[c..<c + q * d] = [c..<?l] @ [?l]"
    using upt_Suc_append [of c ?l] assms(1,2) by simp
  moreover have "run (spi_cycle w d z adr ev dq) [c..<?l] s = shift_run w d dq [c..<?l] s"
    by (rule silent_run) (simp add: silent)
  ultimately show ?thesis
    by (simp only: shift_run_append run_append)
       (simp add: shift_run_def spi_cycle_def spi_flash_step_def)
qed

lemma accumulate_dual_quad:
  "accumulate 0 (dual_quad_seq p c n) =
     (let t1 = n div sp_width p * sp_div p; t2 = t1 + addr_width div sp_width p * sp_div p;
          t3 = t2 + (sp_dummy p + sp_wbone_width p div sp_width p) * sp_div p
      in [(0, [Set_dq_oe True, Set_cs_n False, Load_cmd n c]), (t1, [Load_adr]),
          (t2, [Set_dq_oe False]), (t3, [Set_ack True, Set_cs_n True]),
          (t3 + 1, [Set_ack False]), (t3 + 1 + sp_div p, [])])"
  by (simp add: dual_quad_seq_def Let_def algebra_simps)


lemma shift_run_within:
  assumes "2 \<le> d" "sf_i s = 0" "w \<le> length (sf_sr s)" "\<forall>n. length (dq n) = w" "r < d"
  shows "sf_sr (shift_run w d dq [c..<c + (q * d + r)] s) = drop (q * w) (sf_sr s @ samples d c dq q)"
    and "sf_cs_n (shift_run w d dq [c..<c + (q * d + r)] s) = sf_cs_n s"
    and "sf_dq_oe (shift_run w d dq [c..<c + (q * d + r)] s) = sf_dq_oe s"
proof -
  let ?u = "shift_run w d dq [c..<c + q * d] s"
  note u = shift_run_periods [OF assms(1-4)]
  have "[c..<c + (q * d + r)] = [c..<c + q * d] @ [c + q * d..<c + q * d + r]"
    using upt_add_eq_append [of c "c + q * d" r] by (simp add: add.assoc)
  then have "shift_run w d dq [c..<c + (q * d + r)] s = shift_run w d dq [c + q * d..<c + q * d + r] ?u"
    by (simp only: shift_run_append)
  then have st: "shift_run w d dq [c..<c + (q * d + r)] s =
     ?u\<lparr>sf_i := r, sf_clk := (d div 2 \<le> r \<or> sf_clk ?u),
       sf_dqi := (if d div 2 \<le> r then dq (c + q * d + d div 2 - 1) else sf_dqi ?u)\<rparr>"
    by (simp only: shift_run_part [OF assms(1) u(1) assms(5)])
  show "sf_sr (shift_run w d dq [c..<c + (q * d + r)] s) = drop (q * w) (sf_sr s @ samples d c dq q)"
    "sf_cs_n (shift_run w d dq [c..<c + (q * d + r)] s) = sf_cs_n s"
    "sf_dq_oe (shift_run w d dq [c..<c + (q * d + r)] s) = sf_dq_oe s"
    using u by (simp_all only: st) simp_all
qed

lemma length_shift_run:
  assumes "2 \<le> d" "sf_i s = 0" "w \<le> length (sf_sr s)" "\<forall>n. length (dq n) = w"
  shows "length (sf_sr (shift_run w d dq [c..<c + q * d] s)) = length (sf_sr s)"
  using shift_run_periods(2) [OF assms] length_samples [of dq w, OF assms(4)] by simp

text \<open>
  The timing both cores share: a load of the command in the trigger cycle, a load of the address
  after \<open>cn\<close> periods, the turn-around after \<open>an\<close> more and the acknowledge after \<open>rn\<close> more.
\<close>

locale spi_transaction =
  fixes w d z cw cn an rn :: nat and cmd adr :: int and ev :: "nat \<Rightarrow> spi_stmt list"
    and dq :: "nat \<Rightarrow> bool list" and s0 :: spi_flash and oe :: bool
  assumes d: "2 \<le> d" and w: "0 < w" and cn: "0 < cn" "w * cn = cw" and an: "w * an = addr_width"
    and rn: "0 < rn"
    and dq: "\<forall>n. length (dq n) = w"
    and s0: "sf_i s0 = d - 1" "length (sf_dqi s0) = w"
      "cw \<le> length (sf_sr s0)" "addr_width \<le> length (sf_sr s0)"
    and ev_cmd: "ev 0 = (if oe then [Set_dq_oe True] else []) @ [Set_cs_n False, Load_cmd cw cmd]"
    and ev_adr: "ev (cn * d) = [Load_adr]"
    and ev_turn: "ev (cn * d + an * d) = (if oe then [Set_dq_oe False] else [])"
    and ev_ack: "ev (cn * d + an * d + rn * d) = [Set_ack True, Set_cs_n True]"
    and ev_other: "\<And>n. n < cn * d + an * d + rn * d \<Longrightarrow> n \<noteq> 0 \<Longrightarrow> n \<noteq> cn * d \<Longrightarrow>
      n \<noteq> cn * d + an * d \<Longrightarrow> ev n = []"
begin

abbreviation cyc :: "nat \<Rightarrow> spi_flash \<Rightarrow> spi_flash" where
  "cyc \<equiv> spi_cycle w d z adr ev dq"

lemma an_pos: "0 < an"
  using an by (cases an) (simp_all add: addr_width_def)

lemma d_pos: "0 < d"
  using d by simp

lemma upt_from: "a \<le> b \<Longrightarrow> [0..<b] = [0..<a] @ [a..<b]"
  using upt_add_eq_append [of 0 a "b - a"] by simp

lemma w_le: "w \<le> length (sf_sr s0)"
  using s0(3) cn by (cases cn) auto

text \<open>After the trigger cycle.\<close>

lemma after_trigger:
  shows "sf_i (run cyc [0..<1] s0) = 0" "sf_cs_n (run cyc [0..<1] s0) = False"
    "length (sf_sr (run cyc [0..<1] s0)) = length (sf_sr s0)"
    "take cw (sf_sr (run cyc [0..<1] s0)) = bits_msb cw cmd"
  using s0 d w_le
  by (auto simp: spi_cycle_def spi_flash_step_def ev_cmd exec_stmt_def spi_shift_step_def Let_def)

lemma command_phase:
  assumes "q < cn" "r < d"
  shows "take w (sf_sr (run cyc [0..<1 + (q * d + r)] s0)) = take w (drop (q * w) (bits_msb cw cmd))"
    and "sf_cs_n (run cyc [0..<1 + (q * d + r)] s0) = False"
proof -
  let ?s1 = "run cyc [0..<1] s0"
  have w1: "w \<le> length (sf_sr ?s1)" using after_trigger(3) w_le by simp
  have fit: "Suc q * d \<le> cn * d" "Suc q * w \<le> cn * w" using assms(1) by (simp_all only: mult_le_mono1 Suc_leI)
  have "run cyc [0..<1 + (q * d + r)] s0 = run cyc [1..<1 + (q * d + r)] ?s1"
    using upt_from [of 1 "1 + (q * d + r)"] by (simp only: run_append le_add1)
  also have "\<dots> = shift_run w d dq [1..<1 + (q * d + r)] ?s1"
    by (rule silent_run) (rule ev_other, use fit(1) assms(2) in auto)
  finally have st: "run cyc [0..<1 + (q * d + r)] s0 = shift_run w d dq [1..<1 + (q * d + r)] ?s1" .
  have len: "cn * w \<le> length (sf_sr ?s1)" using s0(3) cn(2) after_trigger(3) by (simp add: mult.commute)
  have "take w (drop (q * w) (sf_sr ?s1 @ xs)) = take w (drop (q * w) (take cw (sf_sr ?s1)))" for xs
    using fit(2) len by (simp add: drop_take cn(2) [symmetric] min_def mult.commute)
  then show "take w (sf_sr (run cyc [0..<1 + (q * d + r)] s0)) = take w (drop (q * w) (bits_msb cw cmd))"
    by (simp only: st shift_run_within(1) [OF d after_trigger(1) w1 dq assms(2)] after_trigger(4))
  show "sf_cs_n (run cyc [0..<1 + (q * d + r)] s0) = False"
    by (simp only: st shift_run_within(2) [OF d after_trigger(1) w1 dq assms(2)] after_trigger(2))
qed

lemma after_address:
  shows "sf_i (run cyc [0..<1 + cn * d] s0) = 0" "sf_cs_n (run cyc [0..<1 + cn * d] s0) = False"
    "length (sf_sr (run cyc [0..<1 + cn * d] s0)) = length (sf_sr s0)"
    "take addr_width (sf_sr (run cyc [0..<1 + cn * d] s0)) = bits_msb addr_width (byte_address z adr)"
proof -
  let ?s1 = "run cyc [0..<1] s0"
  have w1: "w \<le> length (sf_sr ?s1)" using after_trigger(3) w_le by simp
  let ?u = "shift_run w d dq [1..<1 + cn * d] ?s1"
  note u = shift_run_periods [OF d after_trigger(1) w1 dq, of 1 cn]
  have "run cyc [0..<1 + cn * d] s0 = run cyc [1..<1 + cn * d] ?s1"
    using upt_from [of 1 "1 + cn * d"] by (simp only: run_append le_add1)
  also have "\<dots> = fold (exec_stmt z adr) (ev (1 + cn * d - 1)) ?u"
    by (rule phase_run [OF cn(1) d_pos]) (rule ev_other, auto)
  finally have st: "run cyc [0..<1 + cn * d] s0 = exec_stmt z adr Load_adr ?u"
    by (simp only: add_diff_cancel_left' ev_adr) simp
  have len: "length (sf_sr ?u) = length (sf_sr s0)"
    using length_shift_run [OF d after_trigger(1) w1 dq, of 1 cn] after_trigger(3) by simp
  show "sf_i (run cyc [0..<1 + cn * d] s0) = 0" "sf_cs_n (run cyc [0..<1 + cn * d] s0) = False"
    using u(1,3) after_trigger(2) by (simp_all only: st) (simp_all add: exec_stmt_def)
  show "length (sf_sr (run cyc [0..<1 + cn * d] s0)) = length (sf_sr s0)"
    "take addr_width (sf_sr (run cyc [0..<1 + cn * d] s0)) = bits_msb addr_width (byte_address z adr)"
    using len s0(4) by (simp_all only: st) (simp_all add: exec_stmt_def)
qed

lemma address_phase:
  assumes "q < an" "r < d"
  shows "take w (sf_sr (run cyc [0..<1 + cn * d + (q * d + r)] s0))
           = take w (drop (q * w) (bits_msb addr_width (byte_address z adr)))"
    and "sf_cs_n (run cyc [0..<1 + cn * d + (q * d + r)] s0) = False"
proof -
  let ?s1 = "run cyc [0..<1 + cn * d] s0" and ?c = "1 + cn * d"
  have w1: "w \<le> length (sf_sr ?s1)" using after_address(3) w_le by simp
  have fit: "Suc q * d \<le> an * d" "Suc q * w \<le> an * w" using assms(1) by (simp_all only: mult_le_mono1 Suc_leI)
  have "run cyc [0..<?c + (q * d + r)] s0 = run cyc [?c..<?c + (q * d + r)] ?s1"
    using upt_from [of ?c "?c + (q * d + r)"] by (simp only: run_append le_add1)
  also have "\<dots> = shift_run w d dq [?c..<?c + (q * d + r)] ?s1"
    by (rule silent_run) (rule ev_other, use fit(1) assms(2) in auto)
  finally have st: "run cyc [0..<?c + (q * d + r)] s0 = shift_run w d dq [?c..<?c + (q * d + r)] ?s1" .
  have len: "an * w \<le> length (sf_sr ?s1)" using s0(4) an after_address(3) by (simp add: mult.commute)
  have "take w (drop (q * w) (sf_sr ?s1 @ xs)) = take w (drop (q * w) (take addr_width (sf_sr ?s1)))" for xs
    using fit(2) len by (simp add: drop_take an [symmetric] min_def mult.commute)
  then show "take w (sf_sr (run cyc [0..<?c + (q * d + r)] s0))
           = take w (drop (q * w) (bits_msb addr_width (byte_address z adr)))"
    by (simp only: st shift_run_within(1) [OF d after_address(1) w1 dq assms(2)] after_address(4))
  show "sf_cs_n (run cyc [0..<?c + (q * d + r)] s0) = False"
    by (simp only: st shift_run_within(2) [OF d after_address(1) w1 dq assms(2)] after_address(2))
qed

abbreviation turn :: nat where "turn \<equiv> 1 + cn * d + an * d"

lemma after_turn:
  shows "sf_i (run cyc [0..<turn] s0) = 0" "length (sf_sr (run cyc [0..<turn] s0)) = length (sf_sr s0)"
proof -
  let ?s1 = "run cyc [0..<1 + cn * d] s0" and ?c = "1 + cn * d"
  have w1: "w \<le> length (sf_sr ?s1)" using after_address(3) w_le by simp
  let ?u = "shift_run w d dq [?c..<?c + an * d] ?s1"
  have "run cyc [0..<turn] s0 = run cyc [?c..<?c + an * d] ?s1"
    using upt_from [of ?c "?c + an * d"] by (simp only: run_append le_add1)
  also have "\<dots> = fold (exec_stmt z adr) (ev (?c + an * d - 1)) ?u"
    by (rule phase_run [OF an_pos d_pos]) (rule ev_other, use rn d_pos in auto)
  finally have st: "run cyc [0..<turn] s0 = fold (exec_stmt z adr) (if oe then [Set_dq_oe False] else []) ?u"
    by (simp only: add.assoc add_diff_cancel_left' ev_turn)
  show "sf_i (run cyc [0..<turn] s0) = 0" "length (sf_sr (run cyc [0..<turn] s0)) = length (sf_sr s0)"
    using shift_run_periods(1) [OF d after_address(1) w1 dq, of ?c an]
      length_shift_run [OF d after_address(1) w1 dq, of ?c an] after_address(3)
    by (simp_all only: st) (simp_all add: exec_stmt_def)
qed

lemma data_phase:
  shows "sf_ack (run cyc [0..<turn + rn * d] s0)" "sf_cs_n (run cyc [0..<turn + rn * d] s0)"
    "sf_sr (run cyc [0..<turn + rn * d] s0)
       = drop (rn * w) (sf_sr (run cyc [0..<turn] s0) @ samples d turn dq rn)"
proof -
  let ?s1 = "run cyc [0..<turn] s0"
  have w1: "w \<le> length (sf_sr ?s1)" using after_turn(2) w_le by simp
  let ?u = "shift_run w d dq [turn..<turn + rn * d] ?s1"
  have "run cyc [0..<turn + rn * d] s0 = run cyc [turn..<turn + rn * d] ?s1"
    using upt_from [of turn "turn + rn * d"] by (simp only: run_append le_add1)
  also have "\<dots> = fold (exec_stmt z adr) (ev (turn + rn * d - 1)) ?u"
    by (rule phase_run [OF rn d_pos]) (rule ev_other, auto)
  finally have st: "run cyc [0..<turn + rn * d] s0 = fold (exec_stmt z adr) [Set_ack True, Set_cs_n True] ?u"
    by (simp only: add.assoc add_diff_cancel_left' ev_ack [unfolded add.assoc])
  show "sf_ack (run cyc [0..<turn + rn * d] s0)" "sf_cs_n (run cyc [0..<turn + rn * d] s0)"
    by (simp_all only: st) (simp_all add: exec_stmt_def)
  show "sf_sr (run cyc [0..<turn + rn * d] s0)
       = drop (rn * w) (sf_sr ?s1 @ samples d turn dq rn)"
    unfolding shift_run_periods(2) [OF d after_turn(1) w1 dq, of turn rn, symmetric]
    by (simp only: st) (simp add: exec_stmt_def)
qed

end


section \<open>Both cores follow that timing\<close>

lemma SpiFlashDualQuad_init_Inr:
  "SpiFlashDualQuad_init log2_int p = Inr (cmd, cw, z) \<longleftrightarrow>
     (sp_width p = 2 \<and> cmd = format_cmd DIOFR 2 \<and> cw = 16
      \<or> sp_width p = 4 \<and> cmd = format_cmd QIOFR 4 \<and> cw = 32)
     \<and> 2 \<le> sp_div p \<and> log2_int (sp_wbone_width p div 8) = Inr z"
  by (auto simp: SpiFlashDualQuad_init_def read_cmd_params_def check_div_def py_bind_Inr_iff)

lemma SpiFlashSingle_init_Inr:
  "SpiFlashSingle_init log2_int p = Inr (cmd, cw, z) \<longleftrightarrow>
     cmd = FAST_READ \<and> cw = 8 \<and> 2 \<le> sp_div p \<and> log2_int (sp_wbone_width p div 8) = Inr z"
  by (auto simp: SpiFlashSingle_init_def check_div_def py_bind_Inr_iff)

text \<open>A core waiting for a read: the divider in its last cycle, the registers of their widths.\<close>

definition spi_ready :: "spi_params \<Rightarrow> nat \<Rightarrow> spi_flash \<Rightarrow> bool" where
  "spi_ready p cw s =
     (sf_i s = sp_div p - 1 \<and> length (sf_dqi s) = sp_width p
      \<and> length (sf_sr s) = sr_width cw (sp_wbone_width p))"

lemma timeline_fires:
  "timeline_spec tml \<Longrightarrow> tml tseq n = concat (map snd (filter (\<lambda>e. fst e = n) tseq))"
  by (simp add: timeline_spec_def)

lemma dual_quad_transaction:
  assumes "timeline_spec tml" "SpiFlashDualQuad_init log2_int p = Inr (cmd, cw, z)"
    and "0 < sp_wbone_width p" "sp_width p dvd sp_wbone_width p"
    and "\<forall>n. length (dq n) = sp_width p" "spi_ready p cw s"
  shows "spi_transaction (sp_width p) (sp_div p) cw 8 (addr_width div sp_width p)
           (sp_dummy p + sp_wbone_width p div sp_width p) cmd
           (tml (accumulate 0 (dual_quad_seq p cmd cw))) dq s True"
proof -
  note i = assms(2) [unfolded SpiFlashDualQuad_init_Inr]
  have d: "0 < sp_div p" using i by auto
  have cw: "cw div sp_width p = 8" "sp_width p * 8 = cw" "0 < addr_width div sp_width p"
      "sp_width p * (addr_width div sp_width p) = addr_width" "0 < sp_width p"
    using i by (auto simp: addr_width_def)
  have rn: "0 < sp_wbone_width p div sp_width p"
    using assms(3,4) cw(5) by (auto simp: dvd_div_eq_0_iff)
  show ?thesis
    using i cw d rn assms(5,6)
    by unfold_locales
       (auto simp: timeline_fires [OF assms(1)] accumulate_dual_quad Let_def spi_ready_def sr_width_def
         algebra_simps)
qed

lemma single_transaction:
  assumes "timeline_spec tml" "SpiFlashSingle_init log2_int p = Inr (cmd, cw, z)"
    and "0 < sp_wbone_width p" "sp_width p = 1"
    and "\<forall>n. length (dq n) = 1" "spi_ready p cw s"
  shows "spi_transaction 1 (sp_div p) cw 8 addr_width
           (sp_dummy p + sp_wbone_width p) cmd
           (tml (accumulate 0 (single_seq p))) dq s False"
proof -
  note i = assms(2) [unfolded SpiFlashSingle_init_Inr]
  have d: "0 < sp_div p" "0 < addr_width" using i by (auto simp: addr_width_def)
  show ?thesis
    using i d assms(3-6)
    by unfold_locales
       (auto simp: timeline_fires [OF assms(1)] single_seq_def spi_ready_def sr_width_def
         algebra_simps)
qed


section \<open>What a read puts on the lines and takes from them\<close>

lemma format_cmd_chunk:
  assumes "0 < w" "q < 8"
  shows "take w (drop (q * w) (bits_msb (8 * w) (format_cmd cmd w))) = replicate (w - 1) True @ [bit cmd (7 - q)]"
proof (rule nth_equalityI)
  have fit: "Suc q * w \<le> 8 * w" using assms(2) by (simp only: mult_le_mono1 Suc_leI)
  then have "w \<le> 8 * w - q * w" unfolding mult_Suc by linarith
  then show "length (take w (drop (q * w) (bits_msb (8 * w) (format_cmd cmd w))))
      = length (replicate (w - 1) True @ [bit cmd (7 - q)])"
    using assms(1) by (simp add: min_absorb2)
  fix j
  assume "j < length (take w (drop (q * w) (bits_msb (8 * w) (format_cmd cmd w))))"
  then have j: "j < w" by simp
  have k: "8 * w - Suc (q * w + j) = (7 - q) * w + (w - 1 - j)"
    using fit j assms(2) by (auto simp: diff_mult_distrib)
  have "q * w + j < 8 * w" using fit j unfolding mult_Suc by linarith
  then have n: "take w (drop (q * w) (bits_msb (8 * w) c)) ! j = bit c ((7 - q) * w + (w - 1 - j))" for c
    unfolding k [symmetric] using j assms(2) by (simp add: bits_msb_def rev_nth)
  have "bit (format_cmd cmd w) ((7 - q) * w + (w - 1 - j)) = (j = w - 1 \<longrightarrow> bit cmd (7 - q))"
  proof -
    let ?x = "w - 1 - j"
    have x: "?x < w" using j by simp
    have "(7 - q) * w + ?x < 8 * w" using k fit j by linarith
    moreover have "w dvd (7 - q) * w + x \<longleftrightarrow> x = 0" if "x < w" for x
      using that by (auto simp: nat_dvd_not_less dvd_add_right_iff dest: dvd_imp_le)
    note this [OF x]
    moreover have "((7 - q) * w + x) div w = 7 - q" if "x < w" for x using that by simp
    note this [OF x]
    moreover have "?x = 0 \<longleftrightarrow> j = w - 1" using j by auto
    ultimately show ?thesis by (simp only: format_cmd_bits [OF assms(1)]) blast
  qed
  then show "take w (drop (q * w) (bits_msb (8 * w) (format_cmd cmd w))) ! j
      = (replicate (w - 1) True @ [bit cmd (7 - q)]) ! j"
    using j unfolding n by (auto simp: nth_append)
qed


lemma samples_split:
  "samples d c dq (m + k) = samples d c dq m @ concat (map (\<lambda>p. dq (sample_cycle d c (m + p))) [0..<k])"
  by (induction k) (simp_all add: samples_Suc)

lemma last_samples:
  assumes "\<forall>n. length (dq n) = w" "length x = l" "k * w \<le> l"
  shows "drop (l - k * w) (drop ((m + k) * w) (x @ samples d c dq (m + k)))
       = concat (map (\<lambda>p. dq (sample_cycle d c (m + p))) [0..<k])"
proof -
  have "length (samples d c dq m) = m * w" using assms(1) by (rule length_samples)
  moreover have "l - k * w + (m + k) * w = l + m * w" using assms(3) by (simp add: add_mult_distrib)
  ultimately show ?thesis using assms(2)
    by (simp only: drop_drop samples_split) (simp flip: append_assoc)
qed

lemma bus_dat_r_big: "bus_dat_r wb rb True s = drop (length (sf_sr s) - wb) (sf_sr s)"
  by (simp add: bus_dat_r_def Let_def)

text \<open>
  C10 (flash read, dual and quad): the bus is acknowledged, and the chip deselected, after eight
  clocks of command, the clocks of the address, the dummy clocks and the clocks of one bus word;
  the word on the bus is then made of what the flash drove in the clocks after the dummy ones, the
  first sample in the most significant place, each sampled where the serial clock rises.
\<close>

theorem dual_quad_read_word:
  fixes tml log2_int p cmd cw z adr dq s
  defines "w \<equiv> sp_width p" and "d \<equiv> sp_div p" and "wb \<equiv> sp_wbone_width p"
  defines "t \<equiv> run (spi_cycle w d z adr (tml (accumulate 0 (dual_quad_seq p cmd cw))) dq)
                 [0..<1 + (8 + addr_width div w + sp_dummy p + wb div w) * d] s"
  assumes "timeline_spec tml" "SpiFlashDualQuad_init log2_int p = Inr (cmd, cw, z)"
    and "0 < wb" "w dvd wb" "\<forall>n. length (dq n) = w" "spi_ready p cw s"
  shows "sf_ack t \<and> sf_cs_n t \<and>
     bus_dat_r wb reverse_bytes True t =
       concat (map (\<lambda>k. dq ((8 + addr_width div w + sp_dummy p + k) * d + d div 2)) [0..<wb div w])"
proof -
  note tr = dual_quad_transaction [OF assms(5,6) assms(7-10) [unfolded w_def wb_def], folded w_def d_def wb_def]
  let ?c = "1 + 8 * d + addr_width div w * d" and ?rn = "sp_dummy p + wb div w"
  let ?ev = "tml (accumulate 0 (dual_quad_seq p cmd cw))"
  have "?c + ?rn * d = 1 + (8 + addr_width div w + sp_dummy p + wb div w) * d"
    by (simp add: algebra_simps)
  note f = spi_transaction.data_phase [OF tr, where z = z and adr = adr, unfolded this, folded t_def]
  let ?x = "sf_sr (run (spi_cycle w d z adr ?ev dq) [0..<?c] s)"
  have l: "length ?x = length (sf_sr s)" by (rule spi_transaction.after_turn(2) [OF tr])
  have wb: "wb div w * w = wb" "wb \<le> length (sf_sr s)"
    using assms(8,10) by (simp_all add: spi_ready_def sr_width_def wb_def)
  have "length (sf_sr t) = length (sf_sr s)"
    using l length_samples [OF assms(9)] by (simp only: f(3)) simp
  then have "bus_dat_r wb reverse_bytes True t
      = drop (length (sf_sr s) - wb div w * w) (drop (?rn * w) (?x @ samples d ?c dq ?rn))"
    by (simp only: bus_dat_r_big f(3) wb(1))
  also have "\<dots> = concat (map (\<lambda>k. dq (sample_cycle d ?c (sp_dummy p + k))) [0..<wb div w])"
    by (rule last_samples [OF assms(9) l]) (simp only: wb)
  also have "\<dots> = concat (map (\<lambda>k. dq ((8 + addr_width div w + sp_dummy p + k) * d + d div 2)) [0..<wb div w])"
    by (simp add: sample_cycle_def algebra_simps)
  finally show ?thesis using f(1,2) by simp
qed

text \<open>
  The one-line core gives the bus the word that the flash shifts out after
  8 command, 24 address and the dummy clocks, most significant bit first.
\<close>

theorem single_read_word:
  fixes tml log2_int p cmd cw z adr dq s
  defines "d \<equiv> sp_div p" and "wb \<equiv> sp_wbone_width p"
  defines "t \<equiv> run (spi_cycle 1 d z adr (tml (accumulate 0 (single_seq p))) dq)
                 [0..<1 + (8 + addr_width + sp_dummy p + wb) * d] s"
  assumes "timeline_spec tml" "SpiFlashSingle_init log2_int p = Inr (cmd, cw, z)" "sp_width p = 1"
    and "0 < wb" "\<forall>n. length (dq n) = 1" "spi_ready p cw s"
  shows "sf_ack t \<and> sf_cs_n t \<and>
     bus_dat_r wb reverse_bytes True t =
       concat (map (\<lambda>k. dq ((8 + addr_width + sp_dummy p + k) * d + d div 2)) [0..<wb])"
proof -
  note tr = single_transaction [OF assms(4,5) assms(7) [unfolded wb_def] assms(6,8,9), folded d_def wb_def]
  let ?c = "1 + 8 * d + addr_width * d" and ?rn = "sp_dummy p + wb"
  let ?ev = "tml (accumulate 0 (single_seq p))"
  have "?c + ?rn * d = 1 + (8 + addr_width + sp_dummy p + wb) * d"
    by (simp add: algebra_simps)
  note f = spi_transaction.data_phase [OF tr, where z = z and adr = adr, unfolded this, folded t_def]
  let ?x = "sf_sr (run (spi_cycle 1 d z adr ?ev dq) [0..<?c] s)"
  have l: "length ?x = length (sf_sr s)" by (rule spi_transaction.after_turn(2) [OF tr])
  have wb: "wb * 1 = wb" "wb \<le> length (sf_sr s)"
    using assms(9) by (simp_all add: spi_ready_def sr_width_def wb_def)
  have "length (sf_sr t) = length (sf_sr s)"
    using l length_samples [OF assms(8)] by (simp only: f(3)) simp
  then have "bus_dat_r wb reverse_bytes True t
      = drop (length (sf_sr s) - wb * 1) (drop (?rn * 1) (?x @ samples d ?c dq ?rn))"
    by (simp only: bus_dat_r_big f(3) wb(1))
  also have "\<dots> = concat (map (\<lambda>k. dq (sample_cycle d ?c (sp_dummy p + k))) [0..<wb])"
    by (rule last_samples [OF assms(8) l]) (simp only: wb)
  also have "\<dots> = concat (map (\<lambda>k. dq ((8 + addr_width + sp_dummy p + k) * d + d div 2)) [0..<wb])"
    by (simp add: sample_cycle_def algebra_simps)
  finally show ?thesis using f(1,2) by simp
qed

section \<open>The flash of the Opsis board\<close>

definition opsis_flash :: spi_params where
  "opsis_flash = \<lparr>sp_width = 4, sp_dummy = 10, sp_div = 4, sp_wbone_width = 32\<rparr>"

definition demo_timeline :: "(nat \<times> spi_stmt list) list \<Rightarrow> nat \<Rightarrow> spi_stmt list" where
  "demo_timeline tseq n = concat (map snd (filter (\<lambda>e. fst e = n) tseq))"

definition demo_log2 :: "nat \<Rightarrow> nat py_result" where
  "demo_log2 n = (if n = 4 then Inr 2 else Inl ValueError)"

definition demo_flash_dq :: "nat \<Rightarrow> nat \<Rightarrow> bool list" where
  "demo_flash_dq w n = bits_msb w (int (n div 4))"

lemma demo_timeline_spec: "timeline_spec demo_timeline"
  by (simp add: timeline_spec_def demo_timeline_def)

lemma opsis_flash_fields [simp]:
  "sp_width opsis_flash = 4" "sp_dummy opsis_flash = 10" "sp_div opsis_flash = 4"
  "sp_wbone_width opsis_flash = 32"
  by (simp_all add: opsis_flash_def)

lemma opsis_flash_init: "SpiFlashDualQuad_init demo_log2 opsis_flash = Inr (format_cmd QIOFR 4, 32, 2)"
  by (simp add: SpiFlashDualQuad_init_Inr demo_log2_def)

lemma opsis_flash_ready: "spi_ready opsis_flash 32 ((spi_flash_init 4 32 32)\<lparr>sf_i := 3\<rparr>)"
  by (simp add: spi_ready_def spi_flash_init_def)

interpretation opsis_read: spi_transaction 4 4 z 32 8 6 18 "format_cmd QIOFR 4" adr
    "demo_timeline (accumulate 0 (dual_quad_seq opsis_flash (format_cmd QIOFR 4) 32))"
    "demo_flash_dq 4" "(spi_flash_init 4 32 32)\<lparr>sf_i := 3\<rparr>" True
  for z adr
  using dual_quad_transaction [OF demo_timeline_spec opsis_flash_init _ _ _ opsis_flash_ready, of "demo_flash_dq 4"]
  by (simp add: addr_width_def demo_flash_dq_def)


theorem dual_quad_read_word_witness:
  "bus_dat_r 32 rev True (run (spi_cycle 4 4 2 0x48000
      (demo_timeline (accumulate 0 (dual_quad_seq opsis_flash (format_cmd QIOFR 4) 32))) (demo_flash_dq 4))
      [0..<1 + (8 + addr_width div 4 + 10 + 32 div 4) * 4] ((spi_flash_init 4 32 32)\<lparr>sf_i := 3\<rparr>))
   = bits_msb 32 0x89abcdef"
proof -
  have "concat (map (\<lambda>k. demo_flash_dq 4 ((8 + addr_width div 4 + 10 + k) * 4 + 4 div 2)) [0..<32 div 4])
      = bits_msb 32 0x89abcdef"
    by code_simp
  then show ?thesis
    using dual_quad_read_word [OF demo_timeline_spec opsis_flash_init _ _ _ opsis_flash_ready,
        of "demo_flash_dq 4" "0x48000" rev]
    by (simp add: demo_flash_dq_def del: run.simps upt.simps)
qed

definition icebreaker_flash :: spi_params where
  "icebreaker_flash = \<lparr>sp_width = 1, sp_dummy = 8, sp_div = 2, sp_wbone_width = 32\<rparr>"

lemma icebreaker_flash_fields [simp]:
  "sp_width icebreaker_flash = 1" "sp_dummy icebreaker_flash = 8" "sp_div icebreaker_flash = 2"
  "sp_wbone_width icebreaker_flash = 32"
  by (simp_all add: icebreaker_flash_def)

lemma icebreaker_flash_init: "SpiFlashSingle_init demo_log2 icebreaker_flash = Inr (FAST_READ, 8, 2)"
  by (simp add: SpiFlashSingle_init_Inr demo_log2_def)

lemma icebreaker_flash_ready: "spi_ready icebreaker_flash 8 ((spi_flash_init 1 8 32)\<lparr>sf_i := 1\<rparr>)"
  by (simp add: spi_ready_def spi_flash_init_def)

theorem single_read_word_witness:
  "bus_dat_r 32 rev True (run (spi_cycle 1 2 2 0x8000
      (demo_timeline (accumulate 0 (single_seq icebreaker_flash))) (demo_flash_dq 1))
      [0..<1 + (8 + addr_width + 8 + 32) * 2] ((spi_flash_init 1 8 32)\<lparr>sf_i := 1\<rparr>))
   = bits_msb 32 0x33333333"
proof -
  have "concat (map (\<lambda>k. demo_flash_dq 1 ((8 + addr_width + 8 + k) * 2 + 2 div 2)) [0..<32])
      = bits_msb 32 0x33333333"
    by code_simp
  then show ?thesis
    using single_read_word [OF demo_timeline_spec icebreaker_flash_init _ _ _ icebreaker_flash_ready,
        of "demo_flash_dq 1" "0x8000" rev]
    by (simp add: demo_flash_dq_def del: run.simps upt.simps)
qed

section \<open>The constructor checks\<close>

lemma SpiFlash_Inl:
  "SpiFlash log2_int has_mosi p = Inl e \<longleftrightarrow>
     \<not> has_mosi \<and> sp_width p < 2 \<and> e = AssertionError
     \<or> \<not> has_mosi \<and> 2 \<le> sp_width p \<and> sp_width p \<notin> {2, 4} \<and> e = KeyError
     \<or> (has_mosi \<or> sp_width p \<in> {2, 4}) \<and> sp_div p < 2 \<and> e = ValueError
     \<or> (has_mosi \<or> sp_width p \<in> {2, 4}) \<and> 2 \<le> sp_div p \<and> log2_int (sp_wbone_width p div 8) = Inl e"
  by (auto simp: SpiFlash_def SpiFlashSingle_init_def SpiFlashDualQuad_init_def check_div_def
      read_cmd_params_def py_bind_def py_assert_def split: sum.splits if_splits)

end
