(* ===== verification/Clocking.thy ===== *)
theory Clocking
  imports Complex_Main Hdl_Prelude
begin

text \<open>
  Clock and reset generation.  The constructor of a \<open>_CRG\<close> class (\<open>targets/*/base.py\<close>) is a
  list of statements: clock domains, requested pads, instances of vendor primitives with their
  parameters and connections, combinational assignments, reset synchronisers and count-down
  registers.  This theory has the type of these statements, the clock frequencies that follow
  from them, the check that each domain has one driver, and the power-on-reset counter.  What a
  vendor primitive does to a frequency is not in the repository; it is a parameter, with the
  documented relations as the hypothesis \<open>vendor_clocks\<close>.
\<close>

section \<open>Statements\<close>

datatype par = PInt int | PRat rat | PStr string

datatype sig =
    Net string
  | Lit int
  | Inv sig
  | Or sig sig
  | Gt string int
  | Neq string int
  | Pad string "nat option"
  | ResetSig string
  | ClockSig string

datatype crg_stmt =
    Domain string bool
  | Request string string "nat option"
  | Extension string nat string
  | Reg string nat nat
  | Wire string sig
  | Inst string "(string \<times> par) list" "(string \<times> sig) list" "(string \<times> string) list"
  | Comb string sig
  | ResetSync string sig
  | Countdown string string "string option"
  | Period string rat

text \<open>
  \<open>Domain d r\<close> is \<open>ClockDomain(reset_less=r)\<close>, \<open>Request v n k\<close> binds \<open>v\<close> to
  \<open>platform.request(n, k)\<close>, \<open>Extension n k p\<close> declares a further pad, \<open>Reg v w r\<close> is a register of
  \<open>w\<close> bits with reset value \<open>r\<close>, \<open>Wire v e\<close> names an expression, \<open>Inst\<close> has the parameters
  (\<open>p_\<close>), inputs (\<open>i_\<close>) and outputs (\<open>o_\<close>) of an \<open>Instance\<close>, \<open>Comb v e\<close> is \<open>v.eq(e)\<close>,
  \<open>Countdown d v f\<close> is the statement of domain \<open>d\<close> that counts \<open>v\<close> down to zero and then clears
  \<open>f\<close>, and \<open>Period v t\<close> is \<open>add_period_constraint(v, t)\<close>.
\<close>

section \<open>Frequencies\<close>

text \<open>
  Frequencies are in hertz.  \<open>pf prim params inputs port\<close> is the frequency on an output port of
  a primitive, from its parameters and the frequencies on its input ports.
\<close>

type_synonym prim_freq =
  "string \<Rightarrow> (string \<Rightarrow> par option) \<Rightarrow> (string \<Rightarrow> rat option) \<Rightarrow> string \<Rightarrow> rat option"

definition int_par :: "(string \<Rightarrow> par option) \<Rightarrow> string \<Rightarrow> rat" where
  "int_par ps k = (case ps k of Some (PInt i) \<Rightarrow> of_int i | _ \<Rightarrow> 0)"

definition scaled :: "rat option \<Rightarrow> rat \<Rightarrow> rat \<Rightarrow> rat option" where
  "scaled f m d = (case f of None \<Rightarrow> None | Some x \<Rightarrow> Some (x * m / d))"

text \<open>The documented relations: buffers keep the frequency, dividers and PLLs scale it.\<close>

definition pll_out :: "(string \<Rightarrow> par option) \<Rightarrow> (string \<Rightarrow> rat option) \<Rightarrow> string \<Rightarrow> rat option" where
  "pll_out ps ins port =
     scaled (ins ''CLKIN1'') (int_par ps ''CLKFBOUT_MULT'')
       (int_par ps ''DIVCLK_DIVIDE'' * int_par ps (port @ ''_DIVIDE''))"

definition documented :: prim_freq where
  "documented prim ps ins port =
     (if prim = ''IBUFG'' \<or> prim = ''BUFG'' \<or> prim = ''OBUFDS'' then ins ''I''
      else if prim = ''BUFIO2'' then scaled (ins ''I'') 1 (int_par ps ''DIVIDE'')
      else if prim = ''BUFPLL'' then ins ''PLLIN''
      else if prim = ''ODDR2'' then ins ''C0''
      else if prim = ''DCM_CLKGEN''
      then scaled (ins ''CLKIN'') (int_par ps ''CLKFX_MULTIPLY'') (int_par ps ''CLKFX_DIVIDE'')
      else pll_out ps ins port)"

definition clock_ports :: "(string \<times> string) list" where
  "clock_ports =
     [(''IBUFG'', ''O''), (''BUFG'', ''O''), (''OBUFDS'', ''O''), (''OBUFDS'', ''OB''),
      (''BUFIO2'', ''DIVCLK''), (''BUFPLL'', ''IOCLK''), (''ODDR2'', ''Q''),
      (''DCM_CLKGEN'', ''CLKFX''),
      (''PLL_ADV'', ''CLKOUT0''), (''PLL_ADV'', ''CLKOUT1''), (''PLL_ADV'', ''CLKOUT2''),
      (''PLL_ADV'', ''CLKOUT3''), (''PLL_ADV'', ''CLKOUT4''), (''PLL_ADV'', ''CLKOUT5''),
      (''PLLE2_BASE'', ''CLKOUT0''), (''PLLE2_BASE'', ''CLKOUT1''), (''PLLE2_BASE'', ''CLKOUT2''),
      (''PLLE2_BASE'', ''CLKOUT3''), (''PLLE2_BASE'', ''CLKOUT4''), (''PLLE2_BASE'', ''CLKOUT5'')]"

definition vendor_clocks :: "prim_freq \<Rightarrow> bool" where
  "vendor_clocks pf \<longleftrightarrow>
     (\<forall>(prim, port) \<in> set clock_ports. \<forall>ps ins. pf prim ps ins port = documented prim ps ins port)"

fun sig_freq :: "(string \<times> rat) list \<Rightarrow> sig \<Rightarrow> rat option" where
  "sig_freq env (Net n) = map_of env n"
| "sig_freq env (Inv e) = sig_freq env e"
| "sig_freq env (ClockSig d) = map_of env (''cd_'' @ d @ ''.clk'')"
| "sig_freq env _ = None"

definition add_freq :: "string \<Rightarrow> rat option \<Rightarrow> (string \<times> rat) list \<Rightarrow> (string \<times> rat) list" where
  "add_freq n f env = (case f of None \<Rightarrow> env | Some x \<Rightarrow> (n, x) # env)"

definition input_freqs :: "(string \<times> rat) list \<Rightarrow> (string \<times> sig) list \<Rightarrow> string \<Rightarrow> rat option" where
  "input_freqs env ins p = (case map_of ins p of None \<Rightarrow> None | Some e \<Rightarrow> sig_freq env e)"

definition inst_outputs ::
    "prim_freq \<Rightarrow> string \<Rightarrow> (string \<times> par) list \<Rightarrow> (string \<times> sig) list \<Rightarrow>
     (string \<times> rat) list \<Rightarrow> (string \<times> string) list \<Rightarrow> (string \<times> rat) list" where
  "inst_outputs pf prim ps ins env outs =
     fold (\<lambda>(port, net) e.
        if (prim, port) \<in> set clock_ports
        then add_freq net (pf prim (map_of ps) (input_freqs env ins) port) e else e) outs env"

fun clk_stmt ::
    "prim_freq \<Rightarrow> (string \<Rightarrow> rat option) \<Rightarrow> crg_stmt \<Rightarrow> (string \<times> rat) list \<Rightarrow> (string \<times> rat) list" where
  "clk_stmt pf src (Request v n k) env = add_freq v (src n) env"
| "clk_stmt pf src (Inst prim ps ins outs) env = inst_outputs pf prim ps ins env outs"
| "clk_stmt pf src (Comb v e) env = add_freq v (sig_freq env e) env"
| "clk_stmt pf src _ env = env"

definition clocks :: "prim_freq \<Rightarrow> (string \<Rightarrow> rat option) \<Rightarrow> crg_stmt list \<Rightarrow> (string \<times> rat) list" where
  "clocks pf src ss = fold (clk_stmt pf src) ss []"

definition clock_of :: "prim_freq \<Rightarrow> (string \<Rightarrow> rat option) \<Rightarrow> crg_stmt list \<Rightarrow> string \<Rightarrow> rat option" where
  "clock_of pf src ss d = map_of (clocks pf src ss) (d @ ''.clk'')"

text \<open>Under the documented relations the parameter is as good as the documented function.\<close>

lemma inst_outputs_documented:
  assumes "vendor_clocks pf"
  shows "inst_outputs pf prim ps ins env outs = inst_outputs documented prim ps ins env outs"
proof -
  have "(\<lambda>(port, net) e. if (prim, port) \<in> set clock_ports
           then add_freq net (pf prim (map_of ps) (input_freqs env ins) port) e else e)
      = (\<lambda>(port, net) e. if (prim, port) \<in> set clock_ports
           then add_freq net (documented prim (map_of ps) (input_freqs env ins) port) e else e)"
    using assms unfolding vendor_clocks_def by (intro ext) (auto split: prod.splits)
  then show ?thesis by (simp only: inst_outputs_def)
qed

lemma clk_stmt_documented: "vendor_clocks pf \<Longrightarrow> clk_stmt pf src s env = clk_stmt documented src s env"
  by (cases s) (simp_all add: inst_outputs_documented)

lemma clock_of_documented: "vendor_clocks pf \<Longrightarrow> clock_of pf src ss d = clock_of documented src ss d"
proof -
  assume "vendor_clocks pf"
  then have "clk_stmt pf src = clk_stmt documented src"
    by (intro ext clk_stmt_documented)
  then show ?thesis by (simp add: clock_of_def clocks_def)
qed

lemma vendor_clocks_documented: "vendor_clocks documented"
  by (auto simp: vendor_clocks_def)

section \<open>Drivers\<close>

fun driven_nets :: "crg_stmt \<Rightarrow> string list" where
  "driven_nets (Inst prim ps ins outs) = map snd outs"
| "driven_nets (Comb v e) = [v]"
| "driven_nets _ = []"

fun domain_of :: "crg_stmt \<Rightarrow> string list" where
  "domain_of (Domain d r) = [d]"
| "domain_of _ = []"

definition domains :: "crg_stmt list \<Rightarrow> string list" where
  "domains ss = concat (map domain_of ss)"

definition drivers :: "crg_stmt list \<Rightarrow> string list" where
  "drivers ss = concat (map driven_nets ss)"

text \<open>Every domain is declared once and its clock has exactly one driver.\<close>

definition domains_driven :: "crg_stmt list \<Rightarrow> bool" where
  "domains_driven ss =
     (distinct (domains ss)
      \<and> list_all (\<lambda>d. count_list (drivers ss) (d @ ''.clk'') = 1) (domains ss))"

section \<open>Power-on reset\<close>

text \<open>
  The count-down registers of the clock generators: \<open>por\<close> and \<open>reset_delay\<close>, which hold the
  system in reset, and \<open>reset_counter\<close> with the flag \<open>ic_reset\<close> that it clears.  \<open>rst\<close> is the
  reset of the register's own clock domain; \<open>r\<close> is the reset value.
\<close>

record countdown =
  cd_count :: nat
  cd_flag :: bool

definition countdown_init :: "nat \<Rightarrow> countdown" where
  "countdown_init r = \<lparr>cd_count = r, cd_flag = True\<rparr>"

definition countdown_step :: "nat \<Rightarrow> bool \<Rightarrow> countdown \<Rightarrow> countdown" where
  "countdown_step r rst s =
     (if rst then countdown_init r
      else if cd_count s \<noteq> 0 then s\<lparr>cd_count := cd_count s - 1\<rparr>
      else s\<lparr>cd_flag := False\<rparr>)"

text \<open>\<open>~pll_lckd | (por > 0)\<close>, and \<open>reset_delay != 0\<close> where there is no PLL.\<close>

definition sys_reset :: "bool \<Rightarrow> countdown \<Rightarrow> bool" where
  "sys_reset pll_lckd s = (\<not> pll_lckd \<or> cd_count s > 0)"

definition countdown_inv :: "nat \<Rightarrow> countdown \<Rightarrow> bool" where
  "countdown_inv r s = (cd_count s \<le> r \<and> (0 < cd_count s \<longrightarrow> cd_flag s))"

interpretation por: sync_module "countdown_step r" "countdown_init r" "countdown_inv r"
  for r
  by unfold_locales (auto simp: countdown_inv_def countdown_init_def countdown_step_def)

lemma countdown_run:
  "run (countdown_step r) (replicate n False) (countdown_init r)
     = \<lparr>cd_count = r - n, cd_flag = (n \<le> r)\<rparr>"
proof (induction n)
  case 0
  then show ?case by (simp add: countdown_init_def)
next
  case (Suc n)
  then show ?case
    unfolding run_replicate_Suc Suc by (auto simp: countdown_step_def)
qed

text \<open>
  Whatever happened before, once the reset input is released the system stays
  in reset for exactly as many cycles as the reset value of the counter, and leaves it then, if the
  PLL is locked; the delay-control reset of the Artix boards is held one cycle longer.
\<close>

theorem por_release:
  fixes "is" r n
  defines "s \<equiv> run (countdown_step r) (is @ [True] @ replicate n False) (countdown_init r)"
  shows "(sys_reset True s \<longleftrightarrow> n < r) \<and> (cd_flag s \<longleftrightarrow> n \<le> r) \<and> sys_reset False s"
proof -
  have "run (countdown_step r) (is @ [True] @ replicate n False) (countdown_init r)
      = run (countdown_step r) (replicate n False) (countdown_init r)"
    by (simp add: countdown_step_def [of r True])
  then have s: "s = \<lparr>cd_count = r - n, cd_flag = (n \<le> r)\<rparr>"
    by (simp only: s_def countdown_run)
  show ?thesis by (auto simp: s sys_reset_def)
qed

end
