(* ===== verification/Target_Utils.thy ===== *)
theory Target_Utils
  imports Py_Strings
begin

text \<open>
  Helpers of the targets: the allocation of CSR slots (\<open>csr_map_update\<close> in \<open>targets/utils.py\<close>) and
  the C header and CSV table of the register map (\<open>targets/common/cpu_interface.py\<close>).
\<close>

section \<open>Allocating CSR slots\<close>

type_synonym csr_map = "(string, nat) dict"

text \<open>\<open>(max(csr_map.values()) + 1) if csr_map else 0\<close>\<close>

definition csr_start :: "csr_map \<Rightarrow> nat" where
  "csr_start m = (if m = [] then 0 else fold max (dict_values m) 0 + 1)"

definition csr_map_update :: "csr_map \<Rightarrow> string list \<Rightarrow> csr_map" where
  "csr_map_update m csr_peripherals =
     (let s = csr_start m
      in dict_update m (dict_of (zip csr_peripherals [s..<s + length csr_peripherals])))"

text \<open>A chain of classes updates one dictionary: \<open>csr_map\<close> is shared by inheritance.\<close>

definition csr_map_chain :: "csr_map \<Rightarrow> string list list \<Rightarrow> csr_map" where
  "csr_map_chain m chain = foldl csr_map_update m chain"

definition csr_map_ok :: "csr_map \<Rightarrow> bool" where
  "csr_map_ok m = (distinct (dict_keys m) \<and> distinct (dict_values m))"

lemma fold_max_ge: "x \<in> set xs \<or> x \<le> a \<Longrightarrow> x \<le> fold max xs (a :: nat)"
  by (induction xs arbitrary: a) (auto simp: le_max_iff_disj)

lemma csr_start_above: "v \<in> set (dict_values m) \<Longrightarrow> v < csr_start m"
  using fold_max_ge [of v "dict_values m" 0] by (auto simp: csr_start_def dict_values_def)

lemma csr_map_ok_iff:
  "distinct (dict_keys m) \<Longrightarrow>
   csr_map_ok m \<longleftrightarrow> (\<forall>j k v. map_of m j = Some v \<longrightarrow> map_of m k = Some v \<longrightarrow> j = k)"
proof -
  assume d: "distinct (dict_keys m)"
  then have k: "map_of m j = Some v \<longleftrightarrow> (j, v) \<in> set m" for j v
    by (simp add: dict_keys_def map_of_eq_Some_iff)
  have "csr_map_ok m \<longleftrightarrow> inj_on snd (set m)"
    using d by (auto simp: csr_map_ok_def dict_keys_def dict_values_def distinct_map)
  also have "\<dots> \<longleftrightarrow> (\<forall>j k v. (j, v) \<in> set m \<longrightarrow> (k, v) \<in> set m \<longrightarrow> j = k)"
    by (simp add: inj_on_def Ball_def split_paired_All) blast
  finally show ?thesis by (simp only: k)
qed

lemma dict_of_lookup: "map_of (dict_of ps) = map_of (rev ps)"
  by (simp add: dict_of_def map_of_dict_update)

lemma map_of_rev_zip_Some:
  assumes "map_of (rev (zip ns [s..<s + length ns])) n = Some v"
  shows "s \<le> v \<and> v < s + length ns \<and> ns ! (v - s) = n"
proof -
  have "(n, v) \<in> set (zip ns [s..<s + length ns])"
    using map_of_SomeD [OF assms] by simp
  then show ?thesis by (auto simp: in_set_zip)
qed

text \<open>The lookup after an update: a new peripheral has a new slot, the others keep theirs.\<close>

lemma csr_map_update_lookup:
  "map_of (csr_map_update m ps) n =
     (case map_of (rev (zip ps [csr_start m..<csr_start m + length ps])) n of
        None \<Rightarrow> map_of m n | Some v \<Rightarrow> Some v)"
proof -
  have "map_of (rev (dict_of qs)) = map_of (dict_of qs)" for qs :: csr_map
    by (subst map_of_inject_set) (simp_all add: dict_of_def distinct_dict_update rev_map [symmetric])
  then show ?thesis
    by (simp add: csr_map_update_def Let_def map_of_dict_update dict_of_lookup map_add_def)
qed

lemma csr_map_update_cases:
  assumes "map_of (csr_map_update m ps) n = Some v"
  obtains (new) "csr_start m \<le> v" "ps ! (v - csr_start m) = n"
    | (old) "map_of m n = Some v" "v < csr_start m"
proof (cases "map_of (rev (zip ps [csr_start m..<csr_start m + length ps])) n")
  case None
  with assms have "map_of m n = Some v" by (simp add: csr_map_update_lookup)
  moreover from this have "v \<in> set (dict_values m)"
    by (auto simp: dict_values_def dest: map_of_SomeD intro: rev_image_eqI)
  ultimately show ?thesis by (intro old csr_start_above)
next
  case (Some w)
  with assms have "w = v" by (simp add: csr_map_update_lookup)
  with map_of_rev_zip_Some [OF Some] show ?thesis by (intro new) auto
qed

lemma distinct_csr_map_update:
  "distinct (dict_keys m) \<Longrightarrow> distinct (dict_keys (csr_map_update m ps))"
  by (simp add: csr_map_update_def Let_def dict_keys_def distinct_dict_update)

lemma csr_map_update_ok:
  assumes "csr_map_ok m"
  shows "csr_map_ok (csr_map_update m ps)"
proof -
  from assms have d: "distinct (dict_keys m)" by (simp add: csr_map_ok_def)
  have inj: "map_of m j = Some v \<Longrightarrow> map_of m k = Some v \<Longrightarrow> j = k" for j k v
    using assms csr_map_ok_iff [OF d] by blast
  show ?thesis
    unfolding csr_map_ok_iff [OF distinct_csr_map_update [OF d]]
  proof (intro allI impI)
    fix j k v
    assume "map_of (csr_map_update m ps) j = Some v" "map_of (csr_map_update m ps) k = Some v"
    then show "j = k"
      by (elim csr_map_update_cases) (auto intro: inj)
  qed
qed

text \<open>The interface of the slot allocator, and what it gives for a chain of classes.\<close>

locale slot_allocator =
  fixes ok :: "'m \<Rightarrow> bool" and update :: "'m \<Rightarrow> 'p \<Rightarrow> 'm" and slot :: "'m \<Rightarrow> 'n \<Rightarrow> 'v option"
    and fresh :: "'p \<Rightarrow> 'n set"
  assumes update_ok: "ok m \<Longrightarrow> ok (update m p)"
    and update_new: "n \<in> fresh p \<Longrightarrow> slot (update m p) n \<noteq> None"
    and update_old: "n \<notin> fresh p \<Longrightarrow> slot (update m p) n = slot m n"
begin

lemma chain_ok: "ok m \<Longrightarrow> ok (foldl update m ps)"
  by (induction ps arbitrary: m) (auto intro: update_ok)

lemma slot_kept: "slot m n \<noteq> None \<Longrightarrow> slot (update m p) n \<noteq> None"
  using update_new update_old by (cases "n \<in> fresh p") fastforce+

lemma slot_kept_chain: "slot m n \<noteq> None \<Longrightarrow> slot (foldl update m ps) n \<noteq> None"
proof (induction ps arbitrary: m)
  case (Cons p ps)
  show ?case using Cons.IH [OF slot_kept [OF Cons.prems]] by simp
qed simp

lemma chain_slot: "p \<in> set ps \<Longrightarrow> n \<in> fresh p \<Longrightarrow> slot (foldl update m ps) n \<noteq> None"
proof (induction ps arbitrary: m)
  case (Cons q ps)
  show ?case
  proof (cases "q = p")
    case True
    with Cons.prems(2) have "slot (update m q) n \<noteq> None" by (simp add: update_new)
    from slot_kept_chain [OF this] show ?thesis by simp
  next
    case False
    with Cons show ?thesis by simp
  qed
qed simp

end

lemma zip_slot_None:
  "map_of (rev (zip ns [s..<s + length ns])) n = None \<longleftrightarrow> n \<notin> set ns"
proof -
  have "fst ` set (zip ns [s..<s + length ns]) = set ns"
    by (simp flip: list.set_map)
  then show ?thesis by (simp add: map_of_eq_None_iff)
qed

interpretation csr_slots: slot_allocator csr_map_ok csr_map_update map_of set
proof
  fix m :: csr_map and ps :: "string list" and n
  show "csr_map_ok m \<Longrightarrow> csr_map_ok (csr_map_update m ps)" by (rule csr_map_update_ok)
  let ?z = "map_of (rev (zip ps [csr_start m..<csr_start m + length ps])) n"
  show "n \<in> set ps \<Longrightarrow> map_of (csr_map_update m ps) n \<noteq> None"
    using zip_slot_None [of ps "csr_start m" n] by (cases ?z) (simp_all add: csr_map_update_lookup)
  show "n \<notin> set ps \<Longrightarrow> map_of (csr_map_update m ps) n = map_of m n"
    using zip_slot_None [of ps "csr_start m" n] by (simp add: csr_map_update_lookup)
qed

text \<open>
  C31 (CSR slots): starting from a map with distinct slots, every chain of \<open>csr_map_update\<close> calls
  leaves all slots distinct and gives one to each named peripheral.
\<close>

theorem csr_map_chain_injective:
  assumes "csr_map_ok m" "ps \<in> set chain" "n \<in> set ps"
  shows "csr_map_ok (csr_map_chain m chain) \<and>
     (\<exists>v. map_of (csr_map_chain m chain) n = Some v
          \<and> (\<forall>k. map_of (csr_map_chain m chain) k = Some v \<longrightarrow> k = n))"
proof -
  have ok: "csr_map_ok (csr_map_chain m chain)"
    unfolding csr_map_chain_def by (rule csr_slots.chain_ok [OF assms(1)])
  then have d: "distinct (dict_keys (csr_map_chain m chain))" by (simp add: csr_map_ok_def)
  have "map_of (csr_map_chain m chain) n \<noteq> None"
    unfolding csr_map_chain_def by (rule csr_slots.chain_slot [OF assms(2,3)])
  then show ?thesis using ok csr_map_ok_iff [OF d] by blast
qed

theorem csr_map_chain_injective_witness:
  "map_of (csr_map_chain [(''crg'', 0), (''uart'', 2), (''sdram'', 8)]
     [[''spiflash'', ''ddrphy'', ''uart''], [''ethmac'']]) ''ethmac'' = Some 12"
proof -
  have "csr_map_ok [(''crg'', 0), (''uart'', 2), (''sdram'', 8)]" by code_simp
  from csr_map_chain_injective [OF this, of "[''ethmac'']" "[[''spiflash'', ''ddrphy'', ''uart''], [''ethmac'']]" "''ethmac''"]
  obtain v where "map_of (csr_map_chain [(''crg'', 0), (''uart'', 2), (''sdram'', 8)]
      [[''spiflash'', ''ddrphy'', ''uart''], [''ethmac'']]) ''ethmac'' = Some v"
    by auto
  moreover have "csr_map_chain [(''crg'', 0), (''uart'', 2), (''sdram'', 8)]
      [[''spiflash'', ''ddrphy'', ''uart''], [''ethmac'']]
      = [(''crg'', 0), (''uart'', 11), (''sdram'', 8), (''spiflash'', 9), (''ddrphy'', 10), (''ethmac'', 12)]"
    by code_simp
  ultimately show ?thesis by simp
qed

end
