(* ===== verification/Soc_Types.thy ===== *)
theory Soc_Types
  imports Clocking Target_Utils
begin

text \<open>
  Boards and their systems.  A platform class gives attributes (clock, flash chip, space reserved
  for the bitstream); the constructor of a \<open>BaseSoC\<close> (\<open>targets/*/base.py\<close>) is a list of
  statements: the call of the base class, the clock generator, requested pads, submodules,
  constants, memory regions and so on.  What LiteX does with them is outside the repository.
\<close>

section \<open>Platform attributes\<close>

record flash_attrs =
  fl_model :: string
  fl_dummy :: int
  fl_div :: int
  fl_total :: int
  fl_page :: int
  fl_sector :: int

record platform_attrs =
  pa_name :: "string option"
  pa_clk_name :: string
  pa_clk_period :: rat
  pa_gateware_size :: "int option"
  pa_bootloader_size :: "int option"
  pa_flash :: "flash_attrs option"

definition get_attr :: "'a option \<Rightarrow> 'a py_result" where
  "get_attr a = (case a of None \<Rightarrow> Inl AttributeError | Some x \<Rightarrow> Inr x)"

section \<open>Statements of a system\<close>

datatype karg = KNone | KInt int | KStr string | KBool bool

datatype soc_stmt =
    Init string rat "(string \<times> karg) list" "(string, karg) dict"
  | Crg "crg_stmt list"
  | Keep string
  | Sys_period rat
  | Use string "nat option"
  | Submodule string string "(string \<times> karg) list"
  | Alias string string
  | Uart_pads
  | Connect string string
  | Constant string int
  | Register_mem string int int
  | Memory_region string int int string
  | Wb_slave int
  | Wb_master string
  | Startupe2 "(string \<times> sig) list"
  | Interrupt string
  | Register_sdram string string "(string \<times> karg) list"
  | Add_csr string
  | Add_extension string
  | Build_template string nat string
  | Append_template string nat string
  | Constant_str string string
  | Object string string "(string \<times> karg) list"
  | Add_submodules "string list"
  | Stream string string
  | Sync string string string
  | Net_period string rat
  | False_path "string list"
  | Platform_cmd string "(string \<times> string) list"
  | Source string
  | Signals string "string list"
  | Try_connect string nat string

text \<open>
  The arguments of a constructor: the platform, the class's memory map, the keyword \<open>spiflash\<close>
  where there is one, the other keywords, the processor that the base class picks and the
  environment variable \<open>JIMMO\<close>.
\<close>

record soc_env =
  se_plat :: platform_attrs
  se_mem :: "(string, int) dict"
  se_spiflash :: string
  se_csr_data_width :: int
  se_kwargs :: "(string, karg) dict"
  se_cpu_type :: string
  se_cpu_variant :: string
  se_endianness :: string
  se_jimmo :: string

definition set_default :: "string \<Rightarrow> karg \<Rightarrow> (string, karg) dict \<Rightarrow> (string, karg) dict" where
  "set_default k v kwargs = (case map_of kwargs k of None \<Rightarrow> dict_update kwargs [(k, v)] | Some _ \<Rightarrow> kwargs)"

definition dict_del :: "'k \<Rightarrow> ('k, 'v) dict \<Rightarrow> ('k, 'v) dict" where
  "dict_del k d = filter (\<lambda>p. fst p \<noteq> k) d"

definition linux_cpu :: "soc_env \<Rightarrow> bool" where
  "linux_cpu env = (se_cpu_type env = ''vexriscv'' \<and> se_cpu_variant env = ''linux'')"

definition spiflash_dummies :: "(string, int) dict" where
  "spiflash_dummies = [(''spiflash_1x'', 9), (''spiflash_4x'', 11)]"

section \<open>TOFE expansion boards\<close>

text \<open>
  \<open>TOFEBoard\<close> picks a class by name.  \<open>TOFELowSpeedIO\<close> takes the platform and the shared UART,
  \<open>TOFE\<close> only the platform; calling a class with the wrong number of arguments is a
  \<open>TypeError\<close>.
\<close>

definition TOFEBoard :: "string \<Rightarrow> string" where
  "TOFEBoard name =
     (if py_lower name = ''lowspeedio'' then ''TOFELowSpeedIO''
      else if py_lower name = ''axiom'' then ''TOFELowSpeedIO''
      else ''TOFE'')"

definition tofe_arity :: "string \<Rightarrow> nat" where
  "tofe_arity cls = (if cls = ''TOFELowSpeedIO'' then 2 else 1)"

text \<open>The pads that the constructor of each class requests.\<close>

definition tofe_pads :: "string \<Rightarrow> soc_stmt list" where
  "tofe_pads cls =
     Use ''tofe'' None #
     (if cls = ''TOFELowSpeedIO''
      then [Use ''tofe_lsio_serial'' None, Uart_pads, Use ''tofe_lsio_pmod_serial'' None, Uart_pads,
            Use ''tofe_lsio_user_led'' (Some 0), Use ''tofe_lsio_user_led'' (Some 1),
            Use ''tofe_lsio_user_led'' (Some 2), Use ''tofe_lsio_user_led'' (Some 3),
            Use ''tofe_lsio_user_sw'' (Some 0), Use ''tofe_lsio_user_sw'' (Some 1),
            Use ''tofe_lsio_user_sw'' (Some 2), Use ''tofe_lsio_user_sw'' (Some 3)]
      else [])"

definition tofe_submodule :: "string \<Rightarrow> nat \<Rightarrow> soc_stmt list py_result" where
  "tofe_submodule name nargs =
     (let cls = TOFEBoard name
      in if nargs = tofe_arity cls then Inr (tofe_pads cls @ [Submodule ''tofe'' cls []])
         else Inl TypeError)"

text \<open>The end of the constructor of the Opsis system: \<open>expansion\<close> is the keyword's value.\<close>

definition opsis_tofe :: "karg option \<Rightarrow> soc_stmt list py_result" where
  "opsis_tofe expansion =
     (case expansion of
        Some (KStr name) \<Rightarrow>
          if name = [] then Inr []
          else if name = ''lowspeedio'' then tofe_submodule name 2
          else tofe_submodule name 1
      | _ \<Rightarrow> Inr [])"

section \<open>What a system declares\<close>

fun soc_uses :: "soc_stmt \<Rightarrow> (string \<times> nat option) list" where
  "soc_uses (Use n k) = [(n, k)]"
| "soc_uses _ = []"

fun soc_constants :: "soc_stmt \<Rightarrow> (string \<times> int) list" where
  "soc_constants (Constant n v) = [(n, v)]"
| "soc_constants _ = []"

fun soc_regions :: "soc_stmt \<Rightarrow> (string \<times> int \<times> int) list" where
  "soc_regions (Register_mem n a s) = [(n, a, s)]"
| "soc_regions (Memory_region n a s t) = [(n, a, s)]"
| "soc_regions _ = []"

fun soc_clk_freq :: "soc_stmt \<Rightarrow> rat list" where
  "soc_clk_freq (Init c f e k) = [f]"
| "soc_clk_freq _ = []"

fun soc_crg :: "soc_stmt \<Rightarrow> crg_stmt list" where
  "soc_crg (Crg ss) = ss"
| "soc_crg _ = []"

end
