(* ===== verification/Platform_Attrs.thy ===== *)
theory Platform_Attrs
  imports Soc_Types
begin

text \<open>
  The class attributes of the platforms (\<open>platforms/*.py\<close>): name and period of the default clock,
  flash chip, and the space at the start of the flash that is kept for the bitstream.
\<close>

definition opsis_attrs :: platform_attrs where
  "opsis_attrs =
     \<lparr>pa_name = Some ''opsis'', pa_clk_name = ''clk100'', pa_clk_period = 10,
      pa_gateware_size = Some 0x200000, pa_bootloader_size = None,
      pa_flash = Some \<lparr>fl_model = ''n25q128'', fl_dummy = 10, fl_div = 4,
        fl_total = 16777216, fl_page = 256, fl_sector = 65536\<rparr>\<rparr>"

definition atlys_attrs :: platform_attrs where
  "atlys_attrs =
     \<lparr>pa_name = Some ''atlys'', pa_clk_name = ''clk100'', pa_clk_period = 10,
      pa_gateware_size = Some 0x200000, pa_bootloader_size = None,
      pa_flash = Some \<lparr>fl_model = ''n25q128'', fl_dummy = 10, fl_div = 4,
        fl_total = 16777216, fl_page = 256, fl_sector = 65536\<rparr>\<rparr>"

definition galatea_attrs :: platform_attrs where
  "galatea_attrs =
     \<lparr>pa_name = Some ''galatea'', pa_clk_name = ''clk100'', pa_clk_period = 10,
      pa_gateware_size = Some 0x200000, pa_bootloader_size = None,
      pa_flash = Some \<lparr>fl_model = ''n25q128'', fl_dummy = 10, fl_div = 4,
        fl_total = 16777216, fl_page = 256, fl_sector = 65536\<rparr>\<rparr>"

definition mimasv2_attrs :: platform_attrs where
  "mimasv2_attrs =
     \<lparr>pa_name = Some ''mimasv2'', pa_clk_name = ''clk100'', pa_clk_period = 10,
      pa_gateware_size = Some 0x80000, pa_bootloader_size = None,
      pa_flash = Some \<lparr>fl_model = ''m25p16'', fl_dummy = 8, fl_div = 4,
        fl_total = 2097152, fl_page = 256, fl_sector = 65536\<rparr>\<rparr>"

definition minispartan6_attrs :: platform_attrs where
  "minispartan6_attrs =
     \<lparr>pa_name = Some ''minisp6'', pa_clk_name = ''clk32'', pa_clk_period = 125 / 4,
      pa_gateware_size = Some 0x180000, pa_bootloader_size = None,
      pa_flash = Some \<lparr>fl_model = ''25l6405'', fl_dummy = 4, fl_div = 4,
        fl_total = 8388608, fl_page = 256, fl_sector = 65536\<rparr>\<rparr>"

definition pano_logic_g2_attrs :: platform_attrs where
  "pano_logic_g2_attrs =
     \<lparr>pa_name = Some ''pano logic g2'', pa_clk_name = ''clk125'', pa_clk_period = 8,
      pa_gateware_size = None, pa_bootloader_size = None,
      pa_flash = None\<rparr>"

definition pipistrello_attrs :: platform_attrs where
  "pipistrello_attrs =
     \<lparr>pa_name = Some ''pipistrello'', pa_clk_name = ''clk50'', pa_clk_period = 20,
      pa_gateware_size = Some 0x200000, pa_bootloader_size = None,
      pa_flash = Some \<lparr>fl_model = ''n25q128'', fl_dummy = 10, fl_div = 4,
        fl_total = 16777216, fl_page = 256, fl_sector = 65536\<rparr>\<rparr>"

definition saturn_attrs :: platform_attrs where
  "saturn_attrs =
     \<lparr>pa_name = None, pa_clk_name = ''clk100'', pa_clk_period = 10,
      pa_gateware_size = None, pa_bootloader_size = None,
      pa_flash = None\<rparr>"

definition waxwing_attrs :: platform_attrs where
  "waxwing_attrs =
     \<lparr>pa_name = None, pa_clk_name = ''clk100'', pa_clk_period = 10,
      pa_gateware_size = None, pa_bootloader_size = None,
      pa_flash = None\<rparr>"

definition arty_attrs :: platform_attrs where
  "arty_attrs =
     \<lparr>pa_name = Some ''arty'', pa_clk_name = ''clk100'', pa_clk_period = 10,
      pa_gateware_size = Some 0x220000, pa_bootloader_size = None,
      pa_flash = Some \<lparr>fl_model = ''n25q128a13'', fl_dummy = 10, fl_div = 2,
        fl_total = 16777216, fl_page = 256, fl_sector = 65536\<rparr>\<rparr>"

definition nexys_video_attrs :: platform_attrs where
  "nexys_video_attrs =
     \<lparr>pa_name = Some ''nexys_video'', pa_clk_name = ''clk100'', pa_clk_period = 10,
      pa_gateware_size = Some 0x1000000, pa_bootloader_size = None,
      pa_flash = Some \<lparr>fl_model = ''n25q128'', fl_dummy = 10, fl_div = 4,
        fl_total = 33554432, fl_page = 256, fl_sector = 65536\<rparr>\<rparr>"

definition mimas_a7_attrs :: platform_attrs where
  "mimas_a7_attrs =
     \<lparr>pa_name = Some ''mimas_a7'', pa_clk_name = ''clk100'', pa_clk_period = 10,
      pa_gateware_size = Some 0x1000000, pa_bootloader_size = None,
      pa_flash = Some \<lparr>fl_model = ''n25q128'', fl_dummy = 10, fl_div = 4,
        fl_total = 16777216, fl_page = 256, fl_sector = 65536\<rparr>\<rparr>"

definition netv2_attrs :: platform_attrs where
  "netv2_attrs =
     \<lparr>pa_name = Some ''netv2'', pa_clk_name = ''clk50'', pa_clk_period = 20,
      pa_gateware_size = Some 0x400000, pa_bootloader_size = None,
      pa_flash = Some \<lparr>fl_model = ''mx25l6433f'', fl_dummy = 10, fl_div = 2,
        fl_total = 8388608, fl_page = 256, fl_sector = 4096\<rparr>\<rparr>"

definition neso_attrs :: platform_attrs where
  "neso_attrs =
     \<lparr>pa_name = Some ''neso'', pa_clk_name = ''clk100'', pa_clk_period = 10,
      pa_gateware_size = Some 0x220000, pa_bootloader_size = None,
      pa_flash = Some \<lparr>fl_model = ''n25q128a13'', fl_dummy = 10, fl_div = 4,
        fl_total = 16777216, fl_page = 256, fl_sector = 65536\<rparr>\<rparr>"

definition basys3_attrs :: platform_attrs where
  "basys3_attrs =
     \<lparr>pa_name = Some ''basys3'', pa_clk_name = ''clk100'', pa_clk_period = 10,
      pa_gateware_size = Some 0x220000, pa_bootloader_size = None,
      pa_flash = Some \<lparr>fl_model = ''n25q128a13'', fl_dummy = 10, fl_div = 4,
        fl_total = 16777216, fl_page = 256, fl_sector = 65536\<rparr>\<rparr>"

definition cmod_a7_attrs :: platform_attrs where
  "cmod_a7_attrs =
     \<lparr>pa_name = Some ''cmod_a7'', pa_clk_name = ''clk12'', pa_clk_period = 250 / 3,
      pa_gateware_size = Some 0x220000, pa_bootloader_size = None,
      pa_flash = Some \<lparr>fl_model = ''n25q32'', fl_dummy = 10, fl_div = 4,
        fl_total = 4194304, fl_page = 256, fl_sector = 65536\<rparr>\<rparr>"

definition icebreaker_attrs :: platform_attrs where
  "icebreaker_attrs =
     \<lparr>pa_name = None, pa_clk_name = ''clk12'', pa_clk_period = 83333 / 1000,
      pa_gateware_size = Some 0x20000, pa_bootloader_size = None,
      pa_flash = Some \<lparr>fl_model = ''n25q128'', fl_dummy = 8, fl_div = 2,
        fl_total = 16777216, fl_page = 256, fl_sector = 65536\<rparr>\<rparr>"

definition ice40_hx8k_b_evn_attrs :: platform_attrs where
  "ice40_hx8k_b_evn_attrs =
     \<lparr>pa_name = None, pa_clk_name = ''clk12'', pa_clk_period = 83333 / 1000,
      pa_gateware_size = Some 0x28000, pa_bootloader_size = None,
      pa_flash = Some \<lparr>fl_model = ''n25q32'', fl_dummy = 8, fl_div = 2,
        fl_total = 4194304, fl_page = 256, fl_sector = 65536\<rparr>\<rparr>"

definition ice40_up5k_b_evn_attrs :: platform_attrs where
  "ice40_up5k_b_evn_attrs =
     \<lparr>pa_name = None, pa_clk_name = ''clk12'', pa_clk_period = 83333 / 1000,
      pa_gateware_size = Some 0x20000, pa_bootloader_size = None,
      pa_flash = Some \<lparr>fl_model = ''n25q32'', fl_dummy = 8, fl_div = 2,
        fl_total = 4194304, fl_page = 256, fl_sector = 65536\<rparr>\<rparr>"

definition icefun_attrs :: platform_attrs where
  "icefun_attrs =
     \<lparr>pa_name = None, pa_clk_name = ''clk12'', pa_clk_period = 83333 / 1000,
      pa_gateware_size = Some 0x28000, pa_bootloader_size = None,
      pa_flash = Some \<lparr>fl_model = ''at25sf081'', fl_dummy = 8, fl_div = 2,
        fl_total = 1048576, fl_page = 256, fl_sector = 65536\<rparr>\<rparr>"

definition tinyfpga_bx_attrs :: platform_attrs where
  "tinyfpga_bx_attrs =
     \<lparr>pa_name = Some ''tinyfpga_bx'', pa_clk_name = ''clk16'', pa_clk_period = 125 / 2,
      pa_gateware_size = Some 0x28000, pa_bootloader_size = Some 0x28000,
      pa_flash = Some \<lparr>fl_model = ''m25p16'', fl_dummy = 8, fl_div = 2,
        fl_total = 1048576, fl_page = 256, fl_sector = 65536\<rparr>\<rparr>"

definition upduino_v1_attrs :: platform_attrs where
  "upduino_v1_attrs =
     \<lparr>pa_name = None, pa_clk_name = ''sb_hfosc'', pa_clk_period = 83333 / 1000,
      pa_gateware_size = Some 0x20000, pa_bootloader_size = None,
      pa_flash = Some \<lparr>fl_model = ''n25q32'', fl_dummy = 8, fl_div = 2,
        fl_total = 4194304, fl_page = 256, fl_sector = 65536\<rparr>\<rparr>"

end
