(* ===== verification/Crg_Spartan6.thy ===== *)
theory Crg_Spartan6
  imports Clocking
begin

text \<open>
  The clock and reset generators of the Spartan-6 boards, statement by statement.  Python floats are
  read as the exact rationals they stand for; at the frequencies of these boards every value that
  is compared is an integer below two to the 53, or is compared with wide bounds only.
\<close>

definition opsis_crg :: "rat \<Rightarrow> crg_stmt list py_result" where
  "opsis_crg clk_freq =
    (let f0 = 100 * 1000000;
         (m, n) = quotient_of (of_int \<lfloor>clk_freq\<rfloor> / of_int \<lfloor>f0\<rfloor>);
         p = 8
     in py_bind (py_assert (f0 / of_int n * of_int m = clk_freq)) (\<lambda>_. Inr [
      Domain ''cd_sys'' False,
      Domain ''cd_sys2x'' False,
      Domain ''cd_sdram_half'' False,
      Domain ''cd_sdram_full_wr'' False,
      Domain ''cd_sdram_full_rd'' False,
      Domain ''cd_base50'' False,
      Domain ''cd_encoder'' False,
      Request ''clk100'' ''clk100'' None,
      Inst ''IBUFG''
        []
        [(''I'', Net ''clk100'')]
        [(''O'', ''clk100a'')],
      Inst ''BUFIO2''
        [(''DIVIDE'', PInt 1), (''DIVIDE_BYPASS'', PStr ''TRUE''), (''I_INVERT'', PStr ''FALSE'')]
        [(''I'', Net ''clk100a'')]
        [(''DIVCLK'', ''clk100b'')],
      Inst ''PLL_ADV''
        [(''SIM_DEVICE'', PStr ''SPARTAN6''), (''BANDWIDTH'', PStr ''OPTIMIZED''),
         (''COMPENSATION'', PStr ''INTERNAL''), (''REF_JITTER'', PRat (1 / 100)),
         (''DIVCLK_DIVIDE'', PInt 1), (''CLKIN1_PERIOD'', PRat (10 ^ 9 / f0)),
         (''CLKIN2_PERIOD'', PRat 0), (''CLK_FEEDBACK'', PStr ''CLKFBOUT''),
         (''CLKFBOUT_MULT'', PInt (m * p div n)), (''CLKFBOUT_PHASE'', PRat 0),
         (''CLKOUT0_DUTY_CYCLE'', PRat (1 / 2)), (''CLKOUT0_PHASE'', PRat 0),
         (''CLKOUT0_DIVIDE'', PInt (p div 8)), (''CLKOUT1_DUTY_CYCLE'', PRat (1 / 2)),
         (''CLKOUT1_PHASE'', PRat 0), (''CLKOUT1_DIVIDE'', PInt 6),
         (''CLKOUT2_DUTY_CYCLE'', PRat (1 / 2)), (''CLKOUT2_PHASE'', PRat 230),
         (''CLKOUT2_DIVIDE'', PInt (p div 4)), (''CLKOUT3_DUTY_CYCLE'', PRat (1 / 2)),
         (''CLKOUT3_PHASE'', PRat 210), (''CLKOUT3_DIVIDE'', PInt (p div 4)),
         (''CLKOUT4_DUTY_CYCLE'', PRat (1 / 2)), (''CLKOUT4_PHASE'', PRat 0),
         (''CLKOUT4_DIVIDE'', PInt (p div 2)), (''CLKOUT5_DUTY_CYCLE'', PRat (1 / 2)),
         (''CLKOUT5_PHASE'', PRat 0), (''CLKOUT5_DIVIDE'', PInt (p div 1))]
        [(''DADDR'', Lit 0), (''DCLK'', Lit 0), (''DEN'', Lit 0), (''DI'', Lit 0),
         (''DWE'', Lit 0), (''RST'', Lit 0), (''REL'', Lit 0), (''CLKIN1'', Net ''clk100b''),
         (''CLKIN2'', Lit 0), (''CLKINSEL'', Lit 1), (''CLKFBIN'', Net ''pll_fb'')]
        [(''CLKFBOUT'', ''pll_fb''), (''LOCKED'', ''pll_lckd''),
         (''CLKOUT0'', ''unbuf_sdram_full''), (''CLKOUT1'', ''unbuf_encoder''),
         (''CLKOUT2'', ''unbuf_sdram_half_a''), (''CLKOUT3'', ''unbuf_sdram_half_b''),
         (''CLKOUT4'', ''unbuf_sys2x''), (''CLKOUT5'', ''unbuf_sys'')],
      Wire ''reset'' (Or (Inv (Pad ''cpu_reset'' None)) (Net ''self.reset'')),
      Domain ''cd_por'' False,
      Reg ''por'' 11 2047,
      Countdown ''por'' ''por'' None,
      ResetSync ''cd_por'' (Net ''reset''),
      Inst ''BUFG''
        []
        [(''I'', Net ''unbuf_sys'')]
        [(''O'', ''cd_sys.clk'')],
      Comb ''cd_por.clk'' (Net ''cd_sys.clk''),
      ResetSync ''cd_sys'' (Or (Inv (Net ''pll_lckd'')) (Gt ''por'' 0)),
      Inst ''BUFG''
        []
        [(''I'', Net ''unbuf_sys2x'')]
        [(''O'', ''cd_sys2x.clk'')],
      ResetSync ''cd_sys2x'' (Or (Inv (Net ''pll_lckd'')) (Gt ''por'' 0)),
      Inst ''BUFPLL''
        [(''DIVIDE'', PInt 4)]
        [(''PLLIN'', Net ''unbuf_sdram_full''), (''GCLK'', Net ''cd_sys2x.clk''),
         (''LOCKED'', Net ''pll_lckd'')]
        [(''IOCLK'', ''cd_sdram_full_wr.clk''), (''SERDESSTROBE'', ''self.clk8x_wr_strb'')],
      Comb ''cd_sdram_full_rd.clk'' (Net ''cd_sdram_full_wr.clk''),
      Comb ''self.clk8x_rd_strb'' (Net ''self.clk8x_wr_strb''),
      Inst ''BUFG''
        []
        [(''I'', Net ''unbuf_sdram_half_a'')]
        [(''O'', ''cd_sdram_half.clk'')],
      Inst ''BUFG''
        []
        [(''I'', Net ''unbuf_sdram_half_b'')]
        [(''O'', ''clk_sdram_half_shifted'')],
      Request ''clk'' ''ddram_clock'' None,
      Inst ''ODDR2''
        [(''DDR_ALIGNMENT'', PStr ''NONE''), (''INIT'', PInt 0), (''SRTYPE'', PStr ''SYNC'')]
        [(''D0'', Lit 1), (''D1'', Lit 0), (''S'', Lit 0), (''R'', Lit 0), (''CE'', Lit 1),
         (''C0'', Net ''clk_sdram_half_shifted''), (''C1'', Inv (Net ''clk_sdram_half_shifted''))]
        [(''Q'', ''output_clk'')],
      Inst ''OBUFDS''
        []
        [(''I'', Net ''output_clk'')]
        [(''O'', ''clk.p''), (''OB'', ''clk.n'')],
      Inst ''DCM_CLKGEN''
        [(''CLKIN_PERIOD'', PRat 10), (''CLKFX_MULTIPLY'', PInt 2), (''CLKFX_DIVIDE'', PInt 4),
         (''CLKFX_MD_MAX'', PRat (1 / 2)), (''CLKFXDV_DIVIDE'', PInt 2),
         (''SPREAD_SPECTRUM'', PStr ''NONE''), (''STARTUP_WAIT'', PStr ''FALSE'')]
        [(''CLKIN'', Net ''clk100a''), (''FREEZEDCM'', Lit 0), (''RST'', ResetSig ''sys'')]
        [(''CLKFX'', ''cd_base50.clk''), (''LOCKED'', ''dcm_base50_locked'')],
      ResetSync ''cd_base50'' (Or (Net ''cd_sys.rst'') (Inv (Net ''dcm_base50_locked''))),
      Period ''cd_base50.clk'' 20,
      Inst ''BUFG''
        []
        [(''I'', Net ''unbuf_encoder'')]
        [(''O'', ''cd_encoder.clk'')],
      ResetSync ''cd_encoder'' (Net ''cd_sys.rst'')]))"

definition atlys_crg :: "rat \<Rightarrow> crg_stmt list py_result" where
  "atlys_crg clk_freq =
    (let f0 = 100 * 1000000;
         (m, n) = quotient_of (of_int \<lfloor>clk_freq\<rfloor> / of_int \<lfloor>f0\<rfloor>);
         p = 8
     in py_bind (py_assert (f0 / of_int n * of_int m = clk_freq)) (\<lambda>_. Inr [
      Domain ''cd_sys'' False,
      Domain ''cd_sdram_half'' False,
      Domain ''cd_sdram_full_wr'' False,
      Domain ''cd_sdram_full_rd'' False,
      Domain ''cd_base50'' False,
      Domain ''cd_encoder'' False,
      Request ''clk100'' ''clk100'' None,
      Inst ''IBUFG''
        []
        [(''I'', Net ''clk100'')]
        [(''O'', ''clk100a'')],
      Inst ''BUFIO2''
        [(''DIVIDE'', PInt 1), (''DIVIDE_BYPASS'', PStr ''TRUE''), (''I_INVERT'', PStr ''FALSE'')]
        [(''I'', Net ''clk100a'')]
        [(''DIVCLK'', ''clk100b'')],
      Inst ''PLL_ADV''
        [(''SIM_DEVICE'', PStr ''SPARTAN6''), (''BANDWIDTH'', PStr ''OPTIMIZED''),
         (''COMPENSATION'', PStr ''INTERNAL''), (''REF_JITTER'', PRat (1 / 100)),
         (''DIVCLK_DIVIDE'', PInt 1), (''CLKIN1_PERIOD'', PRat (10 ^ 9 / f0)),
         (''CLKIN2_PERIOD'', PRat 0), (''CLK_FEEDBACK'', PStr ''CLKFBOUT''),
         (''CLKFBOUT_MULT'', PInt (m * p div n)), (''CLKFBOUT_PHASE'', PRat 0),
         (''CLKOUT0_DUTY_CYCLE'', PRat (1 / 2)), (''CLKOUT0_PHASE'', PRat 0),
         (''CLKOUT0_DIVIDE'', PInt (p div 4)), (''CLKOUT1_DUTY_CYCLE'', PRat (1 / 2)),
         (''CLKOUT1_PHASE'', PRat 0), (''CLKOUT1_DIVIDE'', PInt 9),
         (''CLKOUT2_DUTY_CYCLE'', PRat (1 / 2)), (''CLKOUT2_PHASE'', PRat 270),
         (''CLKOUT2_DIVIDE'', PInt (p div 2)), (''CLKOUT3_DUTY_CYCLE'', PRat (1 / 2)),
         (''CLKOUT3_PHASE'', PRat 250), (''CLKOUT3_DIVIDE'', PInt (p div 2)),
         (''CLKOUT4_DUTY_CYCLE'', PRat (1 / 2)), (''CLKOUT4_PHASE'', PRat 0),
         (''CLKOUT4_DIVIDE'', PInt 12), (''CLKOUT5_DUTY_CYCLE'', PRat (1 / 2)),
         (''CLKOUT5_PHASE'', PRat 0), (''CLKOUT5_DIVIDE'', PInt (p div 1))]
        [(''DADDR'', Lit 0), (''DCLK'', Lit 0), (''DEN'', Lit 0), (''DI'', Lit 0),
         (''DWE'', Lit 0), (''RST'', Lit 0), (''REL'', Lit 0), (''CLKIN1'', Net ''clk100b''),
         (''CLKIN2'', Lit 0), (''CLKINSEL'', Lit 1), (''CLKFBIN'', Net ''pll_fb'')]
        [(''CLKFBOUT'', ''pll_fb''), (''LOCKED'', ''pll_lckd''),
         (''CLKOUT0'', ''unbuf_sdram_full''), (''CLKOUT1'', ''unbuf_encoder''),
         (''CLKOUT2'', ''unbuf_sdram_half_a''), (''CLKOUT3'', ''unbuf_sdram_half_b''),
         (''CLKOUT4'', ''unbuf_unused''), (''CLKOUT5'', ''unbuf_sys'')],
      Wire ''reset'' (Or (Inv (Pad ''cpu_reset'' None)) (Net ''self.reset'')),
      Domain ''cd_por'' False,
      Reg ''por'' 11 2047,
      Countdown ''por'' ''por'' None,
      ResetSync ''cd_por'' (Net ''reset''),
      Inst ''BUFG''
        []
        [(''I'', Net ''unbuf_sys'')]
        [(''O'', ''cd_sys.clk'')],
      Comb ''cd_por.clk'' (Net ''cd_sys.clk''),
      ResetSync ''cd_sys'' (Or (Inv (Net ''pll_lckd'')) (Gt ''por'' 0)),
      Inst ''BUFPLL''
        [(''DIVIDE'', PInt 4)]
        [(''PLLIN'', Net ''unbuf_sdram_full''), (''GCLK'', Net ''cd_sys.clk''),
         (''LOCKED'', Net ''pll_lckd'')]
        [(''IOCLK'', ''cd_sdram_full_wr.clk''), (''SERDESSTROBE'', ''self.clk4x_wr_strb'')],
      Comb ''cd_sdram_full_rd.clk'' (Net ''cd_sdram_full_wr.clk''),
      Comb ''self.clk4x_rd_strb'' (Net ''self.clk4x_wr_strb''),
      Inst ''BUFG''
        []
        [(''I'', Net ''unbuf_sdram_half_a'')]
        [(''O'', ''cd_sdram_half.clk'')],
      Inst ''BUFG''
        []
        [(''I'', Net ''unbuf_sdram_half_b'')]
        [(''O'', ''clk_sdram_half_shifted'')],
      Request ''clk'' ''ddram_clock'' None,
      Inst ''ODDR2''
        [(''DDR_ALIGNMENT'', PStr ''NONE''), (''INIT'', PInt 0), (''SRTYPE'', PStr ''SYNC'')]
        [(''D0'', Lit 1), (''D1'', Lit 0), (''S'', Lit 0), (''R'', Lit 0), (''CE'', Lit 1),
         (''C0'', Net ''clk_sdram_half_shifted''), (''C1'', Inv (Net ''clk_sdram_half_shifted''))]
        [(''Q'', ''output_clk'')],
      Inst ''OBUFDS''
        []
        [(''I'', Net ''output_clk'')]
        [(''O'', ''clk.p''), (''OB'', ''clk.n'')],
      Inst ''DCM_CLKGEN''
        [(''CLKIN_PERIOD'', PRat 10), (''CLKFX_MULTIPLY'', PInt 2), (''CLKFX_DIVIDE'', PInt 4),
         (''CLKFX_MD_MAX'', PRat (1 / 2)), (''CLKFXDV_DIVIDE'', PInt 2),
         (''SPREAD_SPECTRUM'', PStr ''NONE''), (''STARTUP_WAIT'', PStr ''FALSE'')]
        [(''CLKIN'', Net ''clk100a''), (''FREEZEDCM'', Lit 0), (''RST'', ResetSig ''sys'')]
        [(''CLKFX'', ''cd_base50.clk''), (''LOCKED'', ''dcm_base50_locked'')],
      ResetSync ''cd_base50'' (Or (Net ''cd_sys.rst'') (Inv (Net ''dcm_base50_locked''))),
      Period ''cd_base50.clk'' 20,
      Inst ''BUFG''
        []
        [(''I'', Net ''unbuf_encoder'')]
        [(''O'', ''cd_encoder.clk'')],
      ResetSync ''cd_encoder'' (Net ''cd_sys.rst'')]))"

definition galatea_crg :: "rat \<Rightarrow> crg_stmt list py_result" where
  "galatea_crg clk_freq =
    (let f0 = 100 * 1000000;
         (m, n) = quotient_of (of_int \<lfloor>clk_freq\<rfloor> / of_int \<lfloor>f0\<rfloor>);
         p = 8
     in py_bind (py_assert (f0 / of_int n * of_int m = clk_freq)) (\<lambda>_. Inr [
      Domain ''cd_sys'' False,
      Domain ''cd_sys2x'' False,
      Domain ''cd_sdram_half'' False,
      Domain ''cd_sdram_full_wr'' False,
      Domain ''cd_sdram_full_rd'' False,
      Domain ''cd_base50'' False,
      Request ''clk100'' ''clk100'' None,
      Inst ''IBUFG''
        []
        [(''I'', Net ''clk100'')]
        [(''O'', ''clk100a'')],
      Inst ''BUFIO2''
        [(''DIVIDE'', PInt 1), (''DIVIDE_BYPASS'', PStr ''TRUE''), (''I_INVERT'', PStr ''FALSE'')]
        [(''I'', Net ''clk100a'')]
        [(''DIVCLK'', ''clk100b'')],
      Inst ''PLL_ADV''
        [(''SIM_DEVICE'', PStr ''SPARTAN6''), (''BANDWIDTH'', PStr ''OPTIMIZED''),
         (''COMPENSATION'', PStr ''INTERNAL''), (''REF_JITTER'', PRat (1 / 100)),
         (''DIVCLK_DIVIDE'', PInt 1), (''CLKIN1_PERIOD'', PRat (10 ^ 9 / f0)),
         (''CLKIN2_PERIOD'', PRat 0), (''CLK_FEEDBACK'', PStr ''CLKFBOUT''),
         (''CLKFBOUT_MULT'', PInt (m * p div n)), (''CLKFBOUT_PHASE'', PRat 0),
         (''CLKOUT0_DUTY_CYCLE'', PRat (1 / 2)), (''CLKOUT0_PHASE'', PRat 0),
         (''CLKOUT0_DIVIDE'', PInt (p div 8)), (''CLKOUT1_DUTY_CYCLE'', PRat (1 / 2)),
         (''CLKOUT1_PHASE'', PRat 0), (''CLKOUT1_DIVIDE'', PInt 6),
         (''CLKOUT2_DUTY_CYCLE'', PRat (1 / 2)), (''CLKOUT2_PHASE'', PRat 230),
         (''CLKOUT2_DIVIDE'', PInt (p div 4)), (''CLKOUT3_DUTY_CYCLE'', PRat (1 / 2)),
         (''CLKOUT3_PHASE'', PRat 210), (''CLKOUT3_DIVIDE'', PInt (p div 4)),
         (''CLKOUT4_DUTY_CYCLE'', PRat (1 / 2)), (''CLKOUT4_PHASE'', PRat 0),
         (''CLKOUT4_DIVIDE'', PInt (p div 2)), (''CLKOUT5_DUTY_CYCLE'', PRat (1 / 2)),
         (''CLKOUT5_PHASE'', PRat 0), (''CLKOUT5_DIVIDE'', PInt (p div 1))]
        [(''DADDR'', Lit 0), (''DCLK'', Lit 0), (''DEN'', Lit 0), (''DI'', Lit 0),
         (''DWE'', Lit 0), (''RST'', Lit 0), (''REL'', Lit 0), (''CLKIN1'', Net ''clk100b''),
         (''CLKIN2'', Lit 0), (''CLKINSEL'', Lit 1), (''CLKFBIN'', Net ''pll_fb'')]
        [(''CLKFBOUT'', ''pll_fb''), (''LOCKED'', ''pll_lckd''),
         (''CLKOUT0'', ''unbuf_sdram_full''), (''CLKOUT1'', ''unbuf_encoder''),
         (''CLKOUT2'', ''unbuf_sdram_half_a''), (''CLKOUT3'', ''unbuf_sdram_half_b''),
         (''CLKOUT4'', ''unbuf_sys2x''), (''CLKOUT5'', ''unbuf_sys'')],
      Wire ''reset'' (Or (Inv (Pad ''cpu_reset'' None)) (Net ''self.reset'')),
      Domain ''cd_por'' False,
      Reg ''por'' 11 2047,
      Countdown ''por'' ''por'' None,
      ResetSync ''cd_por'' (Net ''reset''),
      Inst ''BUFG''
        []
        [(''I'', Net ''unbuf_sys'')]
        [(''O'', ''cd_sys.clk'')],
      Comb ''cd_por.clk'' (Net ''cd_sys.clk''),
      ResetSync ''cd_sys'' (Or (Inv (Net ''pll_lckd'')) (Gt ''por'' 0)),
      Inst ''BUFG''
        []
        [(''I'', Net ''unbuf_sys2x'')]
        [(''O'', ''cd_sys2x.clk'')],
      ResetSync ''cd_sys2x'' (Or (Inv (Net ''pll_lckd'')) (Gt ''por'' 0)),
      Inst ''BUFPLL''
        [(''DIVIDE'', PInt 4)]
        [(''PLLIN'', Net ''unbuf_sdram_full''), (''GCLK'', Net ''cd_sys2x.clk''),
         (''LOCKED'', Net ''pll_lckd'')]
        [(''IOCLK'', ''cd_sdram_full_wr.clk''), (''SERDESSTROBE'', ''self.clk8x_wr_strb'')],
      Comb ''cd_sdram_full_rd.clk'' (Net ''cd_sdram_full_wr.clk''),
      Comb ''self.clk8x_rd_strb'' (Net ''self.clk8x_wr_strb''),
      Inst ''BUFG''
        []
        [(''I'', Net ''unbuf_sdram_half_a'')]
        [(''O'', ''cd_sdram_half.clk'')],
      Inst ''BUFG''
        []
        [(''I'', Net ''unbuf_sdram_half_b'')]
        [(''O'', ''clk_sdram_half_shifted'')],
      Request ''clk'' ''ddram_clock'' None,
      Inst ''ODDR2''
        [(''DDR_ALIGNMENT'', PStr ''NONE''), (''INIT'', PInt 0), (''SRTYPE'', PStr ''SYNC'')]
        [(''D0'', Lit 1), (''D1'', Lit 0), (''S'', Lit 0), (''R'', Lit 0), (''CE'', Lit 1),
         (''C0'', Net ''clk_sdram_half_shifted''), (''C1'', Inv (Net ''clk_sdram_half_shifted''))]
        [(''Q'', ''output_clk'')],
      Inst ''OBUFDS''
        []
        [(''I'', Net ''output_clk'')]
        [(''O'', ''clk.p''), (''OB'', ''clk.n'')],
      Inst ''DCM_CLKGEN''
        [(''CLKIN_PERIOD'', PRat 10), (''CLKFX_MULTIPLY'', PInt 2), (''CLKFX_DIVIDE'', PInt 4),
         (''CLKFX_MD_MAX'', PRat (1 / 2)), (''CLKFXDV_DIVIDE'', PInt 2),
         (''SPREAD_SPECTRUM'', PStr ''NONE''), (''STARTUP_WAIT'', PStr ''FALSE'')]
        [(''CLKIN'', Net ''clk100a''), (''FREEZEDCM'', Lit 0), (''RST'', ResetSig ''sys'')]
        [(''CLKFX'', ''cd_base50.clk''), (''LOCKED'', ''dcm_base50_locked'')],
      ResetSync ''cd_base50'' (Or (Net ''cd_sys.rst'') (Inv (Net ''dcm_base50_locked''))),
      Period ''cd_base50.clk'' 20]))"

definition mimasv2_crg :: "rat \<Rightarrow> crg_stmt list py_result" where
  "mimasv2_crg clk_freq =
    (let f0 = 100 * 1000000;
         p = 8;
         (n, d) = quotient_of (clk_freq * of_int p / f0)
     in py_bind (py_assert (19 * 10 ^ 6 \<le> f0 / of_int d \<and> f0 / of_int d \<le> 500 * 10 ^ 6)) (\<lambda>_.
        py_bind (py_assert (400 * 10 ^ 6 \<le> f0 * of_int n / of_int d
                            \<and> f0 * of_int n / of_int d \<le> 1080 * 10 ^ 6)) (\<lambda>_. Inr [
      Domain ''cd_sys'' False,
      Domain ''cd_sdram_half'' False,
      Domain ''cd_sdram_full_wr'' False,
      Domain ''cd_sdram_full_rd'' False,
      Domain ''cd_base50'' False,
      Request ''clk100'' ''clk100'' None,
      Inst ''IBUFG''
        []
        [(''I'', Net ''clk100'')]
        [(''O'', ''clk100a'')],
      Inst ''BUFIO2''
        [(''DIVIDE'', PInt 1), (''DIVIDE_BYPASS'', PStr ''TRUE''), (''I_INVERT'', PStr ''FALSE'')]
        [(''I'', Net ''clk100a'')]
        [(''DIVCLK'', ''clk100b'')],
      Inst ''PLL_ADV''
        [(''SIM_DEVICE'', PStr ''SPARTAN6''), (''BANDWIDTH'', PStr ''OPTIMIZED''),
         (''COMPENSATION'', PStr ''INTERNAL''), (''REF_JITTER'', PRat (1 / 100)),
         (''DIVCLK_DIVIDE'', PInt (d)), (''CLKIN1_PERIOD'', PRat (10 ^ 9 / f0)),
         (''CLKIN2_PERIOD'', PRat 0), (''CLK_FEEDBACK'', PStr ''CLKFBOUT''),
         (''CLKFBOUT_MULT'', PInt (n)), (''CLKFBOUT_PHASE'', PRat 0),
         (''CLKOUT0_DUTY_CYCLE'', PRat (1 / 2)), (''CLKOUT0_PHASE'', PRat 0),
         (''CLKOUT0_DIVIDE'', PInt (p div 4)), (''CLKOUT1_DUTY_CYCLE'', PRat (1 / 2)),
         (''CLKOUT1_PHASE'', PRat 0), (''CLKOUT1_DIVIDE'', PInt (p div 4)),
         (''CLKOUT2_DUTY_CYCLE'', PRat (1 / 2)), (''CLKOUT2_PHASE'', PRat 270),
         (''CLKOUT2_DIVIDE'', PInt (p div 2)), (''CLKOUT3_DUTY_CYCLE'', PRat (1 / 2)),
         (''CLKOUT3_PHASE'', PRat 270), (''CLKOUT3_DIVIDE'', PInt (p div 2)),
         (''CLKOUT4_DUTY_CYCLE'', PRat (1 / 2)), (''CLKOUT4_PHASE'', PRat 0),
         (''CLKOUT4_DIVIDE'', PInt (p div 1)), (''CLKOUT5_DUTY_CYCLE'', PRat (1 / 2)),
         (''CLKOUT5_PHASE'', PRat 0), (''CLKOUT5_DIVIDE'', PInt (p div 1))]
        [(''DADDR'', Lit 0), (''DCLK'', Lit 0), (''DEN'', Lit 0), (''DI'', Lit 0),
         (''DWE'', Lit 0), (''RST'', Lit 0), (''REL'', Lit 0), (''CLKIN1'', Net ''clk100b''),
         (''CLKIN2'', Lit 0), (''CLKINSEL'', Lit 1), (''CLKFBIN'', Net ''pll_fb'')]
        [(''CLKFBOUT'', ''pll_fb''), (''LOCKED'', ''pll_lckd''),
         (''CLKOUT0'', ''unbuf_sdram_full''), (''CLKOUT1'', ''unbuf_unused''),
         (''CLKOUT2'', ''unbuf_sdram_half_a''), (''CLKOUT3'', ''unbuf_sdram_half_b''),
         (''CLKOUT4'', ''unbuf_periph''), (''CLKOUT5'', ''unbuf_sys'')],
      Wire ''reset'' (Or (Inv (Pad ''user_btn'' (Some 5))) (Net ''self.reset'')),
      Domain ''cd_por'' False,
      Reg ''por'' 11 2047,
      Countdown ''por'' ''por'' None,
      ResetSync ''cd_por'' (Net ''reset''),
      Inst ''BUFG''
        []
        [(''I'', Net ''unbuf_sys'')]
        [(''O'', ''cd_sys.clk'')],
      Comb ''cd_por.clk'' (Net ''cd_sys.clk''),
      ResetSync ''cd_sys'' (Or (Inv (Net ''pll_lckd'')) (Gt ''por'' 0)),
      Inst ''BUFPLL''
        [(''DIVIDE'', PInt 4)]
        [(''PLLIN'', Net ''unbuf_sdram_full''), (''GCLK'', Net ''cd_sys.clk''),
         (''LOCKED'', Net ''pll_lckd'')]
        [(''IOCLK'', ''cd_sdram_full_wr.clk''), (''SERDESSTROBE'', ''self.clk4x_wr_strb'')],
      Comb ''cd_sdram_full_rd.clk'' (Net ''cd_sdram_full_wr.clk''),
      Comb ''self.clk4x_rd_strb'' (Net ''self.clk4x_wr_strb''),
      Inst ''BUFG''
        []
        [(''I'', Net ''unbuf_sdram_half_a'')]
        [(''O'', ''cd_sdram_half.clk'')],
      Inst ''BUFG''
        []
        [(''I'', Net ''unbuf_sdram_half_b'')]
        [(''O'', ''clk_sdram_half_shifted'')],
      Request ''clk'' ''ddram_clock'' None,
      Inst ''ODDR2''
        [(''DDR_ALIGNMENT'', PStr ''NONE''), (''INIT'', PInt 0), (''SRTYPE'', PStr ''SYNC'')]
        [(''D0'', Lit 1), (''D1'', Lit 0), (''S'', Lit 0), (''R'', Lit 0), (''CE'', Lit 1),
         (''C0'', Net ''clk_sdram_half_shifted''), (''C1'', Inv (Net ''clk_sdram_half_shifted''))]
        [(''Q'', ''clk.p'')],
      Inst ''ODDR2''
        [(''DDR_ALIGNMENT'', PStr ''NONE''), (''INIT'', PInt 0), (''SRTYPE'', PStr ''SYNC'')]
        [(''D0'', Lit 0), (''D1'', Lit 1), (''S'', Lit 0), (''R'', Lit 0), (''CE'', Lit 1),
         (''C0'', Net ''clk_sdram_half_shifted''), (''C1'', Inv (Net ''clk_sdram_half_shifted''))]
        [(''Q'', ''clk.n'')],
      Inst ''DCM_CLKGEN''
        [(''CLKIN_PERIOD'', PRat 10), (''CLKFX_MULTIPLY'', PInt 2), (''CLKFX_DIVIDE'', PInt 4),
         (''CLKFX_MD_MAX'', PRat (1 / 2)), (''CLKFXDV_DIVIDE'', PInt 2),
         (''SPREAD_SPECTRUM'', PStr ''NONE''), (''STARTUP_WAIT'', PStr ''FALSE'')]
        [(''CLKIN'', Net ''clk100a''), (''FREEZEDCM'', Lit 0), (''RST'', ResetSig ''sys'')]
        [(''CLKFX'', ''cd_base50.clk''), (''LOCKED'', ''dcm_base50_locked'')],
      ResetSync ''cd_base50'' (Or (Net ''cd_sys.rst'') (Inv (Net ''dcm_base50_locked''))),
      Period ''cd_base50.clk'' 20])))"

definition minispartan6_crg :: "rat \<Rightarrow> crg_stmt list py_result" where
  "minispartan6_crg clk_freq =
    (let f0 = 32 * 1000000;
         (m, n) = quotient_of (of_int \<lfloor>clk_freq\<rfloor> / of_int \<lfloor>f0\<rfloor>);
         p = 8
     in py_bind (py_assert (f0 / of_int n * of_int m = clk_freq)) (\<lambda>_. Inr [
      Domain ''cd_sys'' False,
      Domain ''cd_sys_ps'' False,
      Request ''clk32'' ''clk32'' None,
      Inst ''IBUFG''
        []
        [(''I'', Net ''clk32'')]
        [(''O'', ''clk32a'')],
      Inst ''BUFIO2''
        [(''DIVIDE'', PInt 1), (''DIVIDE_BYPASS'', PStr ''TRUE''), (''I_INVERT'', PStr ''FALSE'')]
        [(''I'', Net ''clk32a'')]
        [(''DIVCLK'', ''clk32b'')],
      Inst ''PLL_ADV''
        [(''SIM_DEVICE'', PStr ''SPARTAN6''), (''BANDWIDTH'', PStr ''OPTIMIZED''),
         (''COMPENSATION'', PStr ''INTERNAL''), (''REF_JITTER'', PRat (1 / 100)),
         (''CLK_FEEDBACK'', PStr ''CLKFBOUT''), (''DIVCLK_DIVIDE'', PInt 1),
         (''CLKFBOUT_MULT'', PInt (m * p div n)), (''CLKFBOUT_PHASE'', PRat 0),
         (''CLKIN1_PERIOD'', PRat (10 ^ 9 / f0)), (''CLKIN2_PERIOD'', PRat 0),
         (''CLKOUT0_DUTY_CYCLE'', PRat (1 / 2)), (''CLKOUT1_DUTY_CYCLE'', PRat (1 / 2)),
         (''CLKOUT2_DUTY_CYCLE'', PRat (1 / 2)), (''CLKOUT3_DUTY_CYCLE'', PRat (1 / 2)),
         (''CLKOUT4_DUTY_CYCLE'', PRat (1 / 2)), (''CLKOUT5_DUTY_CYCLE'', PRat (1 / 2)),
         (''CLKOUT0_PHASE'', PRat 0), (''CLKOUT0_DIVIDE'', PInt (p div 1)),
         (''CLKOUT1_PHASE'', PRat 0), (''CLKOUT1_DIVIDE'', PInt (p div 1)),
         (''CLKOUT2_PHASE'', PRat 0), (''CLKOUT2_DIVIDE'', PInt (p div 1)),
         (''CLKOUT3_PHASE'', PRat 0), (''CLKOUT3_DIVIDE'', PInt (p div 1)),
         (''CLKOUT4_PHASE'', PRat 0), (''CLKOUT4_DIVIDE'', PInt (p div 1)),
         (''CLKOUT5_PHASE'', PRat 270), (''CLKOUT5_DIVIDE'', PInt (p div 1))]
        [(''DADDR'', Lit 0), (''DCLK'', Lit 0), (''DEN'', Lit 0), (''DI'', Lit 0),
         (''DWE'', Lit 0), (''RST'', Lit 0), (''REL'', Lit 0), (''CLKIN1'', Net ''clk32b''),
         (''CLKIN2'', Lit 0), (''CLKINSEL'', Lit 1), (''CLKFBIN'', Net ''pll_fb'')]
        [(''CLKFBOUT'', ''pll_fb''), (''LOCKED'', ''pll_lckd''), (''CLKOUT0'', ''pll[0]''),
         (''CLKOUT1'', ''pll[1]''), (''CLKOUT2'', ''pll[2]''), (''CLKOUT3'', ''pll[3]''),
         (''CLKOUT4'', ''pll[4]''), (''CLKOUT5'', ''pll[5]'')],
      Inst ''BUFG''
        []
        [(''I'', Net ''pll[4]'')]
        [(''O'', ''cd_sys.clk'')],
      Inst ''BUFG''
        []
        [(''I'', Net ''pll[5]'')]
        [(''O'', ''cd_sys_ps.clk'')],
      ResetSync ''cd_sys'' (Inv (Net ''pll_lckd'')),
      Inst ''ODDR2''
        [(''DDR_ALIGNMENT'', PStr ''NONE''), (''INIT'', PInt 0), (''SRTYPE'', PStr ''SYNC'')]
        [(''D0'', Lit 0), (''D1'', Lit 1), (''S'', Lit 0), (''R'', Lit 0), (''CE'', Lit 1),
         (''C0'', Net ''cd_sys.clk''), (''C1'', Inv (Net ''cd_sys.clk''))]
        [(''Q'', ''sdram_clock'')]]))"

definition pano_logic_g2_crg :: "string \<Rightarrow> rat \<Rightarrow> crg_stmt list" where
  "pano_logic_g2_crg default_clk_name default_clk_period =
     [
      Domain ''cd_sys'' False,
      Domain ''cd_sdram_half'' False,
      Domain ''cd_sdram_full_wr'' False,
      Domain ''cd_sdram_full_rd'' False,
      Request ''clk125'' default_clk_name None,
      Inst ''IBUFG''
        []
        [(''I'', Net ''clk125'')]
        [(''O'', ''clk125a'')],
      Inst ''BUFIO2''
        [(''DIVIDE'', PInt 1), (''DIVIDE_BYPASS'', PStr ''TRUE''), (''I_INVERT'', PStr ''FALSE'')]
        [(''I'', Net ''clk125a'')]
        [(''DIVCLK'', ''clk125b'')],
      Inst ''PLL_ADV''
        [(''SIM_DEVICE'', PStr ''SPARTAN6''), (''BANDWIDTH'', PStr ''OPTIMIZED''),
         (''COMPENSATION'', PStr ''INTERNAL''), (''REF_JITTER'', PRat (1 / 100)),
         (''DIVCLK_DIVIDE'', PInt 1), (''CLKIN1_PERIOD'', PRat default_clk_period),
         (''CLKIN2_PERIOD'', PRat 0), (''CLK_FEEDBACK'', PStr ''CLKFBOUT''),
         (''CLKFBOUT_MULT'', PInt 8), (''CLKFBOUT_PHASE'', PRat 0),
         (''CLKOUT0_DUTY_CYCLE'', PRat (1 / 2)), (''CLKOUT0_PHASE'', PRat 0),
         (''CLKOUT0_DIVIDE'', PInt 5), (''CLKOUT1_DUTY_CYCLE'', PRat (1 / 2)),
         (''CLKOUT1_PHASE'', PRat 0), (''CLKOUT1_DIVIDE'', PInt 10),
         (''CLKOUT2_DUTY_CYCLE'', PRat (1 / 2)), (''CLKOUT2_PHASE'', PRat 270),
         (''CLKOUT2_DIVIDE'', PInt 10), (''CLKOUT3_DUTY_CYCLE'', PRat (1 / 2)),
         (''CLKOUT3_PHASE'', PRat 250), (''CLKOUT3_DIVIDE'', PInt 10),
         (''CLKOUT4_DUTY_CYCLE'', PRat (1 / 2)), (''CLKOUT4_PHASE'', PRat 0),
         (''CLKOUT4_DIVIDE'', PInt 10), (''CLKOUT5_DUTY_CYCLE'', PRat (1 / 2)),
         (''CLKOUT5_PHASE'', PRat 0), (''CLKOUT5_DIVIDE'', PInt 20)]
        [(''DADDR'', Lit 0), (''DCLK'', Lit 0), (''DEN'', Lit 0), (''DI'', Lit 0),
         (''DWE'', Lit 0), (''RST'', Lit 0), (''REL'', Lit 0), (''CLKIN1'', Net ''clk125b''),
         (''CLKIN2'', Lit 0), (''CLKINSEL'', Lit 1), (''CLKFBIN'', Net ''pll_fb'')]
        [(''CLKFBOUT'', ''pll_fb''), (''LOCKED'', ''pll_lckd''),
         (''CLKOUT0'', ''unbuf_sdram_full''), (''CLKOUT1'', ''unbuf_encoder''),
         (''CLKOUT2'', ''unbuf_sdram_half_a''), (''CLKOUT3'', ''unbuf_sdram_half_b''),
         (''CLKOUT4'', ''unbuf_unused''), (''CLKOUT5'', ''unbuf_sys'')],
      Wire ''reset'' (Or (Inv (Pad ''cpu_reset'' None)) (Net ''self.reset'')),
      Domain ''cd_por'' False,
      Reg ''por'' 11 2047,
      Countdown ''por'' ''por'' None,
      ResetSync ''cd_por'' (Net ''reset''),
      Inst ''BUFG''
        []
        [(''I'', Net ''unbuf_sys'')]
        [(''O'', ''cd_sys.clk'')],
      Comb ''cd_por.clk'' (Net ''cd_sys.clk''),
      ResetSync ''cd_sys'' (Or (Inv (Net ''pll_lckd'')) (Gt ''por'' 0)),
      Inst ''BUFPLL''
        [(''DIVIDE'', PInt 4)]
        [(''PLLIN'', Net ''unbuf_sdram_full''), (''GCLK'', Net ''cd_sys.clk''),
         (''LOCKED'', Net ''pll_lckd'')]
        [(''IOCLK'', ''cd_sdram_full_wr.clk''), (''SERDESSTROBE'', ''self.clk4x_wr_strb'')],
      Comb ''cd_sdram_full_rd.clk'' (Net ''cd_sdram_full_wr.clk''),
      Comb ''self.clk4x_rd_strb'' (Net ''self.clk4x_wr_strb''),
      Inst ''BUFG''
        []
        [(''I'', Net ''unbuf_sdram_half_a'')]
        [(''O'', ''cd_sdram_half.clk'')],
      Inst ''BUFG''
        []
        [(''I'', Net ''unbuf_sdram_half_b'')]
        [(''O'', ''clk_sdram_half_shifted'')],
      Request ''clk'' ''ddram_clock_b'' None,
      Inst ''ODDR2''
        [(''DDR_ALIGNMENT'', PStr ''NONE''), (''INIT'', PInt 0), (''SRTYPE'', PStr ''SYNC'')]
        [(''D0'', Lit 1), (''D1'', Lit 0), (''S'', Lit 0), (''R'', Lit 0), (''CE'', Lit 1),
         (''C0'', Net ''clk_sdram_half_shifted''), (''C1'', Inv (Net ''clk_sdram_half_shifted''))]
        [(''Q'', ''output_clk'')],
      Inst ''OBUFDS''
        []
        [(''I'', Net ''output_clk'')]
        [(''O'', ''clk.p''), (''OB'', ''clk.n'')]]"

definition pipistrello_crg :: "rat \<Rightarrow> crg_stmt list py_result" where
  "pipistrello_crg clk_freq =
    (let f0 = 50 * 1000000;
         p = 12;
         (n, d) = quotient_of (clk_freq * of_int p / f0)
     in py_bind (py_assert (19 * 10 ^ 6 \<le> f0 / of_int d \<and> f0 / of_int d \<le> 500 * 10 ^ 6)) (\<lambda>_.
        py_bind (py_assert (400 * 10 ^ 6 \<le> f0 * of_int n / of_int d
                            \<and> f0 * of_int n / of_int d \<le> 1080 * 10 ^ 6)) (\<lambda>_. Inr [
      Domain ''cd_sys'' False,
      Domain ''cd_sdram_half'' False,
      Domain ''cd_sdram_full_wr'' False,
      Domain ''cd_sdram_full_rd'' False,
      Domain ''cd_base50'' False,
      Request ''clk50'' ''clk50'' None,
      Inst ''IBUFG''
        []
        [(''I'', Net ''clk50'')]
        [(''O'', ''clk50a'')],
      Inst ''BUFIO2''
        [(''DIVIDE'', PInt 1), (''DIVIDE_BYPASS'', PStr ''TRUE''), (''I_INVERT'', PStr ''FALSE'')]
        [(''I'', Net ''clk50a'')]
        [(''DIVCLK'', ''clk50b'')],
      Inst ''PLL_ADV''
        [(''SIM_DEVICE'', PStr ''SPARTAN6''), (''BANDWIDTH'', PStr ''OPTIMIZED''),
         (''COMPENSATION'', PStr ''INTERNAL''), (''REF_JITTER'', PRat (1 / 100)),
         (''DIVCLK_DIVIDE'', PInt (d)), (''CLKIN1_PERIOD'', PRat (10 ^ 9 / f0)),
         (''CLKIN2_PERIOD'', PRat 0), (''CLK_FEEDBACK'', PStr ''CLKFBOUT''),
         (''CLKFBOUT_MULT'', PInt (n)), (''CLKFBOUT_PHASE'', PRat 0),
         (''CLKOUT0_DUTY_CYCLE'', PRat (1 / 2)), (''CLKOUT0_PHASE'', PRat 0),
         (''CLKOUT0_DIVIDE'', PInt (p div 4)), (''CLKOUT1_DUTY_CYCLE'', PRat (1 / 2)),
         (''CLKOUT1_PHASE'', PRat 0), (''CLKOUT1_DIVIDE'', PInt 15),
         (''CLKOUT2_DUTY_CYCLE'', PRat (1 / 2)), (''CLKOUT2_PHASE'', PRat 270),
         (''CLKOUT2_DIVIDE'', PInt (p div 2)), (''CLKOUT3_DUTY_CYCLE'', PRat (1 / 2)),
         (''CLKOUT3_PHASE'', PRat 250), (''CLKOUT3_DIVIDE'', PInt (p div 2)),
         (''CLKOUT4_DUTY_CYCLE'', PRat (1 / 2)), (''CLKOUT4_PHASE'', PRat 0),
         (''CLKOUT4_DIVIDE'', PInt 20), (''CLKOUT5_DUTY_CYCLE'', PRat (1 / 2)),
         (''CLKOUT5_PHASE'', PRat 0), (''CLKOUT5_DIVIDE'', PInt (p div 1))]
        [(''DADDR'', Lit 0), (''DCLK'', Lit 0), (''DEN'', Lit 0), (''DI'', Lit 0),
         (''DWE'', Lit 0), (''RST'', Lit 0), (''REL'', Lit 0), (''CLKIN1'', Net ''clk50b''),
         (''CLKIN2'', Lit 0), (''CLKINSEL'', Lit 1), (''CLKFBIN'', Net ''pll_fb'')]
        [(''CLKFBOUT'', ''pll_fb''), (''LOCKED'', ''pll_lckd''),
         (''CLKOUT0'', ''unbuf_sdram_full''), (''CLKOUT1'', ''unbuf_unused''),
         (''CLKOUT2'', ''unbuf_sdram_half_a''), (''CLKOUT3'', ''unbuf_sdram_half_b''),
         (''CLKOUT4'', ''unbuf_periph''), (''CLKOUT5'', ''unbuf_sys'')],
      Wire ''reset'' (Or (Pad ''user_btn'' None) (Net ''self.reset'')),
      Domain ''cd_por'' False,
      Reg ''por'' 11 2047,
      Countdown ''por'' ''por'' None,
      ResetSync ''cd_por'' (Net ''reset''),
      Inst ''BUFG''
        []
        [(''I'', Net ''unbuf_sys'')]
        [(''O'', ''cd_sys.clk'')],
      Comb ''cd_por.clk'' (Net ''cd_sys.clk''),
      ResetSync ''cd_sys'' (Or (Inv (Net ''pll_lckd'')) (Gt ''por'' 0)),
      Inst ''BUFPLL''
        [(''DIVIDE'', PInt 4)]
        [(''PLLIN'', Net ''unbuf_sdram_full''), (''GCLK'', Net ''cd_sys.clk''),
         (''LOCKED'', Net ''pll_lckd'')]
        [(''IOCLK'', ''cd_sdram_full_wr.clk''), (''SERDESSTROBE'', ''self.clk4x_wr_strb'')],
      Comb ''cd_sdram_full_rd.clk'' (Net ''cd_sdram_full_wr.clk''),
      Comb ''self.clk4x_rd_strb'' (Net ''self.clk4x_wr_strb''),
      Inst ''BUFG''
        []
        [(''I'', Net ''unbuf_sdram_half_a'')]
        [(''O'', ''cd_sdram_half.clk'')],
      Inst ''BUFG''
        []
        [(''I'', Net ''unbuf_sdram_half_b'')]
        [(''O'', ''clk_sdram_half_shifted'')],
      Request ''clk'' ''ddram_clock'' None,
      Inst ''ODDR2''
        [(''DDR_ALIGNMENT'', PStr ''NONE''), (''INIT'', PInt 0), (''SRTYPE'', PStr ''SYNC'')]
        [(''D0'', Lit 1), (''D1'', Lit 0), (''S'', Lit 0), (''R'', Lit 0), (''CE'', Lit 1),
         (''C0'', Net ''clk_sdram_half_shifted''), (''C1'', Inv (Net ''clk_sdram_half_shifted''))]
        [(''Q'', ''clk.p'')],
      Inst ''ODDR2''
        [(''DDR_ALIGNMENT'', PStr ''NONE''), (''INIT'', PInt 0), (''SRTYPE'', PStr ''SYNC'')]
        [(''D0'', Lit 0), (''D1'', Lit 1), (''S'', Lit 0), (''R'', Lit 0), (''CE'', Lit 1),
         (''C0'', Net ''clk_sdram_half_shifted''), (''C1'', Inv (Net ''clk_sdram_half_shifted''))]
        [(''Q'', ''clk.n'')],
      Inst ''DCM_CLKGEN''
        [(''CLKIN_PERIOD'', PRat 20), (''CLKFX_MULTIPLY'', PInt 2), (''CLKFX_DIVIDE'', PInt 2),
         (''CLKFX_MD_MAX'', PRat 1), (''CLKFXDV_DIVIDE'', PInt 2),
         (''SPREAD_SPECTRUM'', PStr ''NONE''), (''STARTUP_WAIT'', PStr ''FALSE'')]
        [(''CLKIN'', Net ''clk50a''), (''FREEZEDCM'', Lit 0), (''RST'', ResetSig ''sys'')]
        [(''CLKFX'', ''cd_base50.clk''), (''LOCKED'', ''dcm_base50_locked'')],
      ResetSync ''cd_base50'' (Or (Net ''cd_sys.rst'') (Inv (Net ''dcm_base50_locked''))),
      Period ''cd_base50.clk'' 20])))"

definition saturn_crg :: "rat \<Rightarrow> crg_stmt list py_result" where
  "saturn_crg clk_freq =
    (let f0 = 100 * 1000000;
         (n, d) = quotient_of (10 / 1);
         p = 8
     in py_bind (py_assert (f0 * of_int n / of_int d / of_int p / 4 = clk_freq)) (\<lambda>_.
        py_bind (py_assert (19 * 10 ^ 6 \<le> f0 / of_int d \<and> f0 / of_int d \<le> 500 * 10 ^ 6)) (\<lambda>_.
        py_bind (py_assert (400 * 10 ^ 6 \<le> f0 * of_int n / of_int d
                            \<and> f0 * of_int n / of_int d \<le> 1000 * 10 ^ 6)) (\<lambda>_. Inr [
      Domain ''cd_sys'' False,
      Domain ''cd_sdram_half'' False,
      Domain ''cd_sdram_full_wr'' False,
      Domain ''cd_sdram_full_rd'' False,
      Request ''clk100'' ''clk100'' None,
      Inst ''IBUFG''
        []
        [(''I'', Net ''clk100'')]
        [(''O'', ''clk100a'')],
      Inst ''BUFIO2''
        [(''DIVIDE'', PInt 1), (''DIVIDE_BYPASS'', PStr ''TRUE''), (''I_INVERT'', PStr ''FALSE'')]
        [(''I'', Net ''clk100a'')]
        [(''DIVCLK'', ''clk100b'')],
      Inst ''PLL_ADV''
        [(''SIM_DEVICE'', PStr ''SPARTAN6''), (''BANDWIDTH'', PStr ''OPTIMIZED''),
         (''COMPENSATION'', PStr ''INTERNAL''), (''REF_JITTER'', PRat (1 / 100)),
         (''DIVCLK_DIVIDE'', PInt (d)), (''CLKIN1_PERIOD'', PRat (10 ^ 9 / f0)),
         (''CLKIN2_PERIOD'', PRat 0), (''CLK_FEEDBACK'', PStr ''CLKFBOUT''),
         (''CLKFBOUT_MULT'', PInt (n)), (''CLKFBOUT_PHASE'', PRat 0),
         (''CLKOUT0_DUTY_CYCLE'', PRat (1 / 2)), (''CLKOUT0_PHASE'', PRat 0),
         (''CLKOUT0_DIVIDE'', PInt (p)), (''CLKOUT1_DUTY_CYCLE'', PRat (1 / 2)),
         (''CLKOUT1_PHASE'', PRat 0), (''CLKOUT1_DIVIDE'', PInt (p)),
         (''CLKOUT2_DUTY_CYCLE'', PRat (1 / 2)), (''CLKOUT2_PHASE'', PRat 270),
         (''CLKOUT2_DIVIDE'', PInt (p * 2)), (''CLKOUT3_DUTY_CYCLE'', PRat (1 / 2)),
         (''CLKOUT3_PHASE'', PRat 270), (''CLKOUT3_DIVIDE'', PInt (p * 2)),
         (''CLKOUT4_DUTY_CYCLE'', PRat (1 / 2)), (''CLKOUT4_PHASE'', PRat 0),
         (''CLKOUT4_DIVIDE'', PInt (p * 4)), (''CLKOUT5_DUTY_CYCLE'', PRat (1 / 2)),
         (''CLKOUT5_PHASE'', PRat 0), (''CLKOUT5_DIVIDE'', PInt (p * 4))]
        [(''DADDR'', Lit 0), (''DCLK'', Lit 0), (''DEN'', Lit 0), (''DI'', Lit 0),
         (''DWE'', Lit 0), (''RST'', Lit 0), (''REL'', Lit 0), (''CLKIN1'', Net ''clk100b''),
         (''CLKIN2'', Lit 0), (''CLKINSEL'', Lit 1), (''CLKFBIN'', Net ''pll_fb'')]
        [(''CLKFBOUT'', ''pll_fb''), (''LOCKED'', ''pll_lckd''),
         (''CLKOUT0'', ''unbuf_sdram_full''), (''CLKOUT1'', ''unbuf_unused_a''),
         (''CLKOUT2'', ''unbuf_sdram_half_a''), (''CLKOUT3'', ''unbuf_sdram_half_b''),
         (''CLKOUT4'', ''unbuf_unused_b''), (''CLKOUT5'', ''unbuf_sys'')],
      Extension ''reset'' 0 ''P2:0'',
      Request ''reset'' ''reset'' None,
      Domain ''cd_por'' False,
      Reg ''por'' 11 2047,
      Countdown ''por'' ''por'' None,
      ResetSync ''cd_por'' (Net ''reset''),
      Inst ''BUFG''
        []
        [(''I'', Net ''unbuf_sys'')]
        [(''O'', ''cd_sys.clk'')],
      Comb ''cd_por.clk'' (Net ''cd_sys.clk''),
      ResetSync ''cd_sys'' (Or (Inv (Net ''pll_lckd'')) (Gt ''por'' 0)),
      Inst ''BUFPLL''
        [(''DIVIDE'', PInt 4)]
        [(''PLLIN'', Net ''unbuf_sdram_full''), (''GCLK'', Net ''cd_sys.clk''),
         (''LOCKED'', Net ''pll_lckd'')]
        [(''IOCLK'', ''cd_sdram_full_wr.clk''), (''SERDESSTROBE'', ''self.clk4x_wr_strb'')],
      Comb ''cd_sdram_full_rd.clk'' (Net ''cd_sdram_full_wr.clk''),
      Comb ''self.clk4x_rd_strb'' (Net ''self.clk4x_wr_strb''),
      Inst ''BUFG''
        []
        [(''I'', Net ''unbuf_sdram_half_a'')]
        [(''O'', ''cd_sdram_half.clk'')],
      Inst ''BUFG''
        []
        [(''I'', Net ''unbuf_sdram_half_b'')]
        [(''O'', ''clk_sdram_half_shifted'')],
      Request ''clk'' ''ddram_clock'' None,
      Inst ''ODDR2''
        [(''DDR_ALIGNMENT'', PStr ''NONE''), (''INIT'', PInt 0), (''SRTYPE'', PStr ''SYNC'')]
        [(''D0'', Lit 1), (''D1'', Lit 0), (''S'', Lit 0), (''R'', Lit 0), (''CE'', Lit 1),
         (''C0'', Net ''clk_sdram_half_shifted''), (''C1'', Inv (Net ''clk_sdram_half_shifted''))]
        [(''Q'', ''clk.p'')],
      Inst ''ODDR2''
        [(''DDR_ALIGNMENT'', PStr ''NONE''), (''INIT'', PInt 0), (''SRTYPE'', PStr ''SYNC'')]
        [(''D0'', Lit 0), (''D1'', Lit 1), (''S'', Lit 0), (''R'', Lit 0), (''CE'', Lit 1),
         (''C0'', Net ''clk_sdram_half_shifted''), (''C1'', Inv (Net ''clk_sdram_half_shifted''))]
        [(''Q'', ''clk.n'')]]))))"

definition waxwing_crg :: "rat \<Rightarrow> crg_stmt list py_result" where
  "waxwing_crg clk_freq =
    (let f0 = 100 * 1000000;
         (n, d) = quotient_of (10 / 1);
         p = 8
     in py_bind (py_assert (f0 * of_int n / of_int d / of_int p / 4 = clk_freq)) (\<lambda>_.
        py_bind (py_assert (19 * 10 ^ 6 \<le> f0 / of_int d \<and> f0 / of_int d \<le> 500 * 10 ^ 6)) (\<lambda>_.
        py_bind (py_assert (400 * 10 ^ 6 \<le> f0 * of_int n / of_int d
                            \<and> f0 * of_int n / of_int d \<le> 1000 * 10 ^ 6)) (\<lambda>_. Inr [
      Domain ''cd_sys'' False,
      Domain ''cd_sdram_half'' False,
      Domain ''cd_sdram_full_wr'' False,
      Domain ''cd_sdram_full_rd'' False,
      Request ''clk100'' ''clk100'' None,
      Inst ''IBUFG''
        []
        [(''I'', Net ''clk100'')]
        [(''O'', ''clk100a'')],
      Inst ''BUFIO2''
        [(''DIVIDE'', PInt 1), (''DIVIDE_BYPASS'', PStr ''TRUE''), (''I_INVERT'', PStr ''FALSE'')]
        [(''I'', Net ''clk100a'')]
        [(''DIVCLK'', ''clk100b'')],
      Inst ''PLL_ADV''
        [(''SIM_DEVICE'', PStr ''SPARTAN6''), (''BANDWIDTH'', PStr ''OPTIMIZED''),
         (''COMPENSATION'', PStr ''INTERNAL''), (''REF_JITTER'', PRat (1 / 100)),
         (''DIVCLK_DIVIDE'', PInt (d)), (''CLKIN1_PERIOD'', PRat (10 ^ 9 / f0)),
         (''CLKIN2_PERIOD'', PRat 0), (''CLK_FEEDBACK'', PStr ''CLKFBOUT''),
         (''CLKFBOUT_MULT'', PInt (n)), (''CLKFBOUT_PHASE'', PRat 0),
         (''CLKOUT0_DUTY_CYCLE'', PRat (1 / 2)), (''CLKOUT0_PHASE'', PRat 0),
         (''CLKOUT0_DIVIDE'', PInt (p)), (''CLKOUT1_DUTY_CYCLE'', PRat (1 / 2)),
         (''CLKOUT1_PHASE'', PRat 0), (''CLKOUT1_DIVIDE'', PInt (p)),
         (''CLKOUT2_DUTY_CYCLE'', PRat (1 / 2)), (''CLKOUT2_PHASE'', PRat 270),
         (''CLKOUT2_DIVIDE'', PInt (p * 2)), (''CLKOUT3_DUTY_CYCLE'', PRat (1 / 2)),
         (''CLKOUT3_PHASE'', PRat 270), (''CLKOUT3_DIVIDE'', PInt (p * 2)),
         (''CLKOUT4_DUTY_CYCLE'', PRat (1 / 2)), (''CLKOUT4_PHASE'', PRat 0),
         (''CLKOUT4_DIVIDE'', PInt (p * 4)), (''CLKOUT5_DUTY_CYCLE'', PRat (1 / 2)),
         (''CLKOUT5_PHASE'', PRat 0), (''CLKOUT5_DIVIDE'', PInt (p * 4))]
        [(''DADDR'', Lit 0), (''DCLK'', Lit 0), (''DEN'', Lit 0), (''DI'', Lit 0),
         (''DWE'', Lit 0), (''RST'', Lit 0), (''REL'', Lit 0), (''CLKIN1'', Net ''clk100b''),
         (''CLKIN2'', Lit 0), (''CLKINSEL'', Lit 1), (''CLKFBIN'', Net ''pll_fb'')]
        [(''CLKFBOUT'', ''pll_fb''), (''LOCKED'', ''pll_lckd''),
         (''CLKOUT0'', ''unbuf_sdram_full''), (''CLKOUT1'', ''unbuf_unused_a''),
         (''CLKOUT2'', ''unbuf_sdram_half_a''), (''CLKOUT3'', ''unbuf_sdram_half_b''),
         (''CLKOUT4'', ''unbuf_unused_b''), (''CLKOUT5'', ''unbuf_sys'')],
      Wire ''reset'' (Inv (Pad ''user_btn'' (Some 0))),
      Domain ''cd_por'' False,
      Reg ''por'' 11 2047,
      Countdown ''por'' ''por'' None,
      ResetSync ''cd_por'' (Net ''reset''),
      Inst ''BUFG''
        []
        [(''I'', Net ''unbuf_sys'')]
        [(''O'', ''cd_sys.clk'')],
      Comb ''cd_por.clk'' (Net ''cd_sys.clk''),
      ResetSync ''cd_sys'' (Or (Inv (Net ''pll_lckd'')) (Gt ''por'' 0)),
      Inst ''BUFPLL''
        [(''DIVIDE'', PInt 4)]
        [(''PLLIN'', Net ''unbuf_sdram_full''), (''GCLK'', Net ''cd_sys.clk''),
         (''LOCKED'', Net ''pll_lckd'')]
        [(''IOCLK'', ''cd_sdram_full_wr.clk''), (''SERDESSTROBE'', ''self.clk4x_wr_strb'')],
      Comb ''cd_sdram_full_rd.clk'' (Net ''cd_sdram_full_wr.clk''),
      Comb ''self.clk4x_rd_strb'' (Net ''self.clk4x_wr_strb''),
      Inst ''BUFG''
        []
        [(''I'', Net ''unbuf_sdram_half_a'')]
        [(''O'', ''cd_sdram_half.clk'')],
      Inst ''BUFG''
        []
        [(''I'', Net ''unbuf_sdram_half_b'')]
        [(''O'', ''clk_sdram_half_shifted'')],
      Request ''clk'' ''ddram_clock'' None,
      Inst ''ODDR2''
        [(''DDR_ALIGNMENT'', PStr ''NONE''), (''INIT'', PInt 0), (''SRTYPE'', PStr ''SYNC'')]
        [(''D0'', Lit 1), (''D1'', Lit 0), (''S'', Lit 0), (''R'', Lit 0), (''CE'', Lit 1),
         (''C0'', Net ''clk_sdram_half_shifted''), (''C1'', Inv (Net ''clk_sdram_half_shifted''))]
        [(''Q'', ''clk.p'')],
      Inst ''ODDR2''
        [(''DDR_ALIGNMENT'', PStr ''NONE''), (''INIT'', PInt 0), (''SRTYPE'', PStr ''SYNC'')]
        [(''D0'', Lit 0), (''D1'', Lit 1), (''S'', Lit 0), (''R'', Lit 0), (''CE'', Lit 1),
         (''C0'', Net ''clk_sdram_half_shifted''), (''C1'', Inv (Net ''clk_sdram_half_shifted''))]
        [(''Q'', ''clk.n'')]]))))"

end
