(* ===== verification/Soc_Spartan6.thy ===== *)
theory Soc_Spartan6
  imports Soc_Types Crg_Spartan6
begin

text \<open>
  The base systems of the Spartan-6 boards, \<open>BaseSoC\<close> in \<open>targets/*/base.py\<close>: the CSR peripherals, the
  memory map over that of the LiteX base class, and the constructor.
\<close>

definition opsis_csr_peripherals :: "string list" where
  "opsis_csr_peripherals =
     [''spiflash'', ''front_panel'', ''ddrphy'', ''info'', ''fx2_reset'', ''fx2_hack'', ''tofe'',
      ''opsis_i2c'', ''uart'']"

definition opsis_mem_map :: "(string, int) dict \<Rightarrow> (string, int) dict" where
  "opsis_mem_map base =
     dict_update [(''spiflash'', 0x20000000), (''emulator_ram'', 0x50000000)] base"

definition opsis_base_soc :: "soc_env \<Rightarrow> soc_stmt list py_result" where
  "opsis_base_soc env =
     py_bind (get_attr (pa_flash (se_plat env))) (\<lambda>fl.
     py_bind (get_attr (pa_gateware_size (se_plat env))) (\<lambda>gateware_size.
     py_bind (dict_get (se_mem env) ''emulator_ram'') (\<lambda>mem_emulator_ram.
     py_bind (dict_get (se_mem env) ''spiflash'') (\<lambda>mem_spiflash.
     (let kwargs = se_kwargs env;
          kwargs = set_default ''integrated_rom_size'' (KInt 32768) kwargs;
          kwargs = set_default ''integrated_sram_size'' (KInt 32768) kwargs;
          clk_freq = 50 * 1000000;
          tofe_board_name = map_of kwargs ''expansion'';
          kwargs = dict_del ''expansion'' kwargs;
          size = (16384 :: int);
          bios_size = (32768 :: int);
          flash_boot_address = mem_spiflash + gateware_size + bios_size
      in
     py_bind (opsis_crg clk_freq) (\<lambda>crg.
     py_bind (opsis_tofe tofe_board_name) (\<lambda>tofe.
     Inr ([
       Init ''SoCSDRAM'' clk_freq [(''with_uart'', KBool False)] kwargs,
       Crg crg,
       Sys_period (10 ^ 9 / clk_freq),
       Submodule ''info'' ''info.Info'' [],
       Submodule ''opsis_i2c'' ''opsis_i2c.OpsisI2C'' [],
       Submodule ''suart'' ''shared_uart.SharedUART'' [(''#0'', KInt 115200)],
       Use ''fx2_serial'' None,
       Uart_pads,
       Alias ''uart'' ''suart.uart'',
       Use ''spiflash4x'' None,
       Submodule ''spiflash'' ''spi_flash.SpiFlash'' [(''dummy'', KInt (fl_dummy fl)),
        (''div'', KInt (fl_div fl))],
       Constant ''SPIFLASH_PAGE_SIZE'' (fl_page fl),
       Constant ''SPIFLASH_SECTOR_SIZE'' (fl_sector fl),
       Register_mem ''spiflash'' mem_spiflash (fl_total fl)]
      @ (if linux_cpu env
      then [
         Submodule ''emulator_ram'' ''wishbone.SRAM'' [],
         Register_mem ''emulator_ram'' mem_emulator_ram (size)]
      else [])
      @ [
       Constant ''FLASH_BOOT_ADDRESS'' (flash_boot_address),
       Submodule ''front_panel'' ''FrontPanelGPIO'' [],
       Connect ''crg.reset'' ''front_panel.reset'',
       Use ''ddram'' None,
       Submodule ''ddrphy'' ''s6ddrphy.S6QuarterRateDDRPHY'' [(''rd_bitslip'', KInt 0),
        (''wr_bitslip'', KInt 4), (''dqs_ddr_alignment'', KStr ''C0'')],
       Register_sdram ''MT41J128M16'' ''1:4'' [(''with_bandwidth'', KBool True)],
       Connect ''ddrphy.clk8x_wr_strb'' ''crg.clk8x_wr_strb'',
       Connect ''ddrphy.clk8x_rd_strb'' ''crg.clk8x_rd_strb'']
      @ tofe
      @ [
       Interrupt ''uart'']))))))))"

definition atlys_csr_peripherals :: "string list" where
  "atlys_csr_peripherals =
     [''spiflash'', ''ddrphy'', ''info'']"

definition atlys_mem_map :: "(string, int) dict \<Rightarrow> (string, int) dict" where
  "atlys_mem_map base =
     dict_update [(''spiflash'', 0x20000000)] base"

definition atlys_base_soc :: "soc_env \<Rightarrow> soc_stmt list py_result" where
  "atlys_base_soc env =
     py_bind (get_attr (pa_flash (se_plat env))) (\<lambda>fl.
     py_bind (get_attr (pa_gateware_size (se_plat env))) (\<lambda>gateware_size.
     py_bind (dict_get (se_mem env) ''spiflash'') (\<lambda>mem_spiflash.
     (let kwargs = se_kwargs env;
          kwargs = set_default ''integrated_rom_size'' (KInt 32768) kwargs;
          kwargs = set_default ''integrated_sram_size'' (KInt 32768) kwargs;
          clk_freq = 75 * 1000000;
          bios_size = (32768 :: int);
          flash_boot_address = mem_spiflash + gateware_size + bios_size
      in
     py_bind (atlys_crg clk_freq) (\<lambda>crg.
     Inr ([
       Init ''SoCSDRAM'' clk_freq [] kwargs,
       Crg crg,
       Sys_period (10 ^ 9 / clk_freq),
       Submodule ''info'' ''info.Info'' [],
       Use ''spiflash4x'' None,
       Submodule ''spiflash'' ''spi_flash.SpiFlash'' [(''dummy'', KInt (fl_dummy fl)),
        (''div'', KInt (fl_div fl))],
       Constant ''SPIFLASH_PAGE_SIZE'' (fl_page fl),
       Constant ''SPIFLASH_SECTOR_SIZE'' (fl_sector fl),
       Register_mem ''spiflash'' mem_spiflash (fl_total fl),
       Constant ''FLASH_BOOT_ADDRESS'' (flash_boot_address),
       Use ''ddram'' None,
       Submodule ''ddrphy'' ''s6ddrphy.S6HalfRateDDRPHY'' [(''rd_bitslip'', KInt 0),
        (''wr_bitslip'', KInt 4), (''dqs_ddr_alignment'', KStr ''C0'')],
       Register_sdram ''P3R1GE4JGF'' ''1:2'' [(''with_bandwidth'', KBool True)],
       Connect ''ddrphy.clk4x_wr_strb'' ''crg.clk4x_wr_strb'',
       Connect ''ddrphy.clk4x_rd_strb'' ''crg.clk4x_rd_strb'']))))))"

definition galatea_csr_peripherals :: "string list" where
  "galatea_csr_peripherals =
     [''spiflash'', ''ddrphy'', ''info'']"

definition galatea_mem_map :: "(string, int) dict \<Rightarrow> (string, int) dict" where
  "galatea_mem_map base =
     base"

definition galatea_base_soc :: "soc_env \<Rightarrow> soc_stmt list py_result" where
  "galatea_base_soc env =
     (let kwargs = se_kwargs env;
          kwargs = set_default ''integrated_rom_size'' (KInt 32768) kwargs;
          kwargs = set_default ''integrated_sram_size'' (KInt 16384) kwargs;
          kwargs = dict_del ''expansion'' kwargs;
          clk_freq = 50 * 1000000
      in
     py_bind (galatea_crg clk_freq) (\<lambda>crg.
     Inr ([
       Init ''SoCSDRAM'' clk_freq [] kwargs,
       Crg crg,
       Sys_period (10 ^ 9 / clk_freq),
       Submodule ''info'' ''info.Info'' [],
       Use ''ddram'' None,
       Submodule ''ddrphy'' ''s6ddrphy.S6QuarterRateDDRPHY'' [(''rd_bitslip'', KInt 0),
        (''wr_bitslip'', KInt 4), (''dqs_ddr_alignment'', KStr ''C0'')],
       Register_sdram ''MT41J128M16'' ''1:4'' [(''with_bandwidth'', KBool True)],
       Connect ''ddrphy.clk8x_wr_strb'' ''crg.clk8x_wr_strb'',
       Connect ''ddrphy.clk8x_rd_strb'' ''crg.clk8x_rd_strb''])))"

definition mimasv2_csr_peripherals :: "string list" where
  "mimasv2_csr_peripherals =
     [''spiflash'', ''ddrphy'', ''info'', ''cas'']"

definition mimasv2_mem_map :: "(string, int) dict \<Rightarrow> (string, int) dict" where
  "mimasv2_mem_map base =
     dict_update [(''spiflash'', 0x20000000)] base"

definition mimasv2_base_soc :: "soc_env \<Rightarrow> soc_stmt list py_result" where
  "mimasv2_base_soc env =
     py_bind (get_attr (pa_flash (se_plat env))) (\<lambda>fl.
     py_bind (get_attr (pa_gateware_size (se_plat env))) (\<lambda>gateware_size.
     py_bind (dict_get (se_mem env) ''spiflash'') (\<lambda>mem_spiflash.
     (let kwargs = se_kwargs env;
          kwargs = set_default ''integrated_rom_size'' KNone kwargs;
          kwargs = set_default ''integrated_sram_size'' (KInt 16384) kwargs;
          cpu_reset_address = mem_spiflash + gateware_size;
          kwargs = dict_update kwargs [(''cpu_reset_address'', KInt cpu_reset_address)];
          kwargs = dict_update kwargs [(''uart_baudrate'', KInt (if se_jimmo env = ''0'' then 19200 else 115200))];
          clk_freq = (83 + 1 / 3) * 1000 * 1000;
          bios_size = (32768 :: int);
          flash_boot_address = mem_spiflash + gateware_size + bios_size
      in
     py_bind (mimasv2_crg clk_freq) (\<lambda>crg.
     Inr ([
       Init ''SoCSDRAM'' clk_freq [] kwargs,
       Crg crg,
       Sys_period (10 ^ 9 / clk_freq),
       Submodule ''info'' ''info.Info'' [],
       Submodule ''cas'' ''cas.ControlAndStatus'' [],
       Use ''spiflash'' None,
       Submodule ''spiflash'' ''spi_flash.SpiFlashSingle'' [(''dummy'', KInt (fl_dummy fl)),
        (''div'', KInt (fl_div fl))],
       Constant ''SPIFLASH_PAGE_SIZE'' (fl_page fl),
       Constant ''SPIFLASH_SECTOR_SIZE'' (fl_sector fl),
       Register_mem ''spiflash'' mem_spiflash (fl_total fl),
       Constant ''ROM_DISABLE'' (1),
       Memory_region ''rom'' (cpu_reset_address) (bios_size) ''cached+linker'',
       Constant ''FLASH_BOOT_ADDRESS'' (flash_boot_address),
       Use ''ddram'' None,
       Submodule ''ddrphy'' ''s6ddrphy.S6HalfRateDDRPHY'' [(''rd_bitslip'', KInt 1),
        (''wr_bitslip'', KInt 3), (''dqs_ddr_alignment'', KStr ''C1'')],
       Register_sdram ''MT46H32M16'' ''1:2'' [(''with_bandwidth'', KBool True)],
       Connect ''ddrphy.clk4x_wr_strb'' ''crg.clk4x_wr_strb'',
       Connect ''ddrphy.clk4x_rd_strb'' ''crg.clk4x_rd_strb'']))))))"

definition minispartan6_csr_peripherals :: "string list" where
  "minispartan6_csr_peripherals =
     [''spiflash'', ''cas'', ''ddrphy'', ''info'']"

definition minispartan6_mem_map :: "(string, int) dict \<Rightarrow> (string, int) dict" where
  "minispartan6_mem_map base =
     dict_update [(''spiflash'', 0x20000000)] base"

definition minispartan6_base_soc :: "soc_env \<Rightarrow> soc_stmt list py_result" where
  "minispartan6_base_soc env =
     py_bind (get_attr (pa_flash (se_plat env))) (\<lambda>fl.
     py_bind (get_attr (pa_gateware_size (se_plat env))) (\<lambda>gateware_size.
     py_bind (dict_get (se_mem env) ''spiflash'') (\<lambda>mem_spiflash.
     (let kwargs = se_kwargs env;
          kwargs = set_default ''integrated_rom_size'' (KInt 32768) kwargs;
          kwargs = set_default ''integrated_sram_size'' (KInt 16384) kwargs;
          clk_freq = 80 * 1000000;
          flash_boot_address = mem_spiflash + gateware_size
      in
     py_bind (minispartan6_crg clk_freq) (\<lambda>crg.
     Inr ([
       Init ''SoCSDRAM'' clk_freq [] kwargs,
       Crg crg,
       Sys_period (10 ^ 9 / clk_freq),
       Submodule ''info'' ''info.Info'' [],
       Submodule ''cas'' ''cas.ControlAndStatus'' [],
       Use ''spiflash2x'' None,
       Submodule ''spiflash'' ''spi_flash.SpiFlash'' [(''dummy'', KInt (fl_dummy fl)),
        (''div'', KInt (fl_div fl))],
       Constant ''SPIFLASH_PAGE_SIZE'' (fl_page fl),
       Constant ''SPIFLASH_SECTOR_SIZE'' (fl_sector fl),
       Constant ''FLASH_BOOT_ADDRESS'' (flash_boot_address),
       Register_mem ''spiflash'' mem_spiflash (fl_total fl),
       Use ''sdram'' None,
       Submodule ''ddrphy'' ''gensdrphy.GENSDRPHY'' [],
       Register_sdram ''AS4C16M16'' ''1:1'' []]))))))"

definition pano_logic_g2_csr_peripherals :: "string list" where
  "pano_logic_g2_csr_peripherals =
     [''ddrphy'', ''info'', ''cas'']"

definition pano_logic_g2_mem_map :: "(string, int) dict \<Rightarrow> (string, int) dict" where
  "pano_logic_g2_mem_map base =
     dict_update [(''emulator_ram'', 0x50000000)] base"

definition pano_logic_g2_base_soc :: "soc_env \<Rightarrow> soc_stmt list py_result" where
  "pano_logic_g2_base_soc env =
     py_bind (dict_get (se_mem env) ''emulator_ram'') (\<lambda>mem_emulator_ram.
     (let kwargs = se_kwargs env;
          kwargs = set_default ''integrated_rom_size'' (KInt 32768) kwargs;
          kwargs = set_default ''integrated_sram_size'' (KInt 32768) kwargs;
          clk_freq = 50000000;
          size = (16384 :: int)
      in
     (let crg = pano_logic_g2_crg (pa_clk_name (se_plat env)) (pa_clk_period (se_plat env)) in
     Inr ([
       Init ''SoCSDRAM'' clk_freq [] kwargs,
       Crg crg,
       Sys_period (10 ^ 9 / clk_freq),
       Submodule ''info'' ''info.Info'' [],
       Submodule ''cas'' ''cas.ControlAndStatus'' [],
       Use ''gmii_rst_n'' None,
       Connect ''gmii_rst_n'' ''1'']
      @ (if linux_cpu env
      then [
         Submodule ''emulator_ram'' ''wishbone.SRAM'' [],
         Register_mem ''emulator_ram'' mem_emulator_ram (size)]
      else [])
      @ [
       Use ''ddram_b'' None,
       Submodule ''ddrphy'' ''s6ddrphy.S6HalfRateDDRPHY'' [(''rd_bitslip'', KInt 0),
        (''wr_bitslip'', KInt 4), (''dqs_ddr_alignment'', KStr ''C0'')],
       Register_sdram ''MT47H32M16'' ''1:2'' [(''with_bandwidth'', KBool True)],
       Connect ''ddrphy.clk4x_wr_strb'' ''crg.clk4x_wr_strb'',
       Connect ''ddrphy.clk4x_rd_strb'' ''crg.clk4x_rd_strb'']))))"

definition pipistrello_csr_peripherals :: "string list" where
  "pipistrello_csr_peripherals =
     [''spiflash'', ''front_panel'', ''ddrphy'', ''info'']"

definition pipistrello_mem_map :: "(string, int) dict \<Rightarrow> (string, int) dict" where
  "pipistrello_mem_map base =
     dict_update [(''spiflash'', 0x20000000)] base"

definition pipistrello_base_soc :: "soc_env \<Rightarrow> soc_stmt list py_result" where
  "pipistrello_base_soc env =
     py_bind (get_attr (pa_flash (se_plat env))) (\<lambda>fl.
     py_bind (get_attr (pa_gateware_size (se_plat env))) (\<lambda>gateware_size.
     py_bind (dict_get (se_mem env) ''spiflash'') (\<lambda>mem_spiflash.
     (let kwargs = se_kwargs env;
          kwargs = set_default ''integrated_rom_size'' (KInt 32768) kwargs;
          kwargs = set_default ''integrated_sram_size'' (KInt 16384) kwargs;
          clk_freq = (83 + 1 / 3) * 1000 * 1000;
          bios_size = (32768 :: int);
          flash_boot_address = mem_spiflash + gateware_size + bios_size
      in
     py_bind (pipistrello_crg clk_freq) (\<lambda>crg.
     Inr ([
       Init ''SoCSDRAM'' clk_freq [] kwargs,
       Crg crg,
       Sys_period (10 ^ 9 / clk_freq),
       Submodule ''info'' ''info.Info'' [],
       Use ''spiflash4x'' None,
       Submodule ''spiflash'' ''spi_flash.SpiFlash'' [(''dummy'', KInt (fl_dummy fl)),
        (''div'', KInt (fl_div fl))],
       Constant ''SPIFLASH_PAGE_SIZE'' (fl_page fl),
       Constant ''SPIFLASH_SECTOR_SIZE'' (fl_sector fl),
       Register_mem ''spiflash'' mem_spiflash (fl_total fl),
       Constant ''FLASH_BOOT_ADDRESS'' (flash_boot_address),
       Use ''ddram'' None,
       Submodule ''ddrphy'' ''s6ddrphy.S6HalfRateDDRPHY'' [(''rd_bitslip'', KInt 1),
        (''wr_bitslip'', KInt 3), (''dqs_ddr_alignment'', KStr ''C1'')],
       Register_sdram ''MT46H32M16'' ''1:2'' [(''with_bandwidth'', KBool True)],
       Connect ''ddrphy.clk4x_wr_strb'' ''crg.clk4x_wr_strb'',
       Connect ''ddrphy.clk4x_rd_strb'' ''crg.clk4x_rd_strb'']))))))"

definition saturn_csr_peripherals :: "string list" where
  "saturn_csr_peripherals =
     [''ddrphy'']"

definition saturn_mem_map :: "(string, int) dict \<Rightarrow> (string, int) dict" where
  "saturn_mem_map base =
     base"

definition saturn_base_soc :: "soc_env \<Rightarrow> soc_stmt list py_result" where
  "saturn_base_soc env =
     (let kwargs = se_kwargs env;
          kwargs = set_default ''integrated_rom_size'' (KInt 32768) kwargs;
          kwargs = set_default ''integrated_sram_size'' (KInt 16384) kwargs;
          clk_freq = (31 + 1 / 4) * 1000 * 1000
      in
     py_bind (saturn_crg clk_freq) (\<lambda>crg.
     Inr ([
       Init ''SoCSDRAM'' clk_freq [] kwargs,
       Crg crg,
       Use ''ddram'' None,
       Submodule ''ddrphy'' ''s6ddrphy.S6HalfRateDDRPHY'' [(''rd_bitslip'', KInt 2),
        (''wr_bitslip'', KInt 3), (''dqs_ddr_alignment'', KStr ''C1'')],
       Register_sdram ''MT46H32M16'' ''1:2'' [(''with_bandwidth'', KBool True)],
       Connect ''ddrphy.clk4x_wr_strb'' ''crg.clk4x_wr_strb'',
       Connect ''ddrphy.clk4x_rd_strb'' ''crg.clk4x_rd_strb''])))"

definition waxwing_csr_peripherals :: "string list" where
  "waxwing_csr_peripherals =
     [''ddrphy'']"

definition waxwing_mem_map :: "(string, int) dict \<Rightarrow> (string, int) dict" where
  "waxwing_mem_map base =
     base"

definition waxwing_base_soc :: "soc_env \<Rightarrow> soc_stmt list py_result" where
  "waxwing_base_soc env =
     (let kwargs = se_kwargs env;
          kwargs = set_default ''integrated_rom_size'' (KInt 32768) kwargs;
          kwargs = set_default ''integrated_sram_size'' (KInt 32768) kwargs;
          clk_freq = (31 + 1 / 4) * 1000 * 1000
      in
     py_bind (waxwing_crg clk_freq) (\<lambda>crg.
     Inr ([
       Init ''SoCSDRAM'' clk_freq [] kwargs,
       Crg crg,
       Use ''ddram'' None,
       Submodule ''ddrphy'' ''s6ddrphy.S6HalfRateDDRPHY'' [(''rd_bitslip'', KInt 2),
        (''wr_bitslip'', KInt 3), (''dqs_ddr_alignment'', KStr ''C1'')],
       Register_sdram ''MT46H32M16'' ''1:2'' [(''with_bandwidth'', KBool True)],
       Connect ''ddrphy.clk4x_wr_strb'' ''crg.clk4x_wr_strb'',
       Connect ''ddrphy.clk4x_rd_strb'' ''crg.clk4x_rd_strb''])))"

end
