(* ===== verification/Crg_Artix7.thy ===== *)
theory Crg_Artix7
  imports Clocking
begin

text \<open>
  The clock and reset generators of the Artix-7 boards, statement by statement.
\<close>

definition arty_crg :: "crg_stmt list" where
  "arty_crg =
     [
      Domain ''cd_sys'' False,
      Domain ''cd_sys4x'' True,
      Domain ''cd_sys4x_dqs'' True,
      Domain ''cd_clk200'' False,
      Domain ''cd_clk100'' False,
      Domain ''cd_clk50'' False,
      Request ''clk100'' ''clk100'' None,
      Wire ''rst'' (Inv (Pad ''cpu_reset'' None)),
      Inst ''PLLE2_BASE''
        [(''STARTUP_WAIT'', PStr ''FALSE''), (''REF_JITTER1'', PRat (1 / 100)),
         (''CLKIN1_PERIOD'', PRat 10), (''CLKFBOUT_MULT'', PInt 16), (''DIVCLK_DIVIDE'', PInt 1),
         (''CLKOUT0_DIVIDE'', PInt 16), (''CLKOUT0_PHASE'', PRat 0), (''CLKOUT1_DIVIDE'', PInt 4),
         (''CLKOUT1_PHASE'', PRat 0), (''CLKOUT2_DIVIDE'', PInt 4), (''CLKOUT2_PHASE'', PRat 90),
         (''CLKOUT3_DIVIDE'', PInt 8), (''CLKOUT3_PHASE'', PRat 0), (''CLKOUT4_DIVIDE'', PInt 32),
         (''CLKOUT4_PHASE'', PRat 0), (''CLKOUT5_DIVIDE'', PInt 16), (''CLKOUT5_PHASE'', PRat 0)]
        [(''CLKIN1'', Net ''clk100''), (''CLKFBIN'', Net ''pll_fb'')]
        [(''LOCKED'', ''pll_locked''), (''CLKFBOUT'', ''pll_fb''),
         (''CLKOUT0'', ''self.pll_sys''), (''CLKOUT1'', ''pll_sys4x''),
         (''CLKOUT2'', ''pll_sys4x_dqs''), (''CLKOUT3'', ''pll_clk200''),
         (''CLKOUT4'', ''pll_clk50''), (''CLKOUT5'', ''pll_clk100'')],
      Inst ''BUFG''
        []
        [(''I'', Net ''self.pll_sys'')]
        [(''O'', ''cd_sys.clk'')],
      Inst ''BUFG''
        []
        [(''I'', Net ''pll_sys4x'')]
        [(''O'', ''cd_sys4x.clk'')],
      Inst ''BUFG''
        []
        [(''I'', Net ''pll_sys4x_dqs'')]
        [(''O'', ''cd_sys4x_dqs.clk'')],
      Inst ''BUFG''
        []
        [(''I'', Net ''pll_clk200'')]
        [(''O'', ''cd_clk200.clk'')],
      Inst ''BUFG''
        []
        [(''I'', Net ''pll_clk100'')]
        [(''O'', ''cd_clk100.clk'')],
      Inst ''BUFG''
        []
        [(''I'', Net ''pll_clk50'')]
        [(''O'', ''cd_clk50.clk'')],
      ResetSync ''cd_sys'' (Or (Inv (Net ''pll_locked'')) (Net ''rst'')),
      ResetSync ''cd_clk200'' (Or (Inv (Net ''pll_locked'')) (Net ''rst'')),
      ResetSync ''cd_clk100'' (Or (Inv (Net ''pll_locked'')) (Net ''rst'')),
      ResetSync ''cd_clk50'' (Or (Inv (Net ''pll_locked'')) (Net ''rst'')),
      Reg ''reset_counter'' 4 15,
      Reg ''ic_reset'' 1 1,
      Countdown ''clk200'' ''reset_counter'' (Some ''ic_reset''),
      Inst ''IDELAYCTRL''
        []
        [(''REFCLK'', ClockSig ''clk200''), (''RST'', Net ''ic_reset'')]
        [],
      Inst ''BUFR''
        [(''BUFR_DIVIDE'', PStr ''4'')]
        [(''CE'', Lit 1), (''CLR'', Lit 0), (''I'', Net ''clk100'')]
        [(''O'', ''eth_clk'')],
      Inst ''BUFG''
        []
        [(''I'', Net ''eth_clk'')]
        [(''O'', ''eth_ref_clk'')]]"

definition nexys_video_crg :: "crg_stmt list" where
  "nexys_video_crg =
     [
      Domain ''cd_sys'' False,
      Domain ''cd_sys4x'' True,
      Domain ''cd_sys4x_dqs'' True,
      Domain ''cd_clk200'' False,
      Domain ''cd_clk100'' False,
      Request ''clk100'' ''clk100'' None,
      Wire ''rst'' (Inv (Pad ''cpu_reset'' None)),
      Inst ''PLLE2_BASE''
        [(''STARTUP_WAIT'', PStr ''FALSE''), (''REF_JITTER1'', PRat (1 / 100)),
         (''CLKIN1_PERIOD'', PRat 10), (''CLKFBOUT_MULT'', PInt 16), (''DIVCLK_DIVIDE'', PInt 1),
         (''CLKOUT0_DIVIDE'', PInt 16), (''CLKOUT0_PHASE'', PRat 0), (''CLKOUT1_DIVIDE'', PInt 4),
         (''CLKOUT1_PHASE'', PRat 0), (''CLKOUT2_DIVIDE'', PInt 4), (''CLKOUT2_PHASE'', PRat 90),
         (''CLKOUT3_DIVIDE'', PInt 8), (''CLKOUT3_PHASE'', PRat 0)]
        [(''CLKIN1'', Net ''clk100''), (''CLKFBIN'', Net ''pll_fb'')]
        [(''LOCKED'', ''pll_locked''), (''CLKFBOUT'', ''pll_fb''),
         (''CLKOUT0'', ''self.pll_sys''), (''CLKOUT1'', ''pll_sys4x''),
         (''CLKOUT2'', ''pll_sys4x_dqs''), (''CLKOUT3'', ''pll_clk200'')],
      Inst ''BUFG''
        []
        [(''I'', Net ''self.pll_sys'')]
        [(''O'', ''cd_sys.clk'')],
      Inst ''BUFG''
        []
        [(''I'', Net ''pll_sys4x'')]
        [(''O'', ''cd_sys4x.clk'')],
      Inst ''BUFG''
        []
        [(''I'', Net ''pll_sys4x_dqs'')]
        [(''O'', ''cd_sys4x_dqs.clk'')],
      Inst ''BUFG''
        []
        [(''I'', Net ''pll_clk200'')]
        [(''O'', ''cd_clk200.clk'')],
      Inst ''BUFG''
        []
        [(''I'', Net ''clk100'')]
        [(''O'', ''cd_clk100.clk'')],
      ResetSync ''cd_sys'' (Or (Inv (Net ''pll_locked'')) (Net ''rst'')),
      ResetSync ''cd_clk200'' (Or (Inv (Net ''pll_locked'')) (Net ''rst'')),
      ResetSync ''cd_clk100'' (Or (Inv (Net ''pll_locked'')) (Net ''rst'')),
      Reg ''reset_counter'' 4 15,
      Reg ''ic_reset'' 1 1,
      Countdown ''clk200'' ''reset_counter'' (Some ''ic_reset''),
      Inst ''IDELAYCTRL''
        []
        [(''REFCLK'', ClockSig ''clk200''), (''RST'', Net ''ic_reset'')]
        []]"

definition mimas_a7_crg :: "crg_stmt list" where
  "mimas_a7_crg =
     [
      Domain ''cd_sys'' False,
      Domain ''cd_sys4x'' True,
      Domain ''cd_sys4x_dqs'' True,
      Domain ''cd_clk200'' False,
      Domain ''cd_clk100'' False,
      Request ''clk100'' ''clk100'' None,
      Request ''rst'' ''cpu_reset'' None,
      Inst ''PLLE2_BASE''
        [(''STARTUP_WAIT'', PStr ''FALSE''), (''REF_JITTER1'', PRat (1 / 100)),
         (''CLKIN1_PERIOD'', PRat 10), (''CLKFBOUT_MULT'', PInt 16), (''DIVCLK_DIVIDE'', PInt 1),
         (''CLKOUT0_DIVIDE'', PInt 16), (''CLKOUT0_PHASE'', PRat 0), (''CLKOUT1_DIVIDE'', PInt 4),
         (''CLKOUT1_PHASE'', PRat 0), (''CLKOUT2_DIVIDE'', PInt 4), (''CLKOUT2_PHASE'', PRat 90),
         (''CLKOUT3_DIVIDE'', PInt 8), (''CLKOUT3_PHASE'', PRat 0)]
        [(''CLKIN1'', Net ''clk100''), (''CLKFBIN'', Net ''pll_fb'')]
        [(''LOCKED'', ''pll_locked''), (''CLKFBOUT'', ''pll_fb''),
         (''CLKOUT0'', ''self.pll_sys''), (''CLKOUT1'', ''pll_sys4x''),
         (''CLKOUT2'', ''pll_sys4x_dqs''), (''CLKOUT3'', ''pll_clk200'')],
      Inst ''BUFG''
        []
        [(''I'', Net ''self.pll_sys'')]
        [(''O'', ''cd_sys.clk'')],
      Inst ''BUFG''
        []
        [(''I'', Net ''pll_sys4x'')]
        [(''O'', ''cd_sys4x.clk'')],
      Inst ''BUFG''
        []
        [(''I'', Net ''pll_sys4x_dqs'')]
        [(''O'', ''cd_sys4x_dqs.clk'')],
      Inst ''BUFG''
        []
        [(''I'', Net ''pll_clk200'')]
        [(''O'', ''cd_clk200.clk'')],
      Inst ''BUFG''
        []
        [(''I'', Net ''clk100'')]
        [(''O'', ''cd_clk100.clk'')],
      ResetSync ''cd_sys'' (Or (Inv (Net ''pll_locked'')) (Net ''rst'')),
      ResetSync ''cd_clk200'' (Or (Inv (Net ''pll_locked'')) (Net ''rst'')),
      ResetSync ''cd_clk100'' (Or (Inv (Net ''pll_locked'')) (Net ''rst'')),
      Reg ''reset_counter'' 4 15,
      Reg ''ic_reset'' 1 1,
      Countdown ''clk200'' ''reset_counter'' (Some ''ic_reset''),
      Inst ''IDELAYCTRL''
        []
        [(''REFCLK'', ClockSig ''clk200''), (''RST'', Net ''ic_reset'')]
        []]"

definition netv2_crg :: "crg_stmt list" where
  "netv2_crg =
     [
      Domain ''cd_sys'' False,
      Domain ''cd_sys4x'' True,
      Domain ''cd_sys4x_dqs'' True,
      Domain ''cd_clk200'' False,
      Domain ''cd_clk100'' False,
      Domain ''cd_eth'' False,
      Request ''clk50'' ''clk50'' None,
      Inst ''PLLE2_BASE''
        [(''STARTUP_WAIT'', PStr ''FALSE''), (''REF_JITTER1'', PRat (1 / 100)),
         (''CLKIN1_PERIOD'', PRat 20), (''CLKFBOUT_MULT'', PInt 32), (''DIVCLK_DIVIDE'', PInt 1),
         (''CLKOUT0_DIVIDE'', PInt 16), (''CLKOUT0_PHASE'', PRat 0), (''CLKOUT1_DIVIDE'', PInt 4),
         (''CLKOUT1_PHASE'', PRat 0), (''CLKOUT2_DIVIDE'', PInt 4), (''CLKOUT2_PHASE'', PRat 90),
         (''CLKOUT3_DIVIDE'', PInt 8), (''CLKOUT3_PHASE'', PRat 0), (''CLKOUT4_DIVIDE'', PInt 32),
         (''CLKOUT4_PHASE'', PRat 0), (''CLKOUT5_DIVIDE'', PInt 16), (''CLKOUT5_PHASE'', PRat 0)]
        [(''CLKIN1'', Net ''clk50''), (''CLKFBIN'', Net ''pll_fb'')]
        [(''LOCKED'', ''pll_locked''), (''CLKFBOUT'', ''pll_fb''),
         (''CLKOUT0'', ''self.pll_sys''), (''CLKOUT1'', ''pll_sys4x''),
         (''CLKOUT2'', ''pll_sys4x_dqs''), (''CLKOUT3'', ''pll_clk200''),
         (''CLKOUT4'', ''pll_clk_eth''), (''CLKOUT5'', ''pll_clk100'')],
      Inst ''BUFG''
        []
        [(''I'', Net ''self.pll_sys'')]
        [(''O'', ''cd_sys.clk'')],
      Inst ''BUFG''
        []
        [(''I'', Net ''pll_sys4x'')]
        [(''O'', ''cd_sys4x.clk'')],
      Inst ''BUFG''
        []
        [(''I'', Net ''pll_sys4x_dqs'')]
        [(''O'', ''cd_sys4x_dqs.clk'')],
      Inst ''BUFG''
        []
        [(''I'', Net ''pll_clk200'')]
        [(''O'', ''cd_clk200.clk'')],
      Inst ''BUFG''
        []
        [(''I'', Net ''pll_clk100'')]
        [(''O'', ''cd_clk100.clk'')],
      Inst ''BUFG''
        []
        [(''I'', Net ''pll_clk_eth'')]
        [(''O'', ''cd_eth.clk'')],
      ResetSync ''cd_sys'' (Inv (Net ''pll_locked'')),
      ResetSync ''cd_clk200'' (Inv (Net ''pll_locked'')),
      ResetSync ''cd_clk100'' (Inv (Net ''pll_locked'')),
      ResetSync ''cd_eth'' (Inv (Net ''pll_locked'')),
      Reg ''reset_counter'' 4 15,
      Reg ''ic_reset'' 1 1,
      Countdown ''clk200'' ''reset_counter'' (Some ''ic_reset''),
      Inst ''IDELAYCTRL''
        []
        [(''REFCLK'', ClockSig ''clk200''), (''RST'', Net ''ic_reset'')]
        []]"

definition neso_crg :: "crg_stmt list" where
  "neso_crg =
     [
      Domain ''cd_sys'' False,
      Domain ''cd_sys4x'' True,
      Domain ''cd_sys4x_dqs'' True,
      Domain ''cd_clk200'' False,
      Domain ''cd_clk50'' False,
      Request ''clk100'' ''clk100'' None,
      Inst ''PLLE2_BASE''
        [(''STARTUP_WAIT'', PStr ''FALSE''), (''REF_JITTER1'', PRat (1 / 100)),
         (''CLKIN1_PERIOD'', PRat 10), (''CLKFBOUT_MULT'', PInt 16), (''DIVCLK_DIVIDE'', PInt 1),
         (''CLKOUT0_DIVIDE'', PInt 16), (''CLKOUT0_PHASE'', PRat 0), (''CLKOUT1_DIVIDE'', PInt 4),
         (''CLKOUT1_PHASE'', PRat 0), (''CLKOUT2_DIVIDE'', PInt 4), (''CLKOUT2_PHASE'', PRat 90),
         (''CLKOUT3_DIVIDE'', PInt 8), (''CLKOUT3_PHASE'', PRat 0), (''CLKOUT4_DIVIDE'', PInt 32),
         (''CLKOUT4_PHASE'', PRat 0)]
        [(''CLKIN1'', Net ''clk100''), (''CLKFBIN'', Net ''pll_fb'')]
        [(''LOCKED'', ''pll_locked''), (''CLKFBOUT'', ''pll_fb''),
         (''CLKOUT0'', ''self.pll_sys''), (''CLKOUT1'', ''pll_sys4x''),
         (''CLKOUT2'', ''pll_sys4x_dqs''), (''CLKOUT3'', ''pll_clk200''),
         (''CLKOUT4'', ''pll_clk50'')],
      Inst ''BUFG''
        []
        [(''I'', Net ''self.pll_sys'')]
        [(''O'', ''cd_sys.clk'')],
      Inst ''BUFG''
        []
        [(''I'', Net ''pll_sys4x'')]
        [(''O'', ''cd_sys4x.clk'')],
      Inst ''BUFG''
        []
        [(''I'', Net ''pll_sys4x_dqs'')]
        [(''O'', ''cd_sys4x_dqs.clk'')],
      Inst ''BUFG''
        []
        [(''I'', Net ''pll_clk200'')]
        [(''O'', ''cd_clk200.clk'')],
      Inst ''BUFG''
        []
        [(''I'', Net ''pll_clk50'')]
        [(''O'', ''cd_clk50.clk'')],
      ResetSync ''cd_sys'' (Inv (Net ''pll_locked'')),
      ResetSync ''cd_clk200'' (Inv (Net ''pll_locked'')),
      ResetSync ''cd_clk50'' (Inv (Net ''pll_locked'')),
      Reg ''reset_counter'' 4 15,
      Reg ''ic_reset'' 1 1,
      Countdown ''clk200'' ''reset_counter'' (Some ''ic_reset''),
      Inst ''IDELAYCTRL''
        []
        [(''REFCLK'', ClockSig ''clk200''), (''RST'', Net ''ic_reset'')]
        []]"

definition basys3_crg :: "crg_stmt list" where
  "basys3_crg =
     [
      Domain ''cd_sys'' False,
      Domain ''cd_sys4x'' True,
      Domain ''cd_sys4x_dqs'' True,
      Domain ''cd_clk200'' False,
      Domain ''cd_clk50'' False,
      Request ''clk100'' ''clk100'' None,
      Request ''rst'' ''user_btn'' None,
      Inst ''PLLE2_BASE''
        [(''STARTUP_WAIT'', PStr ''FALSE''), (''REF_JITTER1'', PRat (1 / 100)),
         (''CLKIN1_PERIOD'', PRat 10), (''CLKFBOUT_MULT'', PInt 16), (''DIVCLK_DIVIDE'', PInt 1),
         (''CLKOUT0_DIVIDE'', PInt 16), (''CLKOUT0_PHASE'', PRat 0)]
        [(''CLKIN1'', Net ''clk100''), (''CLKFBIN'', Net ''pll_fb'')]
        [(''LOCKED'', ''pll_locked''), (''CLKFBOUT'', ''pll_fb''),
         (''CLKOUT0'', ''self.pll_sys'')],
      Inst ''BUFG''
        []
        [(''I'', Net ''self.pll_sys'')]
        [(''O'', ''cd_sys.clk'')],
      ResetSync ''cd_sys'' (Or (Inv (Net ''pll_locked'')) (Net ''rst''))]"

definition cmod_a7_crg :: "crg_stmt list" where
  "cmod_a7_crg =
     [
      Domain ''cd_sys'' False,
      Domain ''cd_clk200'' False,
      Request ''clk12'' ''clk12'' None,
      Request ''rst'' ''user_btn'' (Some 0),
      Inst ''BUFG''
        []
        [(''I'', Net ''clk12'')]
        [(''O'', ''cd_sys.clk'')],
      ResetSync ''cd_sys'' (Net ''rst'')]"

end
