(* ===== verification/Soc_Artix7.thy ===== *)
theory Soc_Artix7
  imports Soc_Types Crg_Artix7
begin

text \<open>
  The base systems of the Artix-7 boards, \<open>BaseSoC\<close> in \<open>targets/*/base.py\<close>: the CSR peripherals, the
  memory map over that of the LiteX base class, and the constructor.
\<close>

definition arty_csr_peripherals :: "string list" where
  "arty_csr_peripherals =
     [''spiflash'', ''ddrphy'', ''info'', ''cas'']"

definition arty_mem_map :: "(string, int) dict \<Rightarrow> (string, int) dict" where
  "arty_mem_map base =
     dict_update [(''spiflash'', 0x20000000), (''emulator_ram'', 0x50000000)]
       [(''rom'', 0x0), (''sram'', 0x10000000), (''main_ram'', 0x40000000), (''csr'', 0xe0000000)]"

definition arty_base_soc :: "soc_env \<Rightarrow> soc_stmt list py_result" where
  "arty_base_soc env =
     py_bind (get_attr (pa_flash (se_plat env))) (\<lambda>fl.
     py_bind (get_attr (pa_gateware_size (se_plat env))) (\<lambda>gateware_size.
     py_bind (dict_get (se_mem env) ''emulator_ram'') (\<lambda>mem_emulator_ram.
     py_bind (dict_get (se_mem env) ''spiflash'') (\<lambda>mem_spiflash.
     (let kwargs = se_kwargs env;
          kwargs = set_default ''integrated_rom_size'' (KInt 32768) kwargs;
          kwargs = set_default ''integrated_sram_size'' (KInt 32768) kwargs;
          clk_freq = 100000000;
          size = (16384 :: int);
          bios_size = (32768 :: int);
          flash_boot_address = mem_spiflash + gateware_size + bios_size
      in
     (let crg = arty_crg in
     py_bind (dict_get spiflash_dummies (se_spiflash env)) (\<lambda>spiflash_dummy.
     Inr ([
       Init ''SoCSDRAM'' clk_freq [] kwargs,
       Crg crg,
       Keep ''crg.cd_sys.clk'',
       Sys_period (10 ^ 9 / clk_freq),
       Submodule ''info'' ''info.Info'' [],
       Submodule ''cas'' ''cas.ControlAndStatus'' [],
       Use (se_spiflash env) None,
       Startupe2 [(''CLK'', Lit 0), (''GSR'', Lit 0), (''GTS'', Lit 0), (''KEYCLEARB'', Lit 0),
        (''PACK'', Lit 0), (''USRCCLKO'', Net ''spiflash_pads.clk''), (''USRCCLKTS'', Lit 0),
        (''USRDONEO'', Lit 1), (''USRDONETS'', Lit 1)],
       Submodule ''spiflash'' ''spi_flash.SpiFlash'' [(''dummy'', KInt spiflash_dummy),
        (''div'', KInt (fl_div fl)), (''endianness'', KStr (se_endianness env))],
       Constant ''SPIFLASH_PAGE_SIZE'' (256),
       Constant ''SPIFLASH_SECTOR_SIZE'' (65536),
       Wb_slave (mem_spiflash),
       Memory_region ''spiflash'' (mem_spiflash) (16 * 1024 * 1024) '''']
      @ (if linux_cpu env
      then [
         Submodule ''emulator_ram'' ''wishbone.SRAM'' [],
         Register_mem ''emulator_ram'' mem_emulator_ram (size)]
      else [])
      @ [
       Constant ''FLASH_BOOT_ADDRESS'' (flash_boot_address),
       Use ''ddram'' None,
       Submodule ''ddrphy'' ''a7ddrphy.A7DDRPHY'' [],
       Constant ''READ_LEVELING_BITSLIP'' (3),
       Constant ''READ_LEVELING_DELAY'' (14),
       Register_sdram ''MT41K128M16'' ''1:4'' [(''with_bandwidth'', KBool True),
        (''cmd_buffer_depth'', KInt 8), (''with_refresh'', KBool True)]]))))))))"

definition nexys_video_csr_peripherals :: "string list" where
  "nexys_video_csr_peripherals =
     [''spiflash'', ''ddrphy'', ''info'', ''oled'', ''uart'', ''uart_phy'']"

definition nexys_video_mem_map :: "(string, int) dict \<Rightarrow> (string, int) dict" where
  "nexys_video_mem_map base =
     dict_update [(''spiflash'', 0x20000000)] base"

definition nexys_video_base_soc :: "soc_env \<Rightarrow> soc_stmt list py_result" where
  "nexys_video_base_soc env =
     py_bind (dict_get (se_mem env) ''spiflash'') (\<lambda>mem_spiflash.
     (let kwargs = se_kwargs env;
          kwargs = set_default ''integrated_rom_size'' (KInt 32768) kwargs;
          kwargs = set_default ''integrated_sram_size'' (KInt 32768) kwargs;
          clk_freq = 100000000
      in
     (let crg = nexys_video_crg in
     py_bind (dict_get spiflash_dummies (se_spiflash env)) (\<lambda>spiflash_dummy.
     Inr ([
       Init ''SoCSDRAM'' clk_freq [(''with_uart'', KBool False)] kwargs,
       Crg crg,
       Keep ''crg.cd_sys.clk'',
       Sys_period (10 ^ 9 / clk_freq),
       Submodule ''uart'' ''UART'' [],
       Submodule ''bridge'' ''WishboneStreamingBridge'' [],
       Wb_master ''bridge.wishbone'',
       Use ''serial'' None,
       Submodule ''uart_phy'' ''RS232PHY'' [(''#0'', KInt 115200)],
       Submodule ''uart_multiplexer'' ''RS232PHYMultiplexer'' [],
       Use ''user_sw'' (Some 0),
       Connect ''uart_multiplexer.sel'' ''user_sw:0'',
       Submodule ''info'' ''info.Info'' [],
       Use ''oled'' None,
       Submodule ''oled'' ''oled.OLED'' [],
       Use ''ddram'' None,
       Submodule ''ddrphy'' ''a7ddrphy.A7DDRPHY'' [],
       Constant ''READ_LEVELING_BITSLIP'' (3),
       Constant ''READ_LEVELING_DELAY'' (14),
       Register_sdram ''MT41K256M16'' ''1:4'' [(''with_bandwidth'', KBool True),
        (''cmd_buffer_depth'', KInt 8), (''with_refresh'', KBool True)],
       Use (se_spiflash env) None,
       Startupe2 [(''CLK'', Lit 0), (''GSR'', Lit 0), (''GTS'', Lit 0), (''KEYCLEARB'', Lit 0),
        (''PACK'', Lit 0), (''USRCCLKO'', Net ''spiflash_pads.clk''), (''USRCCLKTS'', Lit 0),
        (''USRDONEO'', Lit 1), (''USRDONETS'', Lit 1)],
       Submodule ''spiflash'' ''spi_flash.SpiFlash'' [(''dummy'', KInt spiflash_dummy),
        (''div'', KInt 2)],
       Constant ''SPIFLASH_PAGE_SIZE'' (256),
       Constant ''SPIFLASH_SECTOR_SIZE'' (65536),
       Wb_slave (mem_spiflash),
       Memory_region ''spiflash'' (mem_spiflash) (16 * 1024 * 1024) '''',
       Interrupt ''uart''])))))"

definition mimas_a7_csr_peripherals :: "string list" where
  "mimas_a7_csr_peripherals =
     [''spiflash'', ''ddrphy'', ''info'']"

definition mimas_a7_mem_map :: "(string, int) dict \<Rightarrow> (string, int) dict" where
  "mimas_a7_mem_map base =
     dict_update [(''spiflash'', 0x20000000)] base"

definition mimas_a7_base_soc :: "soc_env \<Rightarrow> soc_stmt list py_result" where
  "mimas_a7_base_soc env =
     py_bind (dict_get (se_mem env) ''spiflash'') (\<lambda>mem_spiflash.
     (let kwargs = se_kwargs env;
          clk_freq = 100000000
      in
     (let crg = mimas_a7_crg in
     py_bind (dict_get spiflash_dummies (se_spiflash env)) (\<lambda>spiflash_dummy.
     Inr ([
       Init ''SoCSDRAM'' clk_freq [(''integrated_rom_size'', KInt 65536),
        (''integrated_sram_size'', KInt 65536)] kwargs,
       Crg crg,
       Keep ''crg.cd_sys.clk'',
       Sys_period (10 ^ 9 / clk_freq),
       Submodule ''info'' ''info.Info'' [],
       Use ''ddram'' None,
       Submodule ''ddrphy'' ''a7ddrphy.A7DDRPHY'' [],
       Register_sdram ''MT41K128M16'' ''1:4'' [(''with_bandwidth'', KBool True),
        (''cmd_buffer_depth'', KInt 8), (''with_refresh'', KBool True)],
       Use (se_spiflash env) None,
       Startupe2 [(''CLK'', Lit 0), (''GSR'', Lit 0), (''GTS'', Lit 0), (''KEYCLEARB'', Lit 0),
        (''PACK'', Lit 0), (''USRCCLKO'', Net ''spiflash_pads.clk''), (''USRCCLKTS'', Lit 0),
        (''USRDONEO'', Lit 1), (''USRDONETS'', Lit 1)],
       Submodule ''spiflash'' ''spi_flash.SpiFlash'' [(''dummy'', KInt spiflash_dummy),
        (''div'', KInt 2)],
       Constant ''SPIFLASH_PAGE_SIZE'' (256),
       Constant ''SPIFLASH_SECTOR_SIZE'' (65536),
       Wb_slave (mem_spiflash),
       Memory_region ''spiflash'' (mem_spiflash) (16 * 1024 * 1024) ''''])))))"

definition netv2_csr_peripherals :: "string list" where
  "netv2_csr_peripherals =
     [''ddrphy'', ''info'', ''cas'']"

definition netv2_mem_map :: "(string, int) dict \<Rightarrow> (string, int) dict" where
  "netv2_mem_map base =
     dict_update [(''spiflash'', 0x20000000), (''emulator_ram'', 0x50000000)]
       [(''rom'', 0x0), (''sram'', 0x10000000), (''main_ram'', 0x40000000), (''csr'', 0xe0000000)]"

definition netv2_base_soc :: "soc_env \<Rightarrow> soc_stmt list py_result" where
  "netv2_base_soc env =
     py_bind (dict_get (se_mem env) ''emulator_ram'') (\<lambda>mem_emulator_ram.
     (let kwargs = se_kwargs env;
          kwargs = set_default ''integrated_rom_size'' (KInt 32768) kwargs;
          kwargs = set_default ''integrated_sram_size'' (KInt 32768) kwargs;
          clk_freq = 100000000;
          size = (16384 :: int);
          bios_size = (32768 :: int)
      in
     (let crg = netv2_crg in
     Inr ([
       Init ''SoCSDRAM'' clk_freq [(''csr_data_width'', KInt (se_csr_data_width env))] kwargs,
       Crg crg,
       Keep ''crg.cd_sys.clk'',
       Sys_period (10 ^ 9 / clk_freq),
       Submodule ''info'' ''info.Info'' [],
       Submodule ''cas'' ''cas.ControlAndStatus'' []]
      @ (if linux_cpu env
      then [
         Submodule ''emulator_ram'' ''wishbone.SRAM'' [],
         Register_mem ''emulator_ram'' mem_emulator_ram (size)]
      else [])
      @ [
       Use ''ddram'' None,
       Submodule ''ddrphy'' ''a7ddrphy.A7DDRPHY'' [],
       Register_sdram ''K4B2G1646F'' ''1:4'' [(''with_bandwidth'', KBool True),
        (''cmd_buffer_depth'', KInt 8), (''with_refresh'', KBool True)]]))))"

definition neso_csr_peripherals :: "string list" where
  "neso_csr_peripherals =
     [''spiflash'', ''ddrphy'', ''info'']"

definition neso_mem_map :: "(string, int) dict \<Rightarrow> (string, int) dict" where
  "neso_mem_map base =
     dict_update [(''spiflash'', 0x20000000)] base"

definition neso_base_soc :: "soc_env \<Rightarrow> soc_stmt list py_result" where
  "neso_base_soc env =
     py_bind (dict_get (se_mem env) ''spiflash'') (\<lambda>mem_spiflash.
     (let kwargs = se_kwargs env;
          kwargs = set_default ''integrated_rom_size'' (KInt 32768) kwargs;
          kwargs = set_default ''integrated_sram_size'' (KInt 32768) kwargs;
          clk_freq = 100000000
      in
     (let crg = neso_crg in
     py_bind (dict_get spiflash_dummies (se_spiflash env)) (\<lambda>spiflash_dummy.
     Inr ([
       Init ''SoCSDRAM'' clk_freq [] kwargs,
       Crg crg,
       Keep ''crg.cd_sys.clk'',
       Sys_period (10 ^ 9 / clk_freq),
       Submodule ''info'' ''info.Info'' [],
       Use (se_spiflash env) None,
       Startupe2 [(''CLK'', Lit 0), (''GSR'', Lit 0), (''GTS'', Lit 0), (''KEYCLEARB'', Lit 0),
        (''PACK'', Lit 0), (''USRCCLKO'', Net ''spiflash_pads.clk''), (''USRCCLKTS'', Lit 0),
        (''USRDONEO'', Lit 1), (''USRDONETS'', Lit 1)],
       Submodule ''spiflash'' ''spi_flash.SpiFlash'' [(''dummy'', KInt spiflash_dummy),
        (''div'', KInt 2)],
       Constant ''SPIFLASH_PAGE_SIZE'' (256),
       Constant ''SPIFLASH_SECTOR_SIZE'' (65536),
       Wb_slave (mem_spiflash),
       Memory_region ''spiflash'' (mem_spiflash) (16 * 1024 * 1024) '''',
       Use ''ddram'' None,
       Submodule ''ddrphy'' ''a7ddrphy.A7DDRPHY'' [],
       Constant ''READ_LEVELING_BITSLIP'' (3),
       Constant ''READ_LEVELING_DELAY'' (14),
       Register_sdram ''MT41K128M16'' ''1:4'' [(''with_bandwidth'', KBool True),
        (''cmd_buffer_depth'', KInt 8), (''with_refresh'', KBool True)]])))))"

definition basys3_csr_peripherals :: "string list" where
  "basys3_csr_peripherals =
     [''spiflash'', ''info'']"

definition basys3_mem_map :: "(string, int) dict \<Rightarrow> (string, int) dict" where
  "basys3_mem_map base =
     dict_update [(''spiflash'', 0x20000000)] base"

definition basys3_base_soc :: "soc_env \<Rightarrow> soc_stmt list py_result" where
  "basys3_base_soc env =
     py_bind (dict_get (se_mem env) ''spiflash'') (\<lambda>mem_spiflash.
     (let kwargs = se_kwargs env;
          kwargs = set_default ''integrated_rom_size'' (KInt 32768) kwargs;
          kwargs = set_default ''integrated_sram_size'' (KInt 32768) kwargs;
          clk_freq = 100000000
      in
     (let crg = basys3_crg in
     py_bind (dict_get spiflash_dummies (se_spiflash env)) (\<lambda>spiflash_dummy.
     Inr ([
       Init ''SoCCore'' clk_freq [] kwargs,
       Crg crg,
       Keep ''crg.cd_sys.clk'',
       Sys_period (10 ^ 9 / clk_freq),
       Submodule ''info'' ''info.Info'' [],
       Use (se_spiflash env) None,
       Startupe2 [(''CLK'', Lit 0), (''GSR'', Lit 0), (''GTS'', Lit 0), (''KEYCLEARB'', Lit 0),
        (''PACK'', Lit 0), (''USRCCLKO'', Net ''spiflash_pads.clk''), (''USRCCLKTS'', Lit 0),
        (''USRDONEO'', Lit 1), (''USRDONETS'', Lit 1)],
       Submodule ''spiflash'' ''spi_flash.SpiFlash'' [(''dummy'', KInt spiflash_dummy),
        (''div'', KInt 2)],
       Constant ''SPIFLASH_PAGE_SIZE'' (256),
       Constant ''SPIFLASH_SECTOR_SIZE'' (65536),
       Wb_slave (mem_spiflash),
       Memory_region ''spiflash'' (mem_spiflash) (16 * 1024 * 1024) ''''])))))"

definition cmod_a7_csr_peripherals :: "string list" where
  "cmod_a7_csr_peripherals =
     [''spiflash'', ''info'']"

definition cmod_a7_mem_map :: "(string, int) dict \<Rightarrow> (string, int) dict" where
  "cmod_a7_mem_map base =
     dict_update [(''spiflash'', 0x20000000)] base"

definition cmod_a7_base_soc :: "soc_env \<Rightarrow> soc_stmt list py_result" where
  "cmod_a7_base_soc env =
     py_bind (dict_get (se_mem env) ''spiflash'') (\<lambda>mem_spiflash.
     (let kwargs = se_kwargs env;
          kwargs = set_default ''integrated_rom_size'' (KInt 32768) kwargs;
          kwargs = set_default ''integrated_sram_size'' (KInt 32768) kwargs;
          clk_freq = 100000000
      in
     (let crg = cmod_a7_crg in
     py_bind (dict_get spiflash_dummies (se_spiflash env)) (\<lambda>spiflash_dummy.
     Inr ([
       Init ''SoCCore'' clk_freq [] kwargs,
       Crg crg,
       Keep ''crg.cd_sys.clk'',
       Sys_period (10 ^ 9 / clk_freq),
       Submodule ''info'' ''info.Info'' [],
       Use (se_spiflash env) None,
       Startupe2 [(''CLK'', Lit 0), (''GSR'', Lit 0), (''GTS'', Lit 0), (''KEYCLEARB'', Lit 0),
        (''PACK'', Lit 0), (''USRCCLKO'', Net ''spiflash_pads.clk''), (''USRCCLKTS'', Lit 0),
        (''USRDONEO'', Lit 1), (''USRDONETS'', Lit 1)],
       Submodule ''spiflash'' ''spi_flash.SpiFlash'' [(''dummy'', KInt spiflash_dummy),
        (''div'', KInt 2)],
       Constant ''SPIFLASH_PAGE_SIZE'' (256),
       Constant ''SPIFLASH_SECTOR_SIZE'' (65536),
       Wb_slave (mem_spiflash),
       Memory_region ''spiflash'' (mem_spiflash) (16 * 1024 * 1024) ''''])))))"

end
