(* ===== verification/Crg_Ice40.thy ===== *)
theory Crg_Ice40
  imports Clocking
begin

text \<open>
  The clock and reset generators of the iCE40 boards, statement by statement.
\<close>

definition icebreaker_crg :: "crg_stmt list" where
  "icebreaker_crg =
     [
      Request ''clk12'' ''clk12'' None,
      Domain ''cd_sys'' False,
      Comb ''cd_sys.clk'' (Net ''clk12''),
      Wire ''reset'' (Or (Net ''self.reset'') (Inv (Pad ''user_btn_n'' None))),
      Domain ''cd_por'' False,
      Reg ''reset_delay'' 12 4095,
      Comb ''cd_por.clk'' (Net ''cd_sys.clk''),
      Comb ''cd_sys.rst'' (Neq ''reset_delay'' 0),
      Countdown ''por'' ''reset_delay'' None,
      ResetSync ''cd_por'' (Net ''reset'')]"

definition ice40_hx8k_b_evn_crg :: "crg_stmt list" where
  "ice40_hx8k_b_evn_crg =
     [
      Request ''clk12'' ''clk12'' None,
      Domain ''cd_sys'' False,
      Comb ''cd_sys.clk'' (Net ''clk12''),
      Domain ''cd_por'' False,
      Reg ''reset_delay'' 12 4095,
      Comb ''cd_por.clk'' (Net ''cd_sys.clk''),
      Comb ''cd_sys.rst'' (Neq ''reset_delay'' 0),
      Countdown ''por'' ''reset_delay'' None,
      ResetSync ''cd_por'' (Net ''self.reset'')]"

definition ice40_up5k_b_evn_crg :: "crg_stmt list" where
  "ice40_up5k_b_evn_crg =
     [
      Request ''clk12'' ''clk12'' None,
      Domain ''cd_sys'' False,
      Comb ''cd_sys.clk'' (Net ''clk12''),
      Domain ''cd_por'' False,
      Reg ''reset_delay'' 12 4095,
      Comb ''cd_por.clk'' (Net ''cd_sys.clk''),
      Comb ''cd_sys.rst'' (Neq ''reset_delay'' 0),
      Countdown ''por'' ''reset_delay'' None,
      ResetSync ''cd_por'' (Net ''self.reset'')]"

definition icefun_crg :: "crg_stmt list" where
  "icefun_crg =
     [
      Request ''clk12'' ''clk12'' None,
      Domain ''cd_sys'' False,
      Comb ''cd_sys.clk'' (Net ''clk12''),
      Domain ''cd_por'' False,
      Reg ''reset_delay'' 12 4095,
      Comb ''cd_por.clk'' (Net ''cd_sys.clk''),
      Comb ''cd_sys.rst'' (Neq ''reset_delay'' 0),
      Countdown ''por'' ''reset_delay'' None,
      ResetSync ''cd_por'' (Net ''self.reset'')]"

definition tinyfpga_bx_crg :: "crg_stmt list" where
  "tinyfpga_bx_crg =
     [
      Request ''clk16'' ''clk16'' None,
      Domain ''cd_sys'' False,
      Comb ''cd_sys.clk'' (Net ''clk16''),
      Domain ''cd_por'' False,
      Reg ''reset_delay'' 12 4095,
      Comb ''cd_por.clk'' (Net ''cd_sys.clk''),
      Comb ''cd_sys.rst'' (Neq ''reset_delay'' 0),
      Countdown ''por'' ''reset_delay'' None,
      ResetSync ''cd_por'' (Net ''self.reset'')]"

definition upduino_v1_crg :: "crg_stmt list" where
  "upduino_v1_crg =
     [
      Request ''clk_hfosc'' ''sb_hfosc'' None,
      Domain ''cd_sys'' False,
      Comb ''cd_sys.clk'' (Net ''clk_hfosc''),
      Domain ''cd_por'' False,
      Reg ''reset_delay'' 12 4095,
      Comb ''cd_por.clk'' (Net ''cd_sys.clk''),
      Comb ''cd_sys.rst'' (Neq ''reset_delay'' 0),
      Countdown ''por'' ''reset_delay'' None,
      ResetSync ''cd_por'' (Net ''self.reset'')]"

end
