(* ===== verification/Soc_Ice40.thy ===== *)
theory Soc_Ice40
  imports Soc_Types Crg_Ice40
begin

text \<open>
  The base systems of the iCE40 boards, \<open>BaseSoC\<close> in \<open>targets/*/base.py\<close>: the CSR peripherals, the
  memory map over that of the LiteX base class, and the constructor.
\<close>

definition icebreaker_csr_peripherals :: "string list" where
  "icebreaker_csr_peripherals =
     [''spiflash'', ''cas'']"

definition icebreaker_mem_map :: "(string, int) dict \<Rightarrow> (string, int) dict" where
  "icebreaker_mem_map base =
     dict_update [(''spiflash'', 0x20000000)] base"

definition icebreaker_base_soc :: "soc_env \<Rightarrow> soc_stmt list py_result" where
  "icebreaker_base_soc env =
     py_bind (get_attr (pa_flash (se_plat env))) (\<lambda>fl.
     py_bind (get_attr (pa_gateware_size (se_plat env))) (\<lambda>gateware_size.
     py_bind (dict_get (se_mem env) ''spiflash'') (\<lambda>mem_spiflash.
     py_bind (dict_get (se_mem env) ''sram'') (\<lambda>mem_sram.
     (let kwargs = se_kwargs env;
          kwargs = set_default ''integrated_rom_size'' (KInt 0) kwargs;
          kwargs = set_default ''integrated_sram_size'' (KInt 0) kwargs;
          clk_freq = 12000000;
          cpu_reset_address = mem_spiflash + gateware_size;
          kwargs = dict_update kwargs [(''cpu_reset_address'', KInt cpu_reset_address)];
          bios_size = (32768 :: int);
          flash_boot_address = mem_spiflash + gateware_size + bios_size
      in
     (let crg = icebreaker_crg in
     Inr ([
       Add_extension ''icebreaker.break_off_pmod'',
       Init ''SoCCore'' clk_freq [] kwargs,
       Crg crg,
       Sys_period (10 ^ 9 / clk_freq),
       Submodule ''cas'' ''cas.ControlAndStatus'' [],
       Use ''spiflash'' None,
       Submodule ''spiflash'' ''spi_flash.SpiFlashSingle'' [(''dummy'', KInt (fl_dummy fl)),
        (''div'', KInt (fl_div fl)), (''endianness'', KStr (se_endianness env))],
       Constant ''SPIFLASH_PAGE_SIZE'' (fl_page fl),
       Constant ''SPIFLASH_SECTOR_SIZE'' (fl_sector fl),
       Register_mem ''spiflash'' mem_spiflash (fl_total fl),
       Add_extension ''icebreaker.rgb_led'',
       Use ''rgbled'' (Some 0),
       Submodule ''rgbled'' ''ice40.LED'' [],
       Add_csr ''rgbled'',
       Constant ''ROM_DISABLE'' (1),
       Memory_region ''rom'' (cpu_reset_address) (bios_size) ''cached+linker'',
       Constant ''FLASH_BOOT_ADDRESS'' (flash_boot_address),
       Submodule ''spram'' ''ice40.SPRAM'' [(''size'', KInt (128 * 1024))],
       Register_mem ''sram'' mem_sram (131072),
       Memory_region ''user_flash'' (flash_boot_address)
        (fl_total fl - (flash_boot_address - mem_spiflash) - 256) ''cached+linker'',
       Build_template ''build_template'' 3 ''icepack -s {build_name}.txt {build_name}.bin'',
       Build_template ''nextpnr_build_template'' 2 ''icepack -s {build_name}.txt
        {build_name}.bin''])))))))"

definition ice40_hx8k_b_evn_csr_peripherals :: "string list" where
  "ice40_hx8k_b_evn_csr_peripherals =
     [''spiflash'', ''cas'']"

definition ice40_hx8k_b_evn_mem_map :: "(string, int) dict \<Rightarrow> (string, int) dict" where
  "ice40_hx8k_b_evn_mem_map base =
     dict_update [(''spiflash'', 0x20000000)] base"

definition ice40_hx8k_b_evn_base_soc :: "soc_env \<Rightarrow> soc_stmt list py_result" where
  "ice40_hx8k_b_evn_base_soc env =
     py_bind (get_attr (pa_flash (se_plat env))) (\<lambda>fl.
     py_bind (get_attr (pa_gateware_size (se_plat env))) (\<lambda>gateware_size.
     py_bind (dict_get (se_mem env) ''spiflash'') (\<lambda>mem_spiflash.
     (let kwargs = se_kwargs env;
          kwargs = set_default ''integrated_rom_size'' (KInt 0) kwargs;
          kwargs = set_default ''integrated_sram_size'' (KInt 10240) kwargs;
          clk_freq = 12000000;
          cpu_reset_address = mem_spiflash + gateware_size;
          kwargs = dict_update kwargs [(''cpu_reset_address'', KInt cpu_reset_address)];
          bios_size = (32768 :: int);
          flash_boot_address = mem_spiflash + gateware_size + bios_size
      in
     (let crg = ice40_hx8k_b_evn_crg in
     Inr ([
       Init ''SoCCore'' clk_freq [] kwargs,
       Crg crg,
       Sys_period (10 ^ 9 / clk_freq),
       Submodule ''cas'' ''cas.ControlAndStatus'' [],
       Use ''spiflash'' None,
       Submodule ''spiflash'' ''spi_flash.SpiFlashSingle'' [(''dummy'', KInt (fl_dummy fl)),
        (''div'', KInt (fl_div fl))],
       Constant ''SPIFLASH_PAGE_SIZE'' (fl_page fl),
       Constant ''SPIFLASH_SECTOR_SIZE'' (fl_sector fl),
       Register_mem ''spiflash'' mem_spiflash (fl_total fl),
       Constant ''ROM_DISABLE'' (1),
       Memory_region ''rom'' (cpu_reset_address) (bios_size) ''cached+linker'',
       Constant ''FLASH_BOOT_ADDRESS'' (flash_boot_address),
       Memory_region ''user_flash'' (flash_boot_address)
        (fl_total fl - (flash_boot_address - mem_spiflash) - 256) ''cached+linker'',
       Build_template ''build_template'' 3 ''icepack -s {build_name}.txt {build_name}.bin'',
       Append_template ''nextpnr_build_template'' 1 '' --placer heap'',
       Build_template ''nextpnr_build_template'' 2 ''icepack -s {build_name}.txt
        {build_name}.bin'']))))))"

definition ice40_up5k_b_evn_csr_peripherals :: "string list" where
  "ice40_up5k_b_evn_csr_peripherals =
     [''spiflash'', ''cas'']"

definition ice40_up5k_b_evn_mem_map :: "(string, int) dict \<Rightarrow> (string, int) dict" where
  "ice40_up5k_b_evn_mem_map base =
     dict_update [(''spiflash'', 0x20000000)] base"

definition ice40_up5k_b_evn_base_soc :: "soc_env \<Rightarrow> soc_stmt list py_result" where
  "ice40_up5k_b_evn_base_soc env =
     py_bind (get_attr (pa_flash (se_plat env))) (\<lambda>fl.
     py_bind (get_attr (pa_gateware_size (se_plat env))) (\<lambda>gateware_size.
     py_bind (dict_get (se_mem env) ''spiflash'') (\<lambda>mem_spiflash.
     py_bind (dict_get (se_mem env) ''sram'') (\<lambda>mem_sram.
     (let kwargs = se_kwargs env;
          kwargs = set_default ''integrated_rom_size'' (KInt 0) kwargs;
          kwargs = set_default ''integrated_sram_size'' (KInt 0) kwargs;
          clk_freq = 12000000;
          cpu_reset_address = mem_spiflash + gateware_size;
          kwargs = dict_update kwargs [(''cpu_reset_address'', KInt cpu_reset_address)];
          bios_size = (32768 :: int);
          flash_boot_address = mem_spiflash + gateware_size + bios_size
      in
     (let crg = ice40_up5k_b_evn_crg in
     Inr ([
       Add_extension ''pmod_serial'',
       Add_extension ''up5k.spiflash'',
       Init ''SoCCore'' clk_freq [] kwargs,
       Crg crg,
       Sys_period (10 ^ 9 / clk_freq),
       Submodule ''cas'' ''cas.ControlAndStatus'' [],
       Use ''spiflash'' None,
       Submodule ''spiflash'' ''spi_flash.SpiFlashSingle'' [(''dummy'', KInt (fl_dummy fl)),
        (''div'', KInt (fl_div fl))],
       Constant ''SPIFLASH_PAGE_SIZE'' (fl_page fl),
       Constant ''SPIFLASH_SECTOR_SIZE'' (fl_sector fl),
       Register_mem ''spiflash'' mem_spiflash (fl_total fl),
       Constant ''ROM_DISABLE'' (1),
       Memory_region ''rom'' (cpu_reset_address) (bios_size) ''cached+linker'',
       Constant ''FLASH_BOOT_ADDRESS'' (flash_boot_address),
       Submodule ''spram'' ''ice40.SPRAM'' [(''size'', KInt (128 * 1024))],
       Register_mem ''sram'' mem_sram (131072),
       Memory_region ''user_flash'' (flash_boot_address)
        (fl_total fl - (flash_boot_address - mem_spiflash) - 256) ''cached+linker'',
       Build_template ''build_template'' 3 ''icepack -s {build_name}.txt {build_name}.bin'',
       Build_template ''nextpnr_build_template'' 2 ''icepack -s {build_name}.txt
        {build_name}.bin''])))))))"

definition icefun_csr_peripherals :: "string list" where
  "icefun_csr_peripherals =
     [''spiflash'', ''cas'']"

definition icefun_mem_map :: "(string, int) dict \<Rightarrow> (string, int) dict" where
  "icefun_mem_map base =
     dict_update [(''spiflash'', 0x20000000)] base"

definition icefun_base_soc :: "soc_env \<Rightarrow> soc_stmt list py_result" where
  "icefun_base_soc env =
     py_bind (get_attr (pa_flash (se_plat env))) (\<lambda>fl.
     py_bind (get_attr (pa_gateware_size (se_plat env))) (\<lambda>gateware_size.
     py_bind (dict_get (se_mem env) ''spiflash'') (\<lambda>mem_spiflash.
     (let kwargs = se_kwargs env;
          kwargs = set_default ''integrated_rom_size'' (KInt 0) kwargs;
          kwargs = set_default ''integrated_sram_size'' (KInt 10240) kwargs;
          clk_freq = 12000000;
          cpu_reset_address = mem_spiflash + gateware_size;
          kwargs = dict_update kwargs [(''cpu_reset_address'', KInt cpu_reset_address)];
          bios_size = (32768 :: int);
          flash_boot_address = mem_spiflash + gateware_size + bios_size
      in
     (let crg = icefun_crg in
     Inr ([
       Init ''SoCCore'' clk_freq [] kwargs,
       Crg crg,
       Sys_period (10 ^ 9 / clk_freq),
       Submodule ''cas'' ''cas.ControlAndStatus'' [],
       Use ''spiflash'' None,
       Submodule ''spiflash'' ''spi_flash.SpiFlashSingle'' [(''dummy'', KInt (fl_dummy fl)),
        (''div'', KInt (fl_div fl))],
       Constant ''SPIFLASH_PAGE_SIZE'' (fl_page fl),
       Constant ''SPIFLASH_SECTOR_SIZE'' (fl_sector fl),
       Register_mem ''spiflash'' mem_spiflash (fl_total fl),
       Constant ''ROM_DISABLE'' (1),
       Memory_region ''rom'' (cpu_reset_address) (bios_size) ''cached+linker'',
       Constant ''FLASH_BOOT_ADDRESS'' (flash_boot_address),
       Memory_region ''user_flash'' (flash_boot_address)
        (fl_total fl - (flash_boot_address - mem_spiflash) - 256) ''cached+linker'',
       Build_template ''build_template'' 3 ''icepack -s {build_name}.txt {build_name}.bin'',
       Build_template ''nextpnr_build_template'' 2 ''icepack -s {build_name}.txt
        {build_name}.bin'']))))))"

definition tinyfpga_bx_csr_peripherals :: "string list" where
  "tinyfpga_bx_csr_peripherals =
     [''spiflash'', ''cas'']"

definition tinyfpga_bx_mem_map :: "(string, int) dict \<Rightarrow> (string, int) dict" where
  "tinyfpga_bx_mem_map base =
     dict_update [(''spiflash'', 0x20000000)] base"

definition tinyfpga_bx_base_soc :: "soc_env \<Rightarrow> soc_stmt list py_result" where
  "tinyfpga_bx_base_soc env =
     py_bind (get_attr (pa_flash (se_plat env))) (\<lambda>fl.
     py_bind (get_attr (pa_gateware_size (se_plat env))) (\<lambda>gateware_size.
     py_bind (get_attr (pa_bootloader_size (se_plat env))) (\<lambda>bootloader_size.
     py_bind (dict_get (se_mem env) ''spiflash'') (\<lambda>mem_spiflash.
     (let kwargs = se_kwargs env;
          kwargs = set_default ''integrated_rom_size'' (KInt 0) kwargs;
          kwargs = set_default ''integrated_sram_size'' (KInt 10240) kwargs;
          clk_freq = 16000000;
          cpu_reset_address = mem_spiflash + gateware_size + bootloader_size;
          kwargs = dict_update kwargs [(''cpu_reset_address'', KInt cpu_reset_address)];
          bios_size = (32768 :: int);
          flash_boot_address = mem_spiflash + gateware_size + bios_size + bootloader_size
      in
     (let crg = tinyfpga_bx_crg in
     Inr ([
       Add_extension ''serial'',
       Init ''SoCCore'' clk_freq [] kwargs,
       Crg crg,
       Sys_period (10 ^ 9 / clk_freq),
       Submodule ''cas'' ''cas.ControlAndStatus'' [],
       Use ''spiflash'' None,
       Submodule ''spiflash'' ''spi_flash.SpiFlashSingle'' [(''dummy'', KInt (fl_dummy fl)),
        (''div'', KInt (fl_div fl))],
       Constant ''SPIFLASH_PAGE_SIZE'' (fl_page fl),
       Constant ''SPIFLASH_SECTOR_SIZE'' (fl_sector fl),
       Register_mem ''spiflash'' mem_spiflash (fl_total fl),
       Constant ''ROM_DISABLE'' (1),
       Memory_region ''rom'' (cpu_reset_address) (bios_size) ''cached+linker'',
       Constant ''FLASH_BOOT_ADDRESS'' (flash_boot_address),
       Memory_region ''user_flash'' (flash_boot_address)
        (fl_total fl - (flash_boot_address - mem_spiflash) - 256) ''cached+linker'',
       Use ''usb'' None,
       Connect ''usb.pullup'' ''0'',
       Build_template ''build_template'' 3 ''icepack -s {build_name}.txt {build_name}.bin'',
       Build_template ''nextpnr_build_template'' 2 ''icepack -s {build_name}.txt
        {build_name}.bin''])))))))"

definition upduino_v1_csr_peripherals :: "string list" where
  "upduino_v1_csr_peripherals =
     [''spiflash'', ''cas'']"

definition upduino_v1_mem_map :: "(string, int) dict \<Rightarrow> (string, int) dict" where
  "upduino_v1_mem_map base =
     dict_update [(''spiflash'', 0x20000000)] base"

definition upduino_v1_base_soc :: "soc_env \<Rightarrow> soc_stmt list py_result" where
  "upduino_v1_base_soc env =
     py_bind (get_attr (pa_flash (se_plat env))) (\<lambda>fl.
     py_bind (get_attr (pa_gateware_size (se_plat env))) (\<lambda>gateware_size.
     py_bind (dict_get (se_mem env) ''spiflash'') (\<lambda>mem_spiflash.
     py_bind (dict_get (se_mem env) ''sram'') (\<lambda>mem_sram.
     (let kwargs = se_kwargs env;
          kwargs = set_default ''integrated_rom_size'' (KInt 0) kwargs;
          kwargs = set_default ''integrated_sram_size'' (KInt 0) kwargs;
          clk_freq = 12000000;
          cpu_reset_address = mem_spiflash + gateware_size;
          kwargs = dict_update kwargs [(''cpu_reset_address'', KInt cpu_reset_address)];
          bios_size = (32768 :: int);
          flash_boot_address = mem_spiflash + gateware_size + bios_size
      in
     (let crg = upduino_v1_crg in
     Inr ([
       Add_extension ''upduino.serial'',
       Add_extension ''upduino.spiflash'',
       Init ''SoCCore'' clk_freq [] kwargs,
       Crg crg,
       Sys_period (10 ^ 9 / clk_freq),
       Submodule ''cas'' ''cas.ControlAndStatus'' [],
       Use ''spiflash'' None,
       Submodule ''spiflash'' ''spi_flash.SpiFlashSingle'' [(''dummy'', KInt (fl_dummy fl)),
        (''div'', KInt (fl_div fl)), (''endianness'', KStr (se_endianness env))],
       Constant ''SPIFLASH_PAGE_SIZE'' (fl_page fl),
       Constant ''SPIFLASH_SECTOR_SIZE'' (fl_sector fl),
       Register_mem ''spiflash'' mem_spiflash (fl_total fl),
       Constant ''ROM_DISABLE'' (1),
       Memory_region ''rom'' (cpu_reset_address) (bios_size) ''cached+linker'',
       Constant ''FLASH_BOOT_ADDRESS'' (flash_boot_address),
       Submodule ''spram'' ''ice40.SPRAM'' [(''size'', KInt (128 * 1024))],
       Register_mem ''sram'' mem_sram (131072),
       Memory_region ''user_flash'' (flash_boot_address)
        (fl_total fl - (flash_boot_address - mem_spiflash) - 256) ''cached+linker'',
       Build_template ''build_template'' 3 ''icepack -s {build_name}.txt {build_name}.bin'',
       Build_template ''nextpnr_build_template'' 2 ''icepack -s {build_name}.txt
        {build_name}.bin''])))))))"

end
