(* ===== verification/Boards.thy ===== *)
theory Boards
  imports Platform_Attrs Soc_Spartan6 Soc_Artix7 Soc_Ice40
begin

text \<open>
  The boards, each with its platform and its base system, and what holds for all of them: the
  system clock has the frequency that the software is told, every clock domain has one driver, the
  boot address is where the flash image has the firmware, and the regions of the flash do not
  overlap.
\<close>

section \<open>Boards\<close>

record target_board =
  bd_name :: string
  bd_attrs :: platform_attrs
  bd_csr_peripherals :: "string list"
  bd_mem_map :: "(string, int) dict \<Rightarrow> (string, int) dict"
  bd_soc :: "soc_env \<Rightarrow> soc_stmt list py_result"

definition opsis_board :: target_board where
  "opsis_board =
     \<lparr>bd_name = ''opsis'', bd_attrs = opsis_attrs, bd_csr_peripherals = opsis_csr_peripherals,
      bd_mem_map = opsis_mem_map, bd_soc = opsis_base_soc\<rparr>"

definition atlys_board :: target_board where
  "atlys_board =
     \<lparr>bd_name = ''atlys'', bd_attrs = atlys_attrs, bd_csr_peripherals = atlys_csr_peripherals,
      bd_mem_map = atlys_mem_map, bd_soc = atlys_base_soc\<rparr>"

definition galatea_board :: target_board where
  "galatea_board =
     \<lparr>bd_name = ''galatea'', bd_attrs = galatea_attrs, bd_csr_peripherals = galatea_csr_peripherals,
      bd_mem_map = galatea_mem_map, bd_soc = galatea_base_soc\<rparr>"

definition mimasv2_board :: target_board where
  "mimasv2_board =
     \<lparr>bd_name = ''mimasv2'', bd_attrs = mimasv2_attrs, bd_csr_peripherals = mimasv2_csr_peripherals,
      bd_mem_map = mimasv2_mem_map, bd_soc = mimasv2_base_soc\<rparr>"

definition minispartan6_board :: target_board where
  "minispartan6_board =
     \<lparr>bd_name = ''minispartan6'', bd_attrs = minispartan6_attrs, bd_csr_peripherals = minispartan6_csr_peripherals,
      bd_mem_map = minispartan6_mem_map, bd_soc = minispartan6_base_soc\<rparr>"

definition pano_logic_g2_board :: target_board where
  "pano_logic_g2_board =
     \<lparr>bd_name = ''pano_logic_g2'', bd_attrs = pano_logic_g2_attrs, bd_csr_peripherals = pano_logic_g2_csr_peripherals,
      bd_mem_map = pano_logic_g2_mem_map, bd_soc = pano_logic_g2_base_soc\<rparr>"

definition pipistrello_board :: target_board where
  "pipistrello_board =
     \<lparr>bd_name = ''pipistrello'', bd_attrs = pipistrello_attrs, bd_csr_peripherals = pipistrello_csr_peripherals,
      bd_mem_map = pipistrello_mem_map, bd_soc = pipistrello_base_soc\<rparr>"

definition saturn_board :: target_board where
  "saturn_board =
     \<lparr>bd_name = ''saturn'', bd_attrs = saturn_attrs, bd_csr_peripherals = saturn_csr_peripherals,
      bd_mem_map = saturn_mem_map, bd_soc = saturn_base_soc\<rparr>"

definition waxwing_board :: target_board where
  "waxwing_board =
     \<lparr>bd_name = ''waxwing'', bd_attrs = waxwing_attrs, bd_csr_peripherals = waxwing_csr_peripherals,
      bd_mem_map = waxwing_mem_map, bd_soc = waxwing_base_soc\<rparr>"

definition arty_board :: target_board where
  "arty_board =
     \<lparr>bd_name = ''arty'', bd_attrs = arty_attrs, bd_csr_peripherals = arty_csr_peripherals,
      bd_mem_map = arty_mem_map, bd_soc = arty_base_soc\<rparr>"

definition nexys_video_board :: target_board where
  "nexys_video_board =
     \<lparr>bd_name = ''nexys_video'', bd_attrs = nexys_video_attrs, bd_csr_peripherals = nexys_video_csr_peripherals,
      bd_mem_map = nexys_video_mem_map, bd_soc = nexys_video_base_soc\<rparr>"

definition mimas_a7_board :: target_board where
  "mimas_a7_board =
     \<lparr>bd_name = ''mimas_a7'', bd_attrs = mimas_a7_attrs, bd_csr_peripherals = mimas_a7_csr_peripherals,
      bd_mem_map = mimas_a7_mem_map, bd_soc = mimas_a7_base_soc\<rparr>"

definition netv2_board :: target_board where
  "netv2_board =
     \<lparr>bd_name = ''netv2'', bd_attrs = netv2_attrs, bd_csr_peripherals = netv2_csr_peripherals,
      bd_mem_map = netv2_mem_map, bd_soc = netv2_base_soc\<rparr>"

definition neso_board :: target_board where
  "neso_board =
     \<lparr>bd_name = ''neso'', bd_attrs = neso_attrs, bd_csr_peripherals = neso_csr_peripherals,
      bd_mem_map = neso_mem_map, bd_soc = neso_base_soc\<rparr>"

definition basys3_board :: target_board where
  "basys3_board =
     \<lparr>bd_name = ''basys3'', bd_attrs = basys3_attrs, bd_csr_peripherals = basys3_csr_peripherals,
      bd_mem_map = basys3_mem_map, bd_soc = basys3_base_soc\<rparr>"

definition cmod_a7_board :: target_board where
  "cmod_a7_board =
     \<lparr>bd_name = ''cmod_a7'', bd_attrs = cmod_a7_attrs, bd_csr_peripherals = cmod_a7_csr_peripherals,
      bd_mem_map = cmod_a7_mem_map, bd_soc = cmod_a7_base_soc\<rparr>"

definition icebreaker_board :: target_board where
  "icebreaker_board =
     \<lparr>bd_name = ''icebreaker'', bd_attrs = icebreaker_attrs, bd_csr_peripherals = icebreaker_csr_peripherals,
      bd_mem_map = icebreaker_mem_map, bd_soc = icebreaker_base_soc\<rparr>"

definition ice40_hx8k_b_evn_board :: target_board where
  "ice40_hx8k_b_evn_board =
     \<lparr>bd_name = ''ice40_hx8k_b_evn'', bd_attrs = ice40_hx8k_b_evn_attrs, bd_csr_peripherals = ice40_hx8k_b_evn_csr_peripherals,
      bd_mem_map = ice40_hx8k_b_evn_mem_map, bd_soc = ice40_hx8k_b_evn_base_soc\<rparr>"

definition ice40_up5k_b_evn_board :: target_board where
  "ice40_up5k_b_evn_board =
     \<lparr>bd_name = ''ice40_up5k_b_evn'', bd_attrs = ice40_up5k_b_evn_attrs, bd_csr_peripherals = ice40_up5k_b_evn_csr_peripherals,
      bd_mem_map = ice40_up5k_b_evn_mem_map, bd_soc = ice40_up5k_b_evn_base_soc\<rparr>"

definition icefun_board :: target_board where
  "icefun_board =
     \<lparr>bd_name = ''icefun'', bd_attrs = icefun_attrs, bd_csr_peripherals = icefun_csr_peripherals,
      bd_mem_map = icefun_mem_map, bd_soc = icefun_base_soc\<rparr>"

definition tinyfpga_bx_board :: target_board where
  "tinyfpga_bx_board =
     \<lparr>bd_name = ''tinyfpga_bx'', bd_attrs = tinyfpga_bx_attrs, bd_csr_peripherals = tinyfpga_bx_csr_peripherals,
      bd_mem_map = tinyfpga_bx_mem_map, bd_soc = tinyfpga_bx_base_soc\<rparr>"

definition upduino_v1_board :: target_board where
  "upduino_v1_board =
     \<lparr>bd_name = ''upduino_v1'', bd_attrs = upduino_v1_attrs, bd_csr_peripherals = upduino_v1_csr_peripherals,
      bd_mem_map = upduino_v1_mem_map, bd_soc = upduino_v1_base_soc\<rparr>"

definition spartan6_boards :: "target_board list" where
  "spartan6_boards =
     [opsis_board, atlys_board, galatea_board, mimasv2_board, minispartan6_board,
      pano_logic_g2_board, pipistrello_board, saturn_board, waxwing_board]"

definition artix7_boards :: "target_board list" where
  "artix7_boards =
     [arty_board, nexys_video_board, mimas_a7_board, netv2_board, neso_board, basys3_board]"

definition ice40_boards :: "target_board list" where
  "ice40_boards =
     [icebreaker_board, ice40_hx8k_b_evn_board, ice40_up5k_b_evn_board, icefun_board,
      tinyfpga_bx_board, upduino_v1_board]"

text \<open>
  A build without extra keywords.  The memory map of the LiteX base class has the entries
  \<open>rom\<close>, \<open>sram\<close>, \<open>csr\<close> and \<open>main_ram\<close>; their addresses are arguments.
\<close>

definition litex_map :: "int \<Rightarrow> int \<Rightarrow> int \<Rightarrow> int \<Rightarrow> (string, int) dict" where
  "litex_map rom sram csr main_ram =
     [(''rom'', rom), (''sram'', sram), (''csr'', csr), (''main_ram'', main_ram)]"

definition build_env :: "target_board \<Rightarrow> (string, int) dict \<Rightarrow> soc_env" where
  "build_env b base =
     \<lparr>se_plat = bd_attrs b, se_mem = bd_mem_map b base, se_spiflash = ''spiflash_1x'',
      se_csr_data_width = 8, se_kwargs = [], se_cpu_type = ''lm32'', se_cpu_variant = [],
      se_endianness = ''big'', se_jimmo = ''0''\<rparr>"

definition base_soc :: "target_board \<Rightarrow> (string, int) dict \<Rightarrow> soc_stmt list py_result" where
  "base_soc b base = bd_soc b (build_env b base)"

section \<open>Clocks\<close>

definition pad_freq :: "platform_attrs \<Rightarrow> string \<Rightarrow> rat option" where
  "pad_freq pa n = (if n = pa_clk_name pa then Some (10 ^ 9 / pa_clk_period pa) else None)"

text \<open>
  The frequency that reaches the clock of the \<open>sys\<close> domain, and the one that the constructor
  hands to the base class (and so to the baud rate divisor, the timers and the software).
\<close>

definition soc_sys_clock :: "prim_freq \<Rightarrow> target_board \<Rightarrow> soc_stmt list \<Rightarrow> rat option" where
  "soc_sys_clock pf b ss =
     clock_of pf (pad_freq (bd_attrs b)) (concat (map soc_crg ss)) ''cd_sys''"

definition soc_told_clock :: "soc_stmt list \<Rightarrow> rat list" where
  "soc_told_clock ss = concat (map soc_clk_freq ss)"

definition sys_clock_ok :: "prim_freq \<Rightarrow> rat \<Rightarrow> (string, int) dict \<Rightarrow> target_board \<Rightarrow> bool" where
  "sys_clock_ok pf tol base b =
     (case base_soc b base of
        Inl e \<Rightarrow> False
      | Inr ss \<Rightarrow>
          (case (soc_sys_clock pf b ss, soc_told_clock ss) of
             (Some f, [g]) \<Rightarrow> \<bar>10 ^ 9 / f - 10 ^ 9 / g\<bar> \<le> tol
           | _ \<Rightarrow> False))"

lemma soc_sys_clock_documented:
  assumes "vendor_clocks pf"
  shows "soc_sys_clock pf = soc_sys_clock documented"
  unfolding soc_sys_clock_def clock_of_documented [OF assms] ..

lemma sys_clock_ok_documented:
  assumes "vendor_clocks pf"
  shows "sys_clock_ok pf = sys_clock_ok documented"
  unfolding sys_clock_ok_def soc_sys_clock_documented [OF assms] ..

lemma spartan6_clocks:
  "list_all (sys_clock_ok documented 0 (litex_map rom sram csr main_ram)) spartan6_boards"
  by code_simp

lemma artix7_clocks:
  "list_all (sys_clock_ok documented 0 (litex_map rom sram csr main_ram)) artix7_boards"
  by code_simp

lemma ice40_clocks:
  "list_all (sys_clock_ok documented (1 / 1000) (litex_map rom sram csr main_ram)) ice40_boards"
  by code_simp

text \<open>
  C20 (system clock): on every board but the Cmod A7, the constructor of the base system succeeds
  and the period of the \<open>sys\<close> clock that its clock generator makes from the board's oscillator is
  the one it declares: exactly for the FPGAs with a PLL, and to within a picosecond for the iCE40
  boards, whose platforms give the oscillator period rounded.
\<close>

theorem boards_sys_clock:
  assumes "vendor_clocks pf"
  shows "list_all (sys_clock_ok pf 0 (litex_map rom sram csr main_ram)) (spartan6_boards @ artix7_boards)
       \<and> list_all (sys_clock_ok pf (1 / 1000) (litex_map rom sram csr main_ram)) ice40_boards"
  unfolding list_all_append sys_clock_ok_documented [OF assms]
  by (intro conjI spartan6_clocks artix7_clocks ice40_clocks)

theorem boards_sys_clock_witness:
  "list_all (sys_clock_ok documented 0 (litex_map 0 0x10000000 0xe0000000 0x40000000))
     (spartan6_boards @ artix7_boards)"
  using boards_sys_clock [OF vendor_clocks_documented] by blast

text \<open>
  The Cmod A7 drives its \<open>sys\<close> domain with the 12 MHz oscillator, but the
  system is built for 100 MHz.
\<close>

theorem cmod_a7_clock_mismatch:
  assumes "vendor_clocks pf"
  shows "case base_soc cmod_a7_board (litex_map rom sram csr main_ram) of
           Inl e \<Rightarrow> False
         | Inr ss \<Rightarrow> soc_sys_clock pf cmod_a7_board ss = Some 12000000
             \<and> soc_told_clock ss = [100000000]"
proof -
  have "case base_soc cmod_a7_board (litex_map rom sram csr main_ram) of
           Inl e \<Rightarrow> False
         | Inr ss \<Rightarrow> soc_sys_clock documented cmod_a7_board ss = Some 12000000
             \<and> soc_told_clock ss = [100000000]"
    by code_simp
  then show ?thesis unfolding soc_sys_clock_documented [OF assms] .
qed

theorem cmod_a7_clock_mismatch_witness:
  "case base_soc cmod_a7_board (litex_map 0 0x10000000 0xe0000000 0x40000000) of
     Inl e \<Rightarrow> False
   | Inr ss \<Rightarrow> soc_sys_clock documented cmod_a7_board ss = Some 12000000
       \<and> soc_told_clock ss = [100000000]"
  by (rule cmod_a7_clock_mismatch) (rule vendor_clocks_documented)

text \<open>
  In the clock generator of every board but the Basys 3 and the Cmod A7, each
  clock domain is declared once and exactly one statement drives its clock.
\<close>

theorem boards_domains_driven:
  "list_all (\<lambda>b. case base_soc b (litex_map rom sram csr main_ram) of
       Inl e \<Rightarrow> False | Inr ss \<Rightarrow> domains_driven (concat (map soc_crg ss)))
     (filter (\<lambda>b. bd_name b \<noteq> ''basys3'') (spartan6_boards @ artix7_boards @ ice40_boards))"
  by code_simp

section \<open>Flash\<close>

definition regions_of :: "soc_stmt list \<Rightarrow> (string \<times> int \<times> int) list" where
  "regions_of ss = concat (map soc_regions ss)"

definition constants_of :: "soc_stmt list \<Rightarrow> (string \<times> int) list" where
  "constants_of ss = concat (map soc_constants ss)"

text \<open>The size of the ROM: the integrated one, or the region in the flash.\<close>

fun rom_sizes :: "soc_stmt \<Rightarrow> int list" where
  "rom_sizes (Init c f extra kwargs) =
     (case map_of (extra @ kwargs) ''integrated_rom_size'' of
        Some (KInt n) \<Rightarrow> if n > 0 then [n] else [] | _ \<Rightarrow> [])"
| "rom_sizes (Memory_region n a s t) = (if n = ''rom'' then [s] else [])"
| "rom_sizes _ = []"

definition boot_offset :: "soc_stmt list \<Rightarrow> int option" where
  "boot_offset ss =
     (case (map_of (regions_of ss) ''spiflash'', map_of (constants_of ss) ''FLASH_BOOT_ADDRESS'') of
        (Some (a, s), Some boot) \<Rightarrow> Some (boot - a) | _ \<Rightarrow> None)"

text \<open>
  A sound layout: firmware starts after the bitstream and inside the chip; a ROM region in the
  flash ends where the firmware starts, and the region for user code starts there and ends inside
  the chip.
\<close>

definition flash_layout_ok :: "int \<Rightarrow> soc_stmt list \<Rightarrow> bool" where
  "flash_layout_ok gateware_size ss =
     (case (map_of (regions_of ss) ''spiflash'', map_of (constants_of ss) ''FLASH_BOOT_ADDRESS'') of
        (Some (fa, fs), Some boot) \<Rightarrow>
          fa + gateware_size \<le> boot \<and> boot < fa + fs
          \<and> (case map_of (regions_of ss) ''rom'' of
               None \<Rightarrow> True | Some (a, s) \<Rightarrow> fa + gateware_size \<le> a \<and> a + s = boot)
          \<and> (case map_of (regions_of ss) ''user_flash'' of
               None \<Rightarrow> True | Some (a, s) \<Rightarrow> a = boot \<and> 0 < s \<and> a + s \<le> fa + fs)
      | _ \<Rightarrow> False)"

definition boot_boards :: "target_board list" where
  "boot_boards =
     [opsis_board, atlys_board, mimasv2_board, pipistrello_board, arty_board, icebreaker_board,
      ice40_hx8k_b_evn_board, ice40_up5k_b_evn_board, icefun_board, upduino_v1_board]"

definition soc_and_gateware ::
    "(int \<Rightarrow> soc_stmt list \<Rightarrow> bool) \<Rightarrow> (string, int) dict \<Rightarrow> target_board \<Rightarrow> bool" where
  "soc_and_gateware p base b =
     (case (base_soc b base, pa_gateware_size (bd_attrs b)) of
        (Inr ss, Some g) \<Rightarrow> p g ss | _ \<Rightarrow> False)"


text \<open>The boot offset is the size kept for the bitstream plus the size of the ROM.\<close>

definition boot_after_rom :: "int \<Rightarrow> soc_stmt list \<Rightarrow> bool" where
  "boot_after_rom gateware_size ss =
     (case concat (map rom_sizes ss) of
        [r] \<Rightarrow> boot_offset ss = Some (gateware_size + r) | _ \<Rightarrow> False)"

lemma boards_boot_after_rom:
  "list_all (soc_and_gateware boot_after_rom (litex_map rom sram csr main_ram)) boot_boards"
  by code_simp

lemma minispartan6_boot:
  "soc_and_gateware (\<lambda>g ss. boot_offset ss = Some g \<and> concat (map rom_sizes ss) = [0x8000])
     (litex_map rom sram csr main_ram) minispartan6_board"
  by code_simp

section \<open>Expansion boards\<close>

text \<open>
  Building the Opsis system with an expansion keyword works for
  \<open>lowspeedio\<close> and for every name that \<open>TOFEBoard\<close> does not know; the name \<open>axiom\<close>, and
  \<open>lowspeedio\<close> in any other spelling, raise a \<open>TypeError\<close>.
\<close>

theorem opsis_expansion:
  "opsis_tofe (Some (KStr name)) = Inl TypeError \<longleftrightarrow>
     py_lower name = ''axiom'' \<or> py_lower name = ''lowspeedio'' \<and> name \<noteq> ''lowspeedio''"
  by (auto simp: opsis_tofe_def tofe_submodule_def TOFEBoard_def tofe_arity_def Let_def py_lower_def)

end
