(* ===== verification/Cpu_Interface.thy ===== *)
theory Cpu_Interface
  imports Py_Strings
begin

text \<open>
  The register map handed to software, \<open>targets/common/cpu_interface.py\<close>: the C header and the CSV
  table.  A region is a memory or a list of registers; the loops advance the running address by
  four bytes per bus word.  The lemmas give the address of each register in closed form and show
  that registers do not overlap and that header and table agree.
\<close>

section \<open>Data\<close>

record csr =
  csr_name :: string
  csr_size :: nat
  csr_is_status :: bool

datatype region_obj = Memory | Csrs "csr list"

type_synonym csr_region = "string \<times> nat \<times> nat \<times> region_obj"

datatype cvalue = CNone | CInt int | CStr string

definition str_int :: "int \<Rightarrow> string" where
  "str_int i = (if i < 0 then ''-'' @ py_str (nat (- i)) else py_str (nat i))"

fun str_value :: "cvalue \<Rightarrow> string" where
  "str_value CNone = ''None''"
| "str_value (CInt i) = str_int i"
| "str_value (CStr s) = s"

definition NL :: string where "NL = [CHR 0x0A]"

section \<open>The C header\<close>

definition get_rw_functions :: "string \<Rightarrow> nat \<Rightarrow> nat \<Rightarrow> bool \<Rightarrow> string" where
  "get_rw_functions reg_name reg_base nwords read_only =
     ''#define CSR_'' @ py_upper reg_name @ ''_ADDR '' @ py_hex reg_base @ NL
     @ ''#define CSR_'' @ py_upper reg_name @ ''_SIZE '' @ py_str nwords @ NL
     @ ''#define CSR_'' @ py_upper reg_name @ ''_RO '' @ py_str (of_bool read_only) @ NL"

definition csr_words :: "nat \<Rightarrow> csr \<Rightarrow> nat" where
  "csr_words busword c = (csr_size c + busword - 1) div busword"

fun header_csrs :: "string \<Rightarrow> nat \<Rightarrow> nat \<Rightarrow> csr list \<Rightarrow> string" where
  "header_csrs name origin busword [] = []"
| "header_csrs name origin busword (c # cs) =
     (let nr = csr_words busword c
      in get_rw_functions (name @ ''_'' @ csr_name c) origin nr (csr_is_status c)
         @ header_csrs name (origin + 4 * nr) busword cs)"

fun header_region :: "csr_region \<Rightarrow> string" where
  "header_region (name, origin0, busword, obj) =
     (let origin = origin0 AND 0x7fffffff in
      case obj of
        Memory \<Rightarrow> ''#define '' @ py_upper name @ ''_BASE '' @ py_hex origin @ NL
      | Csrs cs \<Rightarrow>
          NL @ ''/* '' @ name @ '' */'' @ NL
          @ ''#define '' @ py_upper name @ ''_BASE '' @ py_hex origin @ NL
          @ header_csrs name origin busword cs)"

fun header_constant :: "string \<times> cvalue \<Rightarrow> string" where
  "header_constant (name, v) =
     ''#define '' @ name @ (if v = CNone then [] else '' '' @ str_value v) @ NL"

definition get_csr_header :: "csr_region list \<Rightarrow> (string \<times> cvalue) list \<Rightarrow> string" where
  "get_csr_header regions constants =
     ''#ifndef __GENERATED_CSR_H'' @ NL @ ''#define __GENERATED_CSR_H'' @ NL
     @ concat (map header_region regions)
     @ NL @ ''/* constants */'' @ NL
     @ concat (map header_constant constants)
     @ NL @ ''#endif'' @ NL"

section \<open>The CSV table\<close>

fun csv_csrs :: "string \<Rightarrow> nat \<Rightarrow> nat \<Rightarrow> csr list \<Rightarrow> string" where
  "csv_csrs name origin busword [] = []"
| "csv_csrs name origin busword (c # cs) =
     (let nr = csr_words busword c
      in ''csr_register,'' @ name @ ''_'' @ csr_name c @ '',0x'' @ fmt_08x origin @ '','' @ py_str nr @ '',''
         @ (if csr_is_status c then ''ro'' else ''rw'') @ NL
         @ csv_csrs name (origin + 4 * nr) busword cs)"

fun csv_base :: "csr_region \<Rightarrow> string" where
  "csv_base (name, origin, busword, obj) = ''csr_base,'' @ name @ '',0x'' @ fmt_08x origin @ '',,'' @ NL"

fun csv_region :: "csr_region \<Rightarrow> string" where
  "csv_region (name, origin, busword, Memory) = []"
| "csv_region (name, origin, busword, Csrs cs) = csv_csrs name origin busword cs"

fun csv_constant :: "string \<times> cvalue \<Rightarrow> string" where
  "csv_constant (name, v) = ''constant,'' @ py_lower name @ '','' @ str_value v @ '',,'' @ NL"

fun csv_memory :: "string \<times> nat \<times> nat \<Rightarrow> string" where
  "csv_memory (name, origin, len) =
     ''memory_region,'' @ py_lower name @ '',0x'' @ fmt_08x origin @ '','' @ py_str len @ '','' @ NL"

definition get_csr_csv ::
    "csr_region list option \<Rightarrow> (string \<times> cvalue) list option \<Rightarrow> (string \<times> nat \<times> nat) list option \<Rightarrow> string" where
  "get_csr_csv csr_regions constants memory_regions =
     (case csr_regions of None \<Rightarrow> [] | Some rs \<Rightarrow> concat (map csv_base rs) @ concat (map csv_region rs))
     @ (case constants of None \<Rightarrow> [] | Some cs \<Rightarrow> concat (map csv_constant cs))
     @ (case memory_regions of None \<Rightarrow> [] | Some ms \<Rightarrow> concat (map csv_memory ms))"

section \<open>Addresses\<close>

text \<open>The specification: the offset of register \<open>i\<close> counts the words of those before it.\<close>

definition csr_offset :: "nat \<Rightarrow> csr list \<Rightarrow> nat \<Rightarrow> nat" where
  "csr_offset busword cs i = 4 * sum_list (map (csr_words busword) (take i cs))"

definition csr_bytes :: "nat \<Rightarrow> csr \<Rightarrow> nat" where
  "csr_bytes busword c = 4 * csr_words busword c"

lemma csr_offset_Suc:
  "i < length cs \<Longrightarrow> csr_offset busword cs (Suc i) = csr_offset busword cs i + csr_bytes busword (cs ! i)"
  by (simp add: csr_offset_def csr_bytes_def take_Suc_conv_app_nth)

lemma csr_offset_mono: "i \<le> j \<Longrightarrow> csr_offset busword cs i \<le> csr_offset busword cs j"
proof -
  assume "i \<le> j"
  then have "take j cs = take i cs @ take (j - i) (drop i cs)"
    using take_add [of i "j - i" cs] by simp
  then show ?thesis by (simp add: csr_offset_def)
qed

definition reg_line :: "(string \<Rightarrow> nat \<Rightarrow> nat \<Rightarrow> csr \<Rightarrow> string) \<Rightarrow> string \<Rightarrow> nat \<Rightarrow> nat \<Rightarrow> csr list \<Rightarrow> string" where
  "reg_line f name origin busword cs =
     concat (map (\<lambda>i. f name (origin + csr_offset busword cs i) (csr_words busword (cs ! i)) (cs ! i))
       [0..<length cs])"

lemma reg_line_Cons:
  "reg_line f name origin busword (c # cs) =
     f name origin (csr_words busword c) c @ reg_line f name (origin + csr_bytes busword c) busword cs"
proof -
  have "[0..<length (c # cs)] = 0 # map Suc [0..<length cs]"
    by (simp add: upt_conv_Cons map_Suc_upt del: upt_Suc)
  moreover have "csr_offset busword (c # cs) (Suc i) = csr_bytes busword c + csr_offset busword cs i" for i
    by (simp add: csr_offset_def csr_bytes_def)
  moreover have "csr_offset busword (c # cs) 0 = 0" by (simp add: csr_offset_def)
  ultimately show ?thesis
    by (simp only: reg_line_def) (simp add: o_def add.assoc)
qed

definition header_entry :: "string \<Rightarrow> nat \<Rightarrow> nat \<Rightarrow> csr \<Rightarrow> string" where
  "header_entry name a nr c = get_rw_functions (name @ ''_'' @ csr_name c) a nr (csr_is_status c)"

definition csv_entry :: "string \<Rightarrow> nat \<Rightarrow> nat \<Rightarrow> csr \<Rightarrow> string" where
  "csv_entry name a nr c =
     ''csr_register,'' @ name @ ''_'' @ csr_name c @ '',0x'' @ fmt_08x a @ '','' @ py_str nr @ '',''
     @ (if csr_is_status c then ''ro'' else ''rw'') @ NL"

text \<open>
  C32 (register addresses): the running addresses of the header and of the table are the offsets
  of the specification, over the masked and the unmasked base, and the byte ranges of two registers
  of a region do not overlap.
\<close>

theorem csr_addresses:
  assumes "i < j" "j < length cs"
  shows "header_csrs name origin busword cs = reg_line header_entry name origin busword cs
    \<and> csv_csrs name origin busword cs = reg_line csv_entry name origin busword cs
    \<and> csr_offset busword cs i + csr_bytes busword (cs ! i) \<le> csr_offset busword cs j"
proof (intro conjI)
  show "header_csrs name origin busword cs = reg_line header_entry name origin busword cs"
    by (induction cs arbitrary: origin)
       (simp_all add: reg_line_Cons header_entry_def csr_bytes_def Let_def, simp add: reg_line_def)
  show "csv_csrs name origin busword cs = reg_line csv_entry name origin busword cs"
    by (induction cs arbitrary: origin)
       (simp_all add: reg_line_Cons csv_entry_def csr_bytes_def Let_def, simp add: reg_line_def)
  show "csr_offset busword cs i + csr_bytes busword (cs ! i) \<le> csr_offset busword cs j"
    using assms csr_offset_Suc [of i cs busword] csr_offset_mono [of "Suc i" j busword cs] by simp
qed

theorem csr_addresses_witness:
  "csr_offset 8 [\<lparr>csr_name = ''a'', csr_size = 32, csr_is_status = True\<rparr>,
                  \<lparr>csr_name = ''b'', csr_size = 1, csr_is_status = False\<rparr>] 0 + 16
   \<le> csr_offset 8 [\<lparr>csr_name = ''a'', csr_size = 32, csr_is_status = True\<rparr>,
                  \<lparr>csr_name = ''b'', csr_size = 1, csr_is_status = False\<rparr>] 1"
  using csr_addresses [of 0 1 "[\<lparr>csr_name = ''a'', csr_size = 32, csr_is_status = True\<rparr>,
      \<lparr>csr_name = ''b'', csr_size = 1, csr_is_status = False\<rparr>]" "''a''" 0 8]
  by (simp add: csr_bytes_def csr_words_def)

end
