(* ===== verification/Spi_Master.thy ===== *)
theory Spi_Master
  imports Hdl_Prelude
begin

text \<open>
  The SPI master behind the OLED display, \<open>gateware/oled.py\<close>: clock divider, bit counter, state machine, the two shift registers and the pads, for both clock
  phases.  Shown: the invariant of the divider and of the idle clock line, and the full-duplex
  transfer -- a device that samples the clock edges sees the bits of the data register in order, one
  per clock, the register for the input holds what the device drove, and the core is idle again
  after a computed number of cycles.
\<close>

section \<open>Model\<close>

text \<open>
  The constructor arguments; a pad record without \<open>mosi\<close> or \<open>miso\<close> gives a core without the
  corresponding register.
\<close>

record spi_conf =
  sc_width :: nat
  sc_div :: nat
  sc_cpha :: bool
  sc_mosi :: bool
  sc_miso :: bool

datatype spi_fsm = SM_IDLE | SM_WAIT_CLK | SM_SHIFT | SM_END

text \<open>Shift registers are lists of bits, the most significant first.\<close>

record spi_master =
  sm_fsm :: spi_fsm
  sm_i :: nat
  sm_cnt :: "8 word"
  sm_clk :: bool
  sm_mosi :: bool
  sm_miso :: bool
  sm_sr_miso :: "bool list"
  sm_sr_mosi :: "bool list"

record spi_master_in =
  si_ctrl_re :: bool
  si_ctrl_r0 :: bool
  si_length :: "8 word"
  si_mosi_storage :: "bool list"
  si_miso_pad :: bool

definition spi_master_init :: "spi_conf \<Rightarrow> spi_master" where
  "spi_master_init c =
     \<lparr>sm_fsm = SM_IDLE, sm_i = 0, sm_cnt = 0, sm_clk = False, sm_mosi = False, sm_miso = False,
      sm_sr_miso = replicate (sc_width c) False, sm_sr_mosi = replicate (sc_width c) False\<rparr>"

definition spi_start :: "spi_master_in \<Rightarrow> bool" where
  "spi_start i = (si_ctrl_re i \<and> si_ctrl_r0 i)"

definition set_clk :: "spi_conf \<Rightarrow> spi_master \<Rightarrow> bool" where
  "set_clk c s = (int (sm_i s) = int (sc_div c div 2) - 1)"

definition clr_clk :: "spi_conf \<Rightarrow> spi_master \<Rightarrow> bool" where
  "clr_clk c s = (int (sm_i s) = int (sc_div c) - 1)"

definition enable_cs :: "spi_master \<Rightarrow> bool" where
  "enable_cs s = (sm_fsm s = SM_SHIFT)"

definition enable_shift :: "spi_master \<Rightarrow> bool" where
  "enable_shift s = (sm_fsm s = SM_SHIFT \<or> sm_fsm s = SM_END)"

definition spi_done :: "spi_master \<Rightarrow> bool" where
  "spi_done s = (sm_fsm s = SM_IDLE)"

definition spi_irq :: "spi_master \<Rightarrow> bool" where
  "spi_irq s = (sm_fsm s = SM_END)"

definition spi_cs_n :: "spi_master \<Rightarrow> bool" where
  "spi_cs_n s = (\<not> enable_cs s)"

definition spi_fsm_next :: "spi_conf \<Rightarrow> spi_master_in \<Rightarrow> spi_master \<Rightarrow> spi_fsm" where
  "spi_fsm_next c i s =
     (case sm_fsm s of
        SM_IDLE \<Rightarrow> if spi_start i then SM_WAIT_CLK else SM_IDLE
      | SM_WAIT_CLK \<Rightarrow> if clr_clk c s then SM_SHIFT else SM_WAIT_CLK
      | SM_SHIFT \<Rightarrow> if sm_cnt s = si_length i then SM_END else SM_SHIFT
      | SM_END \<Rightarrow> if set_clk c s then SM_IDLE else SM_END)"

definition spi_cnt_next :: "spi_conf \<Rightarrow> spi_master_in \<Rightarrow> spi_master \<Rightarrow> 8 word" where
  "spi_cnt_next c i s =
     (case sm_fsm s of
        SM_IDLE \<Rightarrow> 0
      | SM_WAIT_CLK \<Rightarrow> sm_cnt s
      | SM_SHIFT \<Rightarrow>
          if sm_cnt s = si_length i then sm_cnt s
          else if clr_clk c s then sm_cnt s + 1 else sm_cnt s
      | SM_END \<Rightarrow> sm_cnt s)"

text \<open>The input side: the sampled pad and the shift register, by clock phase.\<close>

definition miso_step :: "spi_conf \<Rightarrow> spi_master_in \<Rightarrow> spi_master \<Rightarrow> bool \<times> bool list" where
  "miso_step c i s =
     (let sample = (if sc_cpha c then clr_clk c s else set_clk c s);
          shift = (if sc_cpha c then set_clk c s else clr_clk c s)
      in if sc_miso c \<and> enable_shift s then
           if sample then (si_miso_pad i, sm_sr_miso s)
           else if shift then (sm_miso s, drop 1 (sm_sr_miso s) @ [sm_miso s])
           else (sm_miso s, sm_sr_miso s)
         else (sm_miso s, sm_sr_miso s))"

text \<open>The output side: the pad and the shift register.\<close>

definition mosi_step :: "spi_conf \<Rightarrow> spi_master_in \<Rightarrow> spi_master \<Rightarrow> bool \<times> bool list" where
  "mosi_step c i s =
     (let shift = (if sc_cpha c then clr_clk c s else set_clk c s);
          drive = (if sc_cpha c then set_clk c s else clr_clk c s)
      in if sc_mosi c then
           if spi_start i then (sm_mosi s, si_mosi_storage i)
           else if shift \<and> enable_shift s then (sm_mosi s, drop 1 (sm_sr_mosi s) @ [False])
           else if drive then (hd (sm_sr_mosi s), sm_sr_mosi s)
           else (sm_mosi s, sm_sr_mosi s)
         else (sm_mosi s, sm_sr_mosi s))"

definition spi_master_step :: "spi_conf \<Rightarrow> spi_master_in \<Rightarrow> spi_master \<Rightarrow> spi_master" where
  "spi_master_step c i s =
     \<lparr>sm_fsm = spi_fsm_next c i s,
      sm_i = (if clr_clk c s then 0 else sm_i s + 1),
      sm_cnt = spi_cnt_next c i s,
      sm_clk = (if clr_clk c s then False else if set_clk c s then enable_cs s else sm_clk s),
      sm_mosi = fst (mosi_step c i s),
      sm_miso = fst (miso_step c i s),
      sm_sr_miso = snd (miso_step c i s),
      sm_sr_mosi = snd (mosi_step c i s)\<rparr>"

text \<open>The display: an eight-bit master without input, one sixteenth of the system clock.\<close>

definition oled_conf :: spi_conf where
  "oled_conf = \<lparr>sc_width = 8, sc_div = 16, sc_cpha = False, sc_mosi = True, sc_miso = False\<rparr>"

record oled_pads =
  op_sclk :: bool
  op_sdin :: bool
  op_res :: bool
  op_dc :: bool
  op_vbat :: bool
  op_vdd :: bool

definition oled_outputs :: "4 word \<Rightarrow> spi_master \<Rightarrow> oled_pads" where
  "oled_outputs gpio s =
     \<lparr>op_sclk = sm_clk s, op_sdin = sm_mosi s,
      op_res = bit gpio 0, op_dc = bit gpio 1, op_vbat = bit gpio 2, op_vdd = bit gpio 3\<rparr>"

section \<open>The invariant\<close>

definition spi_master_inv :: "spi_conf \<Rightarrow> spi_master \<Rightarrow> bool" where
  "spi_master_inv c s \<longleftrightarrow>
     (2 \<le> sc_div c \<and> 0 < sc_width c \<longrightarrow>
        sm_i s < sc_div c \<and> length (sm_sr_miso s) = sc_width c
        \<and> (sm_fsm s = SM_IDLE \<or> sm_fsm s = SM_WAIT_CLK \<longrightarrow> \<not> sm_clk s))"

lemma clk_strobes:
  assumes "2 \<le> sc_div c"
  shows "set_clk c s \<longleftrightarrow> Suc (sm_i s) = sc_div c div 2"
    and "clr_clk c s \<longleftrightarrow> Suc (sm_i s) = sc_div c"
    and "\<not> (set_clk c s \<and> clr_clk c s)"
  using assms unfolding set_clk_def clr_clk_def by linarith+

lemma spi_master_inv_step: "spi_master_inv c s \<Longrightarrow> spi_master_inv c (spi_master_step c i s)"
  unfolding spi_master_inv_def
  by (intro impI conjI; cases "sm_fsm s")
     (auto simp: spi_master_step_def clk_strobes spi_fsm_next_def miso_step_def enable_cs_def Let_def
       split: if_splits)

interpretation spi_module: sync_module "spi_master_step c" "spi_master_init c" "spi_master_inv c"
  for c
  by unfold_locales
     (auto simp: spi_master_inv_step, simp add: spi_master_inv_def spi_master_init_def)

section \<open>One period of the serial clock\<close>

definition sm_cycle :: "spi_conf \<Rightarrow> (nat \<Rightarrow> spi_master_in) \<Rightarrow> nat \<Rightarrow> spi_master \<Rightarrow> spi_master" where
  "sm_cycle c ins t = spi_master_step c (ins t)"

text \<open>
  What a device sees: the level of the data line before each sampling edge of the clock, while it
  is selected.  The sampling edge rises in phase 0 and falls in phase 1.
\<close>

definition device_in :: "spi_conf \<Rightarrow> (nat \<Rightarrow> spi_master_in) \<Rightarrow> nat \<Rightarrow> spi_master \<Rightarrow> bool list" where
  "device_in c ins t s =
     (if \<not> spi_cs_n s \<and> sm_clk s = sc_cpha c \<and> sm_clk (sm_cycle c ins t s) \<noteq> sc_cpha c
      then [sm_mosi s] else [])"

text \<open>No new command from cycle \<open>t0\<close> on, and a fixed length register.\<close>

definition undisturbed_spi :: "(nat \<Rightarrow> spi_master_in) \<Rightarrow> nat \<Rightarrow> 8 word \<Rightarrow> bool" where
  "undisturbed_spi ins t0 L \<longleftrightarrow> (\<forall>t \<ge> t0. \<not> spi_start (ins t) \<and> si_length (ins t) = L)"

lemma quiet_cycle:
  assumes "2 \<le> sc_div c" "undisturbed_spi ins t0 L" "t0 \<le> t"
    and "sm_fsm s = SM_SHIFT \<and> sm_cnt s \<noteq> L \<or> sm_fsm s = SM_END" "Suc (sm_i s) \<noteq> sc_div c div 2" "Suc (sm_i s) \<noteq> sc_div c"
  shows "sm_cycle c ins t s = s\<lparr>sm_i := Suc (sm_i s)\<rparr>" "device_in c ins t s = []"
proof -
  show "sm_cycle c ins t s = s\<lparr>sm_i := Suc (sm_i s)\<rparr>"
    using assms
    by (auto simp: sm_cycle_def spi_master_step_def clk_strobes spi_fsm_next_def spi_cnt_next_def
        mosi_step_def miso_step_def undisturbed_spi_def Let_def)
  then show "device_in c ins t s = []" by (auto simp: device_in_def)
qed

lemma quiet_run:
  assumes "2 \<le> sc_div c" "undisturbed_spi ins t0 L" "t0 \<le> t"
    and "sm_fsm s = SM_SHIFT \<and> sm_cnt s \<noteq> L \<or> sm_fsm s = SM_END"
    and "\<forall>k<m. Suc (sm_i s + k) \<noteq> sc_div c div 2 \<and> Suc (sm_i s + k) \<noteq> sc_div c"
  shows "run (sm_cycle c ins) [t..<t + m] s = s\<lparr>sm_i := sm_i s + m\<rparr>
    \<and> collect (sm_cycle c ins) (device_in c ins) [t..<t + m] s = []"
  using assms(5)
proof (induction m)
  case 0
  then show ?case by simp
next
  case (Suc m)
  then have IH: "run (sm_cycle c ins) [t..<t + m] s = s\<lparr>sm_i := sm_i s + m\<rparr>"
      "collect (sm_cycle c ins) (device_in c ins) [t..<t + m] s = []"
    by simp_all
  have "sm_cycle c ins (t + m) (s\<lparr>sm_i := sm_i s + m\<rparr>) = s\<lparr>sm_i := sm_i s + Suc m\<rparr>"
      "device_in c ins (t + m) (s\<lparr>sm_i := sm_i s + m\<rparr>) = []"
    using quiet_cycle [OF assms(1,2), of "t + m" "s\<lparr>sm_i := sm_i s + m\<rparr>"] assms(3-4) Suc.prems
    by simp_all
  with IH show ?case by simp
qed

text \<open>The bit that the input side keeps from a period that begins in cycle \<open>t\<close>.\<close>

definition period_sample :: "spi_conf \<Rightarrow> nat \<Rightarrow> nat" where
  "period_sample c t = (if sc_cpha c then t + sc_div c - 1 else t + sc_div c div 2 - 1)"

definition after_period :: "spi_conf \<Rightarrow> (nat \<Rightarrow> spi_master_in) \<Rightarrow> nat \<Rightarrow> spi_master \<Rightarrow> spi_master" where
  "after_period c ins t s =
     s\<lparr>sm_i := 0, sm_cnt := sm_cnt s + 1, sm_clk := False,
       sm_mosi := (if sc_cpha c then hd (sm_sr_mosi s) else hd (drop 1 (sm_sr_mosi s) @ [False])),
       sm_miso := (if sc_miso c then si_miso_pad (ins (period_sample c t)) else sm_miso s),
       sm_sr_miso := (if sc_miso c
         then drop 1 (sm_sr_miso s)
              @ [if sc_cpha c then sm_miso s else si_miso_pad (ins (period_sample c t))]
         else sm_sr_miso s),
       sm_sr_mosi := drop 1 (sm_sr_mosi s) @ [False]\<rparr>"

lemma period_split:
  assumes "4 \<le> d"
  shows "[t..<t + d] = [t..<t + (d div 2 - 1)] @ [t + (d div 2 - 1)]
    @ [t + d div 2..<(t + d div 2) + (d - 1 - d div 2)] @ [t + (d - 1)]"
proof -
  have "[t..<t + d] = [t..<t + (d div 2 - 1)] @ [t + (d div 2 - 1)..<t + d]"
    using assms upt_add_eq_append [of t "t + (d div 2 - 1)" "d - (d div 2 - 1)"] by simp
  also have "[t + (d div 2 - 1)..<t + d] = (t + (d div 2 - 1)) # [t + d div 2..<t + d]"
    using assms by (subst upt_conv_Cons) auto
  also have "[t + d div 2..<t + d] = [t + d div 2..<t + (d - 1)] @ [t + (d - 1)]"
    using assms upt_Suc_append [of "t + d div 2" "t + (d - 1)"] by simp
  also have "t + (d - 1) = (t + d div 2) + (d - 1 - d div 2)" using assms by simp
  finally show ?thesis using assms by simp
qed

text \<open>The two cycles of a period in which something happens.\<close>

lemma set_cycle:
  assumes "4 \<le> sc_div c" "sc_mosi c" "undisturbed_spi ins t0 L" "t0 \<le> t"
    and "sm_fsm s = SM_SHIFT" "sm_cnt s \<noteq> L" "sm_i s = sc_div c div 2 - 1"
  shows "sm_cycle c ins t s =
    s\<lparr>sm_i := sc_div c div 2, sm_clk := True,
      sm_mosi := (if sc_cpha c then hd (sm_sr_mosi s) else sm_mosi s),
      sm_miso := (if sc_miso c \<and> \<not> sc_cpha c then si_miso_pad (ins t) else sm_miso s),
      sm_sr_miso := (if sc_miso c \<and> sc_cpha c then drop 1 (sm_sr_miso s) @ [sm_miso s] else sm_sr_miso s),
      sm_sr_mosi := (if sc_cpha c then sm_sr_mosi s else drop 1 (sm_sr_mosi s) @ [False])\<rparr>"
proof -
  have "set_clk c s" "\<not> clr_clk c s" using assms(1,7) by (simp_all add: clk_strobes)
  then show ?thesis
    using assms
    by (simp add: sm_cycle_def spi_master_step_def spi_fsm_next_def spi_cnt_next_def
        mosi_step_def miso_step_def undisturbed_spi_def enable_cs_def enable_shift_def)
qed

lemma clr_cycle:
  assumes "4 \<le> sc_div c" "sc_mosi c" "undisturbed_spi ins t0 L" "t0 \<le> t"
    and "sm_fsm s = SM_SHIFT" "sm_cnt s \<noteq> L" "sm_i s = sc_div c - 1"
  shows "sm_cycle c ins t s =
    s\<lparr>sm_i := 0, sm_cnt := sm_cnt s + 1, sm_clk := False,
      sm_mosi := (if sc_cpha c then sm_mosi s else hd (sm_sr_mosi s)),
      sm_miso := (if sc_miso c \<and> sc_cpha c then si_miso_pad (ins t) else sm_miso s),
      sm_sr_miso := (if sc_miso c \<and> \<not> sc_cpha c then drop 1 (sm_sr_miso s) @ [sm_miso s] else sm_sr_miso s),
      sm_sr_mosi := (if sc_cpha c then drop 1 (sm_sr_mosi s) @ [False] else sm_sr_mosi s)\<rparr>"
proof -
  have "\<not> set_clk c s" "clr_clk c s" using assms(1,7) by (simp_all add: clk_strobes)
  then show ?thesis
    using assms
    by (simp add: sm_cycle_def spi_master_step_def spi_fsm_next_def spi_cnt_next_def
        mosi_step_def miso_step_def undisturbed_spi_def enable_cs_def enable_shift_def)
qed

lemma spi_period:
  assumes d: "4 \<le> sc_div c" and m: "sc_mosi c" and u: "undisturbed_spi ins t0 L" "t0 \<le> t"
    and s: "sm_fsm s = SM_SHIFT" "sm_cnt s \<noteq> L" "sm_i s = 0" "\<not> sm_clk s"
  shows "run (sm_cycle c ins) [t..<t + sc_div c] s = after_period c ins t s
    \<and> collect (sm_cycle c ins) (device_in c ins) [t..<t + sc_div c] s
      = [if sc_cpha c then hd (sm_sr_mosi s) else sm_mosi s]"
proof -
  let ?d = "sc_div c"
  let ?h = "?d div 2"
  have d2: "2 \<le> ?d" using d by simp
  define s1 where "s1 = s\<lparr>sm_i := ?h - 1\<rparr>"
  define s2 where "s2 = sm_cycle c ins (t + (?h - 1)) s1"
  define s3 where "s3 = s2\<lparr>sm_i := ?d - 1\<rparr>"
  have quiet1: "\<forall>k<?h - 1. Suc (sm_i s + k) \<noteq> ?h \<and> Suc (sm_i s + k) \<noteq> ?d" using s(3) d by auto
  have q1: "run (sm_cycle c ins) [t..<t + (?h - 1)] s = s1"
      "collect (sm_cycle c ins) (device_in c ins) [t..<t + (?h - 1)] s = []"
    using quiet_run [OF d2 u, of s "?h - 1"] quiet1 s by (simp_all add: s1_def)
  have s2: "s2 = s1\<lparr>sm_i := ?h, sm_clk := True,
      sm_mosi := (if sc_cpha c then hd (sm_sr_mosi s) else sm_mosi s),
      sm_miso := (if sc_miso c \<and> \<not> sc_cpha c then si_miso_pad (ins (t + (?h - 1))) else sm_miso s),
      sm_sr_miso := (if sc_miso c \<and> sc_cpha c then drop 1 (sm_sr_miso s) @ [sm_miso s] else sm_sr_miso s),
      sm_sr_mosi := (if sc_cpha c then sm_sr_mosi s else drop 1 (sm_sr_mosi s) @ [False])\<rparr>"
    unfolding s2_def using set_cycle [OF d m u(1), of "t + (?h - 1)" s1] u(2) s by (simp add: s1_def)
  have o2: "device_in c ins (t + (?h - 1)) s1 = (if sc_cpha c then [] else [sm_mosi s])"
    unfolding device_in_def s2_def [symmetric] using s
    by (auto simp: s2 s1_def spi_cs_n_def enable_cs_def)
  have f2: "sm_fsm s2 = SM_SHIFT" "sm_cnt s2 \<noteq> L" "sm_i s2 = ?h" using s by (simp_all add: s2 s1_def)
  have quiet3: "\<forall>k<?d - 1 - ?h. Suc (sm_i s2 + k) \<noteq> ?h \<and> Suc (sm_i s2 + k) \<noteq> ?d" using f2(3) by auto
  have q3: "run (sm_cycle c ins) [t + ?h..<(t + ?h) + (?d - 1 - ?h)] s2 = s3"
      "collect (sm_cycle c ins) (device_in c ins) [t + ?h..<(t + ?h) + (?d - 1 - ?h)] s2 = []"
    using quiet_run [OF d2 u(1), of "t + ?h" s2 "?d - 1 - ?h"] quiet3 u(2) f2 d
    by (simp_all add: s3_def)
  have q4: "sm_cycle c ins (t + (?d - 1)) s3 = after_period c ins t s"
    using clr_cycle [OF d m u(1), of "t + (?d - 1)" s3] u(2) f2 d
    by (auto simp: s3_def s2 s1_def after_period_def period_sample_def)
  have o4: "device_in c ins (t + (?d - 1)) s3 = (if sc_cpha c then [hd (sm_sr_mosi s)] else [])"
    unfolding device_in_def q4 using s
    by (auto simp: after_period_def s3_def s2 s1_def spi_cs_n_def enable_cs_def)
  show ?thesis
    unfolding period_split [OF d, of t]
    by (simp only: run_append collect_append q1 q3 run.simps collect.simps s2_def [symmetric] q4 o2 o4)
       simp
qed

section \<open>A transfer\<close>

text \<open>The bits the input side samples in \<open>k\<close> periods from cycle \<open>t\<close> on.\<close>

definition sampled :: "spi_conf \<Rightarrow> (nat \<Rightarrow> spi_master_in) \<Rightarrow> nat \<Rightarrow> nat \<Rightarrow> bool list" where
  "sampled c ins t k = map (\<lambda>j. si_miso_pad (ins (period_sample c (t + j * sc_div c)))) [0..<k]"

lemma sampled_Suc:
  "sampled c ins t (Suc k) = sampled c ins t k @ [si_miso_pad (ins (period_sample c (t + k * sc_div c)))]"
  by (simp add: sampled_def)

text \<open>The state after \<open>k\<close> of the periods, for output \<open>data\<close> and old input register \<open>old\<close>.\<close>

definition shifting ::
    "spi_conf \<Rightarrow> bool list \<Rightarrow> bool list \<Rightarrow> bool \<Rightarrow> bool list \<Rightarrow> nat \<Rightarrow> spi_master \<Rightarrow> bool" where
  "shifting c data old m0 bits k s \<longleftrightarrow>
     sm_fsm s = SM_SHIFT \<and> sm_i s = 0 \<and> \<not> sm_clk s \<and> sm_cnt s = of_nat k
     \<and> sm_sr_mosi s = drop k data @ replicate k False
     \<and> (\<not> sc_cpha c \<longrightarrow> sm_mosi s = hd (sm_sr_mosi s))
     \<and> (sc_miso c \<longrightarrow>
          (if sc_cpha c then sm_sr_miso s @ [sm_miso s] = drop k (old @ [m0] @ bits)
           else sm_sr_miso s = drop k (old @ bits)))"

lemma drop_snoc: "k < length xs \<Longrightarrow> drop (Suc k) (xs @ [b]) = drop 1 (drop k xs) @ [b]"
  by simp

lemma shifting_after_period:
  assumes sh: "shifting c data old m0 (sampled c ins t k) k s"
    and l: "k < length data" "old \<noteq> []"
  shows "shifting c data old m0 (sampled c ins t (Suc k)) (Suc k) (after_period c ins (t + k * sc_div c) s)"
proof -
  define b where "b = si_miso_pad (ins (period_sample c (t + k * sc_div c)))"
  have out: "drop 1 (sm_sr_mosi s) @ [False] = drop (Suc k) data @ replicate (Suc k) False"
  proof -
    have "sm_sr_mosi s = drop k data @ replicate k False" using sh by (simp add: shifting_def)
    then have "sm_sr_mosi s = data ! k # (drop (Suc k) data @ replicate k False)"
      by (simp only: Cons_nth_drop_Suc [OF l(1), symmetric] append_Cons)
    then show ?thesis by (simp only: drop_Suc_Cons One_nat_def drop_0 append_assoc replicate_append_same replicate_Suc)
  qed
  have phase1: "(drop 1 (sm_sr_miso s) @ [sm_miso s]) @ [b] = drop (Suc k) (old @ [m0] @ sampled c ins t (Suc k))"
    if "sc_miso c" "sc_cpha c"
  proof -
    have e: "sm_sr_miso s @ [sm_miso s] = drop k (old @ [m0] @ sampled c ins t k)"
      using sh that by (simp add: shifting_def)
    have "length (sm_sr_miso s) + 1 = length old + 1"
      using arg_cong [OF e, of length] by (simp add: sampled_def)
    then have "sm_sr_miso s \<noteq> []" using l(2) by auto
    moreover have "drop (Suc k) ((old @ [m0] @ sampled c ins t k) @ [b])
        = drop 1 (drop k (old @ [m0] @ sampled c ins t k)) @ [b]"
      by (rule drop_snoc) (simp add: sampled_def)
    ultimately show ?thesis
      unfolding e [symmetric] by (cases "sm_sr_miso s") (simp_all add: sampled_Suc b_def)
  qed
  have phase0: "drop 1 (sm_sr_miso s) @ [b] = drop (Suc k) (old @ sampled c ins t (Suc k))"
    if "sc_miso c" "\<not> sc_cpha c"
  proof -
    have e: "sm_sr_miso s = drop k (old @ sampled c ins t k)"
      using sh that by (simp add: shifting_def)
    have "drop (Suc k) ((old @ sampled c ins t k) @ [b]) = drop 1 (drop k (old @ sampled c ins t k)) @ [b]"
      using l(2) by (intro drop_snoc) (simp add: sampled_def)
    then show ?thesis unfolding e [symmetric] by (simp add: sampled_Suc b_def)
  qed
  show ?thesis
    using sh out phase0 phase1 unfolding shifting_def after_period_def b_def [symmetric]
    by simp
qed

lemma shift_periods:
  assumes d: "4 \<le> sc_div c" and m: "sc_mosi c" and u: "undisturbed_spi ins t0 L" "t0 \<le> t"
    and sh: "shifting c data old m0 [] 0 s" and l: "unat L \<le> length data" "old \<noteq> []"
  shows "k \<le> unat L \<Longrightarrow>
    shifting c data old m0 (sampled c ins t k) k (run (sm_cycle c ins) [t..<t + k * sc_div c] s)
    \<and> collect (sm_cycle c ins) (device_in c ins) [t..<t + k * sc_div c] s = take k data"
proof (induction k)
  case 0
  with sh show ?case by (simp add: sampled_def)
next
  case (Suc k)
  let ?u = "run (sm_cycle c ins) [t..<t + k * sc_div c] s"
  from Suc have IH: "shifting c data old m0 (sampled c ins t k) k ?u"
      "collect (sm_cycle c ins) (device_in c ins) [t..<t + k * sc_div c] s = take k data"
    by simp_all
  have k: "k < unat L" "k < length data" using Suc.prems l(1) by simp_all
  have "sm_cnt ?u \<noteq> L"
  proof -
    have "unat (of_nat k :: 8 word) = k" using k(1) unat_lt2p [of L] by (simp add: unat_of_nat)
    then show ?thesis using IH(1) k(1) by (auto simp: shifting_def)
  qed
  then have p: "run (sm_cycle c ins) [t + k * sc_div c..<t + k * sc_div c + sc_div c] ?u
        = after_period c ins (t + k * sc_div c) ?u
      \<and> collect (sm_cycle c ins) (device_in c ins) [t + k * sc_div c..<t + k * sc_div c + sc_div c] ?u
        = [if sc_cpha c then hd (sm_sr_mosi ?u) else sm_mosi ?u]"
    using IH(1) u(2) by (intro spi_period [OF d m u(1)]) (auto simp: shifting_def)
  have hd: "(if sc_cpha c then hd (sm_sr_mosi ?u) else sm_mosi ?u) = data ! k"
    using IH(1) k(2) by (auto simp: shifting_def hd_append hd_drop_conv_nth)
  have "[t..<t + Suc k * sc_div c] = [t..<t + k * sc_div c] @ [t + k * sc_div c..<t + k * sc_div c + sc_div c]"
    using upt_add_eq_append [of t "t + k * sc_div c" "sc_div c"] by (simp add: algebra_simps)
  with p hd IH(2) k(2) shifting_after_period [OF IH(1) k(2) l(2)] show ?case
    by (simp only: run_append collect_append) (simp add: take_Suc_conv_app_nth)
qed

text \<open>Between the command and the first period the core waits for the end of a divider period.\<close>

definition waiting :: "spi_conf \<Rightarrow> bool list \<Rightarrow> bool list \<Rightarrow> bool \<Rightarrow> spi_master \<Rightarrow> bool" where
  "waiting c data old m0 s \<longleftrightarrow>
     sm_fsm s = SM_WAIT_CLK \<and> \<not> sm_clk s \<and> sm_cnt s = 0
     \<and> sm_sr_mosi s = data \<and> sm_sr_miso s = old \<and> sm_miso s = m0"

lemma waiting_cycle:
  assumes "2 \<le> sc_div c" "sc_mosi c" "undisturbed_spi ins t0 L" "t0 \<le> t" "waiting c data old m0 s"
  shows "Suc (sm_i s) \<noteq> sc_div c \<Longrightarrow> waiting c data old m0 (sm_cycle c ins t s)
      \<and> sm_i (sm_cycle c ins t s) = Suc (sm_i s)"
    and "Suc (sm_i s) = sc_div c \<Longrightarrow> shifting c data old m0 [] 0 (sm_cycle c ins t s)"
    and "device_in c ins t s = []"
  using assms
  by (auto simp: waiting_def shifting_def sm_cycle_def spi_master_step_def clk_strobes spi_fsm_next_def
      spi_cnt_next_def mosi_step_def miso_step_def enable_shift_def enable_cs_def undisturbed_spi_def
      device_in_def spi_cs_n_def Let_def)

lemma waiting_run:
  assumes "2 \<le> sc_div c" "sc_mosi c" "undisturbed_spi ins t0 L"
  shows "t0 \<le> t \<Longrightarrow> waiting c data old m0 s \<Longrightarrow> sm_i s + Suc m = sc_div c \<Longrightarrow>
    shifting c data old m0 [] 0 (run (sm_cycle c ins) [t..<t + Suc m] s)
    \<and> collect (sm_cycle c ins) (device_in c ins) [t..<t + Suc m] s = []"
proof (induction m arbitrary: t s)
  case 0
  then show ?case using waiting_cycle [OF assms 0(1,2)] by simp
next
  case (Suc m)
  have "[t..<t + Suc (Suc m)] = t # [Suc t..<Suc t + Suc m]" by (simp add: upt_conv_Cons)
  then show ?case
    using waiting_cycle [OF assms Suc.prems(1,2)] Suc.IH [of "Suc t" "sm_cycle c ins t s"] Suc.prems
    by (simp del: upt_Suc)
qed

lemma end_run:
  assumes d: "4 \<le> sc_div c" and u: "undisturbed_spi ins t0 L" "t0 \<le> t"
    and s: "sm_fsm s = SM_SHIFT" "sm_cnt s = L" "sm_i s = 0" "\<not> sm_clk s"
  shows "let s' = run (sm_cycle c ins) [t..<t + sc_div c div 2] s in
      sm_fsm s' = SM_IDLE
      \<and> sm_sr_miso s' = (if sc_miso c \<and> sc_cpha c then drop 1 (sm_sr_miso s) @ [sm_miso s] else sm_sr_miso s)
      \<and> collect (sm_cycle c ins) (device_in c ins) [t..<t + sc_div c div 2] s = []"
proof -
  let ?h = "sc_div c div 2"
  have d2: "2 \<le> sc_div c" using d by simp
  define s1 where "s1 = sm_cycle c ins t s"
  define s2 where "s2 = s1\<lparr>sm_i := ?h - 1\<rparr>"
  have s1: "sm_fsm s1 = SM_END" "sm_i s1 = 1" "\<not> sm_clk s1" "sm_sr_miso s1 = sm_sr_miso s" "sm_miso s1 = sm_miso s"
    using u s d unfolding s1_def
    by (auto simp: sm_cycle_def spi_master_step_def clk_strobes [OF d2] spi_fsm_next_def miso_step_def
        undisturbed_spi_def Let_def)
  have "device_in c ins t s = []"
    using s s1(3) unfolding device_in_def s1_def [symmetric] by auto
  moreover have quiet: "\<forall>k<?h - 2. Suc (sm_i s1 + k) \<noteq> ?h \<and> Suc (sm_i s1 + k) \<noteq> sc_div c"
    using s1(2) by auto
  have "run (sm_cycle c ins) [Suc t..<Suc t + (?h - 2)] s1 = s2"
      "collect (sm_cycle c ins) (device_in c ins) [Suc t..<Suc t + (?h - 2)] s1 = []"
    using quiet_run [OF d2 u(1), of "Suc t" s1 "?h - 2"] quiet u(2) s1 d by (auto simp: s2_def)
  moreover have "device_in c ins (t + ?h - 1) s2 = []"
    using s1(1) by (simp add: device_in_def s2_def spi_cs_n_def enable_cs_def)
  moreover have "set_clk c s2" "\<not> clr_clk c s2" using d by (simp_all add: clk_strobes s2_def)
  then have "sm_fsm (sm_cycle c ins (t + ?h - 1) s2) = SM_IDLE"
    "sm_sr_miso (sm_cycle c ins (t + ?h - 1) s2)
       = (if sc_miso c \<and> sc_cpha c then drop 1 (sm_sr_miso s) @ [sm_miso s] else sm_sr_miso s)"
    using s1 by (auto simp: s2_def sm_cycle_def spi_master_step_def spi_fsm_next_def miso_step_def enable_shift_def)
  moreover have "[t..<t + ?h] = t # [Suc t..<Suc t + (?h - 2)] @ [t + ?h - 1]"
  proof -
    have "[t..<t + ?h] = t # [Suc t..<t + ?h]" using d by (intro upt_conv_Cons) auto
    moreover have "[Suc t..<t + ?h] = [Suc t..<t + ?h - 1] @ [t + ?h - 1]"
      using d upt_Suc_append [of "Suc t" "t + ?h - 1"] by (auto simp: Suc_diff_Suc)
    moreover have "t + ?h - 1 = Suc t + (?h - 2)" using d by auto
    ultimately show ?thesis by simp
  qed
  ultimately show ?thesis by (simp add: s1_def [symmetric] Let_def)
qed

text \<open>After the last period the register holds the sampled bits in its low end.\<close>

lemma received_bits:
  assumes sh: "shifting c data old m0 (sampled c ins t n) n s" and m: "sc_miso c" and o: "old \<noteq> []"
    and n: "n \<le> length old"
  shows "drop (length old - n) (if sc_cpha c then drop 1 (sm_sr_miso s) @ [sm_miso s] else sm_sr_miso s)
    = sampled c ins t n"
proof (cases "sc_cpha c")
  case True
  then have e: "sm_sr_miso s @ [sm_miso s] = drop n (old @ [m0] @ sampled c ins t n)"
    using sh m by (simp add: shifting_def)
  have "length (sm_sr_miso s) + 1 = length old + 1"
    using arg_cong [OF e, of length] by (simp add: sampled_def)
  then have "sm_sr_miso s \<noteq> []" using o by auto
  then have "drop 1 (sm_sr_miso s) @ [sm_miso s] = drop 1 (sm_sr_miso s @ [sm_miso s])"
    by (cases "sm_sr_miso s") simp_all
  also have "\<dots> = drop (n + 1) (old @ [m0] @ sampled c ins t n)" by (simp only: e drop_drop) simp
  finally have "drop (length old - n) (drop 1 (sm_sr_miso s) @ [sm_miso s])
      = drop (length old - n + (n + 1)) (old @ [m0] @ sampled c ins t n)"
    by (simp only: drop_drop)
  also have "length old - n + (n + 1) = length (old @ [m0])" using n by simp
  finally show ?thesis using True by simp
next
  case False
  then have "sm_sr_miso s = drop n (old @ sampled c ins t n)" using sh m by (simp add: shifting_def)
  with False n show ?thesis by simp
qed

text \<open>The first cycle of the transfer, from the phase of the divider at the command.\<close>

definition first_period :: "spi_conf \<Rightarrow> spi_master \<Rightarrow> nat" where
  "first_period c s = 1 + (sc_div c - Suc (sm_i s) mod sc_div c)"

lemma start_cycle:
  assumes "2 \<le> sc_div c" "0 < sc_width c" "sc_mosi c" "spi_master_inv c s" "sm_fsm s = SM_IDLE"
    and "spi_start (ins 0)"
  shows "waiting c (si_mosi_storage (ins 0)) (sm_sr_miso s) (sm_miso s) (sm_cycle c ins 0 s)"
    and "sm_i (sm_cycle c ins 0 s) = Suc (sm_i s) mod sc_div c"
    and "device_in c ins 0 s = []"
  using assms
  by (auto simp: waiting_def sm_cycle_def spi_master_step_def clk_strobes spi_fsm_next_def
      spi_cnt_next_def mosi_step_def miso_step_def enable_shift_def enable_cs_def spi_master_inv_def
      device_in_def spi_cs_n_def Let_def)

text \<open>From the start up to the first rising edge: the word is loaded, and the device sees nothing yet.\<close>

lemma first_run:
  assumes "2 \<le> sc_div c" "0 < sc_width c" "sc_mosi c" "sm_fsm s = SM_IDLE" "spi_master_inv c s"
    and "spi_start (ins 0)" "si_mosi_storage (ins 0) = data" "undisturbed_spi ins 1 L"
  shows "shifting c data (sm_sr_miso s) (sm_miso s) [] 0 (run (sm_cycle c ins) [0..<first_period c s] s)
    \<and> collect (sm_cycle c ins) (device_in c ins) [0..<first_period c s] s = []"
proof -
  let ?d = "sc_div c"
  note st = start_cycle [where ins = ins, OF assms(1,2,3,5,4,6)]
  have t0: "[0..<first_period c s] = 0 # [1..<1 + Suc (?d - Suc (Suc (sm_i s) mod ?d))]"
  proof -
    have "Suc (sm_i s) mod ?d < ?d" using assms(1) by simp
    then have "first_period c s = 1 + Suc (?d - Suc (Suc (sm_i s) mod ?d))" by (simp add: first_period_def)
    then show ?thesis by (simp only: upt_conv_Cons add_is_0) simp
  qed
  have "Suc (sm_i s) mod ?d + Suc (?d - Suc (Suc (sm_i s) mod ?d)) = ?d"
    using assms(1) by (simp add: Suc_leI)
  then show ?thesis
    using waiting_run [OF assms(1,3,8) _ st(1), of 1 "?d - Suc (Suc (sm_i s) mod ?d)"] st(2,3) assms(7)
    unfolding t0 by (simp del: upt_Suc)
qed

text \<open>
  C15 (full-duplex transfer): from any reachable idle state, a command with the data register
  \<open>data\<close> and the length register \<open>L\<close> makes a device on the pads see exactly the first \<open>L\<close> bits of
  the data, most significant first and none of them twice; the core is idle again half a clock
  period after the last bit, and the low \<open>L\<close> bits of the input register are what the device drove at
  the sampling points of the \<open>L\<close> periods.  This holds for both clock phases, every divider from 4 on,
  every phase of the divider at the command and every width.
\<close>

theorem spi_transfer:
  fixes ins c pre data L
  defines "s \<equiv> run (spi_master_step c) pre (spi_master_init c)"
  defines "u \<equiv> run (sm_cycle c ins) [0..<first_period c s + unat L * sc_div c + sc_div c div 2] s"
  assumes "4 \<le> sc_div c" "0 < sc_width c" "sc_mosi c" "sm_fsm s = SM_IDLE"
    and "spi_start (ins 0)" "si_mosi_storage (ins 0) = data" "undisturbed_spi ins 1 L"
    and "length data = sc_width c" "unat L \<le> sc_width c"
  shows "collect (sm_cycle c ins) (device_in c ins)
        [0..<first_period c s + unat L * sc_div c + sc_div c div 2] s = take (unat L) data
    \<and> spi_done u
    \<and> (sc_miso c \<longrightarrow> drop (sc_width c - unat L) (sm_sr_miso u) = sampled c ins (first_period c s) (unat L))"
proof -
  let ?d = "sc_div c"
  let ?n = "unat L"
  let ?t0 = "first_period c s"
  let ?t1 = "?t0 + ?n * ?d"
  have d: "2 \<le> ?d" using assms(3) by simp
  have inv: "spi_master_inv c s" unfolding s_def by (rule spi_module.inv_reachable)
  then have len: "length (sm_sr_miso s) = sc_width c" using d assms(4) by (simp add: spi_master_inv_def)
  then have old: "sm_sr_miso s \<noteq> []" using assms(4) by auto
  define s1 where "s1 = run (sm_cycle c ins) [0..<?t0] s"
  define s2 where "s2 = run (sm_cycle c ins) [?t0..<?t1] s1"
  have w: "shifting c data (sm_sr_miso s) (sm_miso s) [] 0 s1
      \<and> collect (sm_cycle c ins) (device_in c ins) [0..<?t0] s = []"
    unfolding s1_def using d assms(4-9) inv by (intro first_run)
  have "1 \<le> ?t0" by (simp add: first_period_def)
  then have p: "shifting c data (sm_sr_miso s) (sm_miso s) (sampled c ins ?t0 ?n) ?n s2
      \<and> collect (sm_cycle c ins) (device_in c ins) [?t0..<?t1] s1 = take ?n data"
    unfolding s2_def using assms(10,11) old w
    by (intro shift_periods [OF assms(3,5,9)]) auto
  have "1 \<le> ?t1" by (simp add: first_period_def)
  note e = end_run [OF assms(3,9) this, of s2]
  have e: "sm_fsm (run (sm_cycle c ins) [?t1..<?t1 + ?d div 2] s2) = SM_IDLE"
    "sm_sr_miso (run (sm_cycle c ins) [?t1..<?t1 + ?d div 2] s2)
      = (if sc_miso c \<and> sc_cpha c then drop 1 (sm_sr_miso s2) @ [sm_miso s2] else sm_sr_miso s2)"
    "collect (sm_cycle c ins) (device_in c ins) [?t1..<?t1 + ?d div 2] s2 = []"
    using e p by (auto simp: shifting_def Let_def)
  have split: "[0..<?t1 + ?d div 2] = [0..<?t0] @ [?t0..<?t1] @ [?t1..<?t1 + ?d div 2]"
    using upt_add_eq_append [of 0 ?t0 "?n * ?d"] upt_add_eq_append [of 0 ?t1 "?d div 2"] by simp
  have u: "u = run (sm_cycle c ins) [?t1..<?t1 + ?d div 2] s2"
    unfolding u_def split by (simp add: s1_def [symmetric] s2_def [symmetric])
  have out: "collect (sm_cycle c ins) (device_in c ins) [0..<?t1 + ?d div 2] s = take ?n data"
    unfolding split using w p e(3) by (simp add: s1_def [symmetric] s2_def [symmetric])
  have "drop (sc_width c - ?n) (sm_sr_miso u) = sampled c ins ?t0 ?n" if m: "sc_miso c"
    using received_bits [OF conjunct1 [OF p] m old] e(2) assms(11) m len unfolding u by simp
  with out e(1) show ?thesis unfolding u by (simp add: spi_done_def)
qed

definition demo_spi_in :: "bool list \<Rightarrow> 8 word \<Rightarrow> nat \<Rightarrow> spi_master_in" where
  "demo_spi_in data L t =
     \<lparr>si_ctrl_re = (t = 0), si_ctrl_r0 = True, si_length = L, si_mosi_storage = data,
      si_miso_pad = (t mod 32 < 16)\<rparr>"

theorem spi_transfer_witness:
  "collect (sm_cycle oled_conf (demo_spi_in [True, False, True, False, False, True, False, True] 8))
     (device_in oled_conf (demo_spi_in [True, False, True, False, False, True, False, True] 8))
     [0..<152] (spi_master_init oled_conf)
   = [True, False, True, False, False, True, False, True]"
proof -
  let ?D = "[True, False, True, False, False, True, False, True]"
  have u: "undisturbed_spi (demo_spi_in ?D 8) 1 8"
    by (simp add: undisturbed_spi_def demo_spi_in_def spi_start_def)
  have "first_period oled_conf (spi_master_init oled_conf) = 16"
    by (simp add: first_period_def oled_conf_def spi_master_init_def)
  then show ?thesis
    using spi_transfer [of oled_conf "[]" "demo_spi_in ?D 8" ?D 8] u
    by (simp add: oled_conf_def spi_master_init_def demo_spi_in_def spi_start_def del: upt.simps)
qed

text \<open>
  The smallest divider, the default of the constructor, is outside the theorem: the set strobe
  falls on the cycle in which the machine finds the count complete, so a 24-bit transfer has 25
  clock pulses, all of them with the device selected at the rising edge.
\<close>

definition default_conf :: spi_conf where
  "default_conf = \<lparr>sc_width = 24, sc_div = 2, sc_cpha = True, sc_mosi = True, sc_miso = True\<rparr>"

definition clock_pulse :: "spi_conf \<Rightarrow> (nat \<Rightarrow> spi_master_in) \<Rightarrow> nat \<Rightarrow> spi_master \<Rightarrow> nat list" where
  "clock_pulse c ins t s =
     (if \<not> spi_cs_n s \<and> \<not> sm_clk s \<and> sm_clk (sm_cycle c ins t s) then [t] else [])"

lemma default_divider_extra_pulse:
  "length (collect (sm_cycle default_conf (demo_spi_in (replicate 24 True) 24))
     (clock_pulse default_conf (demo_spi_in (replicate 24 True) 24)) [0..<60]
     (spi_master_init default_conf)) = 25"
  by code_simp

end
