(* ===== verification/Spram.thy ===== *)
theory Spram
  imports Hdl_Prelude
begin

text \<open>
  The Wishbone memory built from the single-port RAM blocks of the iCE40 UltraPlus, class
  \<open>SPRAM\<close> of \<open>gateware/ice40.py\<close>.  The vendor primitive \<open>SB_SPRAM256KA\<close> is a parameter: \<open>blk\<close>
  is its clock edge, \<open>blk_out\<close> its output register and \<open>blk_word\<close> its contents, with the documented
  behaviour as the hypothesis \<open>spram_block\<close>.  Shown: the memory refines an array of 32-bit
  words with byte enables, over any sequence of bus transactions, for both sizes.
\<close>

section \<open>Model\<close>

definition SPRAM_init :: "nat \<Rightarrow> nat \<Rightarrow> unit py_result" where
  "SPRAM_init width sz =
     (if width \<noteq> 32 then Inl ValueError
      else if sz \<noteq> 64 * 1024 \<and> sz \<noteq> 128 * 1024 then Inl ValueError else Inr ())"

record wb_request =
  wb_adr :: "30 word"
  wb_dat_w :: "32 word"
  wb_sel :: "4 word"
  wb_we :: bool
  wb_cyc :: bool
  wb_stb :: bool

record block_in =
  bl_address :: "14 word"
  bl_datain :: "16 word"
  bl_maskwren :: "4 word"
  bl_wren :: bool

text \<open>Lane \<open>i\<close> is the halfword \<open>i\<close>; bank 1 exists in the large memory only.\<close>

record 'm spram =
  sp_block :: "nat \<Rightarrow> nat \<Rightarrow> 'm"
  sp_ack :: bool

definition lane_datain :: "nat \<Rightarrow> wb_request \<Rightarrow> 16 word" where
  "lane_datain i b = ucast (drop_bit (16 * i) (wb_dat_w b))"

definition lane_maskwren :: "nat \<Rightarrow> wb_request \<Rightarrow> 4 word" where
  "lane_maskwren i b =
     (let lo = of_bool (bit (wb_sel b) (2 * i)); hi = of_bool (bit (wb_sel b) (2 * i + 1))
      in lo OR push_bit 1 lo OR push_bit 2 hi OR push_bit 3 hi)"

definition bank_of :: "nat \<Rightarrow> wb_request \<Rightarrow> nat" where
  "bank_of sz b = (if sz = 64 * 1024 then 0 else if bit (wb_adr b) 14 then 1 else 0)"

text \<open>The inputs of one block; the data and mask of the bank not addressed keep their reset value.\<close>

definition block_inputs :: "nat \<Rightarrow> wb_request \<Rightarrow> nat \<Rightarrow> nat \<Rightarrow> block_in" where
  "block_inputs sz b i k =
     \<lparr>bl_address = ucast (wb_adr b),
      bl_datain = (if k = bank_of sz b then lane_datain i b else 0),
      bl_maskwren = (if k = bank_of sz b then lane_maskwren i b else 0),
      bl_wren = (wb_we b \<and> wb_stb b \<and> wb_cyc b)\<rparr>"

definition spram_step ::
    "(block_in \<Rightarrow> 'm \<Rightarrow> 'm) \<Rightarrow> nat \<Rightarrow> wb_request \<Rightarrow> 'm spram \<Rightarrow> 'm spram" where
  "spram_step blk sz b s =
     \<lparr>sp_block = (\<lambda>i k. blk (block_inputs sz b i k) (sp_block s i k)),
      sp_ack = (if wb_stb b \<and> wb_cyc b \<and> \<not> sp_ack s then True else False)\<rparr>"

definition join_lanes :: "16 word \<Rightarrow> 16 word \<Rightarrow> 32 word" where
  "join_lanes lo hi = ucast lo OR push_bit 16 (ucast hi)"

definition spram_dat_r :: "('m \<Rightarrow> 16 word) \<Rightarrow> nat \<Rightarrow> wb_request \<Rightarrow> 'm spram \<Rightarrow> 32 word" where
  "spram_dat_r blk_out sz b s =
     join_lanes (blk_out (sp_block s 0 (bank_of sz b))) (blk_out (sp_block s 1 (bank_of sz b)))"

section \<open>The vendor block\<close>

definition nibble_mask :: "4 word \<Rightarrow> 16 word" where
  "nibble_mask m =
     (if bit m 0 then 0xF else 0) OR (if bit m 1 then 0xF0 else 0)
     OR (if bit m 2 then 0xF00 else 0) OR (if bit m 3 then 0xF000 else 0)"

text \<open>
  A write replaces the nibbles selected by the mask and leaves every other cell alone; a cycle
  without write enable brings the addressed cell to the output and changes nothing.
\<close>

definition spram_block ::
    "(block_in \<Rightarrow> 'm \<Rightarrow> 'm) \<Rightarrow> ('m \<Rightarrow> 16 word) \<Rightarrow> ('m \<Rightarrow> 14 word \<Rightarrow> 16 word) \<Rightarrow> bool" where
  "spram_block blk blk_out blk_word \<longleftrightarrow>
     (\<forall>x m. bl_wren x \<longrightarrow>
        blk_word (blk x m) = (blk_word m)(bl_address x :=
          (bl_datain x AND nibble_mask (bl_maskwren x))
          OR (blk_word m (bl_address x) AND NOT (nibble_mask (bl_maskwren x)))))
     \<and> (\<forall>x m. \<not> bl_wren x \<longrightarrow>
        blk_word (blk x m) = blk_word m \<and> blk_out (blk x m) = blk_word m (bl_address x))"

section \<open>The abstract memory\<close>

definition byte_mask :: "4 word \<Rightarrow> 32 word" where
  "byte_mask sel =
     (if bit sel 0 then 0xFF else 0) OR (if bit sel 1 then 0xFF00 else 0)
     OR (if bit sel 2 then 0xFF0000 else 0) OR (if bit sel 3 then 0xFF000000 else 0)"

text \<open>The cell a request addresses: the bank and the 14-bit word number.\<close>

type_synonym cell = "nat \<times> 14 word"

definition cell_of :: "nat \<Rightarrow> wb_request \<Rightarrow> cell" where
  "cell_of sz b = (bank_of sz b, ucast (wb_adr b))"

definition mem_write :: "nat \<Rightarrow> wb_request \<Rightarrow> (cell \<Rightarrow> 32 word) \<Rightarrow> cell \<Rightarrow> 32 word" where
  "mem_write sz b M =
     (if wb_we b
      then M(cell_of sz b := (wb_dat_w b AND byte_mask (wb_sel b))
             OR (M (cell_of sz b) AND NOT (byte_mask (wb_sel b))))
      else M)"

fun mem_run :: "nat \<Rightarrow> wb_request list \<Rightarrow> (cell \<Rightarrow> 32 word) \<Rightarrow> 32 word list \<times> (cell \<Rightarrow> 32 word)" where
  "mem_run sz [] M = ([], M)"
| "mem_run sz (b # bs) M =
     (let (rs, M') = mem_run sz bs (mem_write sz b M)
      in ((if wb_we b then [] else [M (cell_of sz b)]) @ rs, M'))"

definition spram_abs :: "('m \<Rightarrow> 14 word \<Rightarrow> 16 word) \<Rightarrow> 'm spram \<Rightarrow> cell \<Rightarrow> 32 word" where
  "spram_abs blk_word s = (\<lambda>(k, a). join_lanes (blk_word (sp_block s 0 k) a) (blk_word (sp_block s 1 k) a))"

section \<open>Lanes and bytes\<close>

lemma bit_join_lanes:
  "bit (join_lanes lo hi) n \<longleftrightarrow> n < 32 \<and> (if n < 16 then bit lo n else bit hi (n - 16))"
  by (auto simp: join_lanes_def bit_simps dest: bit_imp_le_length)

lemma join_lanes_merge:
  "join_lanes ((a0 AND m0) OR (b0 AND NOT m0)) ((a1 AND m1) OR (b1 AND NOT m1))
    = (join_lanes a0 a1 AND join_lanes m0 m1) OR (join_lanes b0 b1 AND NOT (join_lanes m0 m1))"
  by (rule bit_word_eqI) (auto simp: bit_join_lanes bit_simps)

lemma join_lane_datain: "join_lanes (lane_datain 0 b) (lane_datain 1 b) = wb_dat_w b"
  by (rule bit_word_eqI) (auto simp: bit_join_lanes lane_datain_def bit_simps)

lemma join_nibble_masks:
  "join_lanes (nibble_mask (lane_maskwren 0 b)) (nibble_mask (lane_maskwren 1 b)) = byte_mask (wb_sel b)"
  by (cases "bit (wb_sel b) 0"; cases "bit (wb_sel b) 1"; cases "bit (wb_sel b) 2"; cases "bit (wb_sel b) 3")
     (simp_all add: join_lanes_def nibble_mask_def lane_maskwren_def byte_mask_def bit_simps numeral_3_eq_3)

lemma nibble_mask_0 [simp]: "nibble_mask 0 = 0"
  by (simp add: nibble_mask_def)

section \<open>One clock edge\<close>

lemma block_write:
  assumes "spram_block blk blk_out blk_word" "wb_we b" "wb_stb b" "wb_cyc b"
  shows "blk_word (blk (block_inputs sz b i k) m)
    = (if k = bank_of sz b
       then (blk_word m)(ucast (wb_adr b) :=
              (lane_datain i b AND nibble_mask (lane_maskwren i b))
              OR (blk_word m (ucast (wb_adr b)) AND NOT (nibble_mask (lane_maskwren i b))))
       else blk_word m)"
  using assms by (simp add: spram_block_def block_inputs_def)

lemma write_edge:
  assumes "spram_block blk blk_out blk_word" "wb_we b" "wb_stb b" "wb_cyc b"
  shows "spram_abs blk_word (spram_step blk sz b s) = mem_write sz b (spram_abs blk_word s)"
proof (rule ext, clarify)
  fix k a
  show "spram_abs blk_word (spram_step blk sz b s) (k, a) = mem_write sz b (spram_abs blk_word s) (k, a)"
    using assms(2)
    by (auto simp: spram_abs_def spram_step_def block_write [OF assms] mem_write_def cell_of_def
        join_lanes_merge join_lane_datain [unfolded One_nat_def]
        join_nibble_masks [unfolded One_nat_def])
qed

lemma silent_edge:
  assumes "spram_block blk blk_out blk_word" "\<not> (wb_we b \<and> wb_stb b \<and> wb_cyc b)"
  shows "spram_abs blk_word (spram_step blk sz b s) = spram_abs blk_word s"
    and "spram_dat_r blk_out sz b (spram_step blk sz b s) = spram_abs blk_word s (cell_of sz b)"
proof -
  have e: "blk_word (blk (block_inputs sz b i k) m) = blk_word m"
      "blk_out (blk (block_inputs sz b i k) m) = blk_word m (ucast (wb_adr b))" for i k m
    using assms by (simp_all add: spram_block_def block_inputs_def)
  show "spram_abs blk_word (spram_step blk sz b s) = spram_abs blk_word s"
    by (simp add: spram_abs_def spram_step_def e)
  show "spram_dat_r blk_out sz b (spram_step blk sz b s) = spram_abs blk_word s (cell_of sz b)"
    by (simp add: spram_dat_r_def spram_abs_def spram_step_def e cell_of_def)
qed

lemma mem_write_twice: "mem_write sz b (mem_write sz b M) = mem_write sz b M"
proof -
  have "(d AND m) OR (((d AND m) OR (x AND NOT m)) AND NOT m) = (d AND m) OR (x AND NOT m)"
    for d m x :: "32 word"
    by (rule bit_word_eqI) (auto simp: bit_simps)
  then show ?thesis by (simp add: mem_write_def)
qed

section \<open>Bus transactions\<close>

text \<open>
  A master holds its request until the acknowledgement, which comes in the second cycle, and may
  leave the bus idle before the next.  Read data count in the cycle of the acknowledgement.
\<close>

type_synonym wb_transfer = "wb_request \<times> wb_request list"

definition transfer_ok :: "wb_transfer \<Rightarrow> bool" where
  "transfer_ok t \<longleftrightarrow> wb_cyc (fst t) \<and> wb_stb (fst t) \<and> list_all (\<lambda>j. \<not> (wb_cyc j \<and> wb_stb j)) (snd t)"

definition bus_cycles :: "wb_transfer list \<Rightarrow> wb_request list" where
  "bus_cycles ts = concat (map (\<lambda>t. fst t # fst t # snd t) ts)"

definition acked_read :: "('m \<Rightarrow> 16 word) \<Rightarrow> nat \<Rightarrow> wb_request \<Rightarrow> 'm spram \<Rightarrow> 32 word list" where
  "acked_read blk_out sz b s = (if sp_ack s \<and> \<not> wb_we b then [spram_dat_r blk_out sz b s] else [])"

lemma idle_cycles:
  assumes "spram_block blk blk_out blk_word"
  shows "list_all (\<lambda>j. \<not> (wb_cyc j \<and> wb_stb j)) js \<Longrightarrow> \<not> sp_ack s \<Longrightarrow>
    spram_abs blk_word (run (spram_step blk sz) js s) = spram_abs blk_word s
    \<and> \<not> sp_ack (run (spram_step blk sz) js s)
    \<and> collect (spram_step blk sz) (acked_read blk_out sz) js s = []"
proof (induction js arbitrary: s)
  case Nil
  then show ?case by simp
next
  case (Cons j js)
  then have "\<not> sp_ack (spram_step blk sz j s)" by (auto simp: spram_step_def)
  moreover have "spram_abs blk_word (spram_step blk sz j s) = spram_abs blk_word s"
    using Cons.prems(1) by (intro silent_edge(1) [OF assms]) auto
  ultimately show ?case
    using Cons.IH [of "spram_step blk sz j s"] Cons.prems by (simp add: acked_read_def)
qed

lemma one_transfer:
  assumes "spram_block blk blk_out blk_word" "wb_cyc b" "wb_stb b" "\<not> sp_ack s"
  shows "spram_abs blk_word (run (spram_step blk sz) [b, b] s) = mem_write sz b (spram_abs blk_word s)
    \<and> \<not> sp_ack (run (spram_step blk sz) [b, b] s)
    \<and> collect (spram_step blk sz) (acked_read blk_out sz) [b, b] s
        = (if wb_we b then [] else [spram_abs blk_word s (cell_of sz b)])"
proof -
  have "sp_ack (spram_step blk sz b s)" "\<not> sp_ack (spram_step blk sz b (spram_step blk sz b s))"
    using assms(2-4) by (simp_all add: spram_step_def)
  then show ?thesis
    using write_edge [OF assms(1), of b sz] silent_edge [OF assms(1), of b sz] assms
    by (cases "wb_we b") (simp_all add: acked_read_def mem_write_twice, simp add: mem_write_def)
qed

text \<open>
  C16 (the memory behind the bus): over any sequence of bus transactions, with any idle cycles
  between them, the RAM answers exactly as an array of 32-bit words with byte enables, and holds
  the same contents afterwards.
\<close>

theorem spram_refines_memory:
  assumes "spram_block blk blk_out blk_word" "list_all transfer_ok ts" "\<not> sp_ack s"
  shows "(collect (spram_step blk sz) (acked_read blk_out sz) (bus_cycles ts) s,
      spram_abs blk_word (run (spram_step blk sz) (bus_cycles ts) s))
    = mem_run sz (map fst ts) (spram_abs blk_word s)"
  using assms(2,3)
proof (induction ts arbitrary: s)
  case Nil
  then show ?case by (simp add: bus_cycles_def)
next
  case (Cons t ts)
  obtain b js where t: "t = (b, js)" by (cases t)
  define s1 where "s1 = run (spram_step blk sz) [b, b] s"
  define s2 where "s2 = run (spram_step blk sz) js s1"
  have ok: "wb_cyc b" "wb_stb b" "list_all (\<lambda>j. \<not> (wb_cyc j \<and> wb_stb j)) js" "list_all transfer_ok ts"
    using Cons.prems(1) by (simp_all add: t transfer_ok_def [of "(b, js)"])
  note one = one_transfer [OF assms(1) ok(1,2) Cons.prems(2), of sz, folded s1_def]
  then have idle: "spram_abs blk_word s2 = spram_abs blk_word s1 \<and> \<not> sp_ack s2
      \<and> collect (spram_step blk sz) (acked_read blk_out sz) js s1 = []"
    unfolding s2_def by (intro idle_cycles [OF assms(1) ok(3)]) blast
  then have "(collect (spram_step blk sz) (acked_read blk_out sz) (bus_cycles ts) s2,
      spram_abs blk_word (run (spram_step blk sz) (bus_cycles ts) s2))
    = mem_run sz (map fst ts) (mem_write sz b (spram_abs blk_word s))"
    using Cons.IH [OF ok(4), of s2] one by simp
  moreover have "bus_cycles (t # ts) = [b, b] @ js @ bus_cycles ts" by (simp add: bus_cycles_def t)
  ultimately show ?case
    using one idle
    by (simp only: run_append collect_append s1_def [symmetric] s2_def [symmetric] t list.map fst_conv
        mem_run.simps Let_def split: prod.split) auto
qed

text \<open>The cells that the addresses of a size reach are as many words as the size says.\<close>

lemma spram_capacity:
  assumes "SPRAM_init w sz = Inr ()"
  shows "4 * card (range (cell_of sz)) = sz"
proof -
  have sz: "sz = 64 * 1024 \<or> sz = 128 * 1024" using assms by (auto simp: SPRAM_init_def split: if_splits)
  let ?banks = "if sz = 64 * 1024 then {0::nat} else {0, 1}"
  have "range (cell_of sz) = ?banks \<times> UNIV"
  proof (intro equalityI subsetI)
    fix c assume "c \<in> ?banks \<times> (UNIV :: 14 word set)"
    then obtain k a where c: "c = (k, a)" "k \<in> ?banks" by auto
    define b where "b = \<lparr>wb_adr = ucast a OR push_bit 14 (of_nat k), wb_dat_w = 0, wb_sel = 0,
      wb_we = False, wb_cyc = True, wb_stb = True\<rparr>"
    have "ucast (wb_adr b) = a"
      by (rule bit_word_eqI) (auto simp: b_def bit_simps)
    moreover have "bank_of sz b = k"
      using c(2) by (auto simp: bank_of_def b_def bit_simps dest: bit_imp_le_length split: if_splits)
    ultimately have "c = cell_of sz b" by (simp add: cell_of_def c(1))
    then show "c \<in> range (cell_of sz)" by blast
  qed (auto simp: cell_of_def bank_of_def split: if_splits)
  then have "card (range (cell_of sz)) = card ?banks * card (UNIV :: 14 word set)"
    by (simp only: card_cartesian_product)
  then show ?thesis using sz by (auto simp: card_word)
qed

text \<open>An executable block: its cells and its output register.\<close>

definition demo_block :: "block_in \<Rightarrow> (14 word \<Rightarrow> 16 word) \<times> 16 word \<Rightarrow> (14 word \<Rightarrow> 16 word) \<times> 16 word" where
  "demo_block x m =
     (if bl_wren x
      then ((fst m)(bl_address x := (bl_datain x AND nibble_mask (bl_maskwren x))
              OR (fst m (bl_address x) AND NOT (nibble_mask (bl_maskwren x)))), snd m)
      else (fst m, fst m (bl_address x)))"

definition demo_request :: "30 word \<Rightarrow> 32 word \<Rightarrow> 4 word \<Rightarrow> bool \<Rightarrow> wb_request" where
  "demo_request a d sel we =
     \<lparr>wb_adr = a, wb_dat_w = d, wb_sel = sel, wb_we = we, wb_cyc = True, wb_stb = True\<rparr>"

theorem spram_refines_memory_witness:
  "collect (spram_step demo_block (128 * 1024)) (acked_read snd (128 * 1024))
      (bus_cycles [(demo_request 0x4003 0x11223344 0xF True, []),
                   (demo_request 0x4003 0xaabbccdd 0x5 True, []),
                   (demo_request 3 0 0xF False, []),
                   (demo_request 0x4003 0 0xF False, [])])
      \<lparr>sp_block = (\<lambda>_ _. (\<lambda>_. 0, 0)), sp_ack = False\<rparr> = [0, 0x11bb33dd]"
proof -
  let ?ts = "[(demo_request 0x4003 0x11223344 0xF True, []), (demo_request 0x4003 0xaabbccdd 0x5 True, []),
    (demo_request 3 0 0xF False, []), (demo_request 0x4003 0 0xF False, [])]"
  let ?s = "\<lparr>sp_block = (\<lambda>_ _. (\<lambda>_. 0, 0)), sp_ack = False\<rparr> :: ((14 word \<Rightarrow> 16 word) \<times> 16 word) spram"
  have b: "spram_block demo_block snd fst" by (simp add: spram_block_def demo_block_def)
  have ok: "list_all transfer_ok ?ts" by (simp add: transfer_ok_def demo_request_def)
  have "fst (mem_run (128 * 1024) (map fst ?ts) (\<lambda>_. 0)) = [0, 0x11bb33dd]"
    by (simp add: mem_write_def demo_request_def cell_of_def bank_of_def byte_mask_def)
  moreover have "spram_abs fst ?s = (\<lambda>_. 0)" by (auto simp: spram_abs_def join_lanes_def)
  ultimately show ?thesis
    using arg_cong [OF spram_refines_memory [OF b ok, of ?s "128 * 1024"], of fst]
    by (simp del: mem_run.simps list.map)
qed

end
