(* ===== verification/Board_Info.thy ===== *)
theory Board_Info
  imports Build_Tools
begin

text \<open>
  The identification registers of a board, \<open>gateware/info/\<close> (commit, platform and target name,
  FPGA serial number, XADC readings), and the boot ROM of \<open>gateware/firmware.py\<close>.  All of them pack
  bytes big-endian into words; the packing and its inverse are shared.  The vendor's \<open>DNA_PORT\<close> is
  a parameter with its documented shift behaviour as hypothesis.  Shown: every value can be read
  back -- commit hash, names, serial number and ROM contents -- and when the ROM is refused.
\<close>

section \<open>Bytes, most significant first\<close>

text \<open>\<open>sum(x << (i*8) for i, x in enumerate(reversed(data)))\<close>\<close>

definition be_int :: "nat list \<Rightarrow> nat" where
  "be_int bs = sum_list (map (\<lambda>(i, x). push_bit (i * 8) x) (enumerate 0 (rev bs)))"

fun be_bytes :: "nat \<Rightarrow> nat \<Rightarrow> nat list" where
  "be_bytes 0 v = []"
| "be_bytes (Suc n) v = be_bytes n (v div 256) @ [v mod 256]"

lemma be_int_Nil [simp]: "be_int [] = 0"
  by (simp add: be_int_def)

lemma be_int_snoc [simp]: "be_int (bs @ [x]) = be_int bs * 256 + x"
proof -
  have "sum_list (map (\<lambda>(i, x). push_bit (i * 8) x) (enumerate (Suc k) ys))
      = 256 * sum_list (map (\<lambda>(i, x). push_bit (i * 8) x) (enumerate k ys))" for k and ys :: "nat list"
    by (induction ys arbitrary: k) (simp_all add: push_bit_eq_mult power_add algebra_simps)
  then show ?thesis by (simp add: be_int_def)
qed

lemma length_be_bytes [simp]: "length (be_bytes n v) = n"
  by (induction n arbitrary: v) simp_all

lemma be_bytes_be_int: "list_all (\<lambda>x. x < 256) bs \<Longrightarrow> be_bytes (length bs) (be_int bs) = bs"
  by (induction bs rule: rev_induct) simp_all

lemma be_int_bound: "list_all (\<lambda>x. x < 256) bs \<Longrightarrow> be_int bs < 256 ^ length bs"
proof (induction bs rule: rev_induct)
  case (snoc x bs)
  then have "be_int bs + 1 \<le> 256 ^ length bs" "x < 256" by simp_all
  then have "(be_int bs + 1) * 256 \<le> 256 ^ length bs * 256" by (intro mult_le_mono1)
  with \<open>x < 256\<close> show ?case by simp
qed simp

section \<open>Commit hash\<close>

definition hex_digit :: "char \<Rightarrow> nat option" where
  "hex_digit c =
     (let k = (of_char c :: nat)
      in if 48 \<le> k \<and> k \<le> 57 then Some (k - 48)
         else if 97 \<le> k \<and> k \<le> 102 then Some (k - 87)
         else if 65 \<le> k \<and> k \<le> 70 then Some (k - 55)
         else None)"

text \<open>\<open>binascii.unhexlify\<close>; its \<open>Error\<close> is a \<open>ValueError\<close>.\<close>

fun unhexlify :: "string \<Rightarrow> nat list py_result" where
  "unhexlify [] = Inr []"
| "unhexlify [c] = Inl ValueError"
| "unhexlify (c # d # s) =
     (case (hex_digit c, hex_digit d) of
        (Some h, Some l) \<Rightarrow> py_bind (unhexlify s) (\<lambda>bs. Inr ((16 * h + l) # bs))
      | _ \<Rightarrow> Inl ValueError)"

text \<open>\<open>git rev-parse HEAD\<close> is an input: the text the command prints.\<close>

definition git_commit :: "string \<Rightarrow> nat list py_result" where
  "git_commit out = unhexlify (py_strip out)"

definition GitInfo :: "string \<Rightarrow> 160 word py_result" where
  "GitInfo out = py_bind (git_commit out) (\<lambda>data. Inr (of_nat (be_int data)))"

text \<open>
  How the text is obtained.  \<open>ge_run command cwd\<close> is \<open>check_output\<close>, which raises a
  \<open>CalledProcessError\<close> when the command fails; on Windows the output of the first command goes
  through \<open>cygpath\<close>.
\<close>

record git_env =
  ge_win32 :: bool
  ge_here :: string
  ge_run :: "string \<Rightarrow> string \<Rightarrow> string py_result"
  ge_popen :: "string \<Rightarrow> string \<Rightarrow> string"
  ge_filter :: "string \<Rightarrow> string \<Rightarrow> string py_result"

definition decode_ascii :: "string \<Rightarrow> string py_result" where
  "decode_ascii s = (if list_all (\<lambda>c. (of_char c :: nat) < 128) s then Inr s else Inl UnicodeError)"

definition decoded :: "string py_result \<Rightarrow> string py_result" where
  "decoded r = py_bind r (\<lambda>s. py_bind (decode_ascii s) (\<lambda>t. Inr (py_strip t)))"

definition git_root :: "git_env \<Rightarrow> string py_result" where
  "git_root e =
     (if ge_win32 e
      then decoded (ge_filter e ''cygpath -wf -'' (ge_popen e ''git rev-parse --show-toplevel'' (ge_here e)))
      else decoded (ge_run e ''git rev-parse --show-toplevel'' (ge_here e)))"

definition git_commit_of :: "git_env \<Rightarrow> nat list py_result" where
  "git_commit_of e =
     py_bind (git_root e) (\<lambda>root. py_bind (ge_run e ''git rev-parse HEAD'' root) (\<lambda>out.
     py_bind (decode_ascii out) git_commit))"

definition git_describe :: "git_env \<Rightarrow> string py_result" where
  "git_describe e = py_bind (git_root e) (\<lambda>root. decoded (ge_run e ''git describe --dirty'' root))"

definition git_status :: "git_env \<Rightarrow> string py_result" where
  "git_status e = py_bind (git_root e) (\<lambda>root. decoded (ge_run e ''git status --short'' root))"

text \<open>Outside a repository every function fails as \<open>git rev-parse\<close> does.\<close>

lemma git_outside_repository:
  assumes "\<not> ge_win32 e" "ge_run e ''git rev-parse --show-toplevel'' (ge_here e) = Inl x"
  shows "git_root e = Inl x \<and> git_commit_of e = Inl x \<and> git_describe e = Inl x \<and> git_status e = Inl x"
  using assms by (simp add: git_root_def git_commit_of_def git_describe_def git_status_def decoded_def)

text \<open>Otherwise the bytes of the commit come from what \<open>git rev-parse HEAD\<close> prints.\<close>

lemma git_commit_of_output:
  assumes "git_root e = Inr root" "ge_run e ''git rev-parse HEAD'' root = Inr out"
    and "list_all (\<lambda>c. (of_char c :: nat) < 128) out"
  shows "git_commit_of e = git_commit out"
  using assms by (simp add: git_commit_of_def decode_ascii_def)

section \<open>Platform and target names\<close>

definition binify :: "string \<Rightarrow> nat \<Rightarrow> nat py_result" where
  "binify s sz =
     py_bind (py_assert (sz mod 8 = 0)) (\<lambda>_.
     let blen = sz div 8
     in py_bind (py_assert (length s \<le> blen)) (\<lambda>_.
        Inr (be_int (map of_char (s @ replicate (blen - length s) (CHR 0x00))))))"

definition PlatformInfo :: "string \<Rightarrow> string \<Rightarrow> (64 word \<times> 64 word) py_result" where
  "PlatformInfo platform target =
     py_bind (binify (take 8 platform) 64) (\<lambda>p.
     py_bind (binify (take 8 target) 64) (\<lambda>t. Inr (of_nat p, of_nat t)))"

section \<open>FPGA serial number\<close>

record 'p dna =
  dna_cnt :: nat
  dna_id :: "57 word"
  dna_port :: 'p

definition dna_bits :: nat where
  "dna_bits = 57"

text \<open>
  The port is clocked by bit 0 of the counter, so its clock rises with the counter's step from an
  even to an odd value; \<open>dp read din\<close> is that clock edge and \<open>dout\<close> the output.
\<close>

definition dna_step :: "(bool \<Rightarrow> bool \<Rightarrow> 'p \<Rightarrow> 'p) \<Rightarrow> ('p \<Rightarrow> bool) \<Rightarrow> unit \<Rightarrow> 'p dna \<Rightarrow> 'p dna" where
  "dna_step dp dout _ s =
     (if dna_cnt s < 2 * dna_bits
      then \<lparr>dna_cnt = dna_cnt s + 1,
            dna_id = (if odd (dna_cnt s) then push_bit 1 (dna_id s) OR of_bool (dout (dna_port s)) else dna_id s),
            dna_port = (if even (dna_cnt s) then dp (dna_cnt s < 2) (bit (dna_id s) 56) (dna_port s) else dna_port s)\<rparr>
      else s)"

definition dna_init :: "'p \<Rightarrow> 'p dna" where
  "dna_init p = \<lparr>dna_cnt = 0, dna_id = 0, dna_port = p\<rparr>"

section \<open>XADC\<close>

record xadc =
  xa_temperature :: "12 word"
  xa_vccint :: "12 word"
  xa_vccaux :: "12 word"
  xa_vccbram :: "12 word"

definition xadc_step :: "bool \<Rightarrow> 7 word \<Rightarrow> 16 word \<Rightarrow> xadc \<Rightarrow> xadc" where
  "xadc_step drdy channel data s =
     (let v = ucast (drop_bit 4 data)
      in if drdy then
           if channel = 0 then s\<lparr>xa_temperature := v\<rparr>
           else if channel = 1 then s\<lparr>xa_vccint := v\<rparr>
           else if channel = 2 then s\<lparr>xa_vccaux := v\<rparr>
           else if channel = 6 then s\<lparr>xa_vccbram := v\<rparr>
           else s
         else s)"

section \<open>The info block\<close>

text \<open>Commit, names, and whether the block has an XADC.\<close>

definition Info :: "string \<Rightarrow> string \<Rightarrow> string \<Rightarrow> string \<Rightarrow> (160 word \<times> (64 word \<times> 64 word) \<times> bool) py_result" where
  "Info git_out platform_name device target_name =
     py_bind (GitInfo git_out) (\<lambda>g.
     let target = take (length target_name - 3) (py_lower target_name)
     in py_bind (PlatformInfo platform_name target) (\<lambda>p. Inr (g, p, contains device ''xc7'')))"

section \<open>The boot ROM\<close>

text \<open>The read loop: words of four bytes, and an error from \<open>struct.unpack\<close> on a shorter rest.\<close>

fun read_words :: "byte list \<Rightarrow> nat list py_result" where
  "read_words [] = Inr []"
| "read_words (a # b # c # d # rest) =
     py_bind (read_words rest) (\<lambda>ws. Inr (be_int (map unat [a, b, c, d]) # ws))"
| "read_words _ = Inl StructError"

text \<open>The initial contents of the ROM: \<open>None\<close> when there is no file.\<close>

definition FirmwareROM :: "file_system \<Rightarrow> nat \<Rightarrow> string \<Rightarrow> nat list option py_result" where
  "FirmwareROM fs sz filename =
     (if path_exists fs filename then
        py_bind (read_file fs filename) (\<lambda>content.
        py_bind (read_words content) (\<lambda>data.
        let data_size = length data * 4
        in py_bind (py_assert (0 < data_size)) (\<lambda>_.
           py_bind (py_assert (data_size < sz)) (\<lambda>_. Inr (Some data)))))
      else Inr None)"

definition emit_rom :: "nat list option \<Rightarrow> nat list py_result" where
  "emit_rom init = (case init of None \<Rightarrow> Inl AssertionError
     | Some d \<Rightarrow> py_bind (py_assert (d \<noteq> [])) (\<lambda>_. Inr d))"

section \<open>Reading the registers back\<close>

definition lower_hex :: "char \<Rightarrow> bool" where
  "lower_hex c = (c \<in> set ''0123456789abcdef'')"

definition hex_byte :: "nat \<Rightarrow> string" where
  "hex_byte b = [digit_char (b div 16), digit_char (b mod 16)]"

lemma lower_hexD:
  assumes "lower_hex c"
  shows "\<exists>k<16. hex_digit c = Some k \<and> digit_char k = c" and "\<not> is_space c"
proof -
  have "\<forall>c \<in> set ''0123456789abcdef''. case hex_digit c of None \<Rightarrow> False | Some k \<Rightarrow> k < 16 \<and> digit_char k = c"
    by code_simp
  then show "\<exists>k<16. hex_digit c = Some k \<and> digit_char k = c"
    using assms by (auto simp: lower_hex_def split: option.splits)
  have "\<forall>c \<in> set ''0123456789abcdef''. \<not> is_space c" by code_simp
  then show "\<not> is_space c" using assms unfolding lower_hex_def by blast
qed

lemma unhexlify_lower:
  "list_all lower_hex s \<Longrightarrow> even (length s) \<Longrightarrow>
   \<exists>bs. unhexlify s = Inr bs \<and> concat (map hex_byte bs) = s \<and> list_all (\<lambda>b. b < 256) bs
      \<and> length s = 2 * length bs"
proof (induction s rule: unhexlify.induct)
  case (3 c d s)
  obtain h l where hl: "h < 16" "hex_digit c = Some h" "digit_char h = c"
      "l < 16" "hex_digit d = Some l" "digit_char l = d"
    using 3(2) lower_hexD(1) [of c] lower_hexD(1) [of d] by auto
  then obtain bs where bs: "unhexlify s = Inr bs" "concat (map hex_byte bs) = s"
      "list_all (\<lambda>b. b < 256) bs" "length s = 2 * length bs"
    using 3 by auto
  from bs hl show ?case by (intro exI [of _ "(16 * h + l) # bs"]) (auto simp: hex_byte_def [of "16 * h + l"])
qed simp_all

lemma py_strip_newline:
  assumes "s \<noteq> []" "list_all (\<lambda>c. \<not> is_space c) s"
  shows "py_strip (s @ [CHR 0x0A]) = s"
proof -
  have d: "dropWhile is_space xs = xs" if "xs \<noteq> []" "list_all (\<lambda>c. \<not> is_space c) xs" for xs
    using that by (cases xs) simp_all
  have "is_space (CHR 0x0A)" by code_simp
  moreover have "dropWhile is_space (s @ [CHR 0x0A]) = s @ [CHR 0x0A]"
    using assms by (cases s) simp_all
  ultimately show ?thesis using d [of "rev s"] assms by (simp add: py_strip_def)
qed

text \<open>
  C34 (commit register): whatever 40-digit hash \<open>git rev-parse HEAD\<close> prints, the twenty bytes of the
  commit register, most significant first and in hexadecimal, are that hash.
\<close>

theorem git_commit_readback:
  assumes "length h = 40" "list_all lower_hex h"
  shows "\<exists>st. GitInfo (h @ [CHR 0x0A]) = Inr st \<and> concat (map hex_byte (be_bytes 20 (unat st))) = h"
proof -
  have "list_all (\<lambda>c. \<not> is_space c) h" using assms(2) lower_hexD(2) by (auto simp: list_all_iff)
  then have strip: "py_strip (h @ [CHR 0x0A]) = h" using assms(1) by (intro py_strip_newline) auto
  obtain bs where bs: "unhexlify h = Inr bs" "concat (map hex_byte bs) = h"
      "list_all (\<lambda>b. b < 256) bs" "length bs = 20"
    using unhexlify_lower [OF assms(2)] assms(1) by auto
  have "be_int bs < 2 ^ 160" using be_int_bound [OF bs(3)] by (simp add: bs(4))
  then have "unat (of_nat (be_int bs) :: 160 word) = be_int bs" by (simp add: unat_of_nat)
  then show ?thesis
    using bs be_bytes_be_int [OF bs(3)] by (simp add: GitInfo_def git_commit_def strip)
qed

lemma of_char_bound: "(of_char c :: nat) < 256"
  by (metis of_char_mod_256 mod_less_divisor zero_less_numeral)

definition ords :: "string \<Rightarrow> nat list" where
  "ords s = map of_char s"

lemma binify_short:
  assumes "length s \<le> 8"
  shows "\<exists>v < 2 ^ 64. binify s 64 = Inr v \<and> be_bytes 8 v = ords s @ replicate (8 - length s) 0"
proof -
  let ?bs = "map of_char (s @ replicate (8 - length s) (CHR 0x00)) :: nat list"
  have b: "list_all (\<lambda>x. x < 256) ?bs" and l: "length ?bs = 8"
    using assms by (auto simp: list_all_iff of_char_bound)
  have "be_int ?bs < 2 ^ 64" using be_int_bound [OF b] by (simp only: l) simp
  moreover have "be_bytes 8 (be_int ?bs) = ?bs" using be_bytes_be_int [OF b] by (simp only: l)
  ultimately show ?thesis using assms by (simp add: binify_def ords_def)
qed

text \<open>
  Name registers: the eight bytes of the platform register are the first eight characters of
  the platform's name, padded with zeros, and likewise for the target.
\<close>

theorem platform_name_readback:
  "\<exists>p t. PlatformInfo platform target = Inr (p, t)
     \<and> be_bytes 8 (unat p) = ords (take 8 platform) @ replicate (8 - length platform) 0
     \<and> be_bytes 8 (unat t) = ords (take 8 target) @ replicate (8 - length target) 0"
proof -
  obtain v w where v: "v < 2 ^ 64" "binify (take 8 platform) 64 = Inr v"
      "be_bytes 8 v = ords (take 8 platform) @ replicate (8 - length (take 8 platform)) 0"
    and w: "w < 2 ^ 64" "binify (take 8 target) 64 = Inr w"
      "be_bytes 8 w = ords (take 8 target) @ replicate (8 - length (take 8 target)) 0"
    using binify_short [of "take 8 platform"] binify_short [of "take 8 target"] by auto
  have "unat (of_nat v :: 64 word) = v" "unat (of_nat w :: 64 word) = w"
    using v(1) w(1) by (simp_all add: unat_of_nat)
  with v w show ?thesis by (auto simp: PlatformInfo_def min_def split: if_splits)
qed

section \<open>The serial number\<close>

text \<open>
  The documented behaviour of the port: an edge with \<open>READ\<close> loads the serial number, whose first
  bit is then on the output; each further edge brings out the next bit.
\<close>

definition dna_port_spec :: "(bool \<Rightarrow> bool \<Rightarrow> 'p \<Rightarrow> 'p) \<Rightarrow> ('p \<Rightarrow> bool) \<Rightarrow> (nat \<Rightarrow> bool) \<Rightarrow> bool" where
  "dna_port_spec dp dout dna \<longleftrightarrow>
     (\<forall>p d ds. length ds < dna_bits \<longrightarrow> dout (fold (dp False) ds (dp True d p)) = dna (length ds))"

fun dna_prefix :: "(nat \<Rightarrow> bool) \<Rightarrow> nat \<Rightarrow> 57 word" where
  "dna_prefix dna 0 = 0"
| "dna_prefix dna (Suc k) = push_bit 1 (dna_prefix dna k) OR of_bool (dna k)"

lemma bit_shift_in:
  "bit (push_bit 1 w OR of_bool b :: 57 word) j = (if j = 0 then b else j < 57 \<and> bit w (j - 1))"
  unfolding bit_or_iff bit_push_bit_iff bit_of_bool_iff by (cases "j = 0") (auto simp: bit_push_bit_iff)

lemma bit_dna_prefix: "bit (dna_prefix dna k) j \<longleftrightarrow> j < 57 \<and> j < k \<and> dna (k - 1 - j)"
proof (induction k arbitrary: j)
  case (Suc k)
  show ?case
    unfolding dna_prefix.simps bit_shift_in Suc.IH by (cases "j = 0") auto
qed simp

lemma dna_two_steps:
  assumes spec: "dna_port_spec dp dout dna"
    and s: "dna_cnt s = 2 * k" "k < dna_bits" "dna_id s = dna_prefix dna k"
      "0 < k \<Longrightarrow> \<exists>p d ds. length ds = k - 1 \<and> dna_port s = fold (dp False) ds (dp True d p)"
  shows "\<exists>t. dna_step dp dout () (dna_step dp dout () s) = t \<and> dna_cnt t = 2 * Suc k
    \<and> dna_id t = dna_prefix dna (Suc k)
    \<and> (\<exists>p d ds. length ds = k \<and> dna_port t = fold (dp False) ds (dp True d p))"
proof -
  let ?e = "dp (k = 0) (bit (dna_id s) 56) (dna_port s)"
  have "\<exists>p d ds. length ds = k \<and> ?e = fold (dp False) ds (dp True d p)"
  proof (cases "k = 0")
    case True
    then have "length [] = k \<and> ?e = fold (dp False) [] (dp True (bit (dna_id s) 56) (dna_port s))" by simp
    then show ?thesis by blast
  next
    case False
    with s(4) obtain p d ds where "length ds = k - 1" "dna_port s = fold (dp False) ds (dp True d p)" by auto
    with False have "length (ds @ [bit (dna_id s) 56]) = k
        \<and> ?e = fold (dp False) (ds @ [bit (dna_id s) 56]) (dp True d p)" by simp
    then show ?thesis by blast
  qed
  moreover from this have "dout ?e = dna k" using spec s(2) by (auto simp: dna_port_spec_def)
  ultimately show ?thesis using s by (simp add: dna_step_def)
qed

lemma dna_run:
  assumes spec: "dna_port_spec dp dout dna"
  shows "k \<le> dna_bits \<Longrightarrow>
    dna_cnt (run (dna_step dp dout) (replicate (2 * k) ()) (dna_init p)) = 2 * k
    \<and> dna_id (run (dna_step dp dout) (replicate (2 * k) ()) (dna_init p)) = dna_prefix dna k
    \<and> (0 < k \<longrightarrow> (\<exists>p' d ds. length ds = k - 1
         \<and> dna_port (run (dna_step dp dout) (replicate (2 * k) ()) (dna_init p))
           = fold (dp False) ds (dp True d p')))"
proof (induction k)
  case 0
  then show ?case by (simp add: dna_init_def)
next
  case (Suc k)
  let ?s = "run (dna_step dp dout) (replicate (2 * k) ()) (dna_init p)"
  have "run (dna_step dp dout) (replicate (2 * Suc k) ()) (dna_init p)
      = dna_step dp dout () (dna_step dp dout () ?s)"
  proof -
    have "replicate (2 * Suc k) () = replicate (2 * k) () @ [(), ()]"
      using replicate_add [of "2 * k" 2 "()"] by (simp add: numeral_2_eq_2)
    then show ?thesis by (simp only: run_append run.simps)
  qed
  with dna_two_steps [OF spec, of ?s k] Suc show ?case by auto
qed

text \<open>
  From cycle 114 on, and for good, the identifier register holds the bits of
  the port in order, the first in the top bit.
\<close>

theorem dna_register:
  assumes "dna_port_spec dp dout dna" "2 * dna_bits \<le> m" "j < dna_bits"
  shows "bit (dna_id (run (dna_step dp dout) (replicate m ()) (dna_init p))) (56 - j) = dna j"
proof -
  let ?s = "run (dna_step dp dout) (replicate (2 * dna_bits) ()) (dna_init p)"
  obtain k where "m = 2 * dna_bits + k" using assms(2) le_Suc_ex by blast
  then have "run (dna_step dp dout) (replicate m ()) (dna_init p) = run (dna_step dp dout) (replicate k ()) ?s"
    by (simp add: replicate_add)
  moreover have s: "dna_cnt ?s = 2 * dna_bits" "dna_id ?s = dna_prefix dna dna_bits"
    using dna_run [OF assms(1), of dna_bits p] by simp_all
  have "run (dna_step dp dout) (replicate k ()) ?s = ?s"
    using s(1) by (induction k) (simp_all add: dna_step_def)
  ultimately have "dna_id (run (dna_step dp dout) (replicate m ()) (dna_init p)) = dna_prefix dna dna_bits"
    using s(2) by simp
  moreover have "56 - j < 57" by linarith
  ultimately show ?thesis
    using assms(3) by (simp add: bit_dna_prefix dna_bits_def)
qed

text \<open>A port that shifts a 57-bit list.\<close>

definition demo_port :: "bool \<Rightarrow> bool \<Rightarrow> bool list \<Rightarrow> bool list" where
  "demo_port rd din p = (if rd then map (\<lambda>j. j mod 3 = 0) [0..<57] else drop 1 p @ [din])"

lemma demo_port_spec: "dna_port_spec demo_port hd (\<lambda>j. j mod 3 = 0)"
proof -
  have f: "fold (demo_port False) ds p = drop (length ds) p @ ds" if "length ds \<le> length p" for ds p
    using that by (induction ds arbitrary: p) (simp_all add: demo_port_def)
  have "hd (drop k (map (\<lambda>j. j mod 3 = 0) [0..<57]) @ ds) = (k mod 3 = 0)" if "k < 57" for k ds
    using that by (simp add: hd_append hd_drop_conv_nth)
  then show ?thesis by (simp add: dna_port_spec_def f demo_port_def dna_bits_def)
qed

theorem dna_register_witness:
  "bit (dna_id (run (dna_step demo_port hd) (replicate 200 ()) (dna_init []))) 50"
  using dna_register [OF demo_port_spec, of 200 6 "[]"] by (simp add: dna_bits_def)

theorem git_commit_readback_witness:
  "\<exists>st. GitInfo (''0123456789abcdef0123456789abcdef01234567'' @ [CHR 0x0A]) = Inr st
     \<and> concat (map hex_byte (be_bytes 20 (unat st))) = ''0123456789abcdef0123456789abcdef01234567''"
  by (rule git_commit_readback) (simp_all add: lower_hex_def)

section \<open>The boot ROM holds its file\<close>

lemma read_words_cases:
  "case read_words bs of
     Inl e \<Rightarrow> e = StructError \<and> length bs mod 4 \<noteq> 0
   | Inr ws \<Rightarrow> length bs = 4 * length ws \<and> concat (map (be_bytes 4) ws) = map unat bs"
proof (induction bs rule: read_words.induct)
  case (2 a b c d rest)
  have "list_all (\<lambda>x. x < 256) (map unat [a, b, c, d])"
    using unat_lt2p [of a] unat_lt2p [of b] unat_lt2p [of c] unat_lt2p [of d] by simp
  define w where "w = be_int (map unat [a, b, c, d])"
  have w: "be_bytes 4 w = [unat a, unat b, unat c, unat d]"
    unfolding w_def using \<open>list_all _ _\<close> be_bytes_be_int [of "map unat [a, b, c, d]"] by (simp add: eval_nat_numeral del: be_bytes.simps)
  from 2 show ?case
    unfolding read_words.simps w_def [symmetric] by (cases "read_words rest") (simp_all add: w)
qed simp_all

text \<open>
  From a file, the ROM is initialised with exactly the bytes of the file, four to a
  word; a file that is not a whole number of words is a \<open>struct.error\<close>, an empty one or one that
  does not leave room in the ROM fails an assertion.
\<close>

theorem firmware_rom_contents:
  assumes "fs_files fs fn = Some content"
  shows "case FirmwareROM fs sz fn of
      Inl e \<Rightarrow> e = (if length content mod 4 = 0 then AssertionError else StructError)
             \<and> (length content mod 4 \<noteq> 0 \<or> content = [] \<or> sz \<le> length content)
    | Inr r \<Rightarrow> 0 < length content \<and> length content < sz
             \<and> (\<exists>data. emit_rom r = Inr data \<and> concat (map (be_bytes 4) data) = map unat content)"
  using read_words_cases [of content] assms
  by (auto simp: FirmwareROM_def path_exists_def read_file_def emit_rom_def Let_def split: sum.splits)

theorem firmware_rom_contents_witness:
  "case FirmwareROM \<lparr>fs_files = [''fw'' \<mapsto> [1, 2, 3, 4]], fs_dirs = {}, fs_realpath = id\<rparr> 8 ''fw'' of
     Inl e \<Rightarrow> False
   | Inr r \<Rightarrow> (\<exists>data. emit_rom r = Inr data \<and> concat (map (be_bytes 4) data) = [1, 2, 3, 4])"
  using firmware_rom_contents [of "\<lparr>fs_files = [''fw'' \<mapsto> [1, 2, 3, 4]], fs_dirs = {}, fs_realpath = id\<rparr>"
      "''fw''" "[1, 2, 3, 4]" 8]
  by (simp split: sum.splits)

end
