(* ===== verification/I2c_Pads.thy ===== *)
theory I2c_Pads
  imports Opsis_I2c
begin

text \<open>
  The I2C pads of the Opsis, \<open>gateware/i2c.py\<close> and class \<open>OpsisI2C\<close> of \<open>gateware/opsis_i2c.py\<close>: the
  bit-banged master, the multiplexer in front of the pins, and the shift register target of
  \<open>Opsis_I2c\<close> behind it.  Migen's \<open>bits_for\<close>, which gives the width of the select register, is
  a parameter.  Shown: a core that is not selected has no influence on the pins, and the target
  takes the levels it then reads neither for a start condition nor for data.
\<close>

section \<open>Model\<close>

record pad_drive =
  pd_scl_oe :: bool
  pd_scl_w :: bool
  pd_sda_oe :: bool
  pd_sda_w :: bool

record pad_level =
  pl_scl :: bool
  pl_sda :: bool

definition i2c_w_reset :: "8 word" where
  "i2c_w_reset = 1"

definition I2C_drive :: "8 word \<Rightarrow> pad_drive" where
  "I2C_drive w = \<lparr>pd_scl_oe = True, pd_scl_w = bit w 0, pd_sda_oe = bit w 1, pd_sda_w = bit w 2\<rparr>"

definition I2C_read :: "pad_level \<Rightarrow> 1 word" where
  "I2C_read l = of_bool (pl_sda l)"

definition I2CShiftReg_drive :: "i2c_shift \<Rightarrow> pad_drive" where
  "I2CShiftReg_drive s =
     \<lparr>pd_scl_oe = is_scl_drv_reg s, pd_scl_w = False, pd_sda_oe = is_sda_drv_reg s, pd_sda_w = False\<rparr>"

text \<open>The level on a pin: what the FPGA drives, or what the rest of the bus gives.\<close>

definition pin_levels :: "pad_drive \<Rightarrow> pad_level \<Rightarrow> pad_level" where
  "pin_levels d ext =
     \<lparr>pl_scl = (if pd_scl_oe d then pd_scl_w d else pl_scl ext),
      pl_sda = (if pd_sda_oe d then pd_sda_w d else pl_sda ext)\<rparr>"

text \<open>
  \<open>Case(sel, cases)\<close> without a default: a signal that the selected case does not assign has its
  reset value.
\<close>

definition no_drive :: pad_drive where
  "no_drive = \<lparr>pd_scl_oe = False, pd_scl_w = False, pd_sda_oe = False, pd_sda_w = False\<rparr>"

definition no_level :: pad_level where
  "no_level = \<lparr>pl_scl = False, pl_sda = False\<rparr>"

definition I2CMux_out :: "nat \<Rightarrow> pad_drive list \<Rightarrow> pad_drive" where
  "I2CMux_out sel in_pads = (if sel < length in_pads then in_pads ! sel else no_drive)"

definition I2CMux_in :: "nat \<Rightarrow> nat \<Rightarrow> pad_level \<Rightarrow> pad_level list" where
  "I2CMux_in sel n out = map (\<lambda>k. if k = sel then out else no_level) [0..<n]"

definition I2CMux_sel_bits :: "(nat \<Rightarrow> nat) \<Rightarrow> nat \<Rightarrow> nat" where
  "I2CMux_sel_bits bits_for n = bits_for (n - 1)"

text \<open>
  The bus of the board: port 0 of the multiplexer is the master, port 1 the target.  The second
  value is the level of the FX2 reset pin, which is pulled low or left to its pull-up.
\<close>

definition OpsisI2C_pins :: "nat \<Rightarrow> 8 word \<Rightarrow> i2c_shift \<Rightarrow> pad_drive" where
  "OpsisI2C_pins sel w s = I2CMux_out sel [I2C_drive w, I2CShiftReg_drive s]"

definition OpsisI2C_levels :: "nat \<Rightarrow> pad_level \<Rightarrow> pad_level list" where
  "OpsisI2C_levels sel pins = I2CMux_in sel 2 pins"

definition fx2_reset_level :: "bool \<Rightarrow> bool \<Rightarrow> bool" where
  "fx2_reset_level oe pull_up = (if oe then False else pull_up)"

section \<open>The unselected core\<close>

lemma I2CMux_in_other: "k < n \<Longrightarrow> k \<noteq> sel \<Longrightarrow> I2CMux_in sel n out ! k = no_level"
  by (simp add: I2CMux_in_def)

lemma I2CMux_out_other: "k \<noteq> sel \<Longrightarrow> I2CMux_out sel (ds[k := d]) = I2CMux_out sel ds"
  by (simp add: I2CMux_out_def)

text \<open>
  The sampled lines change together, so on a dead bus the clock is low by the time the data line
  falls: from the second cycle on there is no start condition and no rising clock.
\<close>

definition cut_off :: "8 word \<Rightarrow> bool \<Rightarrow> i2c_shift \<Rightarrow> bool" where
  "cut_off din rcv s \<longleftrightarrow>
     is_din s = din \<and> (is_fsm s = RCV_ADDRESS \<longrightarrow> rcv)
     \<and> (is_scl_i s \<longrightarrow> is_scl_r s \<and> is_sda_r s = is_sda_i s)"

lemma cut_off_no_start: "cut_off din rcv s \<Longrightarrow> \<not> i2c_start s \<and> \<not> scl_rising s"
  by (auto simp: cut_off_def i2c_start_def sda_falling_def scl_rising_def)

lemma state_act_rcv: "ac_next (i2c_state_act i s) = RCV_ADDRESS \<Longrightarrow> is_fsm s = RCV_ADDRESS"
  by (cases "is_fsm s") (auto simp: i2c_state_act_def i2c_no_act_def Let_def split: if_splits)

lemma lines_after_step:
  assumes "\<not> in_scl_raw i" "\<not> in_sda_raw i"
  shows "is_scl_i (i2c_shift_step ch i s) \<longrightarrow> is_scl_r (i2c_shift_step ch i s)
      \<and> is_sda_r (i2c_shift_step ch i s) = is_sda_i (i2c_shift_step ch i s)"
  using assms by (simp add: i2c_shift_step_def Let_def)

lemma cut_off_step:
  assumes "cut_off din rcv s" "\<not> in_scl_raw i" "\<not> in_sda_raw i"
  shows "cut_off din rcv (i2c_shift_step ch i s)"
proof -
  have n: "\<not> i2c_start s" "\<not> scl_rising s" using cut_off_no_start [OF assms(1)] by simp_all
  then have "is_din (i2c_shift_step ch i s) = din"
    using assms(1) by (simp add: i2c_shift_step_def Let_def din_next_def cut_off_def)
  moreover have "is_fsm (i2c_shift_step ch i s) = RCV_ADDRESS \<longrightarrow> rcv"
    using n(1) assms(1) state_act_rcv [of i s]
    by (auto simp: i2c_shift_step_def Let_def i2c_shift_act_def cut_off_def split: if_splits)
  moreover have "is_scl_i (i2c_shift_step ch i s) \<longrightarrow> is_scl_r (i2c_shift_step ch i s)
      \<and> is_sda_r (i2c_shift_step ch i s) = is_sda_i (i2c_shift_step ch i s)"
    by (rule lines_after_step [OF assms(2,3)])
  ultimately show ?thesis unfolding cut_off_def by blast
qed

lemma cut_off_run:
  assumes "cut_off din rcv s" "\<forall>i \<in> set is. \<not> in_scl_raw i \<and> \<not> in_sda_raw i"
  shows "cut_off din rcv (run (i2c_shift_step ch) is s)"
  using assms
proof (induction "is" arbitrary: s)
  case (Cons i "is")
  have low: "\<not> in_scl_raw i" "\<not> in_sda_raw i" "\<forall>i \<in> set is. \<not> in_scl_raw i \<and> \<not> in_sda_raw i"
    using Cons.prems(2) by simp_all
  show ?case
    unfolding run.simps by (rule Cons.IH [OF cut_off_step [OF Cons.prems(1) low(1,2)] low(3)])
qed (simp only: run.simps)



end
