(* ===== verification/Rgmii.thy ===== *)
theory Rgmii
  imports Hdl_Prelude
begin

text \<open>
  The RGMII physical layer for the Spartan-6, \<open>gateware/s6rgmii.py\<close>.  The VHDL block \<open>rgmii_if\<close>
  gives one byte and one data-valid flag per receive clock; the Python side turns them into a packet
  stream and registers the transmit side.  Shown: every frame comes out whole, with the last flag on
  its final byte and nowhere else, whatever the gaps between frames, and the transmitter passes
  each byte on one cycle later.
\<close>

section \<open>Model\<close>

record rgmii_rx =
  rx_dv_d :: bool
  rx_valid :: bool
  rx_data :: "8 word"

definition rgmii_rx_init :: rgmii_rx where
  "rgmii_rx_init = \<lparr>rx_dv_d = False, rx_valid = False, rx_data = 0\<rparr>"

definition rgmii_rx_step :: "bool \<times> 8 word \<Rightarrow> rgmii_rx \<Rightarrow> rgmii_rx" where
  "rgmii_rx_step i s = \<lparr>rx_dv_d = fst i, rx_valid = fst i, rx_data = snd i\<rparr>"

definition rgmii_last :: "bool \<times> 8 word \<Rightarrow> rgmii_rx \<Rightarrow> bool" where
  "rgmii_last i s = (\<not> fst i \<and> rx_dv_d s)"

text \<open>The bytes with their last flags; the receive stream has no back pressure.\<close>

definition rgmii_out :: "bool \<times> 8 word \<Rightarrow> rgmii_rx \<Rightarrow> (8 word \<times> bool) list" where
  "rgmii_out i s = (if rx_valid s then [(rx_data s, rgmii_last i s)] else [])"

record rgmii_tx =
  tx_data :: "8 word"
  tx_valid :: bool

definition rgmii_tx_step :: "bool \<times> 8 word \<Rightarrow> rgmii_tx \<Rightarrow> rgmii_tx" where
  "rgmii_tx_step i s = \<lparr>tx_data = snd i, tx_valid = fst i\<rparr>"

definition rgmii_sink_ready :: bool where
  "rgmii_sink_ready = True"

definition rgmii_rst_n :: "bool \<Rightarrow> bool" where
  "rgmii_rst_n reset = (\<not> reset)"

section \<open>Frames\<close>

text \<open>Idle cycles, with any data, and then the bytes of a frame.\<close>

definition line_cycles :: "8 word list \<times> 8 word list \<Rightarrow> (bool \<times> 8 word) list" where
  "line_cycles gf = map (Pair False) (fst gf) @ map (Pair True) (snd gf)"

definition frame_tokens :: "8 word list \<Rightarrow> (8 word \<times> bool) list" where
  "frame_tokens f = map (\<lambda>b. (b, False)) (butlast f) @ [(last f, True)]"

lemma rgmii_cycle [simp]:
  "rgmii_rx_step (v, b) s = \<lparr>rx_dv_d = v, rx_valid = v, rx_data = b\<rparr>"
  "rgmii_out (v, b) s = (if rx_valid s then [(rx_data s, \<not> v \<and> rx_dv_d s)] else [])"
  by (simp_all add: rgmii_rx_step_def rgmii_out_def rgmii_last_def)

lemma idle_run:
  "\<not> rx_valid s \<Longrightarrow> \<not> rx_dv_d s \<Longrightarrow>
   collect rgmii_rx_step rgmii_out (map (Pair False) gs) s = []
   \<and> \<not> rx_valid (run rgmii_rx_step (map (Pair False) gs) s)
   \<and> \<not> rx_dv_d (run rgmii_rx_step (map (Pair False) gs) s)"
  by (induction gs arbitrary: s) simp_all

lemma frame_run:
  "f \<noteq> [] \<Longrightarrow> \<not> rx_valid s \<Longrightarrow>
   collect rgmii_rx_step rgmii_out (map (Pair True) f) s = map (\<lambda>b. (b, False)) (butlast f)
   \<and> run rgmii_rx_step (map (Pair True) f) s = \<lparr>rx_dv_d = True, rx_valid = True, rx_data = last f\<rparr>"
proof (induction f rule: rev_induct)
  case (snoc b f)
  show ?case
  proof (cases "f = []")
    case True
    with snoc.prems show ?thesis by simp
  next
    case False
    with snoc have "collect rgmii_rx_step rgmii_out (map (Pair True) f) s = map (\<lambda>b. (b, False)) (butlast f)"
        "run rgmii_rx_step (map (Pair True) f) s = \<lparr>rx_dv_d = True, rx_valid = True, rx_data = last f\<rparr>"
      by simp_all
    moreover have "map (\<lambda>b. (b, False)) (butlast f) @ [(last f, False)] = map (\<lambda>b. (b, False)) f"
      using arg_cong [OF append_butlast_last_id [OF False], of "map (\<lambda>b. (b, False))"] by simp
    ultimately show ?thesis by simp
  qed
qed simp

text \<open>One frame behind its gap, from a state that may still hold the last byte of the one before.\<close>

definition held :: "rgmii_rx \<Rightarrow> (8 word \<times> bool) list" where
  "held s = (if rx_valid s then [(rx_data s, True)] else [])"

lemma gap_and_frame:
  assumes "g \<noteq> []" "f \<noteq> []" "rx_valid s = rx_dv_d s"
  shows "collect rgmii_rx_step rgmii_out (line_cycles (g, f)) s @ held (run rgmii_rx_step (line_cycles (g, f)) s)
      = held s @ frame_tokens f"
    and "rx_valid (run rgmii_rx_step (line_cycles (g, f)) s) = rx_dv_d (run rgmii_rx_step (line_cycles (g, f)) s)"
proof -
  obtain x gs where g: "g = x # gs" using assms(1) by (cases g) auto
  define s1 where "s1 = rgmii_rx_step (False, x) s"
  define s2 where "s2 = run rgmii_rx_step (map (Pair False) gs) s1"
  have "\<not> rx_valid s1" "\<not> rx_dv_d s1" by (simp_all add: s1_def)
  note i = idle_run [OF this, of gs, folded s2_def]
  then have f: "collect rgmii_rx_step rgmii_out (map (Pair True) f) s2 = map (\<lambda>b. (b, False)) (butlast f)"
      "run rgmii_rx_step (map (Pair True) f) s2 = \<lparr>rx_dv_d = True, rx_valid = True, rx_data = last f\<rparr>"
    using frame_run [OF assms(2), of s2] by simp_all
  have r: "run rgmii_rx_step (line_cycles (g, f)) s = \<lparr>rx_dv_d = True, rx_valid = True, rx_data = last f\<rparr>"
    using f by (simp add: line_cycles_def g s1_def s2_def)
  have o: "rgmii_out (False, x) s = held s"
    using assms(3) by (simp add: held_def)
  have "collect rgmii_rx_step rgmii_out (line_cycles (g, f)) s = held s @ map (\<lambda>b. (b, False)) (butlast f)"
  proof -
    have "collect rgmii_rx_step rgmii_out (line_cycles (g, f)) s
        = rgmii_out (False, x) s @ collect rgmii_rx_step rgmii_out (map (Pair False) gs) s1
          @ collect rgmii_rx_step rgmii_out (map (Pair True) f) s2"
      by (simp add: line_cycles_def g s1_def s2_def del: rgmii_cycle)
    then show ?thesis using i f o by simp
  qed
  with r show "collect rgmii_rx_step rgmii_out (line_cycles (g, f)) s
      @ held (run rgmii_rx_step (line_cycles (g, f)) s) = held s @ frame_tokens f"
    by (simp add: held_def frame_tokens_def)
  show "rx_valid (run rgmii_rx_step (line_cycles (g, f)) s) = rx_dv_d (run rgmii_rx_step (line_cycles (g, f)) s)"
    by (simp add: r)
qed

lemma frames_run:
  "list_all (\<lambda>gf. fst gf \<noteq> [] \<and> snd gf \<noteq> []) gfs \<Longrightarrow> rx_valid s = rx_dv_d s \<Longrightarrow>
   collect rgmii_rx_step rgmii_out (concat (map line_cycles gfs)) s
     @ held (run rgmii_rx_step (concat (map line_cycles gfs)) s)
   = held s @ concat (map (\<lambda>gf. frame_tokens (snd gf)) gfs)
   \<and> rx_valid (run rgmii_rx_step (concat (map line_cycles gfs)) s)
     = rx_dv_d (run rgmii_rx_step (concat (map line_cycles gfs)) s)"
proof (induction gfs arbitrary: s)
  case (Cons gf gfs)
  obtain g f where gf: "gf = (g, f)" by force
  let ?t = "run rgmii_rx_step (line_cycles (g, f)) s"
  have one: "collect rgmii_rx_step rgmii_out (line_cycles (g, f)) s @ held ?t = held s @ frame_tokens f"
      "rx_valid ?t = rx_dv_d ?t"
    using gap_and_frame [of g f s] Cons.prems by (simp_all add: gf)
  have IH: "collect rgmii_rx_step rgmii_out (concat (map line_cycles gfs)) ?t
        @ held (run rgmii_rx_step (concat (map line_cycles gfs)) ?t) = held ?t @ concat (map (\<lambda>gf. frame_tokens (snd gf)) gfs)"
      "rx_valid (run rgmii_rx_step (concat (map line_cycles gfs)) ?t)
        = rx_dv_d (run rgmii_rx_step (concat (map line_cycles gfs)) ?t)"
    using Cons.IH [OF _ one(2)] Cons.prems(1) by simp_all
  have "collect rgmii_rx_step rgmii_out (line_cycles (g, f)) s
        @ (held ?t @ concat (map (\<lambda>gf. frame_tokens (snd gf)) gfs))
      = held s @ frame_tokens f @ concat (map (\<lambda>gf. frame_tokens (snd gf)) gfs)"
    by (simp only: append_assoc [symmetric] one(1))
  then show ?case using IH by (simp add: gf)
qed (simp add: held_def)

text \<open>
  C18 (received frames): for any frames with at least one idle cycle before each and one after the
  last, the packet stream is those frames byte for byte, each with the last flag on its final byte
  only.
\<close>

theorem rgmii_frames:
  assumes "list_all (\<lambda>gf. fst gf \<noteq> [] \<and> snd gf \<noteq> []) gfs"
  shows "collect rgmii_rx_step rgmii_out (concat (map line_cycles gfs) @ [(False, x)]) rgmii_rx_init
    = concat (map (\<lambda>gf. frame_tokens (snd gf)) gfs)"
proof -
  let ?s = "run rgmii_rx_step (concat (map line_cycles gfs)) rgmii_rx_init"
  have f: "collect rgmii_rx_step rgmii_out (concat (map line_cycles gfs)) rgmii_rx_init @ held ?s
      = concat (map (\<lambda>gf. frame_tokens (snd gf)) gfs)" and v: "rx_valid ?s = rx_dv_d ?s"
  proof -
    have "rx_valid rgmii_rx_init = rx_dv_d rgmii_rx_init" "held rgmii_rx_init = []"
      by (simp_all add: rgmii_rx_init_def held_def)
    with frames_run [OF assms this(1)] show
      "collect rgmii_rx_step rgmii_out (concat (map line_cycles gfs)) rgmii_rx_init @ held ?s
        = concat (map (\<lambda>gf. frame_tokens (snd gf)) gfs)"
      "rx_valid ?s = rx_dv_d ?s" by simp_all
  qed
  have "rgmii_out (False, x) ?s = held ?s"
    using v by (simp add: held_def)
  with f show ?thesis by simp
qed

theorem rgmii_frames_witness:
  "collect rgmii_rx_step rgmii_out
     (concat (map line_cycles [([0], [1, 2]), ([0, 9], [3])]) @ [(False, 7)]) rgmii_rx_init
   = [(1, False), (2, True), (3, True)]"
  by (subst rgmii_frames) (simp_all add: frame_tokens_def)

lemma rgmii_tx_delay: "run rgmii_tx_step (is @ [i]) s = \<lparr>tx_data = snd i, tx_valid = fst i\<rparr>"
  by (simp add: rgmii_tx_step_def)

end
