(* ===== verification/Pins.thy ===== *)
theory Pins
  imports Py_Strings "HOL-Library.Multiset"
begin

text \<open>
  The description of a board's pins as the platform files write it: a table of resources, each with
  a number, pins, electrical attributes and subsignals, and a table of connectors whose positions
  stand for pins.  The classes \<open>Pins\<close>, \<open>Subsignal\<close>, \<open>IOStandard\<close>, \<open>Misc\<close>, \<open>Drive\<close> and
  \<open>Inverted\<close> are LiteX's; here they are constructors.  \<open>resolve_pin\<close> and \<open>entry_balls\<close> give the
  tables the meaning that LiteX documents for them, with \<open>connector:position\<close> for a pin of a
  connector.
\<close>

section \<open>Tables\<close>

datatype io_item =
    Number int
  | Pins "string list"
  | IOStandard string
  | Misc string
  | Drive int
  | Inverted
  | Subsignal string "io_item list"

type_synonym io_entry = "string \<times> io_item list"
type_synonym io_table = "io_entry list"

datatype connector = Numbered string | Named "(string, string) dict"

type_synonym connector_table = "(string \<times> connector) list"

section \<open>What the tables mean\<close>

text \<open>The pins an entry names.\<close>

fun item_pins :: "io_item \<Rightarrow> string list" where
  "item_pins (Pins ps) = concat (map (\<lambda>p. split_space p []) ps)"
| "item_pins (Subsignal n is) = concat (map item_pins is)"
| "item_pins _ = []"

definition entry_pins :: "io_entry \<Rightarrow> string list" where
  "entry_pins e = concat (map item_pins (snd e))"

definition entry_number :: "io_entry \<Rightarrow> int option" where
  "entry_number e = (case snd e of Number n # is \<Rightarrow> Some n | _ \<Rightarrow> None)"

definition resolve_pin :: "connector_table \<Rightarrow> string \<Rightarrow> string py_result" where
  "resolve_pin conns p =
     (if CHR '':'' \<in> set p then
        let c = takeWhile (\<lambda>x. x \<noteq> CHR '':'') p; k = drop 1 (dropWhile (\<lambda>x. x \<noteq> CHR '':'') p)
        in (case map_of conns c of
              None \<Rightarrow> Inl KeyError
            | Some (Named d) \<Rightarrow> dict_get d k
            | Some (Numbered s) \<Rightarrow>
                py_bind (py_int k) (\<lambda>j.
                let ps = split_space s []
                in if 0 \<le> j \<and> j < int (length ps) then Inr (ps ! nat j) else Inl IndexError))
      else Inr p)"

fun py_mapM :: "('a \<Rightarrow> 'b py_result) \<Rightarrow> 'a list \<Rightarrow> 'b list py_result" where
  "py_mapM f [] = Inr []"
| "py_mapM f (x # xs) = py_bind (f x) (\<lambda>y. py_bind (py_mapM f xs) (\<lambda>ys. Inr (y # ys)))"

definition entry_balls :: "connector_table \<Rightarrow> io_entry \<Rightarrow> string list py_result" where
  "entry_balls conns e = py_mapM (resolve_pin conns) (entry_pins e)"

section \<open>Distinct balls\<close>

text \<open>Ball names compared as numbers, by sorting: the same as \<open>distinct\<close>, but quick to evaluate.\<close>

definition name_key :: "string \<Rightarrow> int" where
  "name_key s = foldl (\<lambda>a c. 256 * a + of_char c) 1 s"

fun msplit :: "'a list \<Rightarrow> 'a list \<times> 'a list" where
  "msplit [] = ([], [])"
| "msplit [x] = ([x], [])"
| "msplit (x # y # zs) = (let (a, b) = msplit zs in (x # a, y # b))"

fun mmerge :: "int list \<Rightarrow> int list \<Rightarrow> int list" where
  "mmerge [] ys = ys"
| "mmerge xs [] = xs"
| "mmerge (x # xs) (y # ys) = (if x \<le> y then x # mmerge xs (y # ys) else y # mmerge (x # xs) ys)"

lemma length_msplit:
  "length (fst (msplit zs)) \<le> length zs \<and> length (snd (msplit zs)) \<le> length zs"
  "2 \<le> length zs \<Longrightarrow> length (fst (msplit zs)) < length zs \<and> length (snd (msplit zs)) < length zs"
  by (induction zs rule: msplit.induct) (auto simp: Let_def split: prod.splits)

function nsort :: "int list \<Rightarrow> int list" where
  "nsort zs = (if length zs < 2 then zs else let (a, b) = msplit zs in mmerge (nsort a) (nsort b))"
  by pat_completeness auto
termination
proof (relation "measure length")
  fix zs :: "int list" and x a b
  assume "\<not> length zs < 2" "x = msplit zs" "(a, b) = x"
  moreover from this have "length a < length zs" "length b < length zs"
    using length_msplit(2) [of zs] by (metis fst_conv not_less, metis snd_conv not_less)
  ultimately show "(a, zs) \<in> measure length" "(b, zs) \<in> measure length" by simp_all
qed simp

declare nsort.simps [simp del]

fun ascending :: "int list \<Rightarrow> bool" where
  "ascending (x # y # zs) = (x < y \<and> ascending (y # zs))"
| "ascending _ = True"

definition all_different :: "string list \<Rightarrow> bool" where
  "all_different ss = ascending (nsort (map name_key ss))"

lemma mset_msplit: "mset (fst (msplit zs)) + mset (snd (msplit zs)) = mset zs"
  by (induction zs rule: msplit.induct) (auto simp: Let_def split: prod.splits)

lemma mset_mmerge [simp]: "mset (mmerge xs ys) = mset xs + mset ys"
  by (induction xs ys rule: mmerge.induct) auto

lemma mset_nsort [simp]: "mset (nsort zs) = mset zs"
proof (induction zs rule: nsort.induct)
  case (1 zs)
  show ?case
  proof (cases "length zs < 2")
    case False
    obtain a b where ab: "msplit zs = (a, b)" by force
    with 1 False have "mset (nsort a) = mset a" "mset (nsort b) = mset b" by auto
    then show ?thesis using False ab mset_msplit [of zs] by (simp add: nsort.simps [of zs])
  qed (simp add: nsort.simps)
qed

lemma ascending_distinct: "ascending zs \<Longrightarrow> distinct zs"
proof -
  have "ascending zs \<Longrightarrow> sorted_wrt (<) zs"
    by (induction zs rule: ascending.induct) (auto simp: sorted_wrt2)
  then show "ascending zs \<Longrightarrow> distinct zs" by (simp add: strict_sorted_iff)
qed

lemma all_different_distinct:
  assumes "all_different ss"
  shows "distinct ss"
proof -
  have "distinct (nsort (map name_key ss))"
    using assms by (simp add: all_different_def ascending_distinct)
  then have "distinct (map name_key ss)"
    using mset_nsort [of "map name_key ss"] by (metis mset_eq_imp_distinct_iff)
  then show ?thesis by (simp add: distinct_map)
qed

end
