(* ===== verification/Platform_Request.thy ===== *)
theory Platform_Request
  imports Pins
begin

text \<open>
  Requests for pads.  A platform hands out the resources of its table one by one; this is code of
  LiteX, stated here as the locale \<open>litex_platform\<close>: what a request returns leaves the table, a
  numbered resource that is in the table is found, and a request fails with a \<open>ConstraintError\<close>
  only.  The laws are met by the tables themselves with the first matching entry, and are kept by
  the \<open>request\<close> method with which the UPduino platform overrides that of LiteX
  (\<open>platforms/upduino_v1.py\<close>).
\<close>

section \<open>The interface\<close>

type_synonym 'p requester = "'p \<Rightarrow> string \<Rightarrow> nat option \<Rightarrow> (io_entry \<times> 'p) py_result"

definition matches :: "string \<Rightarrow> nat option \<Rightarrow> io_entry \<Rightarrow> bool" where
  "matches n k e =
     (if fst e = n then case k of None \<Rightarrow> True | Some j \<Rightarrow> entry_number e = Some (int j) else False)"

lemma matches_iff:
  "matches n k e \<longleftrightarrow> fst e = n \<and> (case k of None \<Rightarrow> True | Some j \<Rightarrow> entry_number e = Some (int j))"
  by (simp add: matches_def)

locale litex_platform =
  fixes request :: "'p requester" and avail :: "'p \<Rightarrow> io_table"
  assumes request_takes: "request p n k = Inr (e, q) \<Longrightarrow>
      mset (avail p) = add_mset e (mset (avail q)) \<and> fst e = n
      \<and> (matches n k e \<or> entry_number e = None)"
    and request_finds: "x \<in> set (avail p) \<Longrightarrow> matches n (Some j) x \<Longrightarrow>
      \<exists>e q. request p n (Some j) = Inr (e, q) \<and> matches n (Some j) e"
    and request_fails: "request p n k = Inl err \<Longrightarrow>
      err = ConstraintError \<and> (\<forall>x \<in> set (avail p). \<not> matches n k x)"
begin

lemma request_size: "request p n k = Inr (e, q) \<Longrightarrow> length (avail q) < length (avail p)"
  using request_takes [of p n k e q] by (metis size_mset size_add_mset lessI)

lemma request_members: "request p n k = Inr (e, q) \<Longrightarrow> set (avail p) = insert e (set (avail q))"
  using request_takes [of p n k e q] by (metis set_mset_mset set_mset_add_mset_insert)

end

section \<open>The table itself\<close>

definition table_request :: "io_table requester" where
  "table_request io n k =
     (case List.extract (matches n k) io of
        None \<Rightarrow> Inl ConstraintError
      | Some (before, e, after) \<Rightarrow> Inr (e, before @ after))"

interpretation table: litex_platform table_request id
proof
  fix p n k e q
  assume "table_request p n k = Inr (e, q)"
  then obtain before after where "p = before @ e # after" "q = before @ after" "matches n k e"
    by (auto simp: table_request_def extract_Some_iff split: option.splits)
  then show "mset (id p) = add_mset e (mset (id q)) \<and> fst e = n \<and> (matches n k e \<or> entry_number e = None)"
    by (simp add: matches_iff)
next
  fix x n j p
  assume "x \<in> set (id p)" "matches n (Some j) x"
  then have "List.extract (matches n (Some j)) p \<noteq> None" by (auto simp: extract_None_iff)
  then show "\<exists>e q. table_request p n (Some j) = Inr (e, q) \<and> matches n (Some j) e"
    by (auto simp: table_request_def extract_Some_iff split: option.splits)
next
  fix p n k err
  assume "table_request p n k = Inl err"
  then show "err = ConstraintError \<and> (\<forall>x \<in> set (id p). \<not> matches n k x)"
    by (auto simp: table_request_def extract_None_iff split: option.splits)
qed

section \<open>The internal oscillator of the UPduino\<close>

text \<open>
  \<open>HfoscRouting\<close> gives out its clock once.  The platform asks LiteX first and turns to it when the
  request fails and is for \<open>sb_hfosc\<close>.  The clock is no pad: as a resource it has no pins.
\<close>

record 'p upduino =
  ud_plat :: 'p
  ud_hfosc_used :: bool

definition mach_clk :: io_entry where
  "mach_clk = (''sb_hfosc'', [])"

definition mk_clk :: "bool \<Rightarrow> (io_entry \<times> bool) py_result" where
  "mk_clk hfosc_used = (if \<not> hfosc_used then Inr (mach_clk, True) else Inl ConstraintError)"

definition upduino_request :: "'p requester \<Rightarrow> 'p upduino requester" where
  "upduino_request request s n k =
     (case request (ud_plat s) n k of
        Inr (sig, p) \<Rightarrow> Inr (sig, s\<lparr>ud_plat := p\<rparr>)
      | Inl err \<Rightarrow>
          if err = ConstraintError
          then if n = ''sb_hfosc''
               then py_bind (mk_clk (ud_hfosc_used s)) (\<lambda>(sig, u). Inr (sig, s\<lparr>ud_hfosc_used := u\<rparr>))
               else Inl ConstraintError
          else Inl err)"

definition upduino_avail :: "('p \<Rightarrow> io_table) \<Rightarrow> 'p upduino \<Rightarrow> io_table" where
  "upduino_avail avail s = avail (ud_plat s) @ (if ud_hfosc_used s then [] else [mach_clk])"

lemma mach_clk_simps [simp]:
  "fst mach_clk = ''sb_hfosc''" "entry_number mach_clk = None"
  "matches n (Some j) mach_clk = False" "matches n None mach_clk = (n = ''sb_hfosc'')"
  by (auto simp: mach_clk_def matches_iff entry_number_def)

lemma upduino_cases:
  assumes "upduino_request request s n k = r"
  obtains (pad) sig p where "request (ud_plat s) n k = Inr (sig, p)" "r = Inr (sig, s\<lparr>ud_plat := p\<rparr>)"
  | (clock) "request (ud_plat s) n k = Inl ConstraintError" "n = ''sb_hfosc''" "\<not> ud_hfosc_used s"
      "r = Inr (mach_clk, s\<lparr>ud_hfosc_used := True\<rparr>)"
  | (none) err where "request (ud_plat s) n k = Inl err" "r = Inl err"
      "n = ''sb_hfosc'' \<and> err = ConstraintError \<longrightarrow> ud_hfosc_used s"
  using assms by (auto simp: upduino_request_def mk_clk_def split: sum.splits prod.splits if_splits)

lemma upduino_platform:
  assumes "litex_platform request avail"
  shows "litex_platform (upduino_request request) (upduino_avail avail)"
proof
  note takes = litex_platform.request_takes [OF assms] and finds = litex_platform.request_finds [OF assms]
    and fails = litex_platform.request_fails [OF assms]
  show "mset (upduino_avail avail p) = add_mset e (mset (upduino_avail avail q)) \<and> fst e = n
      \<and> (matches n k e \<or> entry_number e = None)"
    if "upduino_request request p n k = Inr (e, q)" for p n k e q
    using that
  proof (cases rule: upduino_cases)
    case (pad sig r)
    then show ?thesis using takes [OF pad(1)] by (auto simp: upduino_avail_def)
  qed (auto simp: upduino_avail_def)
  show "\<exists>e q. upduino_request request p n (Some j) = Inr (e, q) \<and> matches n (Some j) e"
    if "x \<in> set (upduino_avail avail p)" "matches n (Some j) x" for x p n j
  proof -
    have "x \<in> set (avail (ud_plat p))" using that by (auto simp: upduino_avail_def split: if_splits)
    from finds [OF this that(2)] show ?thesis by (auto simp: upduino_request_def)
  qed
  show "err = ConstraintError \<and> (\<forall>x \<in> set (upduino_avail avail p). \<not> matches n k x)"
    if "upduino_request request p n k = Inl err" for p n k err
    using that
  proof (cases rule: upduino_cases)
    case (none err')
    then show ?thesis using fails [OF none(1)]
      by (cases k) (auto simp: upduino_avail_def split: if_splits)
  qed auto
qed

interpretation upduino: litex_platform "upduino_request table_request" "upduino_avail id"
  by (rule upduino_platform) (rule table.litex_platform_axioms)

section \<open>Several requests\<close>

fun request_list :: "'p requester \<Rightarrow> 'p \<Rightarrow> (string \<times> nat option) list \<Rightarrow> (io_entry list \<times> 'p) py_result" where
  "request_list request p [] = Inr ([], p)"
| "request_list request p ((n, k) # rs) =
     py_bind (request p n k) (\<lambda>(e, q). py_bind (request_list request q rs) (\<lambda>(es, r). Inr (e # es, r)))"

context litex_platform
begin

text \<open>Nothing is given out twice.\<close>

lemma request_list_takes:
  "request_list request p rs = Inr (es, q) \<Longrightarrow>
     mset (avail p) = mset es + mset (avail q) \<and> map fst es = map fst rs"
proof (induction rs arbitrary: p es)
  case (Cons r rs)
  obtain n k where [simp]: "r = (n, k)" by force
  from Cons.prems obtain e p1 es1 where step: "request p n k = Inr (e, p1)"
      "request_list request p1 rs = Inr (es1, q)" "es = e # es1"
    by (auto simp: py_bind_Inr_iff)
  with Cons.IH [OF step(2)] request_takes [OF step(1)] show ?case by simp
qed simp

end

end
