(* ===== verification/Cas.thy ===== *)
theory Cas
  imports Complex_Main Platform_Request
begin

text \<open>
  Control and status (\<open>gateware/cas.py\<close>): the block asks the platform for \<open>user_led 0\<close>,
  \<open>user_led 1\<close>, \<open>...\<close> until a request fails, likewise for the RGB LEDs, the switches and the
  buttons, and connects what it got to GPIO registers.  The four loops are \<open>while True\<close> loops that
  only a \<open>ConstraintError\<close> ends; \<open>None\<close> is a loop that does not end.
\<close>

section \<open>Finding the pads\<close>

partial_function (option) request_all ::
  "'p requester \<Rightarrow> string \<Rightarrow> io_entry list \<Rightarrow> 'p \<Rightarrow> (io_entry list \<times> 'p) py_result option" where
  "request_all request name acc p =
     (case request p name (Some (length acc)) of
        Inl err \<Rightarrow> Some (if err = ConstraintError then Inr (acc, p) else Inl err)
      | Inr (e, q) \<Rightarrow> request_all request name (acc @ [e]) q)"

text \<open>What drives a bit of the LED register: a pad, or the inverse of a colour of an RGB LED.\<close>

datatype led_driver = User_led io_entry | Rgb_pin io_entry string

record cas =
  cas_leds :: "led_driver list"
  cas_sws :: "io_entry list"
  cas_btns :: "io_entry list"
  cas_debounce :: int

fun is_subsignal :: "string \<Rightarrow> io_item \<Rightarrow> bool" where
  "is_subsignal n (Subsignal m is) = (n = m)"
| "is_subsignal n _ = False"

definition has_field :: "io_entry \<Rightarrow> string \<Rightarrow> bool" where
  "has_field e n = list_ex (is_subsignal n) (snd e)"

definition rgb_drivers :: "io_entry \<Rightarrow> led_driver list py_result" where
  "rgb_drivers e =
     (if has_field e ''r'' \<and> has_field e ''g'' \<and> has_field e ''b''
      then Inr [Rgb_pin e ''r'', Rgb_pin e ''g'', Rgb_pin e ''b'']
      else Inl AttributeError)"

definition obind :: "'a py_result option \<Rightarrow> ('a \<Rightarrow> 'b py_result option) \<Rightarrow> 'b py_result option" where
  "obind m f = (case m of None \<Rightarrow> None | Some (Inl e) \<Rightarrow> Some (Inl e) | Some (Inr x) \<Rightarrow> f x)"

definition ControlAndStatus :: "'p requester \<Rightarrow> 'p \<Rightarrow> rat \<Rightarrow> (cas \<times> 'p) py_result option" where
  "ControlAndStatus request p clk_freq =
     obind (request_all request ''user_led'' [] p) (\<lambda>(user_leds, p).
     obind (request_all request ''rgb_led'' [] p) (\<lambda>(rgb_leds, p).
     obind (Some (py_mapM rgb_drivers rgb_leds)) (\<lambda>rgb.
     obind (request_all request ''user_sw'' [] p) (\<lambda>(user_sws, p).
     obind (request_all request ''user_btn'' [] p) (\<lambda>(user_btns, p).
     Some (Inr (\<lparr>cas_leds = map User_led user_leds @ concat rgb, cas_sws = user_sws,
                 cas_btns = user_btns, cas_debounce = \<lfloor>clk_freq / 100\<rfloor>\<rparr>, p)))))))"

text \<open>
  The constants that tell the firmware the numbers, the levels of the LED pins for a value of the
  LED register, and the value of the switch register for the levels of the pads.
\<close>

definition cas_constants :: "cas \<Rightarrow> (string \<times> nat) list" where
  "cas_constants c =
     [(''leds_count'', length (cas_leds c)), (''switches_count'', length (cas_sws c)),
      (''buttons_count'', length (cas_btns c))]"

fun driven :: "led_driver \<Rightarrow> bool \<Rightarrow> (io_entry \<times> string option) \<times> bool" where
  "driven (User_led e) b = ((e, None), b)"
| "driven (Rgb_pin e c) b = ((e, Some c), \<not> b)"

definition led_levels :: "cas \<Rightarrow> bool list \<Rightarrow> ((io_entry \<times> string option) \<times> bool) list" where
  "led_levels c leds = map2 driven (cas_leds c) leds"

definition switch_status :: "cas \<Rightarrow> (io_entry \<Rightarrow> bool) \<Rightarrow> bool list" where
  "switch_status c level = map (\<lambda>e. \<not> level e) (cas_sws c)"

section \<open>The loops end\<close>

text \<open>\<open>counted n io k\<close>: the table has the resources \<open>n 0\<close> to \<open>n (k - 1)\<close> and no \<open>n k\<close>.\<close>

definition has_number :: "string \<Rightarrow> io_table \<Rightarrow> nat \<Rightarrow> bool" where
  "has_number n io j = (\<exists>e \<in> set io. matches n (Some j) e)"

definition counted :: "string \<Rightarrow> io_table \<Rightarrow> nat \<Rightarrow> bool" where
  "counted n io k = ((\<forall>j < k. has_number n io j) \<and> \<not> has_number n io k)"

definition numbered :: "string \<Rightarrow> io_table \<Rightarrow> bool" where
  "numbered n io = (\<forall>e \<in> set io. fst e = n \<longrightarrow> entry_number e \<noteq> None)"

definition in_order :: "string \<Rightarrow> io_entry list \<Rightarrow> bool" where
  "in_order n es = (\<forall>j < length es. matches n (Some j) (es ! j))"

lemma in_order_snoc: "in_order n es \<Longrightarrow> matches n (Some (length es)) e \<Longrightarrow> in_order n (es @ [e])"
  by (auto simp: in_order_def nth_append less_Suc_eq)

lemma in_order_has_number: "in_order n es \<Longrightarrow> has_number n es j \<longleftrightarrow> j < length es"
  by (fastforce simp: in_order_def has_number_def matches_iff in_set_conv_nth)

lemma in_order_name: "in_order n es \<Longrightarrow> e \<in> set es \<Longrightarrow> fst e = n"
  by (auto simp: in_order_def matches_iff in_set_conv_nth)

lemma has_number_mset:
  "mset io = mset es + mset jo \<Longrightarrow> has_number n io j \<longleftrightarrow> has_number n es j \<or> has_number n jo j"
  by (metis (no_types, lifting) Un_iff has_number_def set_mset_mset set_mset_union)

lemma numbered_mset: "mset io = mset es + mset jo \<Longrightarrow> numbered n io \<Longrightarrow> numbered n jo"
  by (metis (no_types, lifting) UnI2 numbered_def set_mset_mset set_mset_union)

context litex_platform
begin

lemma request_all_returns:
  assumes "numbered n (avail p)" "in_order n acc"
  shows "\<exists>es q. request_all request n acc p = Some (Inr (acc @ es, q)) \<and> in_order n (acc @ es)
     \<and> mset (avail p) = mset es + mset (avail q) \<and> \<not> has_number n (avail q) (length (acc @ es))"
  using assms
proof (induction "length (avail p)" arbitrary: p acc rule: less_induct)
  case less
  show ?case
  proof (cases "request p n (Some (length acc))")
    case (Inl err)
    with request_fails [OF Inl] less.prems(2) show ?thesis
      by (auto simp: request_all.simps has_number_def)
  next
    case (Inr r)
    then obtain e q where r: "request p n (Some (length acc)) = Inr (e, q)" by (cases r) auto
    note takes = request_takes [OF r]
    have "matches n (Some (length acc)) e"
      using takes request_members [OF r] less.prems(1) by (auto simp: numbered_def)
    from in_order_snoc [OF less.prems(2) this] have "in_order n (acc @ [e])" .
    moreover have "numbered n (avail q)"
      using less.prems(1) request_members [OF r] by (simp add: numbered_def)
    ultimately obtain es s where
        "request_all request n (acc @ [e]) q = Some (Inr ((acc @ [e]) @ es, s))"
        "in_order n ((acc @ [e]) @ es)" "mset (avail q) = mset es + mset (avail s)"
        "\<not> has_number n (avail s) (length ((acc @ [e]) @ es))"
      using less.hyps [OF request_size [OF r]] by blast
    then have "request_all request n acc p = Some (Inr (acc @ e # es, s)) \<and> in_order n (acc @ e # es)
        \<and> mset (avail p) = mset (e # es) + mset (avail s) \<and> \<not> has_number n (avail s) (length (acc @ e # es))"
      using r takes by (simp add: request_all.simps)
    then show ?thesis by blast
  qed
qed

lemma request_all_counts:
  assumes "numbered n (avail p)"
  shows "\<exists>es q. request_all request n [] p = Some (Inr (es, q)) \<and> in_order n es
     \<and> mset (avail p) = mset es + mset (avail q) \<and> counted n (avail p) (length es)"
proof -
  have "in_order n []" by (simp add: in_order_def)
  from request_all_returns [OF assms this] obtain es q where
      r: "request_all request n [] p = Some (Inr (es, q))" "in_order n es"
      "mset (avail p) = mset es + mset (avail q)" "\<not> has_number n (avail q) (length es)"
    by auto
  with in_order_has_number [OF r(2)] has_number_mset [OF r(3)] show ?thesis
    by (auto simp: counted_def)
qed

end

lemma counted_unique: "counted n io j \<Longrightarrow> counted n io k \<Longrightarrow> j = k"
  by (metis counted_def linorder_neqE_nat)

lemma counted_other:
  assumes "mset io = mset es + mset jo" "in_order m es" "m \<noteq> n"
  shows "counted n jo k = counted n io k"
proof -
  have "has_number n jo j = has_number n io j" for j
    using has_number_mset [OF assms(1)] in_order_name [OF assms(2)] assms(3)
    by (auto simp: has_number_def matches_iff)
  then show ?thesis by (simp add: counted_def)
qed

section \<open>The block as a whole\<close>

definition rgb_ok :: "io_table \<Rightarrow> bool" where
  "rgb_ok io = (\<forall>e \<in> set io. fst e = ''rgb_led'' \<longrightarrow> has_field e ''r'' \<and> has_field e ''g'' \<and> has_field e ''b'')"

definition cas_names :: "string list" where
  "cas_names = [''user_led'', ''rgb_led'', ''user_sw'', ''user_btn'']"

definition rgb_pins :: "io_entry \<Rightarrow> led_driver list" where
  "rgb_pins e = [Rgb_pin e ''r'', Rgb_pin e ''g'', Rgb_pin e ''b'']"

lemma py_mapM_Inr: "\<forall>x \<in> set xs. f x = Inr (g x) \<Longrightarrow> py_mapM f xs = Inr (map g xs)"
  by (induction xs) auto

lemma rgb_drivers_all:
  assumes "rgb_ok io" "set es \<subseteq> set io" "in_order ''rgb_led'' es"
  shows "py_mapM rgb_drivers es = Inr (map rgb_pins es)"
  using assms in_order_name [OF assms(3)]
  by (intro py_mapM_Inr) (auto simp: rgb_ok_def rgb_drivers_def rgb_pins_def)


end
