(* ===== verification/Opsis_Tofe.thy ===== *)
theory Opsis_Tofe
  imports Platform_Io_Spartan6 "HOL-Library.List_Lexorder" "HOL-Library.Char_ord"
begin

text \<open>
  The TOFE expansion connector of the Opsis: the nets of the connector, of the low-speed I/O board
  and of the AXIOM board (\<open>platforms/tofe_lowspeedio.py\<close>, \<open>platforms/tofe_axiom.py\<close>), and the part
  of the Opsis table that \<open>platforms/opsis.py\<close> computes from them, with the second \<open>tofe\<close> entry that
  its loop over the connector appends.  A missing net is Python's \<open>KeyError\<close>.
\<close>

section \<open>Nets\<close>

definition opsis_tofe_io :: "(string, string option) dict" where
  "opsis_tofe_io =
     [(''diff_clk_a0n'', Some ''F15''), (''diff_clk_a0p'', Some ''F14''), (''diff_clk_a1n'',
        Some ''G9''), (''diff_clk_a1p'', Some ''F10''), (''diff_io_a0n'', Some ''C18''),
        (''diff_io_a0p'', Some ''D17''), (''diff_io_a1n'', Some ''A18''), (''diff_io_a1p'', Some
        ''B18''), (''diff_io_a2n'', Some ''G15''), (''diff_io_a2p'', Some ''H14''),
        (''diff_io_a3n'', Some ''G13''), (''diff_io_a3p'', Some ''H13''), (''diff_io_a4n'', Some
        ''E6''), (''diff_io_a4p'', Some ''E5''), (''diff_io_a5n'', Some ''A4''),
        (''diff_io_a5p'', Some ''C4''), (''diff_io_a6n'', Some ''A2''), (''diff_io_a6p'', Some
        ''B2''), (''diff_clk_b0p'', Some ''F16''), (''diff_clk_b0n'', Some ''E16''),
        (''diff_clk_b1n'', Some ''G11''), (''diff_clk_b1p'', Some ''H12''), (''diff_io_b0n'',
        Some ''A20''), (''diff_io_b0p'', Some ''B20''), (''diff_io_b1n'', Some ''F17''),
        (''diff_io_b1p'', Some ''G16''), (''diff_io_b2n'', Some ''A17''), (''diff_io_b2p'', Some
        ''C17''), (''diff_io_b3n'', Some ''H11''), (''diff_io_b3p'', Some ''H10''),
        (''diff_io_b4n'', Some ''D5''), (''diff_io_b4p'', Some ''D4''), (''diff_io_b5n'', Some
        ''A5''), (''diff_io_b5p'', Some ''C5''), (''diff_io_b6n'', Some ''A3''),
        (''diff_io_b6p'', Some ''B3''), (''diff_clk_xn'', Some ''D19''), (''diff_clk_xp'', Some
        ''D18''), (''diff_io_xn'', Some ''A19''), (''diff_io_xp'', Some ''C19''),
        (''diff_io_yn'', Some ''F8''), (''diff_io_yp'', Some ''F7''), (''diff_io_zn'', Some
        ''F9''), (''diff_io_zp'', Some ''G8''), (''io0'', None), (''smclk'', Some ''N6''),
        (''smdat'', Some ''N7''), (''pcie_reset'', Some ''D3'')]"

definition low_speed_io_nets :: "(string, string) dict" where
  "low_speed_io_nets =
     [(''tx'', ''diff_io_xp''), (''rx'', ''diff_io_xn''), (''led1'', ''diff_io_a5p''),
        (''led2'', ''diff_io_a5n''), (''led3'', ''diff_io_b6n''), (''led4'', ''diff_io_a6p''),
        (''sw1'', ''diff_clk_b0p''), (''sw2'', ''diff_clk_b1n''), (''sw3'', ''diff_clk_a1p''),
        (''sw4'', ''diff_clk_a1n''), (''gpio0_n'', ''diff_io_a0n''), (''gpio0_p'',
        ''diff_io_a0p''), (''gpio1_n'', ''diff_io_b0n''), (''gpio1_p'', ''diff_io_b0p''),
        (''gpio2_n'', ''diff_clk_xn''), (''gpio2_p'', ''diff_clk_xp''), (''gpio3_n'',
        ''diff_io_a1n''), (''gpio3_p'', ''diff_io_a1p''), (''gpio4_n'', ''diff_io_a2n''),
        (''gpio4_p'', ''diff_io_a2p''), (''gpio5_n'', ''diff_io_a3n''), (''gpio5_p'',
        ''diff_io_a3p''), (''gpio6_n'', ''diff_clk_a0n''), (''gpio6_p'', ''diff_clk_a0p''),
        (''gpio7_n'', ''diff_io_a4n''), (''gpio7_p'', ''diff_io_a4p''), (''d0'',
        ''diff_io_yn''), (''d1'', ''diff_io_b1p''), (''d2'', ''diff_io_b1n''), (''d3'',
        ''diff_io_b2p''), (''d4'', ''diff_io_b2n''), (''d5'', ''diff_io_yp''), (''d6'',
        ''diff_io_b3n''), (''d7'', ''diff_io_b3p''), (''d8'', ''diff_clk_b0n''), (''d9'',
        ''diff_clk_b0p''), (''d10'', ''diff_io_zn''), (''d11'', ''diff_io_zp''), (''d12'',
        ''diff_io_b4p''), (''d13'', ''diff_io_b4n''), (''d14'', ''diff_io_b5n''), (''d15'',
        ''diff_io_b6p'')]"

definition low_speed_pmod_nets :: "(string, (nat, string) dict) dict" where
  "low_speed_pmod_nets =
     [(''p1'', [(1, ''gpio0_p''), (2, ''gpio1_p''), (3, ''gpio2_p''), (4, ''gpio3_n''), (7,
        ''gpio0_n''), (8, ''gpio1_n''), (9, ''gpio2_n''), (10, ''gpio3_p'')]), (''p2'', [(1,
        ''gpio4_p''), (2, ''gpio4_n''), (3, ''gpio5_p''), (4, ''gpio5_n''), (7, ''gpio6_p''),
        (8, ''gpio6_n''), (9, ''gpio7_p''), (10, ''gpio7_n'')]), (''p3'', [(1, ''d9''), (2,
        ''d11''), (3, ''d13''), (4, ''d15''), (7, ''d8''), (8, ''d10''), (9, ''d12''), (10,
        ''d14'')]), (''p4'', [(1, ''d1''), (2, ''d3''), (3, ''d5''), (4, ''d7''), (7, ''d0''),
        (8, ''d2''), (9, ''d4''), (10, ''d6'')])]"

definition axiom_nets :: "(string, (string, string) dict) dict" where
  "axiom_nets =
     [(''north'', [(''sda'', ''diff_clk_b1p''), (''scl'', ''diff_clk_b1n''), (''io0'',
        ''diff_clk_xp''), (''io1'', ''diff_io_b6n''), (''io2'', ''diff_io_b6p''), (''io3'',
        ''diff_io_zn''), (''io4'', ''diff_io_yn''), (''io5'', ''diff_io_xn''), (''io6'',
        ''diff_io_b0n''), (''io7'', ''diff_io_b0p''), (''lvds_0p'', ''diff_io_b1p''),
        (''lvds_0n'', ''diff_io_b1n''), (''lvds_1p'', ''diff_io_b2p''), (''lvds_1n'',
        ''diff_io_b2n''), (''lvds_2p'', ''diff_io_b3p''), (''lvds_2n'', ''diff_io_b3n''),
        (''lvds_3p'', ''diff_clk_b0p''), (''lvds_3n'', ''diff_clk_b0n''), (''lvds_4p'',
        ''diff_io_b4p''), (''lvds_4n'', ''diff_io_b4n''), (''lvds_5p'', ''diff_io_b5p''),
        (''lvds_5n'', ''diff_io_b5n'')]), (''south'', [(''sda'', ''diff_clk_a1p''), (''scl'',
        ''diff_clk_a1n''), (''io0'', ''diff_clk_xn''), (''io1'', ''diff_io_a6n''), (''io2'',
        ''diff_io_a6p''), (''io3'', ''diff_io_zp''), (''io4'', ''diff_io_yp''), (''io5'',
        ''diff_io_xp''), (''io6'', ''diff_io_a0n''), (''io7'', ''diff_io_a0p''), (''lvds_0p'',
        ''diff_io_a1p''), (''lvds_0n'', ''diff_io_a1n''), (''lvds_1p'', ''diff_io_a2p''),
        (''lvds_1n'', ''diff_io_a2n''), (''lvds_2p'', ''diff_io_a3p''), (''lvds_2n'',
        ''diff_io_a3n''), (''lvds_3p'', ''diff_clk_a0p''), (''lvds_3n'', ''diff_clk_a0n''),
        (''lvds_4p'', ''diff_io_a4p''), (''lvds_4n'', ''diff_io_a4n''), (''lvds_5p'',
        ''diff_io_a5p''), (''lvds_5n'', ''diff_io_a5n'')])]"

datatype axiom_key = AxiomLed string nat | AxiomPmod string

datatype axiom_value = AxiomNet string string | AxiomPins "(string, string \<times> string) dict"

definition axiom_3pmod :: "(axiom_key, axiom_value) dict" where
  "axiom_3pmod =
     [(AxiomLed ''nled'' 0, AxiomNet ''north'' ''io0''), (AxiomLed ''nled'' 1, AxiomNet
        ''north'' ''io1''), (AxiomLed ''nled'' 2, AxiomNet ''north'' ''io2''), (AxiomLed
        ''nled'' 3, AxiomNet ''north'' ''io3''), (AxiomLed ''nled'' 4, AxiomNet ''north''
        ''io4''), (AxiomLed ''nled'' 5, AxiomNet ''north'' ''io5''), (AxiomLed ''nled'' 6,
        AxiomNet ''north'' ''io6''), (AxiomLed ''nled'' 7, AxiomNet ''north'' ''io7''),
        (AxiomLed ''sled'' 0, AxiomNet ''south'' ''io0''), (AxiomLed ''sled'' 1, AxiomNet
        ''south'' ''io1''), (AxiomLed ''sled'' 2, AxiomNet ''south'' ''io2''), (AxiomLed
        ''sled'' 3, AxiomNet ''south'' ''io3''), (AxiomLed ''sled'' 4, AxiomNet ''south''
        ''io4''), (AxiomLed ''sled'' 5, AxiomNet ''south'' ''io5''), (AxiomLed ''sled'' 6,
        AxiomNet ''south'' ''io6''), (AxiomLed ''sled'' 7, AxiomNet ''south'' ''io7''),
        (AxiomPmod ''psouth'', AxiomPins [(''01'', (''south'', ''lvds_2n'')), (''02'',
        (''south'', ''lvds_3n'')), (''03'', (''south'', ''lvds_4n'')), (''04'', (''south'',
        ''lvds_5n'')), (''07'', (''south'', ''lvds_2p'')), (''08'', (''south'', ''lvds_3p'')),
        (''09'', (''south'', ''lvds_4p'')), (''10'', (''south'', ''lvds_5p''))]), (AxiomPmod
        ''pmiddle'', AxiomPins [(''01'', (''north'', ''lvds_5p'')), (''02'', (''north'',
        ''lvds_4p'')), (''03'', (''south'', ''lvds_0p'')), (''04'', (''south'', ''lvds_1p'')),
        (''07'', (''north'', ''lvds_5n'')), (''08'', (''north'', ''lvds_4n'')), (''09'',
        (''south'', ''lvds_0n'')), (''10'', (''south'', ''lvds_1n''))]), (AxiomPmod ''pnorth'',
        AxiomPins [(''01'', (''north'', ''lvds_0n'')), (''02'', (''north'', ''lvds_1n'')),
        (''03'', (''north'', ''lvds_2n'')), (''04'', (''north'', ''lvds_3n'')), (''07'',
        (''north'', ''lvds_0p'')), (''08'', (''north'', ''lvds_1p'')), (''09'', (''north'',
        ''lvds_2p'')), (''10'', (''north'', ''lvds_3p''))])]"

definition axiom_hdmi :: "(string, string) dict" where
  "axiom_hdmi =
     [(''io1'', ''eq0''), (''io2'', ''ihp''), (''io3'', ''ddet''), (''io4'', ''eq1''), (''io5'',
        ''ddc_en''), (''io6'', ''oe''), (''io7'', ''en''), (''lvds_0p'', ''data2_p''),
        (''lvds_0n'', ''data2_n''), (''lvds_1p'', ''data1_p''), (''lvds_1n'', ''data1_n''),
        (''lvds_2p'', ''data0_p''), (''lvds_2n'', ''data0_n''), (''lvds_3p'', ''clk_p''),
        (''lvds_3n'', ''clk_n''), (''lvds_5p'', ''scl''), (''lvds_5n'', ''sda'')]"
section \<open>Lookups\<close>

definition tofe_pin :: "string \<Rightarrow> string option py_result" where
  "tofe_pin tofe_netname = dict_get opsis_tofe_io tofe_netname"

definition tofe_low_speed_io :: "string \<Rightarrow> string py_result" where
  "tofe_low_speed_io lowspeedio_netname = dict_get low_speed_io_nets lowspeedio_netname"

definition tofe_low_speed_pmod_io :: "string \<Rightarrow> nat \<Rightarrow> string py_result" where
  "tofe_low_speed_pmod_io pmod_name pin =
     py_bind (dict_get low_speed_pmod_nets pmod_name) (\<lambda>d. py_bind (dict_get d pin) tofe_low_speed_io)"

text \<open>\<open>Pins\<close> of what a lookup returns; \<open>Pins(None)\<close> has no pins.\<close>

definition pins_of :: "string option \<Rightarrow> io_item" where
  "pins_of p = Pins (case p of None \<Rightarrow> [] | Some s \<Rightarrow> [s])"

definition tofe_pins :: "string py_result \<Rightarrow> io_item py_result" where
  "tofe_pins net = py_bind net (\<lambda>n. py_bind (tofe_pin n) (\<lambda>p. Inr (pins_of p)))"

section \<open>The end of the Opsis table\<close>

definition tofe_i2c_entry :: "io_entry py_result" where
  "tofe_i2c_entry =
     py_bind (tofe_pins (Inr ''pcie_reset'')) (\<lambda>rst.
     py_bind (tofe_pins (Inr ''smclk'')) (\<lambda>scl.
     py_bind (tofe_pins (Inr ''smdat'')) (\<lambda>sda.
     Inr (''tofe'', [Number 0, Subsignal ''rst'' [rst, IOStandard ''I2C'', Misc ''PULLUP''],
                     Subsignal ''scl'' [scl, IOStandard ''I2C''],
                     Subsignal ''sda'' [sda, IOStandard ''I2C'']]))))"

text \<open>\<open>" ".join\<close> of pins, one of which may be \<open>None\<close>.\<close>

definition join_pins :: "string option list \<Rightarrow> string py_result" where
  "join_pins ps = (if None \<in> set ps then Inl TypeError else Inr (join_with '' '' (map the ps)))"

text \<open>The nets in order of their names, for evaluation.\<close>

definition tofe_sorted :: "(string, string option) dict" where
  "tofe_sorted =
     [(''diff_clk_a0n'', Some ''F15''), (''diff_clk_a0p'', Some ''F14''), (''diff_clk_a1n'', Some
        ''G9''), (''diff_clk_a1p'', Some ''F10''), (''diff_clk_b0n'', Some ''E16''),
        (''diff_clk_b0p'', Some ''F16''), (''diff_clk_b1n'', Some ''G11''), (''diff_clk_b1p'', Some
        ''H12''), (''diff_clk_xn'', Some ''D19''), (''diff_clk_xp'', Some ''D18''),
        (''diff_io_a0n'', Some ''C18''), (''diff_io_a0p'', Some ''D17''), (''diff_io_a1n'', Some
        ''A18''), (''diff_io_a1p'', Some ''B18''), (''diff_io_a2n'', Some ''G15''),
        (''diff_io_a2p'', Some ''H14''), (''diff_io_a3n'', Some ''G13''), (''diff_io_a3p'', Some
        ''H13''), (''diff_io_a4n'', Some ''E6''), (''diff_io_a4p'', Some ''E5''), (''diff_io_a5n'',
        Some ''A4''), (''diff_io_a5p'', Some ''C4''), (''diff_io_a6n'', Some ''A2''),
        (''diff_io_a6p'', Some ''B2''), (''diff_io_b0n'', Some ''A20''), (''diff_io_b0p'', Some
        ''B20''), (''diff_io_b1n'', Some ''F17''), (''diff_io_b1p'', Some ''G16''),
        (''diff_io_b2n'', Some ''A17''), (''diff_io_b2p'', Some ''C17''), (''diff_io_b3n'', Some
        ''H11''), (''diff_io_b3p'', Some ''H10''), (''diff_io_b4n'', Some ''D5''), (''diff_io_b4p'',
        Some ''D4''), (''diff_io_b5n'', Some ''A5''), (''diff_io_b5p'', Some ''C5''),
        (''diff_io_b6n'', Some ''A3''), (''diff_io_b6p'', Some ''B3''), (''diff_io_xn'', Some
        ''A19''), (''diff_io_xp'', Some ''C19''), (''diff_io_yn'', Some ''F8''), (''diff_io_yp'',
        Some ''F7''), (''diff_io_zn'', Some ''F9''), (''diff_io_zp'', Some ''G8''), (''io0'', None),
        (''pcie_reset'', Some ''D3''), (''smclk'', Some ''N6''), (''smdat'', Some ''N7'')]"

lemma tofe_sorted_eq: "sort_key fst opsis_tofe_io = tofe_sorted"
  by code_simp

definition tofe_bank :: "string \<Rightarrow> string \<Rightarrow> io_item list py_result" where
  "tofe_bank suffix part =
     py_bind (join_pins (map snd (filter (\<lambda>(n, p). endswith n suffix \<and> contains n part)
                                         (sort_key fst opsis_tofe_io))))
       (\<lambda>ps. Inr [Pins [ps]])"

lemma tofe_bank_code [code]:
  "tofe_bank suffix part =
     py_bind (join_pins (map snd (filter (\<lambda>(n, p). endswith n suffix \<and> contains n part) tofe_sorted)))
       (\<lambda>ps. Inr [Pins [ps]])"
  by (simp add: tofe_bank_def tofe_sorted_eq)

text \<open>The entry \<open>tofe_io\<close> has no number.\<close>

definition tofe_io_entry :: "io_entry py_result" where
  "tofe_io_entry =
     py_bind (tofe_bank ''p'' ''io_a'') (\<lambda>a_io_p. py_bind (tofe_bank ''n'' ''io_a'') (\<lambda>a_io_n.
     py_bind (tofe_bank ''p'' ''io_b'') (\<lambda>b_io_p. py_bind (tofe_bank ''n'' ''io_b'') (\<lambda>b_io_n.
     Inr (''tofe_io'', [Subsignal ''a_io_p'' a_io_p, Subsignal ''a_io_n'' a_io_n,
                        Subsignal ''b_io_p'' b_io_p, Subsignal ''b_io_n'' b_io_n])))))"

definition lsio_serial_entry :: "string \<Rightarrow> string py_result \<Rightarrow> string py_result \<Rightarrow> io_entry py_result" where
  "lsio_serial_entry name tx rx =
     py_bind (tofe_pins tx) (\<lambda>tx. py_bind (tofe_pins rx) (\<lambda>rx.
     Inr (name, [Number 0, Subsignal ''tx'' [tx], Subsignal ''rx'' [rx, Misc ''PULLUP''], IOStandard ''LVCMOS33''])))"

definition lsio_gpio_entry :: "string \<Rightarrow> string \<Rightarrow> int \<times> string \<Rightarrow> io_entry py_result" where
  "lsio_gpio_entry name misc kn =
     py_bind (tofe_pins (tofe_low_speed_io (snd kn))) (\<lambda>p.
     Inr (name, [Number (fst kn), p, IOStandard ''LVCMOS33'', Misc misc]))"

definition opsis_io_tofe :: "io_table py_result" where
  "opsis_io_tofe =
     py_bind tofe_i2c_entry (\<lambda>i2c. py_bind tofe_io_entry (\<lambda>io.
     py_bind (lsio_serial_entry ''tofe_lsio_serial'' (tofe_low_speed_io ''rx'') (tofe_low_speed_io ''tx'')) (\<lambda>serial.
     py_bind (py_mapM (lsio_gpio_entry ''tofe_lsio_user_led'' ''DRIVE=12'')
                [(0, ''led1''), (1, ''led2''), (2, ''led3''), (3, ''led4'')]) (\<lambda>leds.
     py_bind (py_mapM (lsio_gpio_entry ''tofe_lsio_user_sw'' ''PULLUP'')
                [(0, ''sw1''), (1, ''sw2''), (2, ''sw3''), (3, ''sw4'')]) (\<lambda>sws.
     py_bind (lsio_serial_entry ''tofe_lsio_pmod_serial''
                (tofe_low_speed_pmod_io ''p3'' 2) (tofe_low_speed_pmod_io ''p3'' 3)) (\<lambda>pmod.
     Inr ([i2c, io, serial] @ leds @ sws @ [pmod])))))))"

section \<open>The connector as one resource\<close>

text \<open>
  The loop over the connector collects the differential nets in groups, a new pair of groups (N,
  then P) whenever the second part of the name changes.  A group is its name followed by its nets.
\<close>

type_synonym tofe_groups = "string list list"

definition push_net :: "nat \<Rightarrow> string \<Rightarrow> tofe_groups \<Rightarrow> tofe_groups" where
  "push_net back n gs = gs[length gs - back := gs ! (length gs - back) @ [n]]"

definition tofe_signals_step ::
  "string option \<times> tofe_groups \<Rightarrow> string \<Rightarrow> (string option \<times> tofe_groups) py_result" where
  "tofe_signals_step st n =
     (if \<not> startswith n ''diff'' then Inr st
      else case split_char CHR ''_'' n [] of
        [u, t, p] \<Rightarrow>
          py_bind
            (if Some t \<noteq> fst st
             then let gs = snd st in
               if length (last gs) \<noteq> length (last (butlast gs)) then Inl AssertionError
               else if p = [] then Inl IndexError
               else Inr (Some t, gs @ [[join_with ''_'' [t, [hd p], ''n'']], [join_with ''_'' [t, [hd p], ''p'']]])
             else Inr st)
            (\<lambda>(pt, gs).
              Inr (pt, if endswith p ''n'' then push_net 2 n gs
                       else if endswith p ''p'' then push_net 1 n gs else gs))
      | _ \<Rightarrow> Inl ValueError)"

fun tofe_signals_loop ::
  "string list \<Rightarrow> string option \<times> tofe_groups \<Rightarrow> (string option \<times> tofe_groups) py_result" where
  "tofe_signals_loop [] st = Inr st"
| "tofe_signals_loop (n # ns) st = py_bind (tofe_signals_step st n) (tofe_signals_loop ns)"

definition tofe_signals :: "tofe_groups py_result" where
  "tofe_signals = py_bind (tofe_signals_loop (map fst opsis_tofe_io) (None, [[], []])) (\<lambda>st. Inr (snd st))"

definition tofe_group_item :: "string list \<Rightarrow> io_item py_result" where
  "tofe_group_item g =
     py_bind (py_mapM tofe_pin (tl g)) (\<lambda>ps. py_bind (join_pins ps) (\<lambda>s.
     Inr (Subsignal (hd g) [Pins [s], IOStandard ''LVCMOS33''])))"

definition tofe_connector_entry :: "io_entry py_result" where
  "tofe_connector_entry =
     py_bind tofe_signals (\<lambda>gs. py_bind (py_mapM tofe_group_item (drop 2 gs)) (\<lambda>items.
     Inr (''tofe'', Number 0 # items)))"

definition opsis_io :: "io_table py_result" where
  "opsis_io =
     py_bind opsis_io_tofe (\<lambda>tofe. py_bind tofe_connector_entry (\<lambda>conn. Inr (opsis_io_fixed @ tofe @ [conn])))"

section \<open>The Atlys table\<close>

text \<open>
  Bank 2 of the Atlys is fed by one of two rails.  \<open>Platform.__init__\<close> extends the table by what
  needs 3.3 V, then sets the level of the bank's I/O standard; an unknown rail is a \<open>SystemError\<close>.
\<close>

definition LVCMOS_set :: "string \<Rightarrow> string py_result" where
  "LVCMOS_set value = dict_get [(''VCC2V5'', ''LVCMOS25''), (''VCC3V3'', ''LVCMOS33'')] value"

definition atlys_io :: "string \<Rightarrow> io_table py_result" where
  "atlys_io vccb2_voltage =
     (if vccb2_voltage = ''VCC3V3'' then
        py_bind (LVCMOS_set vccb2_voltage) (\<lambda>bank2. Inr (atlys_io_fixed bank2 @ atlys_io_vccb2_3v3 bank2))
      else if vccb2_voltage = ''VCC2V5'' then
        py_bind (LVCMOS_set vccb2_voltage) (\<lambda>bank2. Inr (atlys_io_fixed bank2 @ atlys_io_vccb2_2v5))
      else Inl SystemError)"

end
