(* ===== verification/Platform_Io_Ice40.thy ===== *)
theory Platform_Io_Ice40
  imports Pins
begin

text \<open>
  The pin and connector tables of the iCE40 platforms, \<open>_io\<close> and \<open>_connectors\<close> in \<open>platforms/*.py\<close>.
  A long table is cut into numbered parts.
\<close>

definition icebreaker_io :: "io_table" where
  "icebreaker_io =
     [(''user_led_n'', [Number 0, Pins [''11''], IOStandard ''LVCMOS33'']),
      (''user_led_n'', [Number 1, Pins [''37''], IOStandard ''LVCMOS33'']),
      (''user_ledr_n'', [Number 0, Pins [''11''], IOStandard ''LVCMOS33'']),
      (''user_ledg_n'', [Number 0, Pins [''37''], IOStandard ''LVCMOS33'']),
      (''user_btn_n'', [Number 0, Pins [''10''], IOStandard ''LVCMOS33'']),
      (''serial'', [Number 0, Subsignal ''rx'' [Pins [''6'']], Subsignal ''tx'' [Pins [''9''],
        Misc ''PULLUP''], IOStandard ''LVCMOS33'']),
      (''spiflash'', [Number 0, Subsignal ''cs_n'' [Pins [''16''], IOStandard ''LVCMOS33''],
        Subsignal ''clk'' [Pins [''15''], IOStandard ''LVCMOS33''], Subsignal ''miso'' [Pins
        [''17''], IOStandard ''LVCMOS33''], Subsignal ''mosi'' [Pins [''14''], IOStandard
        ''LVCMOS33''], Subsignal ''wp'' [Pins [''12''], IOStandard ''LVCMOS33''], Subsignal
        ''hold'' [Pins [''13''], IOStandard ''LVCMOS33'']]),
      (''spiflash4x'', [Number 0, Subsignal ''cs_n'' [Pins [''16''], IOStandard ''LVCMOS33''],
        Subsignal ''clk'' [Pins [''15''], IOStandard ''LVCMOS33''], Subsignal ''dq'' [Pins
        [''14 17 12 13''], IOStandard ''LVCMOS33'']]),
      (''clk12'', [Number 0, Pins [''35''], IOStandard ''LVCMOS33''])]"

definition icebreaker_connectors :: "connector_table" where
  "icebreaker_connectors =
     [(''PMOD1A'', Numbered ''4 2 47 45 3 48 46 44''),
      (''PMOD1B'', Numbered ''43 38 34 31 42 36 32 28''),
      (''PMOD2'', Numbered ''27 25 21 19 26 23 20 18''),
      (''RGBLED'', Numbered ''39 40 41'')]"

definition icebreaker_break_off_pmod :: "io_table" where
  "icebreaker_break_off_pmod =
     [(''user_btn'', [Number 0, Pins [''PMOD2:6''], IOStandard ''LVCMOS33'']),
      (''user_btn'', [Number 1, Pins [''PMOD2:3''], IOStandard ''LVCMOS33'']),
      (''user_btn'', [Number 2, Pins [''PMOD2:7''], IOStandard ''LVCMOS33'']),
      (''user_led'', [Number 0, Pins [''PMOD2:4''], IOStandard ''LVCMOS33'']),
      (''user_led'', [Number 1, Pins [''PMOD2:0''], IOStandard ''LVCMOS33'']),
      (''user_led'', [Number 2, Pins [''PMOD2:1''], IOStandard ''LVCMOS33'']),
      (''user_led'', [Number 3, Pins [''PMOD2:5''], IOStandard ''LVCMOS33'']),
      (''user_led'', [Number 4, Pins [''PMOD2:2''], IOStandard ''LVCMOS33'']),
      (''user_ledr'', [Number 0, Pins [''PMOD2:4''], IOStandard ''LVCMOS33'']),
      (''user_ledg'', [Number 0, Pins [''PMOD2:0''], IOStandard ''LVCMOS33'']),
      (''user_ledg'', [Number 1, Pins [''PMOD2:1''], IOStandard ''LVCMOS33'']),
      (''user_ledg'', [Number 2, Pins [''PMOD2:5''], IOStandard ''LVCMOS33'']),
      (''user_ledg'', [Number 3, Pins [''PMOD2:2''], IOStandard ''LVCMOS33''])]"

definition icebreaker_rgb_led :: "io_table" where
  "icebreaker_rgb_led =
     [(''rgbled'', [Number 0, Subsignal ''rgb0'' [Pins [''RGBLED:0'']], Subsignal ''rgb1'' [Pins
        [''RGBLED:1'']], Subsignal ''rgb2'' [Pins [''RGBLED:2'']], IOStandard ''LVCMOS33''])]"

definition ice40_hx8k_b_evn_io :: "io_table" where
  "ice40_hx8k_b_evn_io =
     [(''user_led'', [Number 0, Pins [''B5''], IOStandard ''LVCMOS33'']),
      (''user_led'', [Number 1, Pins [''B4''], IOStandard ''LVCMOS33'']),
      (''user_led'', [Number 2, Pins [''A2''], IOStandard ''LVCMOS33'']),
      (''user_led'', [Number 3, Pins [''A1''], IOStandard ''LVCMOS33'']),
      (''user_led'', [Number 4, Pins [''C5''], IOStandard ''LVCMOS33'']),
      (''user_led'', [Number 5, Pins [''C4''], IOStandard ''LVCMOS33'']),
      (''user_led'', [Number 6, Pins [''B3''], IOStandard ''LVCMOS33'']),
      (''user_led'', [Number 7, Pins [''C3''], IOStandard ''LVCMOS33'']),
      (''serial'', [Number 0, Subsignal ''rx'' [Pins [''B10'']], Subsignal ''tx'' [Pins
        [''B12''], Misc ''PULLUP''], Subsignal ''rts'' [Pins [''B13''], Misc ''PULLUP''],
        Subsignal ''cts'' [Pins [''A15''], Misc ''PULLUP''], Subsignal ''dtr'' [Pins [''A16''],
        Misc ''PULLUP''], Subsignal ''dsr'' [Pins [''B14''], Misc ''PULLUP''], Subsignal ''dcd''
        [Pins [''B15''], Misc ''PULLUP''], IOStandard ''LVCMOS33'']),
      (''spiflash'', [Number 0, Subsignal ''cs_n'' [Pins [''R12''], IOStandard ''LVCMOS33''],
        Subsignal ''clk'' [Pins [''R11''], IOStandard ''LVCMOS33''], Subsignal ''mosi'' [Pins
        [''P12''], IOStandard ''LVCMOS33''], Subsignal ''miso'' [Pins [''P11''], IOStandard
        ''LVCMOS33'']]),
      (''clk12'', [Number 0, Pins [''J3''], IOStandard ''LVCMOS33''])]"

definition ice40_up5k_b_evn_io :: "io_table" where
  "ice40_up5k_b_evn_io =
     [(''rgb_led'', [Number 0, Subsignal ''r'' [Pins [''41'']], Subsignal ''g'' [Pins [''40'']],
        Subsignal ''b'' [Pins [''39'']], IOStandard ''LVCMOS33'']),
      (''user_sw'', [Number 0, Pins [''23''], IOStandard ''LVCMOS33'']),
      (''user_sw'', [Number 1, Pins [''25''], IOStandard ''LVCMOS33'']),
      (''user_sw'', [Number 2, Pins [''34''], IOStandard ''LVCMOS33'']),
      (''user_sw'', [Number 3, Pins [''43''], IOStandard ''LVCMOS33'']),
      (''clk12'', [Number 0, Pins [''35''], IOStandard ''LVCMOS33''])]"

definition ice40_up5k_b_evn_connectors :: "connector_table" where
  "ice40_up5k_b_evn_connectors =
     [(''PMOD'', Numbered ''16 17 14 15 27 26 32 31''),
      (''J52'', Numbered ''39 17 40 14 15 41 16''),
      (''J2'', Numbered ''23 25 26 36 27 42 32 38 31 28 37 35 34 43''),
      (''J3'', Numbered ''12 4 21 3  13 48 20 45 19 47 18 44 11 46 10  2  9  6'')]"

definition ice40_up5k_b_evn_spiflash :: "io_table" where
  "ice40_up5k_b_evn_spiflash =
     [(''spiflash'', [Number 0, Subsignal ''cs_n'' [Pins [''16''], IOStandard ''LVCMOS33''],
        Subsignal ''clk'' [Pins [''15''], IOStandard ''LVCMOS33''], Subsignal ''mosi'' [Pins
        [''14''], IOStandard ''LVCMOS33''], Subsignal ''miso'' [Pins [''17''], IOStandard
        ''LVCMOS33'']])]"

definition ice40_up5k_b_evn_serial :: "io_table" where
  "ice40_up5k_b_evn_serial =
     [(''serial'', [Number 0, Subsignal ''tx'' [Pins [''J2:3'']], Subsignal ''rx'' [Pins
        [''J2:5'']], IOStandard ''LVCMOS33''])]"

definition icefun_io :: "io_table" where
  "icefun_io =
     [(''user_led'', [Number 0, Pins [''C10''], IOStandard ''LVCMOS33'']),
      (''user_led'', [Number 1, Pins [''A10''], IOStandard ''LVCMOS33'']),
      (''user_led'', [Number 2, Pins [''D7''], IOStandard ''LVCMOS33'']),
      (''user_led'', [Number 3, Pins [''D6''], IOStandard ''LVCMOS33'']),
      (''user_led'', [Number 4, Pins [''A7''], IOStandard ''LVCMOS33'']),
      (''user_led'', [Number 5, Pins [''C7''], IOStandard ''LVCMOS33'']),
      (''user_led'', [Number 6, Pins [''A4''], IOStandard ''LVCMOS33'']),
      (''user_led'', [Number 7, Pins [''C4''], IOStandard ''LVCMOS33'']),
      (''user_led'', [Number 8, Pins [''C5''], IOStandard ''LVCMOS33'']),
      (''user_led'', [Number 9, Pins [''A6''], IOStandard ''LVCMOS33'']),
      (''user_led'', [Number 10, Pins [''D10''], IOStandard ''LVCMOS33'']),
      (''user_led'', [Number 11, Pins [''A12''], IOStandard ''LVCMOS33'']),
      (''rgb_leds'', [Number 0, IOStandard ''LVCMOS33'']),
      (''user_btn'', [Number 0, Pins [''A5''], IOStandard ''LVCMOS33'']),
      (''user_btn'', [Number 1, Pins [''A11''], IOStandard ''LVCMOS33'']),
      (''user_btn'', [Number 2, Pins [''C6''], IOStandard ''LVCMOS33'']),
      (''user_btn'', [Number 3, Pins [''C11''], IOStandard ''LVCMOS33'']),
      (''serial'', [Number 0, Subsignal ''rx'' [Pins [''P2'']], Subsignal ''tx'' [Pins [''P3''],
        Misc ''PULLUP''], IOStandard ''LVCMOS33'']),
      (''serial'', [Number 1, Subsignal ''rx'' [Pins [''P4'']], Subsignal ''tx'' [Pins [''P5''],
        Misc ''PULLUP''], IOStandard ''LVCMOS33'']),
      (''spiflash'', [Number 0, Subsignal ''cs_n'' [Pins [''P13''], IOStandard ''LVCMOS33''],
        Subsignal ''clk'' [Pins [''P12''], IOStandard ''LVCMOS33''], Subsignal ''mosi'' [Pins
        [''M11''], IOStandard ''LVCMOS33''], Subsignal ''miso'' [Pins [''P11''], IOStandard
        ''LVCMOS33'']]),
      (''clk12'', [Number 0, Pins [''P7''], IOStandard ''LVCMOS33''])]"

definition tinyfpga_bx_io :: "io_table" where
  "tinyfpga_bx_io =
     [(''user_led'', [Number 0, Pins [''B3''], IOStandard ''LVCMOS33'']),
      (''usb'', [Number 0, Subsignal ''d_p'' [Pins [''B4'']], Subsignal ''d_n'' [Pins [''A4'']],
        Subsignal ''pullup'' [Pins [''A3'']], IOStandard ''LVCMOS33'']),
      (''spiflash'', [Number 0, Subsignal ''cs_n'' [Pins [''F7''], IOStandard ''LVCMOS33''],
        Subsignal ''clk'' [Pins [''G7''], IOStandard ''LVCMOS33''], Subsignal ''mosi'' [Pins
        [''G6''], IOStandard ''LVCMOS33''], Subsignal ''miso'' [Pins [''H7''], IOStandard
        ''LVCMOS33''], Subsignal ''wp'' [Pins [''H4''], IOStandard ''LVCMOS33''], Subsignal
        ''hold'' [Pins [''J8''], IOStandard ''LVCMOS33'']]),
      (''spiflash4x'', [Number 0, Subsignal ''cs_n'' [Pins [''F7''], IOStandard ''LVCMOS33''],
        Subsignal ''clk'' [Pins [''G7''], IOStandard ''LVCMOS33''], Subsignal ''dq'' [Pins
        [''G6 H7 H4 J8''], IOStandard ''LVCMOS33'']]),
      (''clk16'', [Number 0, Pins [''B2''], IOStandard ''LVCMOS33''])]"

definition tinyfpga_bx_connectors :: "connector_table" where
  "tinyfpga_bx_connectors =
     [(''GPIO'', Numbered
        ''A2 A1 B1 C2 C1 D2 D1 E2 E1 G2 H1 J1 H2 H9 D9 D8 C9 A9 B8 A8 B7 A7 B6 A6''),
      (''EXTRA'', Numbered ''G1 J3 J4 G9 J9 E8 J2'')]"

definition upduino_v1_io :: "io_table" where
  "upduino_v1_io =
     [(''rgb_led'', [Number 0, Subsignal ''r'' [Pins [''41'']], Subsignal ''g'' [Pins [''40'']],
        Subsignal ''b'' [Pins [''39'']], IOStandard ''LVCMOS33''])]"

definition upduino_v1_connectors :: "connector_table" where
  "upduino_v1_connectors =
     [(''JP5'', Numbered ''23 25 26 27 32 35 31 37 34 43 36 42 38 28''),
      (''JP6'', Numbered ''12 21 13 19 18 11  9  6 44  4  3 48 45 47 46  2'')]"

definition upduino_v1_spiflash :: "io_table" where
  "upduino_v1_spiflash =
     [(''spiflash'', [Number 0, Subsignal ''cs_n'' [Pins [''16''], IOStandard ''LVCMOS33''],
        Subsignal ''clk'' [Pins [''15''], IOStandard ''LVCMOS33''], Subsignal ''mosi'' [Pins
        [''14''], IOStandard ''LVCMOS33''], Subsignal ''miso'' [Pins [''17''], IOStandard
        ''LVCMOS33'']])]"

definition upduino_v1_serial :: "io_table" where
  "upduino_v1_serial =
     [(''serial'', [Number 0, Subsignal ''tx'' [Pins [''23'']], Subsignal ''rx'' [Pins
        [''25'']], IOStandard ''LVCMOS33''])]"

definition ice40_up5k_b_evn_pmod_serial :: "io_table" where
  "ice40_up5k_b_evn_pmod_serial =
     [(''serial'', [Number 0, Subsignal ''rx'' [Pins [''PMOD:6'']], Subsignal ''tx'' [Pins
        [''PMOD:5'']], Subsignal ''rts'' [Pins [''PMOD:4'']], Subsignal ''cts'' [Pins
        [''PMOD:7'']], IOStandard ''LVCMOS33''])]"

definition tinyfpga_bx_serial :: "io_table" where
  "tinyfpga_bx_serial =
     [(''serial'', [Number 0, Subsignal ''rx'' [Pins [''GPIO:0'']], Subsignal ''tx'' [Pins
        [''GPIO:1'']], IOStandard ''LVCMOS33''])]"

end
