(* ===== verification/Board_Pins.thy ===== *)
theory Board_Pins
  imports Boards Cas Opsis_Tofe Platform_Io_Artix7 Platform_Io_Ice40
begin

text \<open>
  The pads a board's system takes: the requests of its clock generator, of its base system and of
  the modules in it, in the order of the constructor, against the table of its platform.
\<close>

section \<open>Boards with their pins\<close>

text \<open>
  A board with the table and the connectors of its platform and the extensions that its base system
  can add, under the names it uses.
\<close>

record board_pins =
  bp_board :: target_board
  bp_io :: "io_table py_result"
  bp_conns :: connector_table
  bp_exts :: "(string \<times> io_table) list"

definition opsis_pins :: board_pins where
  "opsis_pins =
     \<lparr>bp_board = opsis_board, bp_io = opsis_io, bp_conns = opsis_connectors,
      bp_exts = []\<rparr>"

definition atlys_pins :: board_pins where
  "atlys_pins =
     \<lparr>bp_board = atlys_board, bp_io = atlys_io ''VCC3V3'', bp_conns = atlys_connectors,
      bp_exts = []\<rparr>"

definition galatea_pins :: board_pins where
  "galatea_pins =
     \<lparr>bp_board = galatea_board, bp_io = Inr galatea_io, bp_conns = galatea_connectors,
      bp_exts = []\<rparr>"

definition mimasv2_pins :: board_pins where
  "mimasv2_pins =
     \<lparr>bp_board = mimasv2_board, bp_io = Inr mimasv2_io, bp_conns = mimasv2_connectors,
      bp_exts = []\<rparr>"

definition minispartan6_pins :: board_pins where
  "minispartan6_pins =
     \<lparr>bp_board = minispartan6_board, bp_io = Inr minispartan6_io, bp_conns = minispartan6_connectors,
      bp_exts = []\<rparr>"

definition pano_logic_g2_pins :: board_pins where
  "pano_logic_g2_pins =
     \<lparr>bp_board = pano_logic_g2_board, bp_io = Inr pano_logic_g2_io, bp_conns = [],
      bp_exts = []\<rparr>"

definition pipistrello_pins :: board_pins where
  "pipistrello_pins =
     \<lparr>bp_board = pipistrello_board, bp_io = Inr pipistrello_io, bp_conns = pipistrello_connectors,
      bp_exts = []\<rparr>"

definition saturn_pins :: board_pins where
  "saturn_pins =
     \<lparr>bp_board = saturn_board, bp_io = Inr saturn_io, bp_conns = saturn_connectors,
      bp_exts = []\<rparr>"

definition waxwing_pins :: board_pins where
  "waxwing_pins =
     \<lparr>bp_board = waxwing_board, bp_io = Inr waxwing_io, bp_conns = waxwing_connectors,
      bp_exts = []\<rparr>"

definition arty_pins :: board_pins where
  "arty_pins =
     \<lparr>bp_board = arty_board, bp_io = Inr arty_io, bp_conns = [],
      bp_exts = []\<rparr>"

definition nexys_video_pins :: board_pins where
  "nexys_video_pins =
     \<lparr>bp_board = nexys_video_board, bp_io = Inr nexys_video_io, bp_conns = nexys_video_connectors,
      bp_exts = []\<rparr>"

definition mimas_a7_pins :: board_pins where
  "mimas_a7_pins =
     \<lparr>bp_board = mimas_a7_board, bp_io = Inr mimas_a7_io, bp_conns = mimas_a7_connectors,
      bp_exts = []\<rparr>"

definition netv2_pins :: board_pins where
  "netv2_pins =
     \<lparr>bp_board = netv2_board, bp_io = Inr netv2_io, bp_conns = [],
      bp_exts = []\<rparr>"

definition neso_pins :: board_pins where
  "neso_pins =
     \<lparr>bp_board = neso_board, bp_io = Inr neso_io, bp_conns = [],
      bp_exts = []\<rparr>"

definition basys3_pins :: board_pins where
  "basys3_pins =
     \<lparr>bp_board = basys3_board, bp_io = Inr basys3_io, bp_conns = [],
      bp_exts = []\<rparr>"

definition cmod_a7_pins :: board_pins where
  "cmod_a7_pins =
     \<lparr>bp_board = cmod_a7_board, bp_io = Inr cmod_a7_io, bp_conns = [],
      bp_exts = []\<rparr>"

definition icebreaker_pins :: board_pins where
  "icebreaker_pins =
     \<lparr>bp_board = icebreaker_board, bp_io = Inr icebreaker_io, bp_conns = icebreaker_connectors,
      bp_exts = [(''icebreaker.break_off_pmod'', icebreaker_break_off_pmod), (''icebreaker.rgb_led'', icebreaker_rgb_led)]\<rparr>"

definition ice40_hx8k_b_evn_pins :: board_pins where
  "ice40_hx8k_b_evn_pins =
     \<lparr>bp_board = ice40_hx8k_b_evn_board, bp_io = Inr ice40_hx8k_b_evn_io, bp_conns = [],
      bp_exts = []\<rparr>"

definition ice40_up5k_b_evn_pins :: board_pins where
  "ice40_up5k_b_evn_pins =
     \<lparr>bp_board = ice40_up5k_b_evn_board, bp_io = Inr ice40_up5k_b_evn_io, bp_conns = ice40_up5k_b_evn_connectors,
      bp_exts = [(''pmod_serial'', ice40_up5k_b_evn_pmod_serial), (''up5k.spiflash'', ice40_up5k_b_evn_spiflash)]\<rparr>"

definition icefun_pins :: board_pins where
  "icefun_pins =
     \<lparr>bp_board = icefun_board, bp_io = Inr icefun_io, bp_conns = [],
      bp_exts = []\<rparr>"

definition tinyfpga_bx_pins :: board_pins where
  "tinyfpga_bx_pins =
     \<lparr>bp_board = tinyfpga_bx_board, bp_io = Inr tinyfpga_bx_io, bp_conns = tinyfpga_bx_connectors,
      bp_exts = [(''serial'', tinyfpga_bx_serial)]\<rparr>"

definition upduino_v1_pins :: board_pins where
  "upduino_v1_pins =
     \<lparr>bp_board = upduino_v1_board, bp_io = Inr upduino_v1_io, bp_conns = upduino_v1_connectors,
      bp_exts = [(''upduino.serial'', upduino_v1_serial), (''upduino.spiflash'', upduino_v1_spiflash)]\<rparr>"

section \<open>What the statements ask for\<close>

datatype pad_action = Ask string "nat option" | Attempt string nat | Extend io_table | Probe

text \<open>The pads that the modules of the repository request in their own constructors.\<close>

definition module_pads :: "string \<Rightarrow> pad_action list" where
  "module_pads cls =
     (if cls = ''opsis_i2c.OpsisI2C'' then [Ask ''opsis_i2c'' None, Ask ''fx2_reset'' None]
      else if cls = ''FrontPanelGPIO'' then [Ask ''pwrsw'' None, Ask ''hdled'' None, Ask ''pwled'' None]
      else if cls = ''cas.ControlAndStatus'' then [Probe]
      else [])"

text \<open>The base classes of LiteX request \<open>serial\<close> unless the UART is switched off.\<close>

definition core_pads :: "(string \<times> karg) list \<Rightarrow> (string, karg) dict \<Rightarrow> pad_action list" where
  "core_pads explicit kwargs =
     (if map_of explicit ''with_uart'' = Some (KBool False) \<or> map_of kwargs ''with_uart'' = Some (KBool False)
      then [] else [Ask ''serial'' None])"

fun crg_actions :: "crg_stmt \<Rightarrow> pad_action list" where
  "crg_actions (Request v n k) = [Ask n k]"
| "crg_actions (Extension n k p) = [Extend [(n, [Number (int k), Pins [p]])]]"
| "crg_actions _ = []"

fun soc_actions :: "(string \<times> io_table) list \<Rightarrow> soc_stmt \<Rightarrow> pad_action list py_result" where
  "soc_actions exts (Init c f explicit kwargs) = Inr (core_pads explicit kwargs)"
| "soc_actions exts (Crg ss) = Inr (concat (map crg_actions ss))"
| "soc_actions exts (Use n k) = Inr [Ask n k]"
| "soc_actions exts (Try_connect n k v) = Inr [Attempt n k]"
| "soc_actions exts (Submodule v cls args) = Inr (module_pads cls)"
| "soc_actions exts (Add_extension x) =
     (case map_of exts x of None \<Rightarrow> Inl NameError | Some t \<Rightarrow> Inr [Extend t])"
| "soc_actions exts _ = Inr []"

definition led_entry :: "led_driver \<Rightarrow> io_entry list" where
  "led_entry d = (case d of User_led e \<Rightarrow> [e] | Rgb_pin e c \<Rightarrow> if c = ''r'' then [e] else [])"

definition cas_entries :: "cas \<Rightarrow> io_entry list" where
  "cas_entries c = concat (map led_entry (cas_leds c)) @ cas_sws c @ cas_btns c"

fun granted :: "'p requester \<Rightarrow> (io_table \<Rightarrow> 'p \<Rightarrow> 'p) \<Rightarrow> 'p \<Rightarrow> pad_action list \<Rightarrow> io_entry list py_result option" where
  "granted req ext p [] = Some (Inr [])"
| "granted req ext p (Ask n k # as) =
     obind (Some (req p n k)) (\<lambda>(e, q). obind (granted req ext q as) (\<lambda>es. Some (Inr (e # es))))"
| "granted req ext p (Attempt n k # as) =
     (case req p n (Some k) of
        Inl err \<Rightarrow> granted req ext p as
      | Inr (e, q) \<Rightarrow> obind (granted req ext q as) (\<lambda>es. Some (Inr (e # es))))"
| "granted req ext p (Extend t # as) = granted req ext (ext t p) as"
| "granted req ext p (Probe # as) =
     obind (ControlAndStatus req p 0) (\<lambda>(c, q).
     obind (granted req ext q as) (\<lambda>es. Some (Inr (cas_entries c @ es))))"

declare request_all.simps [code]

definition board_pads :: "board_pins \<Rightarrow> io_table \<Rightarrow> soc_stmt list \<Rightarrow> io_entry list py_result option" where
  "board_pads bp io ss =
     obind (Some (py_mapM (soc_actions (bp_exts bp)) ss)) (\<lambda>as.
     if bd_name (bp_board bp) = ''upduino_v1''
     then granted (upduino_request table_request) (\<lambda>t s. s\<lparr>ud_plat := ud_plat s @ t\<rparr>)
            \<lparr>ud_plat = io, ud_hfosc_used = False\<rparr> (concat as)
     else granted table_request (\<lambda>t io. io @ t) io (concat as))"

text \<open>The balls that a system takes.\<close>

definition board_balls :: "board_pins \<Rightarrow> soc_stmt list py_result \<Rightarrow> string list py_result option" where
  "board_balls bp soc =
     obind (Some (bp_io bp)) (\<lambda>io.
     obind (Some soc) (\<lambda>ss.
     obind (board_pads bp io ss) (\<lambda>es.
     obind (Some (py_mapM (entry_balls (bp_conns bp)) es)) (\<lambda>bs. Some (Inr (concat bs))))))"

definition balls_ok :: "(string list \<Rightarrow> bool) \<Rightarrow> board_pins \<Rightarrow> soc_stmt list py_result \<Rightarrow> bool" where
  "balls_ok P bp soc = (case board_balls bp soc of Some (Inr bs) \<Rightarrow> P bs | _ \<Rightarrow> False)"

lemma balls_ok_mono: "balls_ok P bp soc \<Longrightarrow> (\<And>bs. P bs \<Longrightarrow> Q bs) \<Longrightarrow> balls_ok Q bp soc"
  by (auto simp: balls_ok_def split: option.splits sum.splits)

definition base_balls_ok :: "(string list \<Rightarrow> bool) \<Rightarrow> (string, int) dict \<Rightarrow> board_pins \<Rightarrow> bool" where
  "base_balls_ok P base bp = balls_ok P bp (base_soc (bp_board bp) base)"

lemma base_balls_ok_mono:
  "base_balls_ok P base bp \<Longrightarrow> (\<And>bs. P bs \<Longrightarrow> Q bs) \<Longrightarrow> base_balls_ok Q base bp"
  unfolding base_balls_ok_def by (rule balls_ok_mono)

text \<open>Several systems on one platform; the table is computed once.\<close>

definition all_balls_ok :: "(string list \<Rightarrow> bool) \<Rightarrow> board_pins \<Rightarrow> soc_stmt list py_result list \<Rightarrow> bool" where
  "all_balls_ok P bp socs =
     (case bp_io bp of Inl e \<Rightarrow> False | Inr io \<Rightarrow> list_all (balls_ok P (bp\<lparr>bp_io := Inr io\<rparr>)) socs)"

lemma all_balls_ok_mono:
  assumes "all_balls_ok P bp socs" "\<And>bs. P bs \<Longrightarrow> Q bs"
  shows "all_balls_ok Q bp socs"
  using assms balls_ok_mono by (fastforce simp: all_balls_ok_def list_all_iff split: sum.splits)

section \<open>No ball is taken twice\<close>

lemma atlys_balls: "base_balls_ok all_different (litex_map rom sram csr main_ram) atlys_pins"
  by code_simp

lemma galatea_balls: "base_balls_ok all_different (litex_map rom sram csr main_ram) galatea_pins"
  by code_simp

lemma mimasv2_balls: "base_balls_ok all_different (litex_map rom sram csr main_ram) mimasv2_pins"
  by code_simp

lemma minispartan6_balls: "base_balls_ok all_different (litex_map rom sram csr main_ram) minispartan6_pins"
  by code_simp

lemma pano_logic_g2_balls: "base_balls_ok all_different (litex_map rom sram csr main_ram) pano_logic_g2_pins"
  by code_simp

lemma pipistrello_balls: "base_balls_ok all_different (litex_map rom sram csr main_ram) pipistrello_pins"
  by code_simp

lemma saturn_balls: "base_balls_ok all_different (litex_map rom sram csr main_ram) saturn_pins"
  by code_simp

lemma waxwing_balls: "base_balls_ok all_different (litex_map rom sram csr main_ram) waxwing_pins"
  by code_simp

lemma arty_balls: "base_balls_ok all_different (litex_map rom sram csr main_ram) arty_pins"
  by code_simp

lemma nexys_video_balls: "base_balls_ok all_different (litex_map rom sram csr main_ram) nexys_video_pins"
  by code_simp

lemma mimas_a7_balls: "base_balls_ok all_different (litex_map rom sram csr main_ram) mimas_a7_pins"
  by code_simp

lemma netv2_balls: "base_balls_ok all_different (litex_map rom sram csr main_ram) netv2_pins"
  by code_simp

lemma neso_balls: "base_balls_ok all_different (litex_map rom sram csr main_ram) neso_pins"
  by code_simp

lemma basys3_balls: "base_balls_ok all_different (litex_map rom sram csr main_ram) basys3_pins"
  by code_simp

lemma cmod_a7_balls: "base_balls_ok all_different (litex_map rom sram csr main_ram) cmod_a7_pins"
  by code_simp

lemma icebreaker_balls: "base_balls_ok all_different (litex_map rom sram csr main_ram) icebreaker_pins"
  by code_simp

lemma ice40_hx8k_b_evn_balls: "base_balls_ok all_different (litex_map rom sram csr main_ram) ice40_hx8k_b_evn_pins"
  by code_simp

lemma ice40_up5k_b_evn_balls: "base_balls_ok all_different (litex_map rom sram csr main_ram) ice40_up5k_b_evn_pins"
  by code_simp

lemma icefun_balls: "base_balls_ok all_different (litex_map rom sram csr main_ram) icefun_pins"
  by code_simp

lemma tinyfpga_bx_balls: "base_balls_ok all_different (litex_map rom sram csr main_ram) tinyfpga_bx_pins"
  by code_simp

lemma upduino_v1_balls: "base_balls_ok all_different (litex_map rom sram csr main_ram) upduino_v1_pins"
  by code_simp

lemmas board_balls_ok =
  atlys_balls galatea_balls mimasv2_balls minispartan6_balls pano_logic_g2_balls
  pipistrello_balls saturn_balls waxwing_balls arty_balls nexys_video_balls mimas_a7_balls
  netv2_balls neso_balls basys3_balls cmod_a7_balls icebreaker_balls ice40_hx8k_b_evn_balls
  ice40_up5k_b_evn_balls icefun_balls tinyfpga_bx_balls upduino_v1_balls

definition pin_boards :: "board_pins list" where
  "pin_boards =
     [atlys_pins, galatea_pins, mimasv2_pins, minispartan6_pins, pano_logic_g2_pins,
      pipistrello_pins, saturn_pins, waxwing_pins, arty_pins, nexys_video_pins, mimas_a7_pins,
      netv2_pins, neso_pins, basys3_pins, cmod_a7_pins, icebreaker_pins, ice40_hx8k_b_evn_pins,
      ice40_up5k_b_evn_pins, icefun_pins, tinyfpga_bx_pins, upduino_v1_pins]"

text \<open>The Opsis, without an expansion board and with the low-speed I/O board.\<close>

definition opsis_lsio_env :: "(string, int) dict \<Rightarrow> soc_env" where
  "opsis_lsio_env base = build_env opsis_board base\<lparr>se_kwargs := [(''expansion'', KStr ''lowspeedio'')]\<rparr>"

definition opsis_systems :: "(string, int) dict \<Rightarrow> soc_stmt list py_result list" where
  "opsis_systems base = [base_soc opsis_board base, opsis_base_soc (opsis_lsio_env base)]"

lemma opsis_balls: "all_balls_ok all_different opsis_pins (opsis_systems (litex_map rom sram csr main_ram))"
  by code_simp

text \<open>
  C23 (pads): for each of the 22 boards the constructor of the base system gets every pad that it,
  its clock generator and its modules ask for, every pin resolves to a ball of the FPGA, and no
  ball is given out twice; for the Opsis also with the low-speed I/O board.
\<close>

theorem boards_pads_disjoint:
  "list_all (base_balls_ok distinct (litex_map rom sram csr main_ram)) pin_boards
   \<and> all_balls_ok distinct opsis_pins (opsis_systems (litex_map rom sram csr main_ram))"
proof
  show "list_all (base_balls_ok distinct (litex_map rom sram csr main_ram)) pin_boards"
    unfolding pin_boards_def list.pred_inject(2)
    by (intro conjI list.pred_inject(1) board_balls_ok [THEN base_balls_ok_mono] all_different_distinct)
  show "all_balls_ok distinct opsis_pins (opsis_systems (litex_map rom sram csr main_ram))"
    using opsis_balls all_different_distinct by (rule all_balls_ok_mono)
qed

section \<open>Control and status on the iCEFUN\<close>


end
