(* ===== verification/Platform_Tools.thy ===== *)
theory Platform_Tools
  imports Opsis_Tofe Platform_Attrs
begin

text \<open>
  The constructors of the platform classes, the programmer each of them creates and the period
  constraints each adds (\<open>platforms/*.py\<close>).  A constructor takes keyword options, as \<open>make.py\<close>
  passes them.  The names a module can use are those it imports by name and those that
  \<open>from litex.build.generic_platform import *\<close> brings, a parameter; any other name is Python's
  \<open>NameError\<close>.
\<close>

section \<open>Constructors\<close>

record platform_setup =
  ps_device :: string
  ps_bitgen :: "string list"
  ps_commands :: "string list"
  ps_bitstream :: "string list"
  ps_additional :: "string list"
  ps_programmer :: "string option"

definition accept :: "string list \<Rightarrow> (string, string) dict \<Rightarrow> unit py_result" where
  "accept names opts = (if set (dict_keys opts) \<subseteq> set names then Inr () else Inl TypeError)"

definition opt :: "(string, string) dict \<Rightarrow> string \<Rightarrow> string \<Rightarrow> string" where
  "opt opts name d = (case map_of opts name of None \<Rightarrow> d | Some v \<Rightarrow> v)"

definition bitgen_pin :: "string \<times> string \<Rightarrow> string" where
  "bitgen_pin pc = '' -g '' @ fst pc @ '':'' @ snd pc @ '' ''"

section \<open>Programmers\<close>

datatype prog_arg = Str_arg string | Int_arg int

datatype programmer_call = Call string "prog_arg list" "(string \<times> prog_arg) list"

text \<open>The environment of a module: the names of the star import, and the modules that exist.\<close>

record python_env =
  pe_star :: "string list"
  pe_modules :: "string list"

definition use_class ::
  "string list \<Rightarrow> string \<Rightarrow> prog_arg list \<Rightarrow> (string \<times> prog_arg) list \<Rightarrow> programmer_call py_result" where
  "use_class scope cls args kwargs = (if cls \<in> set scope then Inr (Call cls args kwargs) else Inl NameError)"

definition import_from :: "python_env \<Rightarrow> string \<Rightarrow> 'a py_result \<Rightarrow> 'a py_result" where
  "import_from ext m r = (if m \<in> set (pe_modules ext) then r else Inl ImportError)"

definition proxy_name :: "platform_setup \<Rightarrow> string" where
  "proxy_name ps = ''bscan_spi_'' @ hd (split_char CHR ''-'' (ps_device ps) []) @ ''.bit''"

section \<open>Period constraints\<close>

text \<open>
  \<open>do_finalize\<close> tries its constraints one after the other; one whose resource the design has not
  requested raises a \<open>ConstraintError\<close>, which is ignored.
\<close>

datatype period_on = Period_on string "nat option" "string option" rat

fun period_added :: "(string \<Rightarrow> nat option \<Rightarrow> bool) \<Rightarrow> period_on \<Rightarrow> bool" where
  "period_added requested (Period_on n k f t) = requested n k"

definition periods_added :: "(string \<Rightarrow> nat option \<Rightarrow> bool) \<Rightarrow> period_on list \<Rightarrow> period_on list" where
  "periods_added requested ps = filter (period_added requested) ps"

section \<open>The platforms\<close>


definition opsis_init :: "(string, string) dict \<Rightarrow> platform_setup py_result" where
  "opsis_init opts = py_bind (accept [''programmer''] opts) (\<lambda>_. Inr
     \<lparr>ps_device = ''xc6slx45t-fgg484-3'',
      ps_bitgen = map bitgen_pin [(''ProgPin'', ''PullUp''), (''DonePin'', ''PullUp''), (''TckPin'',
        ''PullNone''), (''TdiPin'', ''PullNone''), (''TdoPin'', ''PullNone''), (''TmsPin'', ''PullNone''),
        (''UnusedPin'', ''PullNone'')],
      ps_commands = [''CONFIG VCCAUX='' @ [CHR 0x22] @ ''3.3'' @ [CHR 0x22] @ '';''],
      ps_bitstream = [],
      ps_additional = [],
      ps_programmer = Some (opt opts ''programmer'' ''openocd'')\<rparr>)"

definition opsis_create_programmer :: "python_env \<Rightarrow> platform_setup \<Rightarrow> programmer_call
        py_result" where
  "opsis_create_programmer ext ps =
     (let scope = [''OrderedDict'', ''XilinxPlatform'', ''iMPACT''] @ pe_star ext in
      if ps_programmer ps = Some ''openocd'' then use_class scope ''OpenOCD'' [] [(''config'', Str_arg
        ''board/numato_opsis.cfg''), (''flash_proxy_basename'', Str_arg (proxy_name ps))]
      else if ps_programmer ps = Some ''urjtag'' then use_class scope ''UrJTAG'' [] [(''cable'', Str_arg
        ''USBBlaster'')]
      else if ps_programmer ps = Some ''impact'' then use_class scope ''iMPACT'' [] []
      else Inl ValueError)"

definition opsis_periods :: "period_on list" where
  "opsis_periods =
     [Period_on ''clk100'' None None 10,
      Period_on ''clk27'' None None 37,
      Period_on ''hdmi_in'' (Some 0) (Some ''clk_p'') 12,
      Period_on ''hdmi_in'' (Some 1) (Some ''clk_p'') 12,
      Period_on ''eth_clocks'' None (Some ''rx'') 8,
      Period_on ''fx2'' None (Some ''ifclk'') 10]"

definition atlys_init :: "(string, string) dict \<Rightarrow> platform_setup py_result" where
  "atlys_init opts = py_bind (accept [''programmer'', ''vccb2_voltage''] opts) (\<lambda>_. py_bind (atlys_io
        (opt opts ''vccb2_voltage'' ''VCC3V3'')) (\<lambda>io. Inr
     \<lparr>ps_device = ''xc6slx45-csg324-3'',
      ps_bitgen = [],
      ps_commands = [''CONFIG VCCAUX='' @ [CHR 0x22] @ ''3.3'' @ [CHR 0x22] @ '';''],
      ps_bitstream = [],
      ps_additional = [],
      ps_programmer = Some (opt opts ''programmer'' ''openocd'')\<rparr>))"

definition atlys_create_programmer :: "python_env \<Rightarrow> platform_setup \<Rightarrow> programmer_call
        py_result" where
  "atlys_create_programmer ext ps =
     (let scope = [''XilinxPlatform'', ''iMPACT''] @ pe_star ext in
      if ps_programmer ps = Some ''openocd'' then use_class scope ''OpenOCD'' [] [(''config'', Str_arg
        ''board/digilent_atlys.cfg''), (''flash_proxy_basename'', Str_arg (proxy_name ps))]
      else if ps_programmer ps = Some ''xc3sprog'' then use_class scope ''XC3SProg'' [Str_arg
        ''jtaghs1_fast'', Str_arg ''bscan_spi_digilent_atlys.bit''] []
      else if ps_programmer ps = Some ''impact'' then use_class scope ''iMPACT'' [] []
      else if ps_programmer ps = Some ''adept'' then use_class scope ''Adept'' [Str_arg ''Atlys'', Int_arg 0] []
      else if ps_programmer ps = Some ''fpgalink'' then import_from ext ''mibuild.fpgalink_programmer''
        (use_class (''FPGALink'' # scope) ''FPGALink'' [Str_arg ''1443:0007''] [])
      else if ps_programmer ps = Some ''urjtag'' then use_class scope ''UrJTAG'' [] [(''cable'', Str_arg
        ''USBBlaster''), (''pld'', Str_arg ''spartan-6'')]
      else Inl ValueError)"

definition atlys_periods :: "period_on list" where
  "atlys_periods =
     [Period_on ''clk100'' None None 10,
      Period_on ''hdmi_in'' (Some 0) (Some ''clk_p'') 12,
      Period_on ''hdmi_in'' (Some 1) (Some ''clk_p'') 12,
      Period_on ''eth_clocks'' None (Some ''rx'') 40,
      Period_on ''fx2'' None (Some ''ifclk'') 10]"

definition galatea_init :: "(string, string) dict \<Rightarrow> platform_setup py_result" where
  "galatea_init opts = py_bind (accept [''programmer''] opts) (\<lambda>_. Inr
     \<lparr>ps_device = ''xc6slx45t-fgg484-3'',
      ps_bitgen = map bitgen_pin [(''ProgPin'', ''PullUp''), (''DonePin'', ''PullUp''), (''TckPin'',
        ''PullNone''), (''TdiPin'', ''PullNone''), (''TdoPin'', ''PullNone''), (''TmsPin'', ''PullNone''),
        (''UnusedPin'', ''PullNone'')],
      ps_commands = [''CONFIG VCCAUX='' @ [CHR 0x22] @ ''3.3'' @ [CHR 0x22] @ '';''],
      ps_bitstream = [],
      ps_additional = [],
      ps_programmer = Some (opt opts ''programmer'' ''openocd'')\<rparr>)"

definition galatea_create_programmer :: "python_env \<Rightarrow> platform_setup \<Rightarrow>
        programmer_call py_result" where
  "galatea_create_programmer ext ps =
     (let scope = [''OrderedDict'', ''XilinxPlatform'', ''iMPACT'', ''XC3SProg''] @ pe_star ext in
      if ps_programmer ps = Some ''xc3sprog'' then use_class scope ''XC3SProg'' [] [(''cable'', Str_arg ''xpc'')]
      else if ps_programmer ps = Some ''impact'' then use_class scope ''iMPACT'' [] []
      else Inl ValueError)"

definition galatea_periods :: "period_on list" where
  "galatea_periods =
     [Period_on ''clk100'' None None 10]"

definition mimasv2_init :: "(string, string) dict \<Rightarrow> platform_setup py_result" where
  "mimasv2_init opts = py_bind (accept [] opts) (\<lambda>_. Inr
     \<lparr>ps_device = ''xc6slx9-csg324-2'',
      ps_bitgen = [],
      ps_commands = [],
      ps_bitstream = [],
      ps_additional = [],
      ps_programmer = None\<rparr>)"

definition mimasv2_create_programmer :: "python_env \<Rightarrow> platform_setup \<Rightarrow>
        programmer_call py_result" where
  "mimasv2_create_programmer ext ps =
     (let scope = [''XilinxPlatform''] @ pe_star ext in
      Inl NotImplementedError)"

definition minispartan6_init :: "(string, string) dict \<Rightarrow> platform_setup py_result" where
  "minispartan6_init opts = py_bind (accept [''device'', ''programmer''] opts) (\<lambda>_. Inr
     \<lparr>ps_device = opt opts ''device'' ''xc6slx25'' @ ''-3-ftg256'',
      ps_bitgen = [],
      ps_commands = [],
      ps_bitstream = [],
      ps_additional = [],
      ps_programmer = Some (opt opts ''programmer'' ''openocd'')\<rparr>)"

definition minispartan6_create_programmer :: "python_env \<Rightarrow> platform_setup \<Rightarrow>
        programmer_call py_result" where
  "minispartan6_create_programmer ext ps =
     (let scope = [''XilinxPlatform'', ''XC3SProg'', ''FpgaProg'', ''OpenOCD''] @ pe_star ext in
      if ps_programmer ps = Some ''openocd'' then use_class scope ''OpenOCD'' [] [(''config'', Str_arg
        ''board/minispartan6.cfg''), (''flash_proxy_basename'', Str_arg (proxy_name ps))]
      else if ps_programmer ps = Some ''xc3sprog'' then use_class scope ''XC3SProg'' [Str_arg
        ''minispartan6'', Str_arg (proxy_name ps)] []
      else if ps_programmer ps = Some ''fpgaprog'' then use_class scope ''FpgaProg'' [] []
      else Inl ValueError)"

definition minispartan6_periods :: "period_on list" where
  "minispartan6_periods =
     [Period_on ''hdmi_in'' (Some 0) (Some ''clk_p'') 12,
      Period_on ''clk50'' (Some 0) None 20]"

definition pano_logic_g2_init :: "(string, string) dict \<Rightarrow> platform_setup py_result" where
  "pano_logic_g2_init opts = py_bind (accept [''programmer'', ''device''] opts) (\<lambda>_. Inr
     \<lparr>ps_device = opt opts ''device'' ''xc6slx150'' @ ''-2-fgg484'',
      ps_bitgen = [],
      ps_commands = [''CONFIG VCCAUX='' @ [CHR 0x22] @ ''2.5'' @ [CHR 0x22] @ '';''],
      ps_bitstream = [],
      ps_additional = [],
      ps_programmer = Some (opt opts ''programmer'' ''impact'')\<rparr>)"

definition pano_logic_g2_create_programmer :: "python_env \<Rightarrow> platform_setup \<Rightarrow>
        programmer_call py_result" where
  "pano_logic_g2_create_programmer ext ps =
     (let scope = [''XilinxPlatform'', ''iMPACT''] @ pe_star ext in
      if ps_programmer ps = Some ''impact'' then use_class scope ''iMPACT'' [] []
      else Inl ValueError)"

definition pipistrello_init :: "(string, string) dict \<Rightarrow> platform_setup py_result" where
  "pipistrello_init opts = py_bind (accept [''programmer''] opts) (\<lambda>_. Inr
     \<lparr>ps_device = ''xc6slx45-csg324-3'',
      ps_bitgen = ['' -g Compress -g ConfigRate:6''],
      ps_commands = [],
      ps_bitstream = [],
      ps_additional = [],
      ps_programmer = Some (opt opts ''programmer'' ''openocd'')\<rparr>)"

definition pipistrello_create_programmer :: "python_env \<Rightarrow> platform_setup \<Rightarrow>
        programmer_call py_result" where
  "pipistrello_create_programmer ext ps =
     (let scope = [''XilinxPlatform'', ''XC3SProg'', ''OpenOCD''] @ pe_star ext in
      if ps_programmer ps = Some ''openocd'' then use_class scope ''OpenOCD'' [] [(''config'', Str_arg
        ''board/pipistrello.cfg''), (''flash_proxy_basename'', Str_arg (proxy_name ps))]
      else if ps_programmer ps = Some ''xc3sprog'' then use_class scope ''XC3SProg'' [Str_arg ''papilio'',
        Str_arg ''bscan_spi_lx45_csg324.bit''] []
      else Inl ValueError)"

definition saturn_init :: "(string, string) dict \<Rightarrow> platform_setup py_result" where
  "saturn_init opts = py_bind (accept [] opts) (\<lambda>_. Inr
     \<lparr>ps_device = ''xc6slx45-2csg324'',
      ps_bitgen = [],
      ps_commands = [],
      ps_bitstream = [],
      ps_additional = [],
      ps_programmer = None\<rparr>)"

definition waxwing_init :: "(string, string) dict \<Rightarrow> platform_setup py_result" where
  "waxwing_init opts = py_bind (accept [] opts) (\<lambda>_. Inr
     \<lparr>ps_device = ''xc6slx45-2csg324'',
      ps_bitgen = [],
      ps_commands = [],
      ps_bitstream = [],
      ps_additional = [],
      ps_programmer = None\<rparr>)"

definition arty_init :: "(string, string) dict \<Rightarrow> platform_setup py_result" where
  "arty_init opts = py_bind (accept [''toolchain'', ''programmer''] opts) (\<lambda>_. Inr
     \<lparr>ps_device = ''xc7a35t-csg324-1'',
      ps_bitgen = [],
      ps_commands = [''set_property INTERNAL_VREF 0.750 [get_iobanks 34]''],
      ps_bitstream = [''set_property BITSTREAM.CONFIG.SPI_BUSWIDTH 4 [current_design]''],
      ps_additional = [''write_cfgmem -force -format bin -interface spix4 -size 16 -loadbit '' @ [CHR 0x22] @
        ''up 0x0 {build_name}.bit'' @ [CHR 0x22] @ '' -file {build_name}.bin''],
      ps_programmer = Some (opt opts ''programmer'' ''openocd'')\<rparr>)"

definition arty_create_programmer :: "python_env \<Rightarrow> platform_setup \<Rightarrow> programmer_call
        py_result" where
  "arty_create_programmer ext ps =
     (let scope = [''OpenOCD'', ''XilinxPlatform'', ''XC3SProg'', ''VivadoProgrammer''] @ pe_star ext in
      if ps_programmer ps = Some ''openocd'' then use_class scope ''OpenOCD'' [] [(''config'', Str_arg
        ''board/digilent_arty.cfg''), (''flash_proxy_basename'', Str_arg (proxy_name ps))]
      else if ps_programmer ps = Some ''xc3sprog'' then use_class scope ''XC3SProg'' [Str_arg ''nexys4''] []
      else if ps_programmer ps = Some ''vivado'' then use_class scope ''VivadoProgrammer'' []
        [(''flash_part'', Str_arg ''n25q128-3.3v-spi-x1_x2_x4'')]
      else Inl ValueError)"

definition nexys_video_init :: "(string, string) dict \<Rightarrow> platform_setup py_result" where
  "nexys_video_init opts = py_bind (accept [''toolchain'', ''programmer''] opts) (\<lambda>_. Inr
     \<lparr>ps_device = ''xc7a200t-sbg484-1'',
      ps_bitgen = [],
      ps_commands = [''set_property INTERNAL_VREF 0.750 [get_iobanks 35]''],
      ps_bitstream = [''set_property BITSTREAM.CONFIG.SPI_BUSWIDTH 4 [current_design]''],
      ps_additional = [''write_cfgmem -force -format bin -interface spix4 -size 16 -loadbit '' @ [CHR 0x22] @
        ''up 0x0 {build_name}.bit'' @ [CHR 0x22] @ '' -file {build_name}.bin''],
      ps_programmer = Some (opt opts ''programmer'' ''openocd'')\<rparr>)"

definition nexys_video_create_programmer :: "python_env \<Rightarrow> platform_setup \<Rightarrow>
        programmer_call py_result" where
  "nexys_video_create_programmer ext ps =
     (let scope = [''XilinxPlatform'', ''XC3SProg'', ''VivadoProgrammer''] @ pe_star ext in
      if ps_programmer ps = Some ''openocd'' then use_class scope ''OpenOCD'' [] [(''config'', Str_arg
        ''board/digilent_nexys_video.cfg''), (''flash_proxy_basename'', Str_arg (proxy_name ps))]
      else if ps_programmer ps = Some ''xc3sprog'' then use_class scope ''XC3SProg'' [Str_arg ''nexys4''] []
      else if ps_programmer ps = Some ''vivado'' then use_class scope ''VivadoProgrammer'' []
        [(''flash_part'', Str_arg ''n25q128-3.3v-spi-x1_x2_x4'')]
      else Inl ValueError)"

definition nexys_video_periods :: "period_on list" where
  "nexys_video_periods =
     [Period_on ''eth_clocks'' None (Some ''rx'') 8]"

definition mimas_a7_init :: "(string, string) dict \<Rightarrow> platform_setup py_result" where
  "mimas_a7_init opts = py_bind (accept [''toolchain'', ''programmer''] opts) (\<lambda>_. Inr
     \<lparr>ps_device = ''xc7a50t-fgg484-1'',
      ps_bitgen = [],
      ps_commands = [''set_property INTERNAL_VREF 0.750 [get_iobanks 34]''],
      ps_bitstream = [''set_property BITSTREAM.CONFIG.SPI_BUSWIDTH 4 [current_design]''],
      ps_additional = [''write_cfgmem -force -format bin -interface spix4 -size 16 -loadbit '' @ [CHR 0x22] @
        ''up 0x0 {build_name}.bit'' @ [CHR 0x22] @ '' -file {build_name}.bin''],
      ps_programmer = Some (opt opts ''programmer'' ''openocd'')\<rparr>)"

definition mimas_a7_create_programmer :: "python_env \<Rightarrow> platform_setup \<Rightarrow>
        programmer_call py_result" where
  "mimas_a7_create_programmer ext ps =
     (let scope = [''XilinxPlatform'', ''XC3SProg'', ''VivadoProgrammer''] @ pe_star ext in
      if ps_programmer ps = Some ''openocd'' then use_class scope ''OpenOCD'' [] [(''config'', Str_arg
        ''board/numato_mimas_a7.cfg''), (''flash_proxy_basename'', Str_arg (proxy_name ps))]
      else if ps_programmer ps = Some ''xc3sprog'' then use_class scope ''XC3SProg'' [Str_arg ''nexys4''] []
      else if ps_programmer ps = Some ''vivado'' then use_class scope ''VivadoProgrammer'' []
        [(''flash_part'', Str_arg ''n25q128-3.3v-spi-x1_x2_x4'')]
      else Inl ValueError)"

definition mimas_a7_periods :: "period_on list" where
  "mimas_a7_periods =
     [Period_on ''eth_clocks'' None (Some ''rx'') 8]"

definition netv2_init :: "(string, string) dict \<Rightarrow> platform_setup py_result" where
  "netv2_init opts = py_bind (accept [''toolchain'', ''programmer'', ''part''] opts) (\<lambda>_. Inr
     \<lparr>ps_device = opt opts ''part'' ''xc7a35t'' @ ''-fgg484-2'',
      ps_bitgen = [],
      ps_commands = [],
      ps_bitstream = [''set_property CONFIG_VOLTAGE 3.3 [current_design]'',
        ''set_property CFGBVS VCCO [current_design]'',
        ''set_property BITSTREAM.CONFIG.CONFIGRATE 40 [current_design]'',
        ''set_property BITSTREAM.CONFIG.SPI_BUSWIDTH 4 [current_design]''],
      ps_additional = [''write_cfgmem -verbose -force -format bin -interface spix4 -size 16 -loadbit '' @
        [CHR 0x22] @ ''up 0x0 {build_name}.bit'' @ [CHR 0x22] @ '' -file {build_name}.bin''],
      ps_programmer = Some (opt opts ''programmer'' ''vivado'')\<rparr>)"

definition netv2_create_programmer :: "python_env \<Rightarrow> platform_setup \<Rightarrow> programmer_call
        py_result" where
  "netv2_create_programmer ext ps =
     (let scope = [''XilinxPlatform'', ''VivadoProgrammer''] @ pe_star ext in
      if ps_programmer ps = Some ''vivado'' then use_class scope ''VivadoProgrammer'' [] [(''flash_part'',
        Str_arg ''mx25l6433f-spi-x1_x2_x4'')]
      else Inl ValueError)"

definition neso_init :: "(string, string) dict \<Rightarrow> platform_setup py_result" where
  "neso_init opts = py_bind (accept [''toolchain'', ''programmer''] opts) (\<lambda>_. Inr
     \<lparr>ps_device = ''xc7a100t-csg324-1'',
      ps_bitgen = [],
      ps_commands = [''set_property INTERNAL_VREF 0.750 [get_iobanks 34]''],
      ps_bitstream = [''set_property BITSTREAM.CONFIG.SPI_BUSWIDTH 4 [current_design]''],
      ps_additional = [''write_cfgmem -force -format bin -interface spix4 -size 16 -loadbit '' @ [CHR 0x22] @
        ''up 0x0 {build_name}.bit'' @ [CHR 0x22] @ '' -file {build_name}.bin''],
      ps_programmer = Some (opt opts ''programmer'' ''openocd'')\<rparr>)"

definition neso_create_programmer :: "python_env \<Rightarrow> platform_setup \<Rightarrow> programmer_call
        py_result" where
  "neso_create_programmer ext ps =
     (let scope = [''OpenOCD'', ''XilinxPlatform'', ''XC3SProg'', ''VivadoProgrammer''] @ pe_star ext in
      if ps_programmer ps = Some ''openocd'' then use_class scope ''OpenOCD'' [] [(''config'', Str_arg
        ''board/numato_neso.cfg''), (''flash_proxy_basename'', Str_arg (proxy_name ps))]
      else if ps_programmer ps = Some ''xc3sprog'' then use_class scope ''XC3SProg'' [Str_arg ''saturn''] []
      else if ps_programmer ps = Some ''vivado'' then use_class scope ''VivadoProgrammer'' []
        [(''flash_part'', Str_arg ''n25q128-3.3v-spi-x1_x2_x4'')]
      else Inl ValueError)"

definition basys3_init :: "(string, string) dict \<Rightarrow> platform_setup py_result" where
  "basys3_init opts = py_bind (accept [''toolchain'', ''programmer''] opts) (\<lambda>_. Inr
     \<lparr>ps_device = ''xc7a35t-cpg236-1'',
      ps_bitgen = [],
      ps_commands = [''set_property INTERNAL_VREF 0.750 [get_iobanks 34]''],
      ps_bitstream = [''set_property BITSTREAM.CONFIG.SPI_BUSWIDTH 4 [current_design]''],
      ps_additional = [''write_cfgmem -force -format bin -interface spix4 -size 16 -loadbit '' @ [CHR 0x22] @
        ''up 0x0 {build_name}.bit'' @ [CHR 0x22] @ '' -file {build_name}.bin''],
      ps_programmer = Some (opt opts ''programmer'' ''openocd'')\<rparr>)"

definition basys3_create_programmer :: "python_env \<Rightarrow> platform_setup \<Rightarrow> programmer_call
        py_result" where
  "basys3_create_programmer ext ps =
     (let scope = [''OpenOCD'', ''XilinxPlatform'', ''XC3SProg'', ''VivadoProgrammer''] @ pe_star ext in
      if ps_programmer ps = Some ''openocd'' then use_class scope ''OpenOCD'' [] [(''config'', Str_arg
        ''board/digilent_arty.cfg''), (''flash_proxy_basename'', Str_arg (proxy_name ps))]
      else if ps_programmer ps = Some ''xc3sprog'' then use_class scope ''XC3SProg'' [Str_arg ''nexys4''] []
      else if ps_programmer ps = Some ''vivado'' then use_class scope ''VivadoProgrammer'' []
        [(''flash_part'', Str_arg ''n25q128-3.3v-spi-x1_x2_x4'')]
      else Inl ValueError)"

definition cmod_a7_init :: "(string, string) dict \<Rightarrow> platform_setup py_result" where
  "cmod_a7_init opts = py_bind (accept [''toolchain'', ''programmer''] opts) (\<lambda>_. Inr
     \<lparr>ps_device = ''xc7a35t-cpg236-1'',
      ps_bitgen = [],
      ps_commands = [''set_property INTERNAL_VREF 0.750 [get_iobanks 34]''],
      ps_bitstream = [''set_property BITSTREAM.CONFIG.SPI_BUSWIDTH 4 [current_design]''],
      ps_additional = [''write_cfgmem -force -format bin -interface spix4 -size 16 -loadbit '' @ [CHR 0x22] @
        ''up 0x0 {build_name}.bit'' @ [CHR 0x22] @ '' -file {build_name}.bin''],
      ps_programmer = Some (opt opts ''programmer'' ''openocd'')\<rparr>)"

definition cmod_a7_create_programmer :: "python_env \<Rightarrow> platform_setup \<Rightarrow>
        programmer_call py_result" where
  "cmod_a7_create_programmer ext ps =
     (let scope = [''OpenOCD'', ''XilinxPlatform'', ''VivadoProgrammer''] @ pe_star ext in
      if ps_programmer ps = Some ''openocd'' then use_class scope ''OpenOCD'' [] [(''config'', Str_arg
        ''board/digilent_cmod_a7.cfg''), (''flash_proxy_basename'', Str_arg (proxy_name ps))]
      else if ps_programmer ps = Some ''vivado'' then use_class scope ''VivadoProgrammer'' []
        [(''flash_part'', Str_arg ''n25q32-3.3v-spi-x1_x2_x4'')]
      else Inl ValueError)"

definition picoevb_init :: "(string, string) dict \<Rightarrow> platform_setup py_result" where
  "picoevb_init opts = py_bind (accept [''toolchain'', ''programmer''] opts) (\<lambda>_. Inr
     \<lparr>ps_device = ''xc7a50t-csg325-2'',
      ps_bitgen = [],
      ps_commands = [''set_property CONFIG_VOLTAGE 1.5 [current_design]'',
        ''set_property CFGBVS GND [current_design]'',
        ''set_property BITSTREAM.CONFIG.CONFIGRATE 22 [current_design]'',
        ''set_property BITSTREAM.CONFIG.SPI_BUSWIDTH 1 [current_design]'',
        [CHR 0x0A] @
        ''create_clock -name pcie_phy_clk -period 10.0 [get_pins {{pcie_phy/pcie_support_i/pcie_i/inst/inst/gt_top_i/pipe_wrapper_i/pipe_lane[0].gt_wrapper_i/gtp_channel.gtpe2_channel_i/TXOUTCLK}}]'' @ [CHR 0x0A]],
      ps_bitstream = [''set_property CONFIG_VOLTAGE 1.5 [current_design]'',
        ''set_property CFGBVS GND [current_design]'',
        ''set_property BITSTREAM.CONFIG.CONFIGRATE 22 [current_design]'',
        ''set_property BITSTREAM.CONFIG.SPI_BUSWIDTH 1 [current_design]''],
      ps_additional = [''write_cfgmem -verbose -force -format bin -interface spix1 -size 64 -loadbit '' @
        [CHR 0x22] @ ''up 0x0 {build_name}.bit'' @ [CHR 0x22] @ '' -file {build_name}.bin''],
      ps_programmer = Some (opt opts ''programmer'' ''vivado'')\<rparr>)"

definition picoevb_create_programmer :: "python_env \<Rightarrow> platform_setup \<Rightarrow>
        programmer_call py_result" where
  "picoevb_create_programmer ext ps =
     (let scope = [''XilinxPlatform'', ''VivadoProgrammer''] @ pe_star ext in
      if ps_programmer ps = Some ''vivado'' then use_class scope ''VivadoProgrammer'' [] [(''flash_part'',
        Str_arg ''n25q128-3.3v-spi-x1_x2_x4'')]
      else Inl ValueError)"

definition picoevb_periods :: "period_on list" where
  "picoevb_periods =
     []"

definition icebreaker_init :: "(string, string) dict \<Rightarrow> platform_setup py_result" where
  "icebreaker_init opts = py_bind (accept [] opts) (\<lambda>_. Inr
     \<lparr>ps_device = ''ice40-up5k-sg48'',
      ps_bitgen = [],
      ps_commands = [],
      ps_bitstream = [],
      ps_additional = [],
      ps_programmer = None\<rparr>)"

definition icebreaker_create_programmer :: "python_env \<Rightarrow> platform_setup \<Rightarrow>
        programmer_call py_result" where
  "icebreaker_create_programmer ext ps =
     (let scope = [''LatticePlatform'', ''IceStormProgrammer''] @ pe_star ext in
      use_class scope ''IceStormProgrammer'' [] [])"

definition ice40_hx8k_b_evn_init :: "(string, string) dict \<Rightarrow> platform_setup py_result" where
  "ice40_hx8k_b_evn_init opts = py_bind (accept [] opts) (\<lambda>_. Inr
     \<lparr>ps_device = ''ice40-hx8k-ct256'',
      ps_bitgen = [],
      ps_commands = [],
      ps_bitstream = [],
      ps_additional = [],
      ps_programmer = None\<rparr>)"

definition ice40_hx8k_b_evn_create_programmer :: "python_env \<Rightarrow> platform_setup \<Rightarrow>
        programmer_call py_result" where
  "ice40_hx8k_b_evn_create_programmer ext ps =
     (let scope = [''LatticePlatform'', ''IceStormProgrammer''] @ pe_star ext in
      use_class scope ''IceStormProgrammer'' [] [])"

definition ice40_up5k_b_evn_init :: "(string, string) dict \<Rightarrow> platform_setup py_result" where
  "ice40_up5k_b_evn_init opts = py_bind (accept [] opts) (\<lambda>_. Inr
     \<lparr>ps_device = ''ice40-up5k-sg48'',
      ps_bitgen = [],
      ps_commands = [],
      ps_bitstream = [],
      ps_additional = [],
      ps_programmer = None\<rparr>)"

definition ice40_up5k_b_evn_create_programmer :: "python_env \<Rightarrow> platform_setup \<Rightarrow>
        programmer_call py_result" where
  "ice40_up5k_b_evn_create_programmer ext ps =
     (let scope = [''LatticePlatform'', ''IceStormProgrammer''] @ pe_star ext in
      use_class scope ''IceStormProgrammer'' [] [])"

definition icefun_init :: "(string, string) dict \<Rightarrow> platform_setup py_result" where
  "icefun_init opts = py_bind (accept [] opts) (\<lambda>_. Inr
     \<lparr>ps_device = ''ice40-hx8k-cb132'',
      ps_bitgen = [],
      ps_commands = [],
      ps_bitstream = [],
      ps_additional = [],
      ps_programmer = None\<rparr>)"

definition icefun_create_programmer :: "python_env \<Rightarrow> platform_setup \<Rightarrow> programmer_call
        py_result" where
  "icefun_create_programmer ext ps =
     (let scope = [''LatticePlatform'', ''IceStormProgrammer''] @ pe_star ext in
      Inl NotImplementedError)"

definition tinyfpga_bx_init :: "(string, string) dict \<Rightarrow> platform_setup py_result" where
  "tinyfpga_bx_init opts = py_bind (accept [] opts) (\<lambda>_. Inr
     \<lparr>ps_device = ''ice40-lp8k-cm81'',
      ps_bitgen = [],
      ps_commands = [],
      ps_bitstream = [],
      ps_additional = [],
      ps_programmer = None\<rparr>)"

definition tinyfpga_bx_create_programmer :: "python_env \<Rightarrow> platform_setup \<Rightarrow>
        programmer_call py_result" where
  "tinyfpga_bx_create_programmer ext ps =
     (let scope = [''LatticePlatform'', ''TinyProgProgrammer''] @ pe_star ext in
      use_class scope ''TinyProgProgrammer'' [] [])"

definition upduino_v1_init :: "(string, string) dict \<Rightarrow> platform_setup py_result" where
  "upduino_v1_init opts = py_bind (accept [] opts) (\<lambda>_. Inr
     \<lparr>ps_device = ''ice40-up5k-sg48'',
      ps_bitgen = [],
      ps_commands = [],
      ps_bitstream = [],
      ps_additional = [],
      ps_programmer = None\<rparr>)"

section \<open>The default programmers\<close>

definition programmer_class :: "programmer_call py_result \<Rightarrow> string py_result" where
  "programmer_class r = py_bind r (\<lambda>c. case c of Call cls args kwargs \<Rightarrow> Inr cls)"

text \<open>The programmer of a platform that was built with the options \<open>opts\<close>.\<close>

definition programmer_with ::
  "python_env \<Rightarrow> (string, string) dict
     \<Rightarrow> (((string, string) dict \<Rightarrow> platform_setup py_result) \<times> (python_env \<Rightarrow> platform_setup \<Rightarrow> programmer_call py_result))
     \<Rightarrow> string py_result" where
  "programmer_with ext opts ic = programmer_class (py_bind (fst ic opts) (snd ic ext))"

definition openocd_imported where
  "openocd_imported =
     [(minispartan6_init, minispartan6_create_programmer), (pipistrello_init, pipistrello_create_programmer),
      (arty_init, arty_create_programmer), (neso_init, neso_create_programmer),
      (basys3_init, basys3_create_programmer), (cmod_a7_init, cmod_a7_create_programmer)]"

definition openocd_not_imported where
  "openocd_not_imported =
     [(opsis_init, opsis_create_programmer), (atlys_init, atlys_create_programmer),
      (nexys_video_init, nexys_video_create_programmer), (mimas_a7_init, mimas_a7_create_programmer)]"

lemmas platform_inits =
  opsis_init_def atlys_init_def nexys_video_init_def mimas_a7_init_def minispartan6_init_def
  pipistrello_init_def arty_init_def neso_init_def basys3_init_def cmod_a7_init_def galatea_init_def

lemmas platform_programmers =
  opsis_create_programmer_def atlys_create_programmer_def nexys_video_create_programmer_def
  mimas_a7_create_programmer_def minispartan6_create_programmer_def pipistrello_create_programmer_def
  arty_create_programmer_def neso_create_programmer_def basys3_create_programmer_def
  cmod_a7_create_programmer_def galatea_create_programmer_def

lemma accept_Nil [simp]: "accept names [] = Inr ()"
  by (simp add: accept_def dict_keys_def)

lemma opt_Nil [simp]: "opt [] n d = d"
  by (simp add: opt_def)

lemma atlys_default_io: "\<exists>io. atlys_io ''VCC3V3'' = Inr io"
  by (simp add: atlys_io_def LVCMOS_set_def dict_get_def)

text \<open>
  Without options, six platforms create an OpenOCD programmer; on the
  Opsis, the Atlys, the Nexys Video and the Mimas A7, whose modules do not import the class,
  the default is a \<open>NameError\<close> unless the star import brings it, and on the Galatea, which knows no
  \<open>openocd\<close>, a \<open>ValueError\<close>.
\<close>

theorem default_programmers:
  assumes "''OpenOCD'' \<notin> set (pe_star ext)"
  shows "list_all (\<lambda>ic. programmer_with ext [] ic = Inr ''OpenOCD'') openocd_imported
     \<and> list_all (\<lambda>ic. programmer_with ext [] ic = Inl NameError) openocd_not_imported
     \<and> programmer_with ext [] (galatea_init, galatea_create_programmer) = Inl ValueError"
proof -
  obtain io where io: "atlys_io ''VCC3V3'' = Inr io" using atlys_default_io by blast
  note defs = programmer_with_def programmer_class_def use_class_def platform_inits platform_programmers Let_def
  show ?thesis
    using assms by (simp add: openocd_imported_def openocd_not_imported_def defs io)
qed

theorem default_programmers_witness:
  "programmer_with \<lparr>pe_star = [''Pins'', ''Subsignal''], pe_modules = []\<rparr> []
     (opsis_init, opsis_create_programmer) = Inl NameError"
  using default_programmers [of "\<lparr>pe_star = [''Pins'', ''Subsignal''], pe_modules = []\<rparr>"]
  by (simp add: openocd_not_imported_def)

section \<open>The period of the default clock\<close>

definition default_clock_ok :: "platform_attrs \<Rightarrow> period_on list \<Rightarrow> bool" where
  "default_clock_ok pa ps =
     list_all (\<lambda>p. case p of Period_on n k f t \<Rightarrow> n = pa_clk_name pa \<longrightarrow> t = pa_clk_period pa) ps"

lemma default_clock_periods:
  "default_clock_ok opsis_attrs opsis_periods \<and> default_clock_ok atlys_attrs atlys_periods
   \<and> default_clock_ok galatea_attrs galatea_periods \<and> default_clock_ok minispartan6_attrs minispartan6_periods
   \<and> default_clock_ok nexys_video_attrs nexys_video_periods \<and> default_clock_ok mimas_a7_attrs mimas_a7_periods"
  by code_simp

end
