(* ===== verification/Sub_Types.thy ===== *)
theory Sub_Types
  imports Soc_Types "HOL-Library.List_Lexorder" "HOL-Library.Char_ord"
begin

text \<open>
  Systems built on a base system (\<open>targets/*/net.py\<close>, \<open>video.py\<close>, \<open>hdmi2usb.py\<close> and others).  The
  constructor calls the one of its base class, with the keywords it was given and some of its own,
  and adds statements.  Beside the arguments of a base system it reads the platform's names of the
  HDMI ports and LiteX's shadow address bit.
\<close>

record target_env =
  te_soc :: soc_env
  te_shadow :: int
  te_hdmi_infos :: "(string, string) dict option"

text \<open>The characters backslash, r, backslash, n, as the tables write them.\<close>

definition esc_newline :: string where
  "esc_newline = [CHR 0x5C] @ ''r'' @ [CHR 0x5C] @ ''n''"

text \<open>A call with explicit keywords and \<open>**kwargs\<close>: a keyword given twice is a \<open>TypeError\<close>.\<close>

definition call_with ::
  "(string, karg) dict \<Rightarrow> (string, karg) dict \<Rightarrow> (string, karg) dict py_result" where
  "call_with explicit kwargs =
     (if list_ex (\<lambda>k. map_of kwargs k \<noteq> None) (map fst explicit) then Inl TypeError else Inr (explicit @ kwargs))"

text \<open>The Ethernet systems ask for a larger ROM, unless the processor is an LM32 or the size is given.\<close>

definition net_rom_size :: "(string, karg) dict \<Rightarrow> (string, karg) dict" where
  "net_rom_size kwargs =
     (if map_of kwargs ''integrated_rom_size'' = None
         \<and> (case map_of kwargs ''cpu_type'' of None \<Rightarrow> False | Some t \<Rightarrow> t \<noteq> KStr ''lm32'')
      then dict_update kwargs [(''integrated_rom_size'', KInt 0x10000)] else kwargs)"

definition no_cpu :: "(string, karg) dict \<Rightarrow> (string, karg) dict" where
  "no_cpu kwargs = dict_update kwargs [(''cpu_type'', KNone)]"

definition pixel_width :: "string \<Rightarrow> int py_result" where
  "pixel_width mode =
     (if mode = ''ycbcr422'' then Inr 16 else if mode = ''rgb'' then Inr 32 else Inl SystemError)"

definition period_ns :: "rat \<Rightarrow> rat" where
  "period_ns freq = 10 ^ 9 / freq"

definition hdmi_constants :: "(string, string) dict \<Rightarrow> soc_stmt list" where
  "hdmi_constants infos = map (\<lambda>(n, v). Constant_str n v) (sort_key fst infos)"

end
