(* ===== verification/Soc_Sub_Spartan6.thy ===== *)
theory Soc_Sub_Spartan6
  imports Sub_Types Soc_Spartan6
begin

text \<open>
  The systems derived from the base systems of the Spartan-6 boards: Ethernet, video, the HDMI to USB
  encoder, the AXIOM adapter and the scope of the MimasV2.
\<close>

unbundle bit_operations_syntax

section \<open>What the firmware calls the HDMI ports\<close>

definition opsis_hdmi_infos :: "(string, string) dict" where
  "opsis_hdmi_infos =
     [
      (''HDMI_OUT0_MNEMONIC'', ''TX1''),
      (''HDMI_OUT0_DESCRIPTION'', (''  The *first* HDMI port from the left.'' @ esc_newline @
       ''  Labeled J3 and HDMI Out 1.'' @ esc_newline)),
      (''HDMI_OUT1_MNEMONIC'', ''TX2''),
      (''HDMI_OUT1_DESCRIPTION'', (''  The *second* HDMI port from the left.'' @ esc_newline @
       ''  Labeled J2 and HDMI Out 2.'' @ esc_newline)),
      (''HDMI_IN0_MNEMONIC'', ''RX1''),
      (''HDMI_IN0_DESCRIPTION'', (''  The *third* HDMI port from the left.'' @ esc_newline @
       ''  Labeled J5 and HDMI In 1.'' @ esc_newline)),
      (''HDMI_IN1_MNEMONIC'', ''RX2''),
      (''HDMI_IN1_DESCRIPTION'', (''  The *fourth* HDMI port from the left. (Closest to the USB.)''
       @ esc_newline @ ''  Labeled J4 and HDMI In 2.'' @ esc_newline))]"

definition atlys_hdmi_infos :: "(string, string) dict" where
  "atlys_hdmi_infos =
     [
      (''HDMI_IN0_MNEMONIC'', ''J1''),
      (''HDMI_IN0_DESCRIPTION'', (''  Type A connector, marked as J1, on side with USB connectors.''
       @ esc_newline @ ''  To use J1, make sure:'' @ esc_newline @
       ''   * JP4 has a jumper (it connects / disconnects 5V to HDMI pin 18).'' @ esc_newline @
       ''   * JP2 (marked only as SDA/SCL - not to be confused with JP6 and JP6)'' @ esc_newline @
       ''     has *two* jumpers (horizontally).'' @ esc_newline @
       ''   * JP5 has a jumper (it enables the HDMI input buffer).'' @ esc_newline)),
      (''HDMI_IN1_MNEMONIC'', ''J3''),
      (''HDMI_IN1_DESCRIPTION'', (''  Type A connector, marked as J3, between audio connectors and''
       @ esc_newline @ ''  Ethernet RJ45 connector.'' @ esc_newline @ ''  To use J3, make sure:'' @
       esc_newline @ ''  * JP8 has a jumper (it connects / disconnects 5V to HDMI pin 18)'' @
       esc_newline @ ''  * JP6 and JP7 do *not* have any jumpers (it connect J3'' @ [CHR 0x27] @
       ''s and J2'' @ [CHR 0x27] @ ''s'' @ esc_newline @ ''    EDID lines together).'' @
       esc_newline)),
      (''HDMI_OUT0_MNEMONIC'', ''J2''),
      (''HDMI_OUT0_DESCRIPTION'',
       (''  Type A connector, marked as J2, next to the power connector.'' @ esc_newline @
       ''  To use J2, make sure:'' @ esc_newline @
       ''  * JP8 has a jumper (it connects / disconnects 5V to HDMI pin 18)'' @ esc_newline @
       ''  * JP6 and JP7 do *not* have any jumpers (it connect J3'' @ [CHR 0x27] @ ''s and J2'' @
       [CHR 0x27] @ ''s'' @ esc_newline @ ''    EDID lines together).'' @ esc_newline)),
      (''HDMI_OUT1_MNEMONIC'', ''JB''),
      (''HDMI_OUT1_DESCRIPTION'',
       (''  Micro-D connector, marked as JB, on the same side as switches'' @ esc_newline @
       ''  + LEDs but on the underside of the board below MOD connector.'' @ esc_newline @
       ''  Works as either output or input because it isn'' @ [CHR 0x27] @ ''t buffered.'' @
       esc_newline @ ''  Also often referred to as '' @ [CHR 0x27] @ ''JA'' @ [CHR 0x27] @ ''.'' @
       esc_newline))]"

definition minispartan6_hdmi_infos :: "(string, string) dict" where
  "minispartan6_hdmi_infos =
     [
      (''HDMI_IN0_MNEMONIC'', ''J2''),
      (''HDMI_IN0_DESCRIPTION'', (''  Type A connector, marked as J2.'' @ esc_newline)),
      (''HDMI_OUT0_MNEMONIC'', ''J3''),
      (''HDMI_OUT0_DESCRIPTION'', (''  Type A connector, marked as J3.'' @ esc_newline))]"

definition pipistrello_hdmi_infos :: "(string, string) dict" where
  "pipistrello_hdmi_infos =
     [
      (''HDMI_OUT0_MNEMONIC'', ''J4''),
      (''HDMI_OUT0_DESCRIPTION'', (''  Type A connector, marked as J4.'' @ esc_newline))]"

section \<open>Systems\<close>

definition opsis_net_csr_peripherals :: "string list" where
  "opsis_net_csr_peripherals =
     [''ethphy'', ''ethmac'']"

definition opsis_net_mem_map :: "(string, int) dict \<Rightarrow> (string, int) dict" where
  "opsis_net_mem_map base = dict_update [(''ethmac'', 0x30000000)] (opsis_mem_map base)"

definition opsis_net_soc :: "target_env \<Rightarrow> soc_stmt list py_result" where
  "opsis_net_soc te =
     (let kwargs = net_rom_size (se_kwargs (te_soc te)) in
     py_bind (opsis_base_soc (te_soc te\<lparr>se_kwargs := kwargs\<rparr>)) (\<lambda>super.
     py_bind (dict_get (se_mem (te_soc te)) ''ethmac'') (\<lambda>mem_ethmac.
     Inr (super @ [
       Use ''eth_clocks'' None,
       Use ''eth'' None,
       Submodule ''ethphy'' ''LiteEthPHYRGMII'' [(''#0'', KStr ''eth_clocks''), (''#1'', KStr
        ''eth'')],
       Source ''gateware/rgmii_if.vhd'',
       Submodule ''ethmac'' ''LiteEthMAC'' [(''phy'', KStr ''ethphy''), (''dw'', KInt 32),
        (''interface'', KStr ''wishbone''), (''endianness'', KStr (se_endianness (te_soc te)))],
       Wb_slave mem_ethmac,
       Memory_region ''ethmac'' (mem_ethmac OR te_shadow te) 0x2000 '''',
       Keep ''ethphy.crg.cd_eth_rx.clk'',
       Keep ''ethphy.crg.cd_eth_tx.clk'',
       Net_period ''ethphy.crg.cd_eth_rx.clk'' 8,
       False_path [''crg.cd_sys.clk'', ''ethphy.crg.cd_eth_rx.clk''],
       Interrupt ''ethmac'']))))"

definition opsis_video_csr_peripherals :: "string list" where
  "opsis_video_csr_peripherals =
     [''hdmi_out0'', ''hdmi_out1'', ''hdmi_in0'', ''hdmi_in0_freq'', ''hdmi_in0_edid_mem'',
      ''hdmi_in1'', ''hdmi_in1_freq'', ''hdmi_in1_edid_mem'']"

abbreviation opsis_video_mem_map :: "(string, int) dict \<Rightarrow> (string, int) dict" where
  "opsis_video_mem_map \<equiv> opsis_net_mem_map"

definition opsis_video_soc :: "target_env \<Rightarrow> soc_stmt list py_result" where
  "opsis_video_soc te =
     (let kwargs = se_kwargs (te_soc te) in
     py_bind (opsis_net_soc (te\<lparr>te_soc := te_soc te\<lparr>se_kwargs := kwargs\<rparr>\<rparr>)) (\<lambda>super.
     py_bind (pixel_width ''ycbcr422'') (\<lambda>dw.
     py_bind (get_attr (te_hdmi_infos te)) (\<lambda>infos.
     Inr (super @ [
       Use ''hdmi_in'' (Some 0),
       Object ''port'' ''sdram.crossbar.get_port'' [(''mode'', KStr ''write'')],
       Submodule ''hdmi_in0'' ''HDMIIn'' [(''#0'', KStr ''hdmi_in0_pads''), (''#1'', KStr ''port''),
        (''fifo_depth'', KInt 512)],
       Submodule ''hdmi_in0_freq'' ''freq_measurement.FrequencyMeasurement'' [(''#0'', KStr
        ''hdmi_in0.clocking.clk_input''), (''measure_period'', KStr ''clk_freq'')],
       Use ''hdmi_in'' (Some 1),
       Object ''port'' ''sdram.crossbar.get_port'' [(''mode'', KStr ''write'')],
       Submodule ''hdmi_in1'' ''HDMIIn'' [(''#0'', KStr ''hdmi_in1_pads''), (''#1'', KStr ''port''),
        (''fifo_depth'', KInt 512)],
       Submodule ''hdmi_in1_freq'' ''freq_measurement.FrequencyMeasurement'' [(''#0'', KStr
        ''hdmi_in1.clocking.clk_input''), (''measure_period'', KStr ''clk_freq'')],
       Use ''hdmi_out'' (Some 0),
       Object ''hdmi_out0_dram_port'' ''sdram.crossbar.get_port'' [(''mode'', KStr ''read''),
        (''data_width'', KInt dw), (''clock_domain'', KStr ''hdmi_out0_pix''), (''reverse'', KBool
        True)],
       Submodule ''hdmi_out0'' ''VideoOut'' [(''#0'', KStr ''platform.device''), (''#1'', KStr
        ''hdmi_out0_pads''), (''#2'', KStr ''hdmi_out0_dram_port''), (''mode'', KStr ''ycbcr422''),
        (''fifo_depth'', KInt 4096)],
       Submodule ''hdmi_out0.i2c'' ''i2c.I2C'' [(''#0'', KStr ''hdmi_out0_pads'')],
       Use ''hdmi_out'' (Some 1),
       Object ''hdmi_out1_dram_port'' ''sdram.crossbar.get_port'' [(''mode'', KStr ''read''),
        (''data_width'', KInt dw), (''clock_domain'', KStr ''hdmi_out1_pix''), (''reverse'', KBool
        True)],
       Submodule ''hdmi_out1'' ''VideoOut'' [(''#0'', KStr ''platform.device''), (''#1'', KStr
        ''hdmi_out1_pads''), (''#2'', KStr ''hdmi_out1_dram_port''), (''mode'', KStr ''ycbcr422''),
        (''fifo_depth'', KInt 4096), (''external_clocking'', KStr ''hdmi_out0.driver.clocking'')],
       Submodule ''hdmi_out1.i2c'' ''i2c.I2C'' [(''#0'', KStr ''hdmi_out1_pads'')],
       Platform_cmd ''INST crg_pll_adv LOC=PLL_ADV_X0Y0;'' [],
       Platform_cmd (''PIN '' @ [CHR 0x22] @ ''hdmi_out_pix_bufg.O'' @ [CHR 0x22] @
        '' CLOCK_DEDICATED_ROUTE = FALSE;'') [],
       Platform_cmd (''PIN '' @ [CHR 0x22] @ ''hdmi_out_pix_bufg_1.O'' @ [CHR 0x22] @
        '' CLOCK_DEDICATED_ROUTE = FALSE;'') [],
       Platform_cmd ([CHR 0x0A] @ ''NET '' @ [CHR 0x22] @ ''{pix0_clk}'' @ [CHR 0x22] @
        '' TNM_NET = '' @ [CHR 0x22] @ ''GRPpix0_clk'' @ [CHR 0x22] @ '';'' @ [CHR 0x0A] @ ''NET ''
        @ [CHR 0x22] @ ''{pix1_clk}'' @ [CHR 0x22] @ '' TNM_NET = '' @ [CHR 0x22] @ ''GRPpix1_clk''
        @ [CHR 0x22] @ '';'' @ [CHR 0x0A]) [(''pix0_clk'',
        ''hdmi_out0.driver.clocking.cd_pix.clk''), (''pix1_clk'',
        ''hdmi_out1.driver.clocking.cd_pix.clk'')],
       False_path [''crg.cd_sys.clk'', ''hdmi_out0.driver.clocking.cd_pix.clk'',
        ''hdmi_out1.driver.clocking.cd_pix.clk'']]
      @ hdmi_constants infos
      @ [
       Interrupt ''hdmi_in0'',
       Interrupt ''hdmi_in1''])))))"

definition opsis_hdmi2usb_csr_peripherals :: "string list" where
  "opsis_hdmi2usb_csr_peripherals =
     [''encoder_reader'', ''encoder'']"

definition opsis_hdmi2usb_mem_map :: "(string, int) dict \<Rightarrow> (string, int) dict" where
  "opsis_hdmi2usb_mem_map base = dict_update [(''encoder'', 0x50000000)] (opsis_video_mem_map base)"

definition opsis_hdmi2usb_soc :: "target_env \<Rightarrow> soc_stmt list py_result" where
  "opsis_hdmi2usb_soc te =
     (let kwargs = se_kwargs (te_soc te) in
     py_bind (opsis_video_soc (te\<lparr>te_soc := te_soc te\<lparr>se_kwargs := kwargs\<rparr>\<rparr>)) (\<lambda>super.
     py_bind (dict_get (se_mem (te_soc te)) ''encoder'') (\<lambda>mem_encoder.
     Inr (super @ [
       Object ''encoder_port'' ''sdram.crossbar.get_port'' [],
       Submodule ''encoder_reader'' ''EncoderDMAReader'' [(''#0'', KStr ''encoder_port'')],
       Object ''encoder_cdc'' ''stream.AsyncFIFO'' [(''#0'', KInt 128), (''#1'', KInt 4)],
       Object ''encoder_cdc'' ''ClockDomainsRenamer'' [(''write'', KStr ''sys''), (''read'', KStr
        ''encoder''), (''#1'', KStr ''encoder_cdc'')],
       Object ''encoder_buffer'' ''ClockDomainsRenamer'' [(''#0'', KStr ''encoder''), (''#1'', KStr
        ''EncoderBuffer()'')],
       Object ''encoder'' ''Encoder'' [(''#0'', KStr ''platform'')],
       Use ''fx2'' None,
       Object ''encoder_streamer'' ''USBStreamer'' [(''#0'', KStr ''platform''), (''#1'', KStr
        ''fx2'')],
       Add_submodules [''encoder_cdc'', ''encoder_buffer'', ''encoder'', ''encoder_streamer''],
       Stream ''encoder_reader.source'' ''encoder_cdc.sink'',
       Stream ''encoder_cdc.source'' ''encoder_buffer.sink'',
       Stream ''encoder_buffer.source'' ''encoder.sink'',
       Stream ''encoder.source'' ''encoder_streamer.sink'',
       Wb_slave mem_encoder,
       Memory_region ''encoder'' (mem_encoder + te_shadow te) 0x2000 '''',
       Net_period ''encoder_streamer.cd_usb.clk'' 10,
       Keep ''encoder_streamer.cd_usb.clk'',
       Keep ''crg.cd_encoder.clk'',
       False_path [''crg.cd_sys.clk'', ''crg.cd_encoder.clk'', ''encoder_streamer.cd_usb.clk'']]))))"

definition opsis_encoder_csr_peripherals :: "string list" where
  "opsis_encoder_csr_peripherals =
     [''encoder_reader'', ''encoder'']"

definition opsis_encoder_mem_map :: "(string, int) dict \<Rightarrow> (string, int) dict" where
  "opsis_encoder_mem_map base = dict_update [(''encoder'', 0x50000000)] (opsis_net_mem_map base)"

definition opsis_encoder_soc :: "target_env \<Rightarrow> soc_stmt list py_result" where
  "opsis_encoder_soc te =
     (let kwargs = se_kwargs (te_soc te) in
     py_bind (opsis_net_soc (te\<lparr>te_soc := te_soc te\<lparr>se_kwargs := kwargs\<rparr>\<rparr>)) (\<lambda>super.
     py_bind (dict_get (se_mem (te_soc te)) ''encoder'') (\<lambda>mem_encoder.
     Inr (super @ [
       Object ''encoder_port'' ''sdram.crossbar.get_port'' [],
       Submodule ''encoder_reader'' ''EncoderDMAReader'' [(''#0'', KStr ''encoder_port'')],
       Object ''encoder_cdc'' ''stream.AsyncFIFO'' [(''#0'', KInt 128), (''#1'', KInt 4)],
       Object ''encoder_cdc'' ''ClockDomainsRenamer'' [(''write'', KStr ''sys''), (''read'', KStr
        ''encoder''), (''#1'', KStr ''encoder_cdc'')],
       Object ''encoder_buffer'' ''ClockDomainsRenamer'' [(''#0'', KStr ''encoder''), (''#1'', KStr
        ''EncoderBuffer()'')],
       Object ''encoder'' ''Encoder'' [(''#0'', KStr ''platform'')],
       Use ''fx2'' None,
       Object ''encoder_streamer'' ''USBStreamer'' [(''#0'', KStr ''platform''), (''#1'', KStr
        ''fx2'')],
       Add_submodules [''encoder_cdc'', ''encoder_buffer'', ''encoder'', ''encoder_streamer''],
       Stream ''encoder_reader.source'' ''encoder_cdc.sink'',
       Stream ''encoder_cdc.source'' ''encoder_buffer.sink'',
       Stream ''encoder_buffer.source'' ''encoder.sink'',
       Stream ''encoder.source'' ''encoder_streamer.sink'',
       Wb_slave mem_encoder,
       Memory_region ''encoder'' (mem_encoder + te_shadow te) 0x2000 '''',
       Net_period ''encoder_streamer.cd_usb.clk'' 10,
       Keep ''encoder_streamer.cd_usb.clk'',
       Keep ''crg.cd_encoder.clk'',
       False_path [''crg.cd_sys.clk'', ''crg.cd_encoder.clk'', ''encoder_streamer.cd_usb.clk'']]))))"

definition opsis_axiom_csr_peripherals :: "string list" where
  "opsis_axiom_csr_peripherals =
     [''gpio'']"

abbreviation opsis_axiom_mem_map :: "(string, int) dict \<Rightarrow> (string, int) dict" where
  "opsis_axiom_mem_map \<equiv> opsis_net_mem_map"

definition opsis_axiom_soc :: "target_env \<Rightarrow> soc_stmt list py_result" where
  "opsis_axiom_soc te =
     py_bind (call_with [(''expansion'', KStr ''tofe2axiom'')] (se_kwargs (te_soc te))) (\<lambda>kwargs.
     py_bind (opsis_net_soc (te\<lparr>te_soc := te_soc te\<lparr>se_kwargs := kwargs\<rparr>\<rparr>)) (\<lambda>super.
     Inr (super @ [
       Use ''tofe'' (Some 0),
       Submodule ''gpio'' ''GPIO2TOFE'' [(''#0'', KStr ''tofe:0'')]])))"

definition atlys_net_csr_peripherals :: "string list" where
  "atlys_net_csr_peripherals =
     [''ethphy'', ''ethmac'']"

definition atlys_net_mem_map :: "(string, int) dict \<Rightarrow> (string, int) dict" where
  "atlys_net_mem_map base = dict_update [(''ethmac'', 0x30000000)] (atlys_mem_map base)"

definition atlys_net_soc :: "target_env \<Rightarrow> soc_stmt list py_result" where
  "atlys_net_soc te =
     (let kwargs = net_rom_size (se_kwargs (te_soc te)) in
     py_bind (atlys_base_soc (te_soc te\<lparr>se_kwargs := kwargs\<rparr>)) (\<lambda>super.
     py_bind (dict_get (se_mem (te_soc te)) ''ethmac'') (\<lambda>mem_ethmac.
     Inr (super @ [
       Use ''eth_clocks'' None,
       Use ''eth'' None,
       Submodule ''ethphy'' ''LiteEthPHY'' [(''#0'', KStr ''eth_clocks''), (''#1'', KStr ''eth''),
        (''#2'', KStr ''clk_freq'')],
       Submodule ''ethmac'' ''LiteEthMAC'' [(''phy'', KStr ''ethphy''), (''dw'', KInt 32),
        (''interface'', KStr ''wishbone''), (''endianness'', KStr (se_endianness (te_soc te)))],
       Wb_slave mem_ethmac,
       Memory_region ''ethmac'' (mem_ethmac OR te_shadow te) 0x2000 '''',
       Keep ''ethphy.crg.cd_eth_rx.clk'',
       Keep ''ethphy.crg.cd_eth_tx.clk'',
       Net_period ''ethphy.crg.cd_eth_rx.clk'' 8,
       False_path [''crg.cd_sys.clk'', ''ethphy.crg.cd_eth_rx.clk''],
       Platform_cmd ([CHR 0x0A] @
        ''# FIXME: ERROR:Place:1108 - A clock IOB / BUFGMUX clock component pair have'' @ [CHR 0x0A]
        @ ''# been found that are not placed at an optimal clock IOB / BUFGMUX site pair.'' @ [CHR
        0x0A] @ ''# The clock IOB component <eth_clocks_rx> is placed at site <K15>.'' @ [CHR 0x0A]
        @ ''NET '' @ [CHR 0x22] @ ''{eth_clocks_rx}'' @ [CHR 0x22] @
        '' CLOCK_DEDICATED_ROUTE = FALSE;'' @ [CHR 0x0A] @
        ''# The IOB component <eth_clocks_tx> is placed at site <K16>.'' @ [CHR 0x0A] @ ''NET '' @
        [CHR 0x22] @ ''{eth_clocks_tx}'' @ [CHR 0x22] @ '' CLOCK_DEDICATED_ROUTE = FALSE;'' @ [CHR
        0x0A]) [(''eth_clocks_rx'', ''eth_clocks.rx''), (''eth_clocks_tx'', ''eth_clocks.tx'')],
       Interrupt ''ethmac'']))))"

definition atlys_video_csr_peripherals :: "string list" where
  "atlys_video_csr_peripherals =
     [''hdmi_out0'', ''hdmi_out1'', ''hdmi_in0'', ''hdmi_in0_edid_mem'', ''hdmi_in1'',
      ''hdmi_in1_edid_mem'']"

abbreviation atlys_video_mem_map :: "(string, int) dict \<Rightarrow> (string, int) dict" where
  "atlys_video_mem_map \<equiv> atlys_mem_map"

definition atlys_video_soc :: "target_env \<Rightarrow> soc_stmt list py_result" where
  "atlys_video_soc te =
     (let kwargs = se_kwargs (te_soc te) in
     py_bind (atlys_base_soc (te_soc te\<lparr>se_kwargs := kwargs\<rparr>)) (\<lambda>super.
     py_bind (get_attr (te_hdmi_infos te)) (\<lambda>infos.
     Inr (super @ [
       Use ''hdmi_in'' (Some 0),
       Object ''port'' ''sdram.crossbar.get_port'' [(''mode'', KStr ''write'')],
       Submodule ''hdmi_in0'' ''HDMIIn'' [(''#0'', KStr ''hdmi_in:0''), (''#1'', KStr ''port''),
        (''fifo_depth'', KInt 512)],
       Use ''hdmi_in'' (Some 1),
       Object ''port'' ''sdram.crossbar.get_port'' [(''mode'', KStr ''write'')],
       Submodule ''hdmi_in1'' ''HDMIIn'' [(''#0'', KStr ''hdmi_in:1''), (''#1'', KStr ''port''),
        (''fifo_depth'', KInt 512)],
       Use ''hdmi_out'' (Some 0),
       Object ''port'' ''sdram.crossbar.get_port'' [(''mode'', KStr ''read''), (''data_width'', KInt
        16), (''clock_domain'', KStr ''hdmi_out0_pix''), (''reverse'', KBool True)],
       Submodule ''hdmi_out0'' ''VideoOut'' [(''#0'', KStr ''platform.device''), (''#1'', KStr
        ''hdmi_out:0''), (''#2'', KStr ''port''), (''mode'', KStr ''ycbcr422''), (''fifo_depth'',
        KInt 4096)],
       Use ''hdmi_out'' (Some 1),
       Object ''port'' ''sdram.crossbar.get_port'' [(''mode'', KStr ''read''), (''data_width'', KInt
        16), (''clock_domain'', KStr ''hdmi_out1_pix''), (''reverse'', KBool True)],
       Submodule ''hdmi_out1'' ''VideoOut'' [(''#0'', KStr ''platform.device''), (''#1'', KStr
        ''hdmi_out:1''), (''#2'', KStr ''port''), (''mode'', KStr ''ycbcr422''), (''fifo_depth'',
        KInt 4096), (''external_clocking'', KStr ''hdmi_out0.driver.clocking'')],
       Platform_cmd ''INST crg_pll_adv LOC=PLL_ADV_X0Y0;'' [],
       Platform_cmd (''PIN '' @ [CHR 0x22] @ ''hdmi_out_pix_bufg.O'' @ [CHR 0x22] @
        '' CLOCK_DEDICATED_ROUTE = FALSE;'') [],
       Platform_cmd (''PIN '' @ [CHR 0x22] @ ''hdmi_out_pix_bufg_1.O'' @ [CHR 0x22] @
        '' CLOCK_DEDICATED_ROUTE = FALSE;'') [],
       Platform_cmd ([CHR 0x0A] @ ''NET '' @ [CHR 0x22] @ ''{pix0_clk}'' @ [CHR 0x22] @
        '' TNM_NET = '' @ [CHR 0x22] @ ''GRPpix0_clk'' @ [CHR 0x22] @ '';'' @ [CHR 0x0A] @ ''NET ''
        @ [CHR 0x22] @ ''{pix1_clk}'' @ [CHR 0x22] @ '' TNM_NET = '' @ [CHR 0x22] @ ''GRPpix1_clk''
        @ [CHR 0x22] @ '';'' @ [CHR 0x0A]) [(''pix0_clk'',
        ''hdmi_out0.driver.clocking.cd_pix.clk''), (''pix1_clk'',
        ''hdmi_out1.driver.clocking.cd_pix.clk'')],
       False_path [''crg.cd_sys.clk'', ''hdmi_out0.driver.clocking.cd_pix.clk'',
        ''hdmi_out1.driver.clocking.cd_pix.clk'']]
      @ hdmi_constants infos
      @ [
       Interrupt ''hdmi_in0'',
       Interrupt ''hdmi_in1'']))))"

definition atlys_hdmi2usb_csr_peripherals :: "string list" where
  "atlys_hdmi2usb_csr_peripherals =
     [''encoder_reader'', ''encoder'']"

definition atlys_hdmi2usb_mem_map :: "(string, int) dict \<Rightarrow> (string, int) dict" where
  "atlys_hdmi2usb_mem_map base = dict_update [(''encoder'', 0x50000000)] (atlys_video_mem_map base)"

definition atlys_hdmi2usb_soc :: "target_env \<Rightarrow> soc_stmt list py_result" where
  "atlys_hdmi2usb_soc te =
     (let kwargs = se_kwargs (te_soc te) in
     py_bind (atlys_video_soc (te\<lparr>te_soc := te_soc te\<lparr>se_kwargs := kwargs\<rparr>\<rparr>)) (\<lambda>super.
     py_bind (dict_get (se_mem (te_soc te)) ''encoder'') (\<lambda>mem_encoder.
     Inr (super @ [
       Object ''encoder_port'' ''sdram.crossbar.get_port'' [(''mode'', KStr ''read''),
        (''data_width'', KInt 128), (''reverse'', KBool True)],
       Submodule ''encoder_reader'' ''EncoderDMAReader'' [(''#0'', KStr ''encoder_port'')],
       Object ''encoder_cdc'' ''stream.AsyncFIFO'' [(''#0'', KInt 128), (''#1'', KInt 4)],
       Object ''encoder_cdc'' ''ClockDomainsRenamer'' [(''write'', KStr ''sys''), (''read'', KStr
        ''encoder''), (''#1'', KStr ''encoder_cdc'')],
       Object ''encoder_buffer'' ''ClockDomainsRenamer'' [(''#0'', KStr ''encoder''), (''#1'', KStr
        ''EncoderBuffer()'')],
       Object ''encoder'' ''Encoder'' [(''#0'', KStr ''platform'')],
       Use ''fx2'' None,
       Object ''encoder_streamer'' ''USBStreamer'' [(''#0'', KStr ''platform''), (''#1'', KStr
        ''fx2'')],
       Add_submodules [''encoder_cdc'', ''encoder_buffer'', ''encoder'', ''encoder_streamer''],
       Stream ''encoder_reader.source'' ''encoder_cdc.sink'',
       Stream ''encoder_cdc.source'' ''encoder_buffer.sink'',
       Stream ''encoder_buffer.source'' ''encoder.sink'',
       Stream ''encoder.source'' ''encoder_streamer.sink'',
       Wb_slave mem_encoder,
       Memory_region ''encoder'' (mem_encoder + te_shadow te) 0x2000 '''',
       Net_period ''encoder_streamer.cd_usb.clk'' 10,
       Keep ''encoder_streamer.cd_usb.clk'',
       Keep ''crg.cd_encoder.clk'',
       False_path [''crg.cd_sys.clk'', ''crg.cd_encoder.clk'', ''encoder_streamer.cd_usb.clk'']]))))"

definition mimasv2_scope_csr_peripherals :: "string list" where
  "mimasv2_scope_csr_peripherals =
     [''analyzer'', ''io'']"

abbreviation mimasv2_scope_mem_map :: "(string, int) dict \<Rightarrow> (string, int) dict" where
  "mimasv2_scope_mem_map \<equiv> mimasv2_mem_map"

definition mimasv2_scope_soc :: "target_env \<Rightarrow> soc_stmt list py_result" where
  "mimasv2_scope_soc te =
     py_bind (call_with [(''with_uart'', KBool False)] (no_cpu (se_kwargs (te_soc te)))) (\<lambda>kwargs.
     py_bind (mimasv2_base_soc (te_soc te\<lparr>se_kwargs := kwargs\<rparr>)) (\<lambda>super.
     Inr (super @ [
       Use ''serial'' None,
       Submodule ''cpu_or_bridge'' ''UARTWishboneBridge'' [(''#0'', KStr ''serial''), (''#1'', KStr
        ''clk_freq''), (''baudrate'', KInt 19200)],
       Wb_master ''cpu_or_bridge.wishbone'',
       Submodule ''io'' ''LiteScopeIO'' [(''#0'', KInt 8)],
       Try_connect ''user_led'' 0 ''io.output[0]'',
       Try_connect ''user_led'' 1 ''io.output[1]'',
       Try_connect ''user_led'' 2 ''io.output[2]'',
       Try_connect ''user_led'' 3 ''io.output[3]'',
       Try_connect ''user_led'' 4 ''io.output[4]'',
       Try_connect ''user_led'' 5 ''io.output[5]'',
       Try_connect ''user_led'' 6 ''io.output[6]'',
       Try_connect ''user_led'' 7 ''io.output[7]'',
       Signals ''analyzer_signals'' [''spiflash.bus''],
       Submodule ''analyzer'' ''LiteScopeAnalyzer'' [(''#0'', KStr ''analyzer_signals''), (''#1'',
        KInt 1024)]])))"

end
