(* ===== verification/Soc_Sub_Series7.thy ===== *)
theory Soc_Sub_Series7
  imports Sub_Types Soc_Artix7 Soc_Ice40 Pins
begin

text \<open>
  The systems derived from the base systems of the Artix-7 boards, with Ethernet, video, PCIe and
  their debug variants, and the UART bridge of the iCE40 UP5K board.
\<close>

unbundle bit_operations_syntax

section \<open>What the firmware calls the HDMI ports\<close>

definition nexys_video_hdmi_infos :: "(string, string) dict" where
  "nexys_video_hdmi_infos =
     [
      (''HDMI_OUT0_MNEMONIC'', ''TX1''),
      (''HDMI_OUT0_DESCRIPTION'', (''  FIXME in platforms/nexys_video.py'' @ esc_newline)),
      (''HDMI_IN0_MNEMONIC'', ''RX1''),
      (''HDMI_IN0_DESCRIPTION'', (''  FIXME in platforms/nexys_video.py'' @ esc_newline))]"

definition mimas_a7_hdmi_infos :: "(string, string) dict" where
  "mimas_a7_hdmi_infos =
     [
      (''HDMI_OUT0_MNEMONIC'', ''OUT1''),
      (''HDMI_OUT0_DESCRIPTION'', (''  Add description'' @ esc_newline)),
      (''HDMI_IN0_MNEMONIC'', ''IN1''),
      (''HDMI_IN0_DESCRIPTION'', (''  Add description'' @ esc_newline))]"

definition netv2_hdmi_infos :: "(string, string) dict" where
  "netv2_hdmi_infos =
     [
      (''HDMI_OUT0_MNEMONIC'', ''TX1''),
      (''HDMI_OUT0_DESCRIPTION'',
       (''HDMI-A connector (marked TX0/J10H on PCB) located in the mounting bracket area, connector is the one closer to the DC Jack''
       @ esc_newline)),
      (''HDMI_OUT1_MNEMONIC'', ''TX2''),
      (''HDMI_OUT1_DESCRIPTION'',
       (''HDMI-D connector (marked TX1/P10H on PCB) located on the top edge of the board, connector is the one closer to the DC Jack''
       @ esc_newline)),
      (''HDMI_IN0_MNEMONIC'', ''RX1''),
      (''HDMI_IN0_DESCRIPTION'',
       (''HDMI-A connector (marked RX0/J11H on PCB) located in the mounting bracket area, connector is the one farther from the DC Jack''
       @ esc_newline)),
      (''HDMI_IN1_MNEMONIC'', ''RX2''),
      (''HDMI_IN1_DESCRIPTION'',
       (''HDMI-A connector (marked OVERLAY/J12H on PCB) located on the top edge of the board, connector is the one farther from the DC Jack''
       @ esc_newline))]"

section \<open>Systems\<close>

definition arty_i2c_pmod_d :: "io_table" where
  "arty_i2c_pmod_d =
     [(''i2c_pmodd'', [Number 0, Subsignal ''scl'' [Pins [''F3''], Misc ''PULLUP''],
       Subsignal ''sda'' [Pins [''D3''], Misc ''PULLUP''], Subsignal ''scl_pup'' [Pins [''A14'']],
       Subsignal ''sda_pup'' [Pins [''A13'']], IOStandard ''LVCMOS33''])]"

definition arty_net_csr_peripherals :: "string list" where
  "arty_net_csr_peripherals =
     [''ethphy'', ''ethmac'']"

definition arty_net_mem_map :: "(string, int) dict \<Rightarrow> (string, int) dict" where
  "arty_net_mem_map base = dict_update [(''ethmac'', 0x30000000)] (arty_mem_map base)"

definition arty_net_soc :: "target_env \<Rightarrow> soc_stmt list py_result" where
  "arty_net_soc te =
     (let kwargs = net_rom_size (se_kwargs (te_soc te)) in
     py_bind (arty_base_soc (te_soc te\<lparr>se_kwargs := kwargs\<rparr>)) (\<lambda>super.
     py_bind (dict_get (se_mem (te_soc te)) ''ethmac'') (\<lambda>mem_ethmac.
     Inr (super @ [
       Use ''eth_clocks'' None,
       Use ''eth'' None,
       Submodule ''ethphy'' ''LiteEthPHY'' [(''#0'', KStr ''eth_clocks''), (''#1'', KStr ''eth'')],
       Submodule ''ethmac'' ''LiteEthMAC'' [(''phy'', KStr ''ethphy''), (''dw'', KInt 32),
        (''interface'', KStr ''wishbone''), (''endianness'', KStr (se_endianness (te_soc te)))],
       Wb_slave mem_ethmac,
       Memory_region ''ethmac'' (mem_ethmac OR te_shadow te) 0x2000 '''',
       Keep ''ethphy.crg.cd_eth_rx.clk'',
       Keep ''ethphy.crg.cd_eth_tx.clk'',
       Net_period ''ethphy.crg.cd_eth_rx.clk'' 40,
       Net_period ''ethphy.crg.cd_eth_tx.clk'' 40,
       False_path [''crg.cd_sys.clk'', ''ethphy.crg.cd_eth_rx.clk'', ''ethphy.crg.cd_eth_tx.clk''],
       Interrupt ''ethmac'']))))"

abbreviation arty_tf_mem_map :: "(string, int) dict \<Rightarrow> (string, int) dict" where
  "arty_tf_mem_map \<equiv> arty_mem_map"

definition arty_tf_soc :: "target_env \<Rightarrow> soc_stmt list py_result" where
  "arty_tf_soc te =
     (let kwargs = se_kwargs (te_soc te) in
     py_bind (arty_base_soc (te_soc te\<lparr>se_kwargs := kwargs\<rparr>)) (\<lambda>super.
     Inr (super @ [
       Add_extension ''i2c_pmod_d'',
       Use ''i2c_pmodd'' (Some 0),
       Submodule ''i2c0'' ''I2CMaster'' [(''#0'', KStr ''i2c_pads'')],
       Add_csr ''i2c0''])))"

definition nexys_video_net_csr_peripherals :: "string list" where
  "nexys_video_net_csr_peripherals =
     [''ethphy'', ''ethmac'']"

definition nexys_video_net_mem_map :: "(string, int) dict \<Rightarrow> (string, int) dict" where
  "nexys_video_net_mem_map base = dict_update [(''ethmac'', 0x30000000)] (nexys_video_mem_map base)"

definition nexys_video_net_soc :: "target_env \<Rightarrow> soc_stmt list py_result" where
  "nexys_video_net_soc te =
     (let kwargs = net_rom_size (se_kwargs (te_soc te)) in
     py_bind (nexys_video_base_soc (te_soc te\<lparr>se_kwargs := kwargs\<rparr>)) (\<lambda>super.
     py_bind (dict_get (se_mem (te_soc te)) ''ethmac'') (\<lambda>mem_ethmac.
     Inr (super @ [
       Use ''eth_clocks'' None,
       Use ''eth'' None,
       Submodule ''ethphy'' ''LiteEthPHYRGMII'' [(''#0'', KStr ''eth_clocks''), (''#1'', KStr
        ''eth'')],
       Submodule ''ethmac'' ''LiteEthMAC'' [(''phy'', KStr ''ethphy''), (''dw'', KInt 32),
        (''interface'', KStr ''wishbone''), (''endianness'', KStr (se_endianness (te_soc te)))],
       Wb_slave mem_ethmac,
       Memory_region ''ethmac'' (mem_ethmac OR te_shadow te) 0x2000 '''',
       Keep ''ethphy.crg.cd_eth_rx.clk'',
       Keep ''ethphy.crg.cd_eth_tx.clk'',
       Net_period ''ethphy.crg.cd_eth_rx.clk'' 8,
       Net_period ''ethphy.crg.cd_eth_tx.clk'' 8,
       False_path [''crg.cd_sys.clk'', ''ethphy.crg.cd_eth_rx.clk'', ''ethphy.crg.cd_eth_tx.clk''],
       Interrupt ''ethmac'']))))"

definition nexys_video_video_csr_peripherals :: "string list" where
  "nexys_video_video_csr_peripherals =
     [''hdmi_out0'', ''hdmi_in0'', ''hdmi_in0_freq'', ''hdmi_in0_edid_mem'']"

abbreviation nexys_video_video_mem_map :: "(string, int) dict \<Rightarrow> (string, int) dict" where
  "nexys_video_video_mem_map \<equiv> nexys_video_net_mem_map"

definition nexys_video_video_soc :: "target_env \<Rightarrow> soc_stmt list py_result" where
  "nexys_video_video_soc te =
     (let kwargs = se_kwargs (te_soc te) in
     py_bind (nexys_video_net_soc (te\<lparr>te_soc := te_soc te\<lparr>se_kwargs := kwargs\<rparr>\<rparr>)) (\<lambda>super.
     py_bind (pixel_width ''ycbcr422'') (\<lambda>dw.
     py_bind (get_attr (te_hdmi_infos te)) (\<lambda>infos.
     Inr (super @ [
       Use ''hdmi_in'' None,
       Object ''port'' ''sdram.crossbar.get_port'' [(''mode'', KStr ''write'')],
       Submodule ''hdmi_in0'' ''HDMIIn'' [(''#0'', KStr ''hdmi_in0_pads''), (''#1'', KStr ''port''),
        (''fifo_depth'', KInt 512), (''device'', KStr ''xc7'')],
       Submodule ''hdmi_in0_freq'' ''FreqMeter'' [(''period'', KStr ''clk_freq'')],
       Connect ''hdmi_in0_freq.clk'' ''hdmi_in0.clocking.cd_pix.clk'',
       Connect ''hdmi_in0_pads.txen'' ''1'',
       Net_period ''hdmi_in0.clocking.cd_pix.clk'' (period_ns (1 * 148500000)),
       Net_period ''hdmi_in0.clocking.cd_pix1p25x.clk'' (period_ns ((125 / 100) * 148500000)),
       Net_period ''hdmi_in0.clocking.cd_pix5x.clk'' (period_ns (5 * 148500000)),
       False_path [''crg.cd_sys.clk'', ''hdmi_in0.clocking.cd_pix.clk'',
        ''hdmi_in0.clocking.cd_pix1p25x.clk'', ''hdmi_in0.clocking.cd_pix5x.clk''],
       Use ''hdmi_out'' None,
       Object ''hdmi_out0_dram_port'' ''sdram.crossbar.get_port'' [(''mode'', KStr ''read''),
        (''data_width'', KInt dw), (''clock_domain'', KStr ''hdmi_out0_pix''), (''reverse'', KBool
        True)],
       Submodule ''hdmi_out0'' ''VideoOut'' [(''#0'', KStr ''platform.device''), (''#1'', KStr
        ''hdmi_out0_pads''), (''#2'', KStr ''hdmi_out0_dram_port''), (''mode'', KStr ''ycbcr422''),
        (''fifo_depth'', KInt 4096)],
       False_path [''crg.cd_sys.clk'', ''hdmi_out0.driver.clocking.cd_pix.clk''],
       Net_period ''hdmi_out0.driver.clocking.cd_pix.clk'' (period_ns (1 * 148500000)),
       Net_period ''hdmi_out0.driver.clocking.cd_pix5x.clk'' (period_ns (5 * 148500000)),
       False_path [''crg.cd_sys.clk'', ''hdmi_out0.driver.clocking.cd_pix.clk'',
        ''hdmi_out0.driver.clocking.cd_pix5x.clk'']]
      @ hdmi_constants infos
      @ [
       Interrupt ''hdmi_in0''])))))"

definition nexys_video_debug_csr_peripherals :: "string list" where
  "nexys_video_debug_csr_peripherals =
     [''analyzer'']"

abbreviation nexys_video_debug_mem_map :: "(string, int) dict \<Rightarrow> (string, int) dict" where
  "nexys_video_debug_mem_map \<equiv> nexys_video_video_mem_map"

definition nexys_video_debug_soc :: "target_env \<Rightarrow> soc_stmt list py_result" where
  "nexys_video_debug_soc te =
     (let kwargs = se_kwargs (te_soc te) in
     py_bind (nexys_video_video_soc (te\<lparr>te_soc := te_soc te\<lparr>se_kwargs := kwargs\<rparr>\<rparr>)) (\<lambda>super.
     Inr (super @ [
       Signals ''analyzer_signals'' [''hdmi_in0.data0_charsync.raw_data'',
        ''hdmi_in0.data1_charsync.raw_data'', ''hdmi_in0.data2_charsync.raw_data'',
        ''hdmi_in0.data0_charsync.synced'', ''hdmi_in0.data1_charsync.synced'',
        ''hdmi_in0.data2_charsync.synced'', ''hdmi_in0.data0_charsync.data'',
        ''hdmi_in0.data1_charsync.data'', ''hdmi_in0.data2_charsync.data'',
        ''hdmi_in0.syncpol.valid_o'', ''hdmi_in0.syncpol.de'', ''hdmi_in0.syncpol.hsync'',
        ''hdmi_in0.syncpol.vsync''],
       Submodule ''analyzer'' ''LiteScopeAnalyzer'' [(''#0'', KStr ''analyzer_signals''), (''#1'',
        KInt 1024), (''cd'', KStr ''hdmi_in0_pix''), (''cd_ratio'', KInt 2)],
       Object ''pix_counter'' ''Signal'' [(''#0'', KInt 32)],
       Sync ''hdmi_in0_pix'' ''pix_counter'' ''pix_counter + 1'',
       Use ''user_led'' (Some 0),
       Connect ''user_led:0'' ''pix_counter[26]'',
       Object ''pix1p25x_counter'' ''Signal'' [(''#0'', KInt 32)],
       Sync ''pix1p25x'' ''pix1p25x_counter'' ''pix1p25x_counter + 1'',
       Use ''user_led'' (Some 1),
       Connect ''user_led:1'' ''pix1p25x_counter[26]'',
       Object ''pix5x_counter'' ''Signal'' [(''#0'', KInt 32)],
       Sync ''hdmi_in0_pix5x_o'' ''pix5x_counter'' ''pix5x_counter + 1'',
       Use ''user_led'' (Some 2),
       Connect ''user_led:2'' ''pix5x_counter[26]''])))"

definition mimas_a7_net_csr_peripherals :: "string list" where
  "mimas_a7_net_csr_peripherals =
     [''ethphy'', ''ethmac'']"

definition mimas_a7_net_mem_map :: "(string, int) dict \<Rightarrow> (string, int) dict" where
  "mimas_a7_net_mem_map base = dict_update [(''ethmac'', 0x30000000)] (mimas_a7_mem_map base)"

definition mimas_a7_net_soc :: "target_env \<Rightarrow> soc_stmt list py_result" where
  "mimas_a7_net_soc te =
     (let kwargs = se_kwargs (te_soc te) in
     py_bind (mimas_a7_base_soc (te_soc te\<lparr>se_kwargs := kwargs\<rparr>)) (\<lambda>super.
     py_bind (dict_get (se_mem (te_soc te)) ''ethmac'') (\<lambda>mem_ethmac.
     Inr (super @ [
       Use ''eth_clocks'' None,
       Use ''eth'' None,
       Submodule ''ethphy'' ''LiteEthPHYRGMII'' [(''#0'', KStr ''eth_clocks''), (''#1'', KStr
        ''eth'')],
       Submodule ''ethmac'' ''LiteEthMAC'' [(''phy'', KStr ''ethphy''), (''dw'', KInt 32),
        (''interface'', KStr ''wishbone''), (''endianness'', KStr (se_endianness (te_soc te)))],
       Wb_slave mem_ethmac,
       Memory_region ''ethmac'' (mem_ethmac OR te_shadow te) 0x2000 '''',
       Keep ''ethphy.crg.cd_eth_rx.clk'',
       Keep ''ethphy.crg.cd_eth_tx.clk'',
       Net_period ''ethphy.crg.cd_eth_rx.clk'' 8,
       Net_period ''ethphy.crg.cd_eth_tx.clk'' 8,
       False_path [''crg.cd_sys.clk'', ''ethphy.crg.cd_eth_rx.clk'', ''ethphy.crg.cd_eth_tx.clk''],
       Interrupt ''ethmac'']))))"

definition mimas_a7_video_csr_peripherals :: "string list" where
  "mimas_a7_video_csr_peripherals =
     [''hdmi_out0'', ''hdmi_in0'', ''hdmi_in0_freq'', ''hdmi_in0_edid_mem'']"

abbreviation mimas_a7_video_mem_map :: "(string, int) dict \<Rightarrow> (string, int) dict" where
  "mimas_a7_video_mem_map \<equiv> mimas_a7_net_mem_map"

definition mimas_a7_video_soc :: "target_env \<Rightarrow> soc_stmt list py_result" where
  "mimas_a7_video_soc te =
     (let kwargs = se_kwargs (te_soc te) in
     py_bind (mimas_a7_net_soc (te\<lparr>te_soc := te_soc te\<lparr>se_kwargs := kwargs\<rparr>\<rparr>)) (\<lambda>super.
     py_bind (pixel_width ''ycbcr422'') (\<lambda>dw.
     py_bind (get_attr (te_hdmi_infos te)) (\<lambda>infos.
     Inr (super @ [
       Use ''hdmi_in'' None,
       Object ''port'' ''sdram.crossbar.get_port'' [(''mode'', KStr ''write'')],
       Submodule ''hdmi_in0'' ''HDMIIn'' [(''#0'', KStr ''hdmi_in0_pads''), (''#1'', KStr ''port''),
        (''fifo_depth'', KInt 512), (''device'', KStr ''xc7'')],
       Submodule ''hdmi_in0_freq'' ''FreqMeter'' [(''period'', KStr ''clk_freq'')],
       Connect ''hdmi_in0_freq.clk'' ''hdmi_in0.clocking.cd_pix.clk'',
       Net_period ''hdmi_in0.clocking.cd_pix.clk'' (period_ns (1 * 148500000)),
       Net_period ''hdmi_in0.clocking.cd_pix1p25x.clk'' (period_ns ((125 / 100) * 148500000)),
       Net_period ''hdmi_in0.clocking.cd_pix5x.clk'' (period_ns (5 * 148500000)),
       False_path [''crg.cd_sys.clk'', ''hdmi_in0.clocking.cd_pix.clk'',
        ''hdmi_in0.clocking.cd_pix1p25x.clk'', ''hdmi_in0.clocking.cd_pix5x.clk''],
       Use ''hdmi_out'' None,
       Object ''hdmi_out0_dram_port'' ''sdram.crossbar.get_port'' [(''mode'', KStr ''read''),
        (''dw'', KInt dw), (''cd'', KStr ''hdmi_out0_pix''), (''reverse'', KBool True)],
       Submodule ''hdmi_out0'' ''VideoOut'' [(''#0'', KStr ''platform.device''), (''#1'', KStr
        ''hdmi_out0_pads''), (''#2'', KStr ''hdmi_out0_dram_port''), (''mode'', KStr ''ycbcr422''),
        (''fifo_depth'', KInt 4096)],
       False_path [''crg.cd_sys.clk'', ''hdmi_out0.driver.clocking.cd_pix.clk''],
       Net_period ''hdmi_out0.driver.clocking.cd_pix.clk'' (period_ns (1 * 148500000)),
       Net_period ''hdmi_out0.driver.clocking.cd_pix5x.clk'' (period_ns (5 * 148500000)),
       False_path [''crg.cd_sys.clk'', ''hdmi_out0.driver.clocking.cd_pix.clk'',
        ''hdmi_out0.driver.clocking.cd_pix5x.clk'']]
      @ hdmi_constants infos
      @ [
       Interrupt ''hdmi_in0''])))))"

definition mimas_a7_debug_csr_peripherals :: "string list" where
  "mimas_a7_debug_csr_peripherals =
     [''analyzer'']"

abbreviation mimas_a7_debug_mem_map :: "(string, int) dict \<Rightarrow> (string, int) dict" where
  "mimas_a7_debug_mem_map \<equiv> mimas_a7_video_mem_map"

definition mimas_a7_debug_soc :: "target_env \<Rightarrow> soc_stmt list py_result" where
  "mimas_a7_debug_soc te =
     (let kwargs = se_kwargs (te_soc te) in
     py_bind (mimas_a7_video_soc (te\<lparr>te_soc := te_soc te\<lparr>se_kwargs := kwargs\<rparr>\<rparr>)) (\<lambda>super.
     Inr (super @ [
       Signals ''analyzer_signals'' [''hdmi_in0.data0_charsync.raw_data'',
        ''hdmi_in0.data1_charsync.raw_data'', ''hdmi_in0.data2_charsync.raw_data'',
        ''hdmi_in0.data0_charsync.synced'', ''hdmi_in0.data1_charsync.synced'',
        ''hdmi_in0.data2_charsync.synced'', ''hdmi_in0.data0_charsync.data'',
        ''hdmi_in0.data1_charsync.data'', ''hdmi_in0.data2_charsync.data'',
        ''hdmi_in0.syncpol.valid_o'', ''hdmi_in0.syncpol.de'', ''hdmi_in0.syncpol.hsync'',
        ''hdmi_in0.syncpol.vsync''],
       Submodule ''analyzer'' ''LiteScopeAnalyzer'' [(''#0'', KStr ''analyzer_signals''), (''#1'',
        KInt 1024), (''cd'', KStr ''hdmi_in0_pix''), (''cd_ratio'', KInt 2)],
       Object ''pix_counter'' ''Signal'' [(''#0'', KInt 32)],
       Sync ''hdmi_in0_pix'' ''pix_counter'' ''pix_counter + 1'',
       Use ''user_led'' (Some 0),
       Connect ''user_led:0'' ''pix_counter[26]'',
       Object ''pix1p25x_counter'' ''Signal'' [(''#0'', KInt 32)],
       Sync ''pix1p25x'' ''pix1p25x_counter'' ''pix1p25x_counter + 1'',
       Use ''user_led'' (Some 1),
       Connect ''user_led:1'' ''pix1p25x_counter[26]'',
       Object ''pix5x_counter'' ''Signal'' [(''#0'', KInt 32)],
       Sync ''hdmi_in0_pix5x'' ''pix5x_counter'' ''pix5x_counter + 1'',
       Use ''user_led'' (Some 2),
       Connect ''user_led:2'' ''pix5x_counter[26]''])))"

definition netv2_net_csr_peripherals :: "string list" where
  "netv2_net_csr_peripherals =
     [''ethphy'', ''ethmac'']"

definition netv2_net_mem_map :: "(string, int) dict \<Rightarrow> (string, int) dict" where
  "netv2_net_mem_map base = dict_update [(''ethmac'', 0x30000000)] (netv2_mem_map base)"

definition netv2_net_soc :: "target_env \<Rightarrow> soc_stmt list py_result" where
  "netv2_net_soc te =
     py_bind (call_with [(''integrated_rom_size'', KInt 65536)] (se_kwargs (te_soc te))) (\<lambda>kwargs.
     py_bind (netv2_base_soc (te_soc te\<lparr>se_kwargs := kwargs\<rparr>)) (\<lambda>super.
     py_bind (dict_get (se_mem (te_soc te)) ''ethmac'') (\<lambda>mem_ethmac.
     Inr (super @ [
       Use ''eth_clocks'' None,
       Use ''eth'' None,
       Submodule ''ethphy'' ''LiteEthPHYRMII'' [(''#0'', KStr ''eth_clocks''), (''#1'', KStr
        ''eth'')],
       Submodule ''ethmac'' ''LiteEthMAC'' [(''phy'', KStr ''ethphy''), (''dw'', KInt 32),
        (''interface'', KStr ''wishbone''), (''endianness'', KStr (se_endianness (te_soc te)))],
       Wb_slave mem_ethmac,
       Memory_region ''ethmac'' (mem_ethmac OR te_shadow te) 0x2000 '''',
       Keep ''ethphy.crg.cd_eth_rx.clk'',
       Keep ''ethphy.crg.cd_eth_tx.clk'',
       Net_period ''ethphy.crg.cd_eth_rx.clk'' 40,
       Net_period ''ethphy.crg.cd_eth_tx.clk'' 40,
       False_path [''crg.cd_sys.clk'', ''ethphy.crg.cd_eth_rx.clk'', ''ethphy.crg.cd_eth_tx.clk''],
       Interrupt ''ethmac'']))))"

definition netv2_hdmi2pcie_csr_peripherals :: "string list" where
  "netv2_hdmi2pcie_csr_peripherals =
     [''pcie_phy'', ''pcie_dma0'', ''pcie_dma1'', ''pcie_msi'', ''hdmi_out0'', ''hdmi_in0'',
      ''hdmi_in0_freq'', ''hdmi_in0_edid_mem'']"

abbreviation netv2_hdmi2pcie_mem_map :: "(string, int) dict \<Rightarrow> (string, int) dict" where
  "netv2_hdmi2pcie_mem_map \<equiv> netv2_mem_map"

definition netv2_hdmi2pcie_soc :: "target_env \<Rightarrow> soc_stmt list py_result" where
  "netv2_hdmi2pcie_soc te =
     (let kwargs = se_kwargs (te_soc te) in
     py_bind (netv2_base_soc (te_soc te\<lparr>se_kwargs := kwargs, se_csr_data_width := 32\<rparr>)) (\<lambda>super.
     py_bind (get_attr (te_hdmi_infos te)) (\<lambda>infos.
     Inr (super @ [
       Use ''pcie_x1'' None,
       Submodule ''pcie_phy'' ''S7PCIEPHY'' [(''#0'', KStr ''platform''), (''#1'', KStr
        ''pcie_x1''), (''bar0_size'', KInt 33554432)],
       False_path [''crg.cd_sys.clk'', ''pcie_phy.cd_pcie.clk''],
       Submodule ''pcie_endpoint'' ''LitePCIeEndpoint'' [(''#0'', KStr ''pcie_phy'')],
       Submodule ''pcie_bridge'' ''LitePCIeWishboneBridge'' [(''#0'', KStr ''pcie_endpoint''),
        (''#1'', KStr ''lambda a: 1''), (''shadow_base'', KInt 1073741824)],
       Submodule ''wb_swap'' ''WishboneEndianSwap'' [(''#0'', KStr ''pcie_bridge.wishbone'')],
       Wb_master ''wb_swap.wishbone'',
       Submodule ''pcie_dma0'' ''LitePCIeDMA'' [(''#0'', KStr ''pcie_phy''), (''#1'', KStr
        ''pcie_endpoint''), (''with_loopback'', KBool True)],
       Submodule ''pcie_msi'' ''LitePCIeMSI'' [],
       Stream ''pcie_msi.source'' ''pcie_phy.msi'',
       Connect ''pcie_msi.irqs[0]'' ''pcie_dma0.reader.irq'',
       Constant ''PCIE_DMA0_READER_INTERRUPT'' 0,
       Connect ''pcie_msi.irqs[1]'' ''pcie_dma0.writer.irq'',
       Constant ''PCIE_DMA0_WRITER_INTERRUPT'' 1,
       Use ''hdmi_in'' (Some 0),
       Submodule ''hdmi_in0_freq'' ''FreqMeter'' [(''period'', KInt 100000000)],
       Object ''port'' ''sdram.crossbar.get_port'' [(''mode'', KStr ''write'')],
       Submodule ''hdmi_in0'' ''HDMIIn'' [(''#0'', KStr ''hdmi_in0_pads''), (''#1'', KStr ''port''),
        (''fifo_depth'', KInt 1024), (''device'', KStr ''xc7''), (''split_mmcm'', KBool True)],
       Connect ''hdmi_in0_freq.clk'' ''hdmi_in0.clocking.cd_pix.clk'',
       False_path [''crg.cd_sys.clk'', ''hdmi_in0.clocking.cd_pix.clk''],
       False_path [''crg.cd_sys.clk'', ''hdmi_in0.clocking.cd_pix1p25x.clk''],
       False_path [''crg.cd_sys.clk'', ''hdmi_in0.clocking.cd_pix5x.clk''],
       Net_period ''hdmi_in:0.clk_p'' (period_ns (148500000)),
       Object ''hdmi_out0_dram_port'' ''sdram.crossbar.get_port'' [(''mode'', KStr ''read''),
        (''dw'', KInt 16), (''cd'', KStr ''hdmi_out0_pix''), (''reverse'', KBool True)],
       Use ''hdmi_out'' (Some 0),
       Submodule ''hdmi_out0'' ''VideoOut'' [(''#0'', KStr ''platform.device''), (''#1'', KStr
        ''hdmi_out:0''), (''#2'', KStr ''hdmi_out0_dram_port''), (''#3'', KStr ''ycbcr422''),
        (''fifo_depth'', KInt 4096)],
       False_path [''crg.cd_sys.clk'', ''hdmi_out0.driver.clocking.cd_pix.clk''],
       False_path [''crg.cd_sys.clk'', ''hdmi_out0.driver.clocking.cd_pix5x.clk'']]
      @ hdmi_constants infos
      @ [
       Interrupt ''hdmi_in0'']))))"

definition ice40_up5k_b_evn_bridge_csr_peripherals :: "string list" where
  "ice40_up5k_b_evn_bridge_csr_peripherals =
     [''analyzer'', ''io'']"

abbreviation ice40_up5k_b_evn_bridge_mem_map :: "(string, int) dict \<Rightarrow> (string, int) dict" where
  "ice40_up5k_b_evn_bridge_mem_map \<equiv> ice40_up5k_b_evn_mem_map"

definition ice40_up5k_b_evn_bridge_soc :: "target_env \<Rightarrow> soc_stmt list py_result" where
  "ice40_up5k_b_evn_bridge_soc te =
     py_bind (call_with [(''with_uart'', KBool False)] (no_cpu (se_kwargs (te_soc te)))) (\<lambda>kwargs.
     py_bind (ice40_up5k_b_evn_base_soc (te_soc te\<lparr>se_kwargs := kwargs\<rparr>)) (\<lambda>super.
     Inr (super @ [
       Use ''serial'' None,
       Submodule ''cpu_or_bridge'' ''UARTWishboneBridge'' [(''#0'', KStr ''serial''), (''#1'', KStr
        ''clk_freq''), (''baudrate'', KInt 115200)],
       Wb_master ''cpu_or_bridge.wishbone''])))"

end
