(* ===== verification/Targets.thy ===== *)
theory Targets
  imports Board_Pins Soc_Sub_Spartan6 Soc_Sub_Series7
begin

text \<open>
  The systems that users build (\<open>targets/<board>/<name>.py\<close>), each with its board, its memory map and
  its CSR peripherals, and what holds for all of them: they get their pads, their bus windows do not
  overlap, and every interrupt belongs to a module.
\<close>

section \<open>Targets\<close>

record target =
  tg_name :: string
  tg_board :: target_board
  tg_infos :: "(string, string) dict option"
  tg_mem_map :: "(string, int) dict \<Rightarrow> (string, int) dict"
  tg_csrs :: "string list list"
  tg_build :: "target_env \<Rightarrow> soc_stmt list py_result"

text \<open>LiteX's shadow address bit is the top bit of the 32.\<close>

definition shadow_bit :: int where
  "shadow_bit = 0x80000000"

definition run_env :: "(string, int) dict \<Rightarrow> target \<Rightarrow> (string, karg) dict \<Rightarrow> target_env" where
  "run_env base t kwargs =
     \<lparr>te_soc = build_env (tg_board t) base\<lparr>se_mem := tg_mem_map t base, se_kwargs := kwargs\<rparr>,
      te_shadow = shadow_bit, te_hdmi_infos = tg_infos t\<rparr>"

definition target_soc :: "(string, int) dict \<Rightarrow> target \<Rightarrow> soc_stmt list py_result" where
  "target_soc base t = tg_build t (run_env base t [])"

text \<open>
  \<open>make.py\<close> passes the processor that the user asks for, and its variant if there is one, as keywords;
  LiteX's base class keeps them as \<open>cpu_type\<close> and \<open>cpu_variant\<close>.
\<close>

definition target_soc_cpu ::
  "(string, int) dict \<Rightarrow> string \<Rightarrow> string \<Rightarrow> target \<Rightarrow> soc_stmt list py_result" where
  "target_soc_cpu base cpu variant t =
     (let te = run_env base t ((''cpu_type'', KStr cpu) #
                (if variant = [] then [] else [(''cpu_variant'', KStr variant)]))
      in tg_build t (te\<lparr>te_soc := te_soc te\<lparr>se_cpu_type := cpu, se_cpu_variant := variant\<rparr>\<rparr>))"

definition opsis_net_target :: target where
  "opsis_net_target =
     \<lparr>tg_name = ''opsis_net'', tg_board = opsis_board, tg_infos = Some opsis_hdmi_infos,
      tg_mem_map = opsis_net_mem_map,
      tg_csrs = [opsis_csr_peripherals, opsis_net_csr_peripherals],
      tg_build = opsis_net_soc\<rparr>"

definition opsis_video_target :: target where
  "opsis_video_target =
     \<lparr>tg_name = ''opsis_video'', tg_board = opsis_board, tg_infos = Some opsis_hdmi_infos,
      tg_mem_map = opsis_video_mem_map,
      tg_csrs = [opsis_csr_peripherals, opsis_net_csr_peripherals, opsis_video_csr_peripherals],
      tg_build = opsis_video_soc\<rparr>"

definition opsis_hdmi2usb_target :: target where
  "opsis_hdmi2usb_target =
     \<lparr>tg_name = ''opsis_hdmi2usb'', tg_board = opsis_board, tg_infos = Some opsis_hdmi_infos,
      tg_mem_map = opsis_hdmi2usb_mem_map,
      tg_csrs = [opsis_csr_peripherals, opsis_net_csr_peripherals, opsis_video_csr_peripherals,
        opsis_hdmi2usb_csr_peripherals],
      tg_build = opsis_hdmi2usb_soc\<rparr>"

definition opsis_encoder_target :: target where
  "opsis_encoder_target =
     \<lparr>tg_name = ''opsis_encoder'', tg_board = opsis_board, tg_infos = Some opsis_hdmi_infos,
      tg_mem_map = opsis_encoder_mem_map,
      tg_csrs = [opsis_csr_peripherals, opsis_net_csr_peripherals, opsis_encoder_csr_peripherals],
      tg_build = opsis_encoder_soc\<rparr>"

definition opsis_axiom_target :: target where
  "opsis_axiom_target =
     \<lparr>tg_name = ''opsis_axiom'', tg_board = opsis_board, tg_infos = Some opsis_hdmi_infos,
      tg_mem_map = opsis_axiom_mem_map,
      tg_csrs = [opsis_csr_peripherals, opsis_net_csr_peripherals, opsis_axiom_csr_peripherals],
      tg_build = opsis_axiom_soc\<rparr>"

definition atlys_net_target :: target where
  "atlys_net_target =
     \<lparr>tg_name = ''atlys_net'', tg_board = atlys_board, tg_infos = Some atlys_hdmi_infos,
      tg_mem_map = atlys_net_mem_map,
      tg_csrs = [atlys_csr_peripherals, atlys_net_csr_peripherals],
      tg_build = atlys_net_soc\<rparr>"

definition atlys_video_target :: target where
  "atlys_video_target =
     \<lparr>tg_name = ''atlys_video'', tg_board = atlys_board, tg_infos = Some atlys_hdmi_infos,
      tg_mem_map = atlys_video_mem_map,
      tg_csrs = [atlys_csr_peripherals, atlys_video_csr_peripherals],
      tg_build = atlys_video_soc\<rparr>"

definition atlys_hdmi2usb_target :: target where
  "atlys_hdmi2usb_target =
     \<lparr>tg_name = ''atlys_hdmi2usb'', tg_board = atlys_board, tg_infos = Some atlys_hdmi_infos,
      tg_mem_map = atlys_hdmi2usb_mem_map,
      tg_csrs = [atlys_csr_peripherals, atlys_video_csr_peripherals, atlys_hdmi2usb_csr_peripherals],
      tg_build = atlys_hdmi2usb_soc\<rparr>"

definition mimasv2_scope_target :: target where
  "mimasv2_scope_target =
     \<lparr>tg_name = ''mimasv2_scope'', tg_board = mimasv2_board, tg_infos = None,
      tg_mem_map = mimasv2_scope_mem_map,
      tg_csrs = [mimasv2_csr_peripherals, mimasv2_scope_csr_peripherals],
      tg_build = mimasv2_scope_soc\<rparr>"

definition arty_net_target :: target where
  "arty_net_target =
     \<lparr>tg_name = ''arty_net'', tg_board = arty_board, tg_infos = None,
      tg_mem_map = arty_net_mem_map,
      tg_csrs = [arty_csr_peripherals, arty_net_csr_peripherals],
      tg_build = arty_net_soc\<rparr>"

definition arty_tf_target :: target where
  "arty_tf_target =
     \<lparr>tg_name = ''arty_tf'', tg_board = arty_board, tg_infos = None,
      tg_mem_map = arty_tf_mem_map,
      tg_csrs = [arty_csr_peripherals],
      tg_build = arty_tf_soc\<rparr>"

definition nexys_video_net_target :: target where
  "nexys_video_net_target =
     \<lparr>tg_name = ''nexys_video_net'', tg_board = nexys_video_board, tg_infos = Some nexys_video_hdmi_infos,
      tg_mem_map = nexys_video_net_mem_map,
      tg_csrs = [nexys_video_csr_peripherals, nexys_video_net_csr_peripherals],
      tg_build = nexys_video_net_soc\<rparr>"

definition nexys_video_video_target :: target where
  "nexys_video_video_target =
     \<lparr>tg_name = ''nexys_video_video'', tg_board = nexys_video_board, tg_infos = Some nexys_video_hdmi_infos,
      tg_mem_map = nexys_video_video_mem_map,
      tg_csrs = [nexys_video_csr_peripherals, nexys_video_net_csr_peripherals,
        nexys_video_video_csr_peripherals],
      tg_build = nexys_video_video_soc\<rparr>"

definition nexys_video_debug_target :: target where
  "nexys_video_debug_target =
     \<lparr>tg_name = ''nexys_video_debug'', tg_board = nexys_video_board, tg_infos = Some nexys_video_hdmi_infos,
      tg_mem_map = nexys_video_debug_mem_map,
      tg_csrs = [nexys_video_csr_peripherals, nexys_video_net_csr_peripherals,
        nexys_video_video_csr_peripherals, nexys_video_debug_csr_peripherals],
      tg_build = nexys_video_debug_soc\<rparr>"

definition mimas_a7_net_target :: target where
  "mimas_a7_net_target =
     \<lparr>tg_name = ''mimas_a7_net'', tg_board = mimas_a7_board, tg_infos = Some mimas_a7_hdmi_infos,
      tg_mem_map = mimas_a7_net_mem_map,
      tg_csrs = [mimas_a7_csr_peripherals, mimas_a7_net_csr_peripherals],
      tg_build = mimas_a7_net_soc\<rparr>"

definition mimas_a7_video_target :: target where
  "mimas_a7_video_target =
     \<lparr>tg_name = ''mimas_a7_video'', tg_board = mimas_a7_board, tg_infos = Some mimas_a7_hdmi_infos,
      tg_mem_map = mimas_a7_video_mem_map,
      tg_csrs = [mimas_a7_csr_peripherals, mimas_a7_net_csr_peripherals, mimas_a7_video_csr_peripherals],
      tg_build = mimas_a7_video_soc\<rparr>"

definition mimas_a7_debug_target :: target where
  "mimas_a7_debug_target =
     \<lparr>tg_name = ''mimas_a7_debug'', tg_board = mimas_a7_board, tg_infos = Some mimas_a7_hdmi_infos,
      tg_mem_map = mimas_a7_debug_mem_map,
      tg_csrs = [mimas_a7_csr_peripherals, mimas_a7_net_csr_peripherals, mimas_a7_video_csr_peripherals,
        mimas_a7_debug_csr_peripherals],
      tg_build = mimas_a7_debug_soc\<rparr>"

definition netv2_net_target :: target where
  "netv2_net_target =
     \<lparr>tg_name = ''netv2_net'', tg_board = netv2_board, tg_infos = Some netv2_hdmi_infos,
      tg_mem_map = netv2_net_mem_map,
      tg_csrs = [netv2_csr_peripherals, netv2_net_csr_peripherals],
      tg_build = netv2_net_soc\<rparr>"

definition netv2_hdmi2pcie_target :: target where
  "netv2_hdmi2pcie_target =
     \<lparr>tg_name = ''netv2_hdmi2pcie'', tg_board = netv2_board, tg_infos = Some netv2_hdmi_infos,
      tg_mem_map = netv2_hdmi2pcie_mem_map,
      tg_csrs = [netv2_csr_peripherals, netv2_hdmi2pcie_csr_peripherals],
      tg_build = netv2_hdmi2pcie_soc\<rparr>"

definition ice40_up5k_b_evn_bridge_target :: target where
  "ice40_up5k_b_evn_bridge_target =
     \<lparr>tg_name = ''ice40_up5k_b_evn_bridge'', tg_board = ice40_up5k_b_evn_board, tg_infos = None,
      tg_mem_map = ice40_up5k_b_evn_bridge_mem_map,
      tg_csrs = [ice40_up5k_b_evn_csr_peripherals, ice40_up5k_b_evn_bridge_csr_peripherals],
      tg_build = ice40_up5k_b_evn_bridge_soc\<rparr>"

definition opsis_targets :: "target list" where
  "opsis_targets =
     [opsis_net_target, opsis_video_target, opsis_hdmi2usb_target, opsis_encoder_target, opsis_axiom_target]"

definition atlys_targets :: "target list" where
  "atlys_targets =
     [atlys_net_target, atlys_video_target, atlys_hdmi2usb_target]"

definition nexys_video_targets :: "target list" where
  "nexys_video_targets =
     [nexys_video_net_target, nexys_video_video_target, nexys_video_debug_target]"

definition mimas_a7_targets :: "target list" where
  "mimas_a7_targets =
     [mimas_a7_net_target, mimas_a7_video_target, mimas_a7_debug_target]"

definition other_targets :: "target list" where
  "other_targets =
     [mimasv2_scope_target, arty_net_target, arty_tf_target, netv2_net_target, netv2_hdmi2pcie_target, ice40_up5k_b_evn_bridge_target]"

definition targets :: "target list" where
  "targets = opsis_targets @ atlys_targets @ nexys_video_targets @ mimas_a7_targets @ other_targets"

section \<open>Bus windows, interrupts and CSR names\<close>

text \<open>The windows of a system as address and size below the shadow bit.\<close>

definition windows :: "soc_stmt list \<Rightarrow> (string \<times> int \<times> int) list" where
  "windows ss = map (\<lambda>(n, a, s). (n, a mod shadow_bit, s)) (regions_of ss)"

text \<open>
  Two windows are apart, unless one is the part of the flash that the linker uses as ROM or for
  the user's program.
\<close>

definition flash_part :: "string \<times> int \<times> int \<Rightarrow> string \<times> int \<times> int \<Rightarrow> bool" where
  "flash_part v w =
     (case (v, w) of ((n, a, s), (m, b, t)) \<Rightarrow>
        n = ''spiflash'' \<and> (m = ''rom'' \<or> m = ''user_flash'') \<and> a \<le> b \<and> b + t \<le> a + s)"

definition two_apart :: "string \<times> int \<times> int \<Rightarrow> string \<times> int \<times> int \<Rightarrow> bool" where
  "two_apart v w =
     (case (v, w) of ((n, a, s), (m, b, t)) \<Rightarrow> a + s \<le> b \<or> b + t \<le> a)"

fun windows_ok :: "(string \<times> int \<times> int) list \<Rightarrow> bool" where
  "windows_ok [] = True"
| "windows_ok (w # ws) =
     (list_all (\<lambda>v. two_apart w v \<or> flash_part w v \<or> flash_part v w) ws \<and> windows_ok ws)"

fun soc_interrupts :: "soc_stmt \<Rightarrow> string list" where
  "soc_interrupts (Interrupt n) = [n]"
| "soc_interrupts _ = []"

fun soc_modules :: "soc_stmt \<Rightarrow> string list" where
  "soc_modules (Submodule n cls args) = [n]"
| "soc_modules (Alias n m) = [n]"
| "soc_modules _ = []"

definition interrupts_ok :: "soc_stmt list \<Rightarrow> bool" where
  "interrupts_ok ss =
     (let irqs = concat (map soc_interrupts ss); mods = concat (map soc_modules ss)
      in distinct irqs \<and> list_all (\<lambda>n. n \<in> set mods) irqs)"

definition wiring_ok :: "(string, int) dict \<Rightarrow> target \<Rightarrow> bool" where
  "wiring_ok base t =
     (case target_soc base t of
        Inl e \<Rightarrow> False
      | Inr ss \<Rightarrow> windows_ok (windows ss) \<and> interrupts_ok ss \<and> distinct (concat (tg_csrs t)))"

lemma opsis_wiring: "list_all (wiring_ok (litex_map rom 0x10000000 csr main_ram)) opsis_targets"
  by code_simp

lemma atlys_wiring: "list_all (wiring_ok (litex_map rom 0x10000000 csr main_ram)) atlys_targets"
  by code_simp

lemma nexys_video_wiring: "list_all (wiring_ok (litex_map rom 0x10000000 csr main_ram)) nexys_video_targets"
  by code_simp

lemma mimas_a7_wiring: "list_all (wiring_ok (litex_map rom 0x10000000 csr main_ram)) mimas_a7_targets"
  by code_simp

lemma other_wiring: "list_all (wiring_ok (litex_map rom 0x10000000 csr main_ram)) other_targets"
  by code_simp


section \<open>Pads\<close>

text \<open>
  The platform of a system and the system; those that are built on another one of the list take at
  least its pads.
\<close>

definition target_pins :: "(board_pins \<times> target) list" where
  "target_pins =
     [(opsis_pins, opsis_hdmi2usb_target),
      (atlys_pins, atlys_hdmi2usb_target),
      (mimasv2_pins, mimasv2_scope_target),
      (arty_pins, arty_net_target),
      (nexys_video_pins, nexys_video_debug_target),
      (mimas_a7_pins, mimas_a7_debug_target),
      (netv2_pins, netv2_net_target),
      (netv2_pins, netv2_hdmi2pcie_target),
      (ice40_up5k_b_evn_pins, ice40_up5k_b_evn_bridge_target)]"

definition target_balls_ok :: "(string list \<Rightarrow> bool) \<Rightarrow> (string, int) dict \<Rightarrow> board_pins \<times> target \<Rightarrow> bool" where
  "target_balls_ok P base bt = (case bt of (bp, t) \<Rightarrow> balls_ok P bp (target_soc base t))"

lemma target_balls_ok_mono:
  "target_balls_ok P base bt \<Longrightarrow> (\<And>bs. P bs \<Longrightarrow> Q bs) \<Longrightarrow> target_balls_ok Q base bt"
  unfolding target_balls_ok_def by (auto intro: balls_ok_mono)

lemma opsis_hdmi2usb_target_balls:
  "target_balls_ok all_different (litex_map rom 0x10000000 csr main_ram) (opsis_pins, opsis_hdmi2usb_target)"
  by code_simp

lemma atlys_hdmi2usb_target_balls:
  "target_balls_ok all_different (litex_map rom 0x10000000 csr main_ram) (atlys_pins, atlys_hdmi2usb_target)"
  by code_simp

lemma mimasv2_scope_target_balls:
  "target_balls_ok all_different (litex_map rom 0x10000000 csr main_ram) (mimasv2_pins, mimasv2_scope_target)"
  by code_simp

lemma arty_net_target_balls:
  "target_balls_ok all_different (litex_map rom 0x10000000 csr main_ram) (arty_pins, arty_net_target)"
  by code_simp

lemma nexys_video_debug_target_balls:
  "target_balls_ok all_different (litex_map rom 0x10000000 csr main_ram) (nexys_video_pins, nexys_video_debug_target)"
  by code_simp

lemma mimas_a7_debug_target_balls:
  "target_balls_ok all_different (litex_map rom 0x10000000 csr main_ram) (mimas_a7_pins, mimas_a7_debug_target)"
  by code_simp

lemma netv2_net_target_balls:
  "target_balls_ok all_different (litex_map rom 0x10000000 csr main_ram) (netv2_pins, netv2_net_target)"
  by code_simp

lemma netv2_hdmi2pcie_target_balls:
  "target_balls_ok all_different (litex_map rom 0x10000000 csr main_ram) (netv2_pins, netv2_hdmi2pcie_target)"
  by code_simp

lemma ice40_up5k_b_evn_bridge_target_balls:
  "target_balls_ok all_different (litex_map rom 0x10000000 csr main_ram) (ice40_up5k_b_evn_pins, ice40_up5k_b_evn_bridge_target)"
  by code_simp

lemmas target_balls =
  opsis_hdmi2usb_target_balls
  atlys_hdmi2usb_target_balls
  mimasv2_scope_target_balls
  arty_net_target_balls
  nexys_video_debug_target_balls
  mimas_a7_debug_target_balls
  netv2_net_target_balls
  netv2_hdmi2pcie_target_balls
  ice40_up5k_b_evn_bridge_target_balls

text \<open>
  C24 (pads of the systems): the largest systems of the boards (with Ethernet, video, the encoder,
  the logic analyser, PCIe or the debug bridges) get every pad that they, their base classes, their
  clock generators and their modules ask for, and no ball of the FPGA is given out twice.
\<close>

theorem targets_pads_disjoint:
  "list_all (target_balls_ok distinct (litex_map rom 0x10000000 csr main_ram)) target_pins"
  unfolding target_pins_def list.pred_inject(2)
  by (intro conjI list.pred_inject(1) target_balls [THEN target_balls_ok_mono] all_different_distinct)

section \<open>Ethernet systems with another processor\<close>

definition net_boot_targets :: "target list" where
  "net_boot_targets =
     [opsis_net_target, opsis_video_target, opsis_hdmi2usb_target, opsis_encoder_target,
      opsis_axiom_target, atlys_net_target, arty_net_target]"

text \<open>The boot address behind the bitstream, and the size of the ROM.\<close>

definition boot_and_rom :: "int \<Rightarrow> int \<Rightarrow> (string, int) dict \<Rightarrow> string \<Rightarrow> target \<Rightarrow> bool" where
  "boot_and_rom boot rom_size base cpu t =
     (case (target_soc_cpu base cpu [] t, pa_gateware_size (bd_attrs (tg_board t))) of
        (Inr ss, Some g) \<Rightarrow> boot_offset ss = Some (g + boot) \<and> concat (map rom_sizes ss) = [rom_size]
      | _ \<Rightarrow> False)"

lemma net_boot_lm32:
  "list_all (boot_and_rom 0x8000 0x8000 (litex_map rom sram csr main_ram) ''lm32'') net_boot_targets"
  by code_simp

lemma net_boot_mor1kx:
  "list_all (boot_and_rom 0x8000 0x10000 (litex_map rom sram csr main_ram) ''mor1kx'') net_boot_targets"
  by code_simp

lemma net_boot_picorv32:
  "list_all (boot_and_rom 0x8000 0x10000 (litex_map rom sram csr main_ram) ''picorv32'') net_boot_targets"
  by code_simp

lemma net_boot_vexriscv:
  "list_all (boot_and_rom 0x8000 0x10000 (litex_map rom sram csr main_ram) ''vexriscv'') net_boot_targets"
  by code_simp

section \<open>Linux and the encoder\<close>

definition linux_windows :: "(string, int) dict \<Rightarrow> target \<Rightarrow> (string \<times> int \<times> int) list option" where
  "linux_windows base t =
     (case target_soc_cpu base ''vexriscv'' ''linux'' t of
        Inl e \<Rightarrow> None | Inr ss \<Rightarrow> Some (windows ss))"

definition at_same_address :: "(string \<times> int \<times> int) list \<Rightarrow> string \<Rightarrow> string \<Rightarrow> bool" where
  "at_same_address ws n m =
     (case (map_of ws n, map_of ws m) of
        (Some (a, s), Some (b, t)) \<Rightarrow> a = b \<and> 0 < s \<and> 0 < t | _ \<Rightarrow> False)"

definition linux_collides :: "(string, int) dict \<Rightarrow> target \<Rightarrow> bool" where
  "linux_collides base t =
     (case linux_windows base t of None \<Rightarrow> False
      | Some ws \<Rightarrow> at_same_address ws ''emulator_ram'' ''encoder'')"

text \<open>
  With the Linux variant of VexRiscv the Opsis systems that have
  the JPEG encoder put the emulator's RAM and the encoder at the same bus address.
\<close>

theorem linux_encoder_collision:
  "list_all (linux_collides (litex_map rom sram csr main_ram)) [opsis_hdmi2usb_target, opsis_encoder_target]"
  by code_simp

end
