(* ===== verification/Rtp.thy ===== *)
theory Rtp
  imports Hdl_Prelude "HOL-Library.Sublist"
begin

text \<open>
  The RTP transport of the JPEG stream, \<open>gateware/streamer/rtp.py\<close>: the generator that cuts the bytes
  of the encoder into packets, and the sender that numbers them.  The FIFO of the library in front of
  the generator is a parameter with the behaviour of a bounded queue as the hypothesis \<open>sync_fifo\<close>;
  its flush timer and the packetizer of the library are inputs.  Shown: the packets are consecutive
  pieces of the byte stream and announce their length, no counter overflows, packets are numbered in
  order, and the header fields tile the header.
\<close>

section \<open>The header\<close>

text \<open>A field has a name, its first byte, the first bit in it, and its width.\<close>

record header_field =
  hf_name :: string
  hf_byte :: nat
  hf_offset :: nat
  hf_width :: nat

definition header_field_of :: "string \<Rightarrow> nat \<Rightarrow> nat \<Rightarrow> nat \<Rightarrow> header_field" where
  "header_field_of n b o1 w = \<lparr>hf_name = n, hf_byte = b, hf_offset = o1, hf_width = w\<rparr>"

definition rtp_header_length :: nat where
  "rtp_header_length = 12"

definition rtp_header_fields :: "header_field list" where
  "rtp_header_fields =
     [header_field_of ''ver'' 0 6 2, header_field_of ''p'' 0 5 1, header_field_of ''x'' 0 4 1,
      header_field_of ''cc'' 0 0 4, header_field_of ''m'' 1 7 1, header_field_of ''pt'' 1 0 7,
      header_field_of ''sequence_number'' 2 0 16, header_field_of ''timestamp'' 4 0 32,
      header_field_of ''ssrc'' 8 0 32]"

text \<open>The constants that the sender puts into the header.\<close>

definition rtp_header_constants :: "(string \<times> nat) list" where
  "rtp_header_constants = [(''ver'', 2), (''p'', 0), (''x'', 0), (''cc'', 0), (''m'', 0), (''pt'', 26), (''ssrc'', 1)]"

definition field_bits :: "header_field \<Rightarrow> nat list" where
  "field_bits h = [8 * hf_byte h + hf_offset h ..< 8 * hf_byte h + hf_offset h + hf_width h]"

definition constant_fits :: "string \<times> nat \<Rightarrow> bool" where
  "constant_fits nv = list_ex (\<lambda>h. hf_name h = fst nv \<and> snd nv < 2 ^ hf_width h) rtp_header_fields"

section \<open>The generator\<close>

text \<open>
  The FIFO: fill level, is there a byte, the byte, is there room, the clock edge (offered byte and
  read strobe), and the state after reset.
\<close>

record 'f fifo_ops =
  ff_level :: "'f \<Rightarrow> nat"
  ff_stb :: "'f \<Rightarrow> bool"
  ff_data :: "'f \<Rightarrow> 8 word"
  ff_ready :: "'f \<Rightarrow> bool"
  ff_step :: "bool \<times> 8 word \<Rightarrow> bool \<Rightarrow> 'f \<Rightarrow> 'f"
  ff_init :: 'f

datatype rtp_fsm = RTP_IDLE | RTP_SEND

record 'f rtp_gen =
  rg_fsm :: rtp_fsm
  rg_level :: nat
  rg_counter :: nat
  rg_fifo :: 'f

record rtp_in =
  ri_valid :: bool
  ri_data :: "8 word"
  ri_done :: bool
  ri_ack :: bool

record rtp_beat =
  rb_sop :: bool
  rb_eop :: bool
  rb_length :: "16 word"
  rb_data :: "8 word"

definition rtp_gen_init :: "'f fifo_ops \<Rightarrow> 'f rtp_gen" where
  "rtp_gen_init ops = \<lparr>rg_fsm = RTP_IDLE, rg_level = 0, rg_counter = 0, rg_fifo = ff_init ops\<rparr>"

definition rtp_wait :: "'f fifo_ops \<Rightarrow> 'f rtp_gen \<Rightarrow> bool" where
  "rtp_wait ops s = (rg_fsm s = RTP_IDLE \<and> ff_level ops (rg_fifo s) > 0)"

definition rtp_start :: "'f fifo_ops \<Rightarrow> rtp_in \<Rightarrow> 'f rtp_gen \<Rightarrow> bool" where
  "rtp_start ops i s =
     (rg_fsm s = RTP_IDLE
      \<and> (ff_level ops (rg_fifo s) \<ge> 256 \<or> ff_level ops (rg_fifo s) > 0 \<and> ri_done i))"

definition rtp_eop :: "'f rtp_gen \<Rightarrow> bool" where
  "rtp_eop s = (if rg_level s = 0 then True else rg_counter s = rg_level s - 1)"

definition rtp_length :: "'f rtp_gen \<Rightarrow> 16 word" where
  "rtp_length s = (if rg_level s = 0 then 1 else of_nat (rg_level s))"

definition rtp_accept :: "'f fifo_ops \<Rightarrow> rtp_in \<Rightarrow> 'f rtp_gen \<Rightarrow> bool" where
  "rtp_accept ops i s = (rg_fsm s = RTP_SEND \<and> ff_stb ops (rg_fifo s) \<and> ri_ack i)"

definition rtp_gen_out :: "'f fifo_ops \<Rightarrow> rtp_in \<Rightarrow> 'f rtp_gen \<Rightarrow> rtp_beat list" where
  "rtp_gen_out ops i s =
     (if rtp_accept ops i s
      then [\<lparr>rb_sop = (rg_counter s = 0), rb_eop = rtp_eop s, rb_length = rtp_length s,
             rb_data = ff_data ops (rg_fifo s)\<rparr>]
      else [])"

text \<open>The registers for the level and the counter have \<open>wl\<close> and \<open>wc\<close> bits.\<close>

definition rtp_gen_step :: "nat \<Rightarrow> nat \<Rightarrow> 'f fifo_ops \<Rightarrow> rtp_in \<Rightarrow> 'f rtp_gen \<Rightarrow> 'f rtp_gen" where
  "rtp_gen_step wl wc ops i s =
     \<lparr>rg_fsm = (case rg_fsm s of
          RTP_IDLE \<Rightarrow> if rtp_start ops i s then RTP_SEND else RTP_IDLE
        | RTP_SEND \<Rightarrow> if rtp_accept ops i s \<and> rtp_eop s then RTP_IDLE else RTP_SEND),
      rg_level = (if rtp_start ops i s then ff_level ops (rg_fifo s) mod 2 ^ wl else rg_level s),
      rg_counter =
        (if rtp_start ops i s then 0
         else if rtp_accept ops i s then (rg_counter s + 1) mod 2 ^ wc else rg_counter s),
      rg_fifo = ff_step ops (ri_valid i, ri_data i) (rg_fsm s = RTP_SEND \<and> ri_ack i) (rg_fifo s)\<rparr>"

text \<open>The bytes that the encoder gets rid of.\<close>

definition rtp_taken :: "'f fifo_ops \<Rightarrow> rtp_in \<Rightarrow> 'f rtp_gen \<Rightarrow> 8 word list" where
  "rtp_taken ops i s = (if ri_valid i \<and> ff_ready ops (rg_fifo s) then [ri_data i] else [])"

section \<open>The sender\<close>

record rtp_sender =
  rs_fsm :: rtp_fsm
  rs_sequence :: "16 word"
  rs_timestamp :: "32 word"

text \<open>What the packetizer offers, with a beat of any type, and the acknowledge of the UDP core.\<close>

record rtp_offer =
  ro_stb :: bool
  ro_sop :: bool
  ro_eop :: bool

definition rtp_sender_init :: rtp_sender where
  "rtp_sender_init = \<lparr>rs_fsm = RTP_IDLE, rs_sequence = 0, rs_timestamp = 0\<rparr>"

definition packetizer_ack :: "rtp_offer \<Rightarrow> bool \<Rightarrow> rtp_sender \<Rightarrow> bool" where
  "packetizer_ack r ack s =
     (case rs_fsm s of RTP_IDLE \<Rightarrow> \<not> (ro_stb r \<and> ro_sop r) | RTP_SEND \<Rightarrow> ack)"

definition rtp_sent :: "rtp_offer \<Rightarrow> bool \<Rightarrow> rtp_sender \<Rightarrow> bool" where
  "rtp_sent r ack s = (rs_fsm s = RTP_SEND \<and> ro_stb r \<and> ack)"

definition rtp_sender_step :: "rtp_offer \<Rightarrow> bool \<Rightarrow> rtp_sender \<Rightarrow> rtp_sender" where
  "rtp_sender_step r ack s =
     \<lparr>rs_fsm = (case rs_fsm s of
          RTP_IDLE \<Rightarrow> if ro_stb r \<and> ro_sop r then RTP_SEND else RTP_IDLE
        | RTP_SEND \<Rightarrow> if ro_stb r \<and> ro_eop r \<and> ack then RTP_IDLE else RTP_SEND),
      rs_sequence = (if rtp_sent r ack s \<and> ro_eop r then rs_sequence s + 1 else rs_sequence s),
      rs_timestamp = rs_timestamp s + 1\<rparr>"

definition udp_length :: "16 word \<Rightarrow> 16 word" where
  "udp_length len = len + of_nat rtp_header_length"

section \<open>The header is tiled\<close>

text \<open>
  Every bit of the twelve bytes of the header belongs to exactly one field, and
  every constant that the sender writes fits its field.
\<close>

theorem rtp_header_layout:
  "sort (concat (map field_bits rtp_header_fields)) = [0..<8 * rtp_header_length]
   \<and> distinct (map hf_name rtp_header_fields) \<and> list_all constant_fits rtp_header_constants"
proof (intro conjI)
  show "sort (concat (map field_bits rtp_header_fields)) = [0..<8 * rtp_header_length]"
    by (simp add: rtp_header_fields_def header_field_of_def field_bits_def rtp_header_length_def upt_conv_Cons)
  show "distinct (map hf_name rtp_header_fields)" "list_all constant_fits rtp_header_constants"
    by (simp_all add: rtp_header_fields_def header_field_of_def constant_fits_def rtp_header_constants_def)
qed

section \<open>Packets\<close>

text \<open>A bounded queue: the state stands for the bytes it holds.\<close>

definition sync_fifo :: "nat \<Rightarrow> 'f fifo_ops \<Rightarrow> ('f \<Rightarrow> 8 word list) \<Rightarrow> bool" where
  "sync_fifo depth ops bytes \<longleftrightarrow>
     bytes (ff_init ops) = []
     \<and> (\<forall>f. ff_level ops f = length (bytes f))
     \<and> (\<forall>f. ff_stb ops f \<longleftrightarrow> bytes f \<noteq> [])
     \<and> (\<forall>f. bytes f \<noteq> [] \<longrightarrow> ff_data ops f = hd (bytes f))
     \<and> (\<forall>f. ff_ready ops f \<longleftrightarrow> length (bytes f) < depth)
     \<and> (\<forall>f v d r. bytes (ff_step ops (v, d) r f) =
          (if r then tl (bytes f) else bytes f) @ (if v \<and> length (bytes f) < depth then [d] else []))"

definition packet_beats :: "8 word list \<Rightarrow> rtp_beat list" where
  "packet_beats bs =
     map (\<lambda>k. \<lparr>rb_sop = (k = 0), rb_eop = (k = length bs - 1), rb_length = of_nat (length bs),
               rb_data = bs ! k\<rparr>) [0..<length bs]"

lemma length_packet_beats [simp]: "length (packet_beats bs) = length bs"
  by (simp add: packet_beats_def)

lemma packet_beats_Nil [simp]: "packet_beats [] = []"
  by (simp add: packet_beats_def)

lemma nth_packet_beats [simp]:
  "k < length bs \<Longrightarrow> packet_beats bs ! k =
     \<lparr>rb_sop = (k = 0), rb_eop = (k = length bs - 1), rb_length = of_nat (length bs), rb_data = bs ! k\<rparr>"
  by (simp add: packet_beats_def)

text \<open>
  What holds after any number of cycles: \<open>ps\<close> are the packets sent, \<open>p\<close> the one under way, of which
  \<open>k\<close> bytes are out.
\<close>

definition rtp_inv ::
  "nat \<Rightarrow> ('f \<Rightarrow> 8 word list) \<Rightarrow> rtp_beat list \<Rightarrow> 8 word list \<Rightarrow> 'f rtp_gen \<Rightarrow>
   8 word list list \<Rightarrow> 8 word list \<Rightarrow> nat \<Rightarrow> bool" where
  "rtp_inv depth bytes beats taken s ps p k \<longleftrightarrow>
     beats = concat (map packet_beats ps) @ take k (packet_beats p)
     \<and> taken = concat ps @ take k p @ bytes (rg_fifo s)
     \<and> (\<forall>q \<in> set ps. q \<noteq> [] \<and> length q \<le> depth) \<and> length p \<le> depth
     \<and> length (bytes (rg_fifo s)) \<le> depth
     \<and> (case rg_fsm s of
          RTP_IDLE \<Rightarrow> p = [] \<and> k = 0
        | RTP_SEND \<Rightarrow> k < length p \<and> rg_level s = length p \<and> rg_counter s = k
            \<and> prefix (drop k p) (bytes (rg_fifo s)))"

lemma take_packet_beats:
  assumes "k < length p" "rg_level s = length p" "rg_counter s = k" "ff_data ops (rg_fifo s) = p ! k"
  shows "take (Suc k) (packet_beats p) = take k (packet_beats p) @
     [\<lparr>rb_sop = (rg_counter s = 0), rb_eop = rtp_eop s, rb_length = rtp_length s,
       rb_data = ff_data ops (rg_fifo s)\<rparr>]"
  using assms by (auto simp: take_Suc_conv_app_nth rtp_eop_def rtp_length_def)

lemma prefix_drop_tl:
  assumes "prefix (drop k p) xs" "k < length p"
  shows "xs \<noteq> []" "hd xs = p ! k" "prefix (drop (Suc k) p) (tl xs)" "take (Suc k) p @ tl xs = take k p @ xs"
proof -
  from assms obtain ys where xs: "xs = p ! k # drop (Suc k) p @ ys"
    by (auto simp: prefix_def Cons_nth_drop_Suc [symmetric])
  show "xs \<noteq> []" "hd xs = p ! k" "prefix (drop (Suc k) p) (tl xs)" by (simp_all add: xs)
  show "take (Suc k) p @ tl xs = take k p @ xs"
    using assms(2) by (simp add: xs take_Suc_conv_app_nth)
qed

lemma rtp_fifo_facts:
  assumes "sync_fifo depth ops bytes" "rtp_inv depth bytes beats taken s ps p k"
  shows "bytes (ff_step ops (ri_valid i, ri_data i) r (rg_fifo s)) =
      (if r then tl (bytes (rg_fifo s)) else bytes (rg_fifo s)) @ rtp_taken ops i s"
    and "length (bytes (rg_fifo s)) + length (rtp_taken ops i s) \<le> depth"
    and "ff_level ops (rg_fifo s) = length (bytes (rg_fifo s))"
    and "ff_stb ops (rg_fifo s) = (bytes (rg_fifo s) \<noteq> [])"
  using assms by (auto simp: sync_fifo_def rtp_taken_def rtp_inv_def)

lemma rtp_inv_idle:
  assumes f: "sync_fifo depth ops bytes" and w: "depth < 2 ^ wl"
    and inv: "rtp_inv depth bytes beats taken s ps p k" and idle: "rg_fsm s = RTP_IDLE"
  shows "\<exists>ps p k. rtp_inv depth bytes (beats @ rtp_gen_out ops i s) (taken @ rtp_taken ops i s)
      (rtp_gen_step wl wc ops i s) ps p k"
proof -
  define xs where "xs = bytes (rg_fifo s)"
  note fifo = rtp_fifo_facts(1,2) [OF f inv, of i, folded xs_def] rtp_fifo_facts(3,4) [OF f inv, folded xs_def]
  have p: "p = []" "k = 0" using inv idle by (simp_all add: rtp_inv_def)
  show ?thesis
  proof (cases "rtp_start ops i s")
    case True
    then have "xs \<noteq> []" by (auto simp: rtp_start_def fifo(3))
    moreover have "length xs mod 2 ^ wl = length xs" using fifo(2) w by simp
    ultimately have "rtp_inv depth bytes (beats @ rtp_gen_out ops i s) (taken @ rtp_taken ops i s)
        (rtp_gen_step wl wc ops i s) ps xs 0"
      using inv fifo(2) True idle p
      by (simp add: rtp_inv_def rtp_gen_step_def rtp_gen_out_def rtp_accept_def fifo(1,3) xs_def [symmetric])
    then show ?thesis by blast
  next
    case False
    then have "rtp_inv depth bytes (beats @ rtp_gen_out ops i s) (taken @ rtp_taken ops i s)
        (rtp_gen_step wl wc ops i s) ps [] 0"
      using inv fifo(2) idle p
      by (simp add: rtp_inv_def rtp_gen_step_def rtp_gen_out_def rtp_accept_def fifo(1) xs_def [symmetric])
    then show ?thesis by blast
  qed
qed

lemma rtp_inv_send:
  assumes f: "sync_fifo depth ops bytes" and w: "depth \<le> 2 ^ wc"
    and inv: "rtp_inv depth bytes beats taken s ps p k" and send: "rg_fsm s = RTP_SEND"
  shows "\<exists>ps p k. rtp_inv depth bytes (beats @ rtp_gen_out ops i s) (taken @ rtp_taken ops i s)
      (rtp_gen_step wl wc ops i s) ps p k"
proof -
  define xs where "xs = bytes (rg_fifo s)"
  define new where "new = rtp_taken ops i s"
  note fifo = rtp_fifo_facts(1,2) [OF f inv, of i, folded xs_def new_def]
    rtp_fifo_facts(3,4) [OF f inv, folded xs_def]
  have k: "k < length p" "rg_level s = length p" "rg_counter s = k" "prefix (drop k p) xs"
    using inv send by (simp_all add: rtp_inv_def xs_def)
  note x = prefix_drop_tl [OF k(4,1)]
  have no: "\<not> rtp_start ops i s" using send by (simp add: rtp_start_def)
  show ?thesis
  proof (cases "ri_ack i")
    case False
    then have "rtp_inv depth bytes (beats @ rtp_gen_out ops i s) (taken @ new) (rtp_gen_step wl wc ops i s) ps p k"
      using inv fifo(2) send no k
      by (auto simp: rtp_inv_def rtp_gen_step_def rtp_gen_out_def rtp_accept_def fifo(1) xs_def [symmetric])
    then show ?thesis unfolding new_def by blast
  next
    case True
    then have acc: "rtp_accept ops i s" using send x(1) by (simp add: rtp_accept_def fifo(4))
    have data: "ff_data ops (rg_fifo s) = p ! k" using f x(1,2) by (simp add: sync_fifo_def xs_def)
    have out: "beats @ rtp_gen_out ops i s = concat (map packet_beats ps) @ take (Suc k) (packet_beats p)"
      using inv acc take_packet_beats [OF k(1-3) data] by (simp add: rtp_inv_def rtp_gen_out_def)
    have tk: "taken @ new = concat ps @ take (Suc k) p @ tl xs @ new"
      using inv x(4) by (simp add: rtp_inv_def xs_def [symmetric])
    have len: "length (tl xs @ new) \<le> depth" "length p \<le> depth" "\<forall>q \<in> set ps. q \<noteq> [] \<and> length q \<le> depth"
      using fifo(2) inv by (auto simp: rtp_inv_def)
    have "rtp_inv depth bytes (beats @ rtp_gen_out ops i s) (taken @ new) (rtp_gen_step wl wc ops i s) (ps @ [p]) [] 0"
      if "Suc k = length p"
      using that out tk len k True send no acc by (auto simp: rtp_inv_def rtp_gen_step_def rtp_eop_def fifo(1))
    moreover have "rtp_inv depth bytes (beats @ rtp_gen_out ops i s) (taken @ new) (rtp_gen_step wl wc ops i s) ps p (Suc k)"
      if "Suc k \<noteq> length p"
    proof -
      from that have "Suc k mod 2 ^ wc = Suc k" using k(1) len(2) w by simp
      with that show ?thesis using out tk len k True send no acc x(3)
        by (auto simp: rtp_inv_def rtp_gen_step_def rtp_eop_def fifo(1))
    qed
    ultimately show ?thesis unfolding new_def by blast
  qed
qed

lemma rtp_inv_step:
  assumes "sync_fifo depth ops bytes" "depth < 2 ^ wl" "depth \<le> 2 ^ wc" "rtp_inv depth bytes beats taken s ps p k"
  shows "\<exists>ps p k. rtp_inv depth bytes (beats @ rtp_gen_out ops i s) (taken @ rtp_taken ops i s)
      (rtp_gen_step wl wc ops i s) ps p k"
  using rtp_inv_idle [OF assms(1,2,4)] rtp_inv_send [OF assms(1,3,4)] by (cases "rg_fsm s") blast+

lemma rtp_inv_run:
  assumes "sync_fifo depth ops bytes" "depth < 2 ^ wl" "depth \<le> 2 ^ wc"
  shows "\<exists>ps p k. rtp_inv depth bytes (collect (rtp_gen_step wl wc ops) (rtp_gen_out ops) is (rtp_gen_init ops))
     (collect (rtp_gen_step wl wc ops) (rtp_taken ops) is (rtp_gen_init ops))
     (run (rtp_gen_step wl wc ops) is (rtp_gen_init ops)) ps p k"
proof (induction "is" rule: rev_induct)
  case Nil
  have "rtp_inv depth bytes [] [] (rtp_gen_init ops) [] [] 0"
    using assms(1) by (simp add: rtp_inv_def rtp_gen_init_def sync_fifo_def)
  then show ?case by (auto intro!: exI)
next
  case (snoc i "is")
  then obtain ps p k where "rtp_inv depth bytes (collect (rtp_gen_step wl wc ops) (rtp_gen_out ops) is (rtp_gen_init ops))
     (collect (rtp_gen_step wl wc ops) (rtp_taken ops) is (rtp_gen_init ops))
     (run (rtp_gen_step wl wc ops) is (rtp_gen_init ops)) ps p k" by blast
  from rtp_inv_step [OF assms this, of i] show ?case by simp
qed


text \<open>A FIFO: the list of its bytes.\<close>

definition list_fifo :: "nat \<Rightarrow> 8 word list fifo_ops" where
  "list_fifo depth =
     \<lparr>ff_level = length, ff_stb = (\<lambda>xs. xs \<noteq> []), ff_data = hd, ff_ready = (\<lambda>xs. length xs < depth),
      ff_step = (\<lambda>(v, d) r xs. (if r then tl xs else xs) @ (if v \<and> length xs < depth then [d] else [])),
      ff_init = []\<rparr>"

lemma sync_fifo_list: "sync_fifo depth (list_fifo depth) id"
  by (simp add: sync_fifo_def list_fifo_def)

text \<open>Two bytes arrive, the flush timer is up, and the network takes both.\<close>

definition rtp_demo :: "rtp_in list" where
  "rtp_demo =
     (let cycle = (\<lambda>v d. \<lparr>ri_valid = v, ri_data = d, ri_done = \<not> v, ri_ack = True\<rparr>)
      in [cycle True 7, cycle True 9, cycle False 0, cycle False 0, cycle False 0])"


text \<open>
  C9 (lengths fit): while a packet goes out, the byte counter is below the length captured for it,
  that length is between 1 and the depth of the FIFO, and for a FIFO whose bytes fit a datagram the
  length given to the UDP core is that length plus the 12 bytes of the header, without wrap-around.
\<close>

theorem rtp_lengths_fit:
  assumes "sync_fifo depth ops bytes" "depth < 2 ^ wl" "depth \<le> 2 ^ wc"
    and "depth + rtp_header_length < 2 ^ 16"
    and "rg_fsm (run (rtp_gen_step wl wc ops) is (rtp_gen_init ops)) = RTP_SEND"
  shows "rg_counter (run (rtp_gen_step wl wc ops) is (rtp_gen_init ops))
           < rg_level (run (rtp_gen_step wl wc ops) is (rtp_gen_init ops))
       \<and> rg_level (run (rtp_gen_step wl wc ops) is (rtp_gen_init ops)) \<le> depth
       \<and> unat (udp_length (rtp_length (run (rtp_gen_step wl wc ops) is (rtp_gen_init ops))))
           = rg_level (run (rtp_gen_step wl wc ops) is (rtp_gen_init ops)) + rtp_header_length"
proof -
  let ?s = "run (rtp_gen_step wl wc ops) is (rtp_gen_init ops)"
  from rtp_inv_run [OF assms(1-3), of "is"] obtain beats taken ps p k
    where "rtp_inv depth bytes beats taken ?s ps p k" by blast
  with assms(5) have b: "rg_counter ?s < rg_level ?s" "rg_level ?s \<le> depth"
    by (auto simp: rtp_inv_def)
  then have "udp_length (rtp_length ?s) = of_nat (rg_level ?s + rtp_header_length)"
    by (simp add: udp_length_def rtp_length_def)
  moreover have "rg_level ?s + rtp_header_length < 2 ^ LENGTH(16)" using b(2) assms(4) by simp
  ultimately have "unat (udp_length (rtp_length ?s)) = rg_level ?s + rtp_header_length"
    by (simp add: unat_of_nat del: of_nat_add)
  with b show ?thesis by blast
qed

theorem rtp_lengths_fit_witness:
  "unat (udp_length (rtp_length (run (rtp_gen_step 2 2 (list_fifo 3)) (take 3 rtp_demo) (rtp_gen_init (list_fifo 3))))) = 14"
proof -
  have "rg_fsm (run (rtp_gen_step 2 2 (list_fifo 3)) (take 3 rtp_demo) (rtp_gen_init (list_fifo 3))) = RTP_SEND"
      "rg_level (run (rtp_gen_step 2 2 (list_fifo 3)) (take 3 rtp_demo) (rtp_gen_init (list_fifo 3))) = 2"
    by code_simp+
  with rtp_lengths_fit [OF sync_fifo_list, of 3 2 2 "take 3 rtp_demo"] show ?thesis
    by (simp add: rtp_header_length_def)
qed

section \<open>Numbering\<close>

text \<open>
  The packetizer as a source of packets: it offers the next beat when it is ready, and goes on when
  the sender acknowledges.  A packet is a list of beats; the flags are those of its position.
\<close>

record 'b rtp_link =
  rl_sender :: rtp_sender
  rl_packets :: "'b list list"
  rl_pos :: nat

definition link_offer :: "bool \<Rightarrow> 'b rtp_link \<Rightarrow> rtp_offer" where
  "link_offer valid s =
     (case rl_packets s of
        [] \<Rightarrow> \<lparr>ro_stb = False, ro_sop = False, ro_eop = False\<rparr>
      | p # ps \<Rightarrow> \<lparr>ro_stb = valid, ro_sop = (rl_pos s = 0), ro_eop = (rl_pos s = length p - 1)\<rparr>)"

definition link_step :: "bool \<times> bool \<Rightarrow> 'b rtp_link \<Rightarrow> 'b rtp_link" where
  "link_step i s =
     (let r = link_offer (fst i) s; taken = ro_stb r \<and> packetizer_ack r (snd i) (rl_sender s)
      in \<lparr>rl_sender = rtp_sender_step r (snd i) (rl_sender s),
          rl_packets = (if taken \<and> ro_eop r then tl (rl_packets s) else rl_packets s),
          rl_pos = (if taken then (if ro_eop r then 0 else rl_pos s + 1) else rl_pos s)\<rparr>)"

definition link_out :: "bool \<times> bool \<Rightarrow> 'b rtp_link \<Rightarrow> (16 word \<times> 'b) list" where
  "link_out i s =
     (if rtp_sent (link_offer (fst i) s) (snd i) (rl_sender s)
      then [(rs_sequence (rl_sender s), hd (rl_packets s) ! rl_pos s)] else [])"

definition link_init :: "'b list list \<Rightarrow> 'b rtp_link" where
  "link_init ps = \<lparr>rl_sender = rtp_sender_init, rl_packets = ps, rl_pos = 0\<rparr>"

text \<open>The packets with their numbers.\<close>

definition numbered :: "nat \<Rightarrow> 'b list list \<Rightarrow> (16 word \<times> 'b) list" where
  "numbered n ps = concat (map (\<lambda>(k, p). map (Pair (of_nat k)) p) (enumerate n ps))"

lemma numbered_simps [simp]:
  "numbered n [] = []"
  "numbered n (p # ps) = map (Pair (of_nat n)) p @ numbered (Suc n) ps"
  by (simp_all add: numbered_def)

text \<open>What a state has still to send.\<close>

definition link_rest :: "'b rtp_link \<Rightarrow> nat \<Rightarrow> (16 word \<times> 'b) list" where
  "link_rest s n = drop (rl_pos s) (numbered n (rl_packets s))"

definition link_inv :: "'b rtp_link \<Rightarrow> nat \<Rightarrow> bool" where
  "link_inv s n \<longleftrightarrow>
     rs_sequence (rl_sender s) = of_nat n \<and> [] \<notin> set (rl_packets s)
     \<and> (case rl_packets s of [] \<Rightarrow> rl_pos s = 0 | p # ps \<Rightarrow> rl_pos s < length p)
     \<and> (rs_fsm (rl_sender s) = RTP_IDLE \<longrightarrow> rl_pos s = 0)"

lemma link_inv_step:
  assumes "link_inv s n"
  shows "\<exists>m. link_inv (link_step i s) m \<and> link_rest s n = link_out i s @ link_rest (link_step i s) m"
proof (cases "rl_packets s")
  case Nil
  then show ?thesis using assms
    by (intro exI [of _ n])
      (auto simp: link_inv_def link_step_def link_out_def link_rest_def link_offer_def rtp_sent_def
        rtp_sender_step_def Let_def split: rtp_fsm.splits)
next
  case (Cons p ps)
  with assms have k: "rl_pos s < length p" and seq: "rs_sequence (rl_sender s) = of_nat n"
    by (simp_all add: link_inv_def)
  have rest: "link_rest s n = (of_nat n, p ! rl_pos s) # drop (Suc (rl_pos s)) (numbered n (p # ps))"
    using k Cons by (simp add: link_rest_def Cons_nth_drop_Suc [symmetric] nth_append)
  show ?thesis
  proof (cases "rs_fsm (rl_sender s) = RTP_SEND \<and> fst i \<and> snd i")
    case sent: True
    show ?thesis
    proof (cases "rl_pos s = length p - 1")
      case True
      then have "drop (Suc (rl_pos s)) (numbered n (p # ps)) = numbered (Suc n) ps" using k by simp
      with sent True rest Cons assms show ?thesis
        by (intro exI [of _ "Suc n"])
          (auto simp: link_inv_def link_step_def link_out_def link_rest_def link_offer_def rtp_sent_def
            packetizer_ack_def rtp_sender_step_def Let_def split: list.splits)
    next
      case False
      with sent rest Cons assms k show ?thesis
        by (intro exI [of _ n])
          (auto simp: link_inv_def link_step_def link_out_def link_rest_def link_offer_def rtp_sent_def
            packetizer_ack_def rtp_sender_step_def Let_def)
    qed
  next
    case False
    with Cons assms k show ?thesis
      by (intro exI [of _ n])
        (auto simp: link_inv_def link_step_def link_out_def link_rest_def link_offer_def rtp_sent_def
          packetizer_ack_def rtp_sender_step_def Let_def split: rtp_fsm.splits)
  qed
qed

lemma link_inv_run:
  "link_inv s n \<Longrightarrow> \<exists>m. link_inv (run link_step is s) m
     \<and> link_rest s n = collect link_step link_out is s @ link_rest (run link_step is s) m"
proof (induction "is" arbitrary: s n)
  case (Cons i "is")
  from link_inv_step [OF Cons.prems, of i] obtain m where m:
    "link_inv (link_step i s) m" "link_rest s n = link_out i s @ link_rest (link_step i s) m" by blast
  from Cons.IH [OF m(1)] m(2) show ?case by auto
qed auto

text \<open>
  C8 (sequence numbers): whatever the stalls of the packetizer and of the network, the sender passes
  on the beats of the packets in order, none is dropped by its idle state, and the sequence number is
  the number of the packet, modulo \<open>2 ^ 16\<close>, from its first beat to its last.
\<close>

theorem rtp_sequence:
  assumes "[] \<notin> set ps"
  shows "prefix (collect link_step link_out is (link_init ps)) (numbered 0 ps)"
proof -
  have "link_inv (link_init ps) 0"
    using assms by (auto simp: link_inv_def link_init_def rtp_sender_init_def split: list.splits)
  from link_inv_run [OF this, of "is"] show ?thesis
    by (auto simp: link_rest_def link_init_def prefix_def)
qed

theorem rtp_sequence_witness:
  "prefix [(0, CHR ''a''), (0, CHR ''b''), (1, CHR ''c'')] (numbered 0 [''ab'', ''cd''])"
proof -
  have "collect link_step link_out
      [(True, True), (True, True), (False, True), (True, False), (True, True), (True, True), (True, True)]
      (link_init [''ab'', ''cd'']) = [(0, CHR ''a''), (0, CHR ''b''), (1, CHR ''c'')]"
    by code_simp
  with rtp_sequence [of "[''ab'', ''cd'']"] show ?thesis by (metis list.distinct(1) list.set_cases set_ConsD)
qed

end
