(* ===== verification/Prebuilt.thy ===== *)
theory Prebuilt
  imports Py_Strings "HOL-Library.Multiset" "HOL-Library.Product_Lexorder"
    "HOL-Library.List_Lexorder" "HOL-Library.Char_ord"
begin

text \<open>
  \<open>.travis/generate-prebuilt-list.py\<close>, which writes the index of the prebuilt firmware: the list of
  revisions in version order, the channels with their revisions and the checksums of the images of
  each channel.  The commands that the script runs (\<open>svn\<close>) and the rows of the channel spreadsheet are
  parameters.  Shown: what the index holds, in terms of a reference definition without the cache and
  without the search loop, and what the version order is.
\<close>

section \<open>Versions\<close>

type_synonym version_key = "string \<times> int \<times> string"

definition parse_version :: "string \<Rightarrow> version_key py_result" where
  "parse_version v =
     (if CHR ''-'' \<notin> set v then Inr (v, 0, [])
      else case split_char CHR ''-'' v [] of
        [a, b, c] \<Rightarrow> py_bind (py_int b) (\<lambda>n. Inr (a, n, c))
      | _ \<Rightarrow> Inl ValueError)"

text \<open>\<open>revs.sort(key=parse_version)\<close>: all keys are computed, then the sort is stable.\<close>

definition version_key :: "string \<Rightarrow> version_key" where
  "version_key v = (case parse_version v of Inl e \<Rightarrow> ([], 0, []) | Inr k \<Rightarrow> k)"

fun parse_all :: "string list \<Rightarrow> unit py_result" where
  "parse_all [] = Inr ()"
| "parse_all (v # vs) = py_bind (parse_version v) (\<lambda>k. parse_all vs)"

definition sort_versions :: "string list \<Rightarrow> string list py_result" where
  "sort_versions revs = py_bind (parse_all revs) (\<lambda>u. Inr (sort_key version_key revs))"

section \<open>The script\<close>

record prebuilt_args =
  pb_repo :: string
  pb_owner :: string
  pb_branch :: string
  pb_full_platform :: string
  pb_target :: string
  pb_full_cpu :: string
  pb_gh_user :: string
  pb_gh_token :: string

definition prebuilt_checks :: "prebuilt_args \<Rightarrow> unit py_result" where
  "prebuilt_checks a =
     py_assert (pb_repo a \<noteq> [] \<and> pb_owner a \<noteq> [] \<and> pb_branch a = ''master'' \<and> pb_gh_user a \<noteq> []
       \<and> pb_gh_token a \<noteq> [] \<and> pb_full_platform a \<noteq> [] \<and> pb_target a \<noteq> [] \<and> pb_full_cpu a \<noteq> [])"

definition svn_base_url :: "prebuilt_args \<Rightarrow> string" where
  "svn_base_url a = ''https://github.com/'' @ pb_owner a @ ''/'' @ pb_repo a @ ''/trunk/archive/'' @ pb_branch a"

definition git_file_url :: "prebuilt_args \<Rightarrow> string" where
  "git_file_url a = ''https://github.com/'' @ pb_owner a @ ''/'' @ pb_repo a @ ''/blob/master/archive/'' @ pb_branch a"

definition svn_args :: "prebuilt_args \<Rightarrow> string" where
  "svn_args a = ''--non-interactive --username '' @ pb_gh_user a @ '' --password '' @ pb_gh_token a"

definition full_path :: "prebuilt_args \<Rightarrow> string \<Rightarrow> string" where
  "full_path a rev1 = rev1 @ ''/'' @ pb_full_platform a @ ''/'' @ pb_target a @ ''/'' @ pb_full_cpu a @ ''/''"

text \<open>A command as its words; \<open>None\<close> when it fails.\<close>

type_synonym command = "string list \<Rightarrow> string option"

definition list_revs :: "command \<Rightarrow> prebuilt_args \<Rightarrow> string list py_result" where
  "list_revs svn a =
     (case svn (split_space (''svn list '' @ svn_args a @ '' '' @ svn_base_url a) []) of
        None \<Rightarrow> Inl CalledProcessError
      | Some out \<Rightarrow> Inr (map butlast (split_lines out [])))"

type_synonym sum_cache = "(string, string option) dict"

definition fetch_sha256sum :: "command \<Rightarrow> prebuilt_args \<Rightarrow> string \<Rightarrow> string option" where
  "fetch_sha256sum svn a path =
     map_option (py_replace ''./'' (git_file_url a @ ''/'' @ path))
       (svn (split_space (''svn cat '' @ svn_args a @ '' '' @ svn_base_url a @ ''/'' @ path @ ''/sha256sum.txt'') []))"

definition get_sha256sum ::
  "command \<Rightarrow> prebuilt_args \<Rightarrow> string \<Rightarrow> sum_cache \<Rightarrow> string option \<times> sum_cache" where
  "get_sha256sum svn a rev1 cache =
     (case map_of cache (full_path a rev1) of
        Some data \<Rightarrow> (data, cache)
      | None \<Rightarrow>
          (let data = fetch_sha256sum svn a (full_path a rev1)
           in (data, dict_update cache [(full_path a rev1, data)])))"

text \<open>The search for the newest revision with an archive; \<open>urevs.pop(-1)\<close> takes the last one.\<close>

fun find_unstable ::
  "command \<Rightarrow> prebuilt_args \<Rightarrow> string list \<Rightarrow> sum_cache \<Rightarrow> (string \<times> sum_cache) py_result" where
  "find_unstable svn a [] cache = Inl IndexError"
| "find_unstable svn a (rev1 # urevs) cache =
     (case get_sha256sum svn a rev1 cache of
        (data, cache) \<Rightarrow> if truthy data then Inr (rev1, cache) else find_unstable svn a urevs cache)"

definition sheet_row :: "string list \<Rightarrow> (string, string) dict \<Rightarrow> (string, string) dict py_result" where
  "sheet_row row names =
     (if row = [] then Inr names
      else if hd row \<noteq> ''GitHub'' then Inr names
      else case row of
        r0 # r1 # rev1 # name # conf # rest \<Rightarrow>
          if name = [] then Inr names
          else if map_of names name \<noteq> None then Inl AssertionError
          else Inr (dict_update names [(name, rev1)])
      | _ \<Rightarrow> Inl ValueError)"

fun get_channel_spreadsheet ::
  "string list list \<Rightarrow> (string, string) dict \<Rightarrow> (string, string) dict py_result" where
  "get_channel_spreadsheet [] names = Inr names"
| "get_channel_spreadsheet (row # rows) names =
     py_bind (sheet_row row names) (get_channel_spreadsheet rows)"

fun collect_sums ::
  "command \<Rightarrow> prebuilt_args \<Rightarrow> (string \<times> string) list \<Rightarrow> sum_cache \<Rightarrow> (string \<times> string option) list \<times> sum_cache" where
  "collect_sums svn a [] cache = ([], cache)"
| "collect_sums svn a ((channel, rev1) # cs) cache =
     (case get_sha256sum svn a rev1 cache of
        (data, cache) \<Rightarrow> case collect_sums svn a cs cache of (sums, cache) \<Rightarrow> ((channel, data) # sums, cache))"

definition channel_line :: "prebuilt_args \<Rightarrow> string \<times> string \<Rightarrow> string" where
  "channel_line a cr =
     fst cr @ '' '' @ snd cr @ '' '' @ git_file_url a @ ''/'' @ full_path a (snd cr) @ [CHR 0x0A]"

text \<open>The files: \<open>revs.txt\<close>, \<open>channels.txt\<close> and one file of checksums for each channel that has any.\<close>

record prebuilt_files =
  pf_revs :: string
  pf_channels :: string
  pf_sums :: "(string \<times> string) list"

definition sum_file :: "string \<times> string option \<Rightarrow> (string \<times> string) list" where
  "sum_file cd = (if truthy (snd cd) then [(fst cd @ ''.sha256sum'', the (snd cd))] else [])"

definition prebuilt_files_of ::
  "prebuilt_args \<Rightarrow> string list \<Rightarrow> (string \<times> string) list \<Rightarrow> (string \<times> string option) list \<Rightarrow> prebuilt_files" where
  "prebuilt_files_of a revs items sums =
     \<lparr>pf_revs = concat (map (\<lambda>r. r @ [CHR 0x0A]) revs),
      pf_channels = concat (map (channel_line a) items),
      pf_sums = concat (map sum_file sums)\<rparr>"

definition prebuilt_main ::
  "command \<Rightarrow> string list list \<Rightarrow> prebuilt_args \<Rightarrow> prebuilt_files py_result" where
  "prebuilt_main svn rows a =
     py_bind (prebuilt_checks a) (\<lambda>u.
     py_bind (list_revs svn a) (\<lambda>revs.
     py_bind (sort_versions revs) (\<lambda>revs.
     py_bind (find_unstable svn a (rev revs) []) (\<lambda>(unstable, cache).
     py_bind (get_channel_spreadsheet rows []) (\<lambda>names.
       (let items = sort_key fst (dict_update [(''unstable'', unstable)] names)
        in Inr (prebuilt_files_of a revs items (fst (collect_sums svn a items cache)))))))))"

section \<open>The cache does not show\<close>

definition valid_cache :: "command \<Rightarrow> prebuilt_args \<Rightarrow> sum_cache \<Rightarrow> bool" where
  "valid_cache svn a cache \<longleftrightarrow> (\<forall>path data. map_of cache path = Some data \<longrightarrow> data = fetch_sha256sum svn a path)"

definition archive :: "command \<Rightarrow> prebuilt_args \<Rightarrow> string \<Rightarrow> string option" where
  "archive svn a rev1 = fetch_sha256sum svn a (full_path a rev1)"

lemma valid_cache_Nil [simp]: "valid_cache svn a []"
  by (simp add: valid_cache_def)

lemma get_sha256sum_memo:
  assumes "valid_cache svn a cache" "get_sha256sum svn a rev1 cache = (data, cache')"
  shows "data = archive svn a rev1" "valid_cache svn a cache'"
  using assms
  by (auto simp: get_sha256sum_def valid_cache_def archive_def Let_def update_conv' split: option.splits if_splits)

lemma find_unstable_memo:
  assumes "valid_cache svn a cache"
  shows "case find_unstable svn a revs cache of
      Inl e \<Rightarrow> e = IndexError \<and> filter (\<lambda>r. truthy (archive svn a r)) revs = []
    | Inr (r, cache') \<Rightarrow> valid_cache svn a cache' \<and> filter (\<lambda>r. truthy (archive svn a r)) revs \<noteq> []
        \<and> r = hd (filter (\<lambda>r. truthy (archive svn a r)) revs)"
  using assms
proof (induction revs arbitrary: cache)
  case (Cons r revs)
  obtain data cache' where g: "get_sha256sum svn a r cache = (data, cache')" by force
  note m = get_sha256sum_memo [OF Cons.prems g]
  from Cons.IH [OF m(2)] show ?case by (auto simp: g m split: sum.splits)
qed simp

lemma collect_sums_memo:
  "valid_cache svn a cache \<Longrightarrow> fst (collect_sums svn a items cache) = map (\<lambda>(c, r). (c, archive svn a r)) items"
proof (induction items arbitrary: cache)
  case (Cons cr items)
  obtain c r where cr: "cr = (c, r)" by force
  obtain data cache' where g: "get_sha256sum svn a r cache = (data, cache')" by force
  note m = get_sha256sum_memo [OF Cons.prems g]
  obtain sums cache'' where "collect_sums svn a items cache' = (sums, cache'')" by force
  with Cons.IH [OF m(2)] show ?case by (simp add: cr g m(1))
qed simp

section \<open>What the index holds\<close>

text \<open>The index written down directly: no cache, no search loop.\<close>

definition prebuilt_index ::
  "command \<Rightarrow> string list list \<Rightarrow> prebuilt_args \<Rightarrow> prebuilt_files py_result" where
  "prebuilt_index svn rows a =
     py_bind (prebuilt_checks a) (\<lambda>u.
     py_bind (list_revs svn a) (\<lambda>revs.
     py_bind (sort_versions revs) (\<lambda>revs.
       (let built = filter (\<lambda>r. truthy (archive svn a r)) revs
        in if built = [] then Inl IndexError
           else py_bind (get_channel_spreadsheet rows []) (\<lambda>names.
             (let items = sort_key fst (dict_update [(''unstable'', last built)] names)
              in Inr (prebuilt_files_of a revs items (map (\<lambda>(c, r). (c, archive svn a r)) items))))))))"

text \<open>
  C37 (index of the prebuilt firmware): the script writes the index that the reference definition
  describes.  The unstable channel is the last revision in version order that has an archive, unless
  the spreadsheet has a channel of that name; each channel's checksums are those of its own revision
  (the cache never shows); and if no revision has an archive the script ends with an \<open>IndexError\<close>.
\<close>

theorem prebuilt_main_index: "prebuilt_main svn rows a = prebuilt_index svn rows a"
proof -
  have unstable: "py_bind (find_unstable svn a (rev revs) []) (\<lambda>(unstable, cache).
        py_bind (get_channel_spreadsheet rows []) (\<lambda>names.
          (let items = sort_key fst (dict_update [(''unstable'', unstable)] names)
           in Inr (prebuilt_files_of a revs items (fst (collect_sums svn a items cache))))))
      = (let built = filter (\<lambda>r. truthy (archive svn a r)) revs
         in if built = [] then Inl IndexError
            else py_bind (get_channel_spreadsheet rows []) (\<lambda>names.
              (let items = sort_key fst (dict_update [(''unstable'', last built)] names)
               in Inr (prebuilt_files_of a revs items (map (\<lambda>(c, r). (c, archive svn a r)) items)))))" for revs
    using find_unstable_memo [OF valid_cache_Nil, of svn a "rev revs"]
    by (auto simp: rev_filter [symmetric] hd_rev collect_sums_memo split: sum.splits)
  show ?thesis
    unfolding prebuilt_main_def prebuilt_index_def unstable ..
qed

section \<open>The version order\<close>

lemma parse_all_iff: "parse_all revs = Inr () \<longleftrightarrow> (\<forall>v \<in> set revs. \<exists>k. parse_version v = Inr k)"
  by (induction revs) (auto simp: py_bind_Inr_iff)

lemma sort_versions_Inr:
  "sort_versions revs = Inr rs \<longleftrightarrow>
     (\<forall>v \<in> set revs. \<exists>k. parse_version v = Inr k) \<and> rs = sort_key version_key revs"
  by (auto simp: sort_versions_def py_bind_Inr_iff parse_all_iff)

text \<open>
  The revisions of the index are those that were listed.  Of two of them the one
  that comes first has the smaller tag, compared as text, or the same tag and not more commits since
  it, compared as numbers.  (As text, the tag \<open>v0.0.10\<close> is smaller than \<open>v0.0.9\<close>.)
\<close>

theorem revision_order:
  assumes "sort_versions revs = Inr rs" "i < j" "j < length rs"
    and "parse_version (rs ! i) = Inr (a, m, c)" "parse_version (rs ! j) = Inr (b, n, d)"
  shows "mset rs = mset revs \<and> (a < b \<or> a = b \<and> m \<le> n)"
proof -
  have rs: "rs = sort_key version_key revs" using assms(1) by (simp add: sort_versions_Inr)
  then have "sorted (map version_key rs)" by simp
  from sorted_nth_mono [OF this, of i j] assms(2-5) have "(a, m, c) \<le> (b, n, d)"
    by (simp add: version_key_def)
  then have "a < b \<or> a = b \<and> m \<le> n" by auto
  moreover have "mset rs = mset revs" unfolding rs by (rule mset_sort)
  ultimately show ?thesis by blast
qed

theorem revision_order_witness:
  "sort_versions [''v0.0.9-12-gab'', ''v0.0.9-7-gcd'', ''v0.0.10-1-gef''] =
     Inr [''v0.0.10-1-gef'', ''v0.0.9-7-gcd'', ''v0.0.9-12-gab''] \<and> (7 :: int) \<le> 12"
proof -
  have s: "sort_versions [''v0.0.9-12-gab'', ''v0.0.9-7-gcd'', ''v0.0.10-1-gef''] =
      Inr [''v0.0.10-1-gef'', ''v0.0.9-7-gcd'', ''v0.0.9-12-gab'']"
    by code_simp
  have p: "parse_version ''v0.0.9-7-gcd'' = Inr (''v0.0.9'', 7, ''gcd'')"
      "parse_version ''v0.0.9-12-gab'' = Inr (''v0.0.9'', 12, ''gab'')"
    by code_simp+
  from revision_order [OF s, of 1 2, simplified, OF p] s show ?thesis by simp
qed

end
