(* ===== verification/Strace_Filter.thy ===== *)
theory Strace_Filter
  imports Py_Strings "HOL-Library.List_Lexorder" "HOL-Library.Char_ord"
begin

text \<open>
  \<open>.travis/package-xilinx-filter-strace.py\<close>, which reads the system call trace of a build and prints
  the files of the tool chain that the build opened.  The trace interleaves the calls of several
  processes, a call that another one interrupts is split into two lines.  The file system is a
  parameter.  Shown: what is printed, as a function of the calls put together again; the table of
  commands that the script keeps does not influence it.
\<close>

section \<open>Lines of the trace\<close>

text \<open>
  \<open>^(?P<pid>[0-9]+) (?P<line>.*?)(?P<unfinished> <unfinished \.\.\.>)?$\<close>, where the dollar also
  matches in front of the newline at the end.
\<close>

record trace_line =
  tl_pid :: string
  tl_line :: string
  tl_unfinished :: bool

definition unfinished_mark :: string where
  "unfinished_mark = '' <unfinished ...>''"

definition parse_trace_line :: "string \<Rightarrow> trace_line py_result" where
  "parse_trace_line rawline =
     (let s = (if endswith rawline [CHR 0x0A] then butlast rawline else rawline);
          pid = takeWhile is_digit s; rest = dropWhile is_digit s
      in if pid = [] \<or> rest = [] \<or> hd rest \<noteq> CHR '' '' \<or> CHR 0x0A \<in> set rest then Inl AttributeError
         else if endswith (tl rest) unfinished_mark
         then Inr \<lparr>tl_pid = pid, tl_line = take (length (tl rest) - length unfinished_mark) (tl rest),
                   tl_unfinished = True\<rparr>
         else Inr \<lparr>tl_pid = pid, tl_line = tl rest, tl_unfinished = False\<rparr>)"

section \<open>Paths in a call\<close>

text \<open>
  The regular expression for a quoted path under the prefix: a slash of the prefix stands for one or
  more of them, and a dot for any character (the prefix is the directory of the tool chain,
  \<open>/opt/Xilinx/\<close>; other special characters of regular expressions are outside the model).  \<open>match_items\<close> gives the rests of the string behind a
  match, in the order in which Python tries them.
\<close>

datatype re_item = Lit char | Any | Slashes

definition re_item_of :: "char \<Rightarrow> re_item" where
  "re_item_of c = (if c = CHR ''/'' then Slashes else if c = CHR ''.'' then Any else Lit c)"

function match_items :: "re_item list \<Rightarrow> string \<Rightarrow> string list" where
  "match_items [] s = [s]"
| "match_items (r # rs) [] = []"
| "match_items (r # rs) (c # s) =
     (case r of
        Lit d \<Rightarrow> if c = d then match_items rs s else []
      | Any \<Rightarrow> if c \<noteq> CHR 0x0A then match_items rs s else []
      | Slashes \<Rightarrow> if c = CHR ''/'' then match_items (r # rs) s @ match_items rs s else [])"
  by pat_completeness auto
termination by (relation "measure (\<lambda>(rs, s). length s)") auto

text \<open>The group of a match that starts behind an opening quote: up to the next closing quote.\<close>

definition match_quoted :: "string \<Rightarrow> string \<Rightarrow> string option" where
  "match_quoted prefix1 s =
     (case filter (\<lambda>r. CHR 0x22 \<in> set r) (match_items (map re_item_of prefix1) s) of
        [] \<Rightarrow> None
      | r # rs \<Rightarrow> Some (take (length s - length r) s @ takeWhile (\<lambda>c. c \<noteq> CHR 0x22) r))"

fun search_quoted :: "string \<Rightarrow> string \<Rightarrow> string option" where
  "search_quoted prefix1 [] = None"
| "search_quoted prefix1 (c # s) =
     (if c = CHR 0x22 then
        (case match_quoted prefix1 s of None \<Rightarrow> search_quoted prefix1 s | Some p \<Rightarrow> Some p)
      else search_quoted prefix1 s)"

definition call_path :: "string \<Rightarrow> string \<Rightarrow> string option" where
  "call_path prefix1 line =
     map_option (\<lambda>p. let q = normpath p in if startswith q ''//'' then tl q else q) (search_quoted prefix1 line)"

section \<open>The script\<close>

record file_system =
  fs_exists :: "string \<Rightarrow> bool"
  fs_isdir :: "string \<Rightarrow> bool"

record strace_state =
  st_cmds :: "(string, string) dict"
  st_finished :: "(string, string) dict"
  st_waiting :: "(string, string) dict"
  st_files :: "string list"
  st_last :: "string option"

definition strace_init :: strace_state where
  "strace_init = \<lparr>st_cmds = [], st_finished = [], st_waiting = [], st_files = [], st_last = None\<rparr>"

definition dict_remove :: "'k \<Rightarrow> ('k, 'v) dict \<Rightarrow> ('k, 'v) dict" where
  "dict_remove k d = filter (\<lambda>p. fst p \<noteq> k) d"

text \<open>A process that the script has not seen runs the command of its execve or that of its parent.\<close>

definition track_pid :: "trace_line \<Rightarrow> strace_state \<Rightarrow> strace_state py_result" where
  "track_pid t s =
     (if Some (tl_pid t) \<noteq> st_last s \<and> map_of (st_cmds s) (tl_pid t) = None then
        if contains (tl_line t) ''execve''
        then Inr (s\<lparr>st_cmds := dict_update (st_cmds s) [(tl_pid t, tl_line t)]\<rparr>)
        else case st_last s of
          None \<Rightarrow> Inl KeyError
        | Some last_pid \<Rightarrow>
            py_bind (case map_of (st_cmds s) last_pid of
                Some c \<Rightarrow> Inr c | None \<Rightarrow> dict_get (st_finished s) last_pid) (\<lambda>c.
            Inr (s\<lparr>st_cmds := dict_update (st_cmds s) [(tl_pid t, c)]\<rparr>))
      else Inr s)"

definition found_file :: "file_system \<Rightarrow> string \<Rightarrow> string \<Rightarrow> strace_state \<Rightarrow> strace_state py_result" where
  "found_file fs prefix1 line s =
     (case call_path prefix1 line of
        None \<Rightarrow> Inr s
      | Some path \<Rightarrow>
          py_bind (py_assert (startswith path prefix1)) (\<lambda>u.
          if contains line ''-1 ENOENT'' then
            py_bind (py_assert (\<not> fs_exists fs path)) (\<lambda>u. Inr s)
          else
            py_bind (py_assert (fs_exists fs path)) (\<lambda>u.
            if fs_isdir fs path then Inr s
            else Inr (s\<lparr>st_files := List.insert path (st_files s)\<rparr>))))"

definition whole_call :: "file_system \<Rightarrow> string \<Rightarrow> string \<Rightarrow> string \<Rightarrow> strace_state \<Rightarrow> strace_state py_result" where
  "whole_call fs prefix1 pid line s =
     (if contains line ''exited with'' then
        py_bind (py_assert (map_of (st_waiting s) pid = None)) (\<lambda>u.
        py_bind (dict_get (st_cmds s) pid) (\<lambda>c.
        Inr (s\<lparr>st_finished := dict_update (st_finished s) [(pid, c)], st_cmds := dict_remove pid (st_cmds s)\<rparr>)))
      else
        py_bind (py_assert (map_of (st_cmds s) pid \<noteq> None)) (\<lambda>u.
        found_file fs prefix1 line
          (if contains line ''execve'' \<and> map_of (st_cmds s) pid \<noteq> Some line
           then s\<lparr>st_cmds := dict_update (st_cmds s) [(pid, line)]\<rparr> else s)))"

definition strace_line :: "file_system \<Rightarrow> string \<Rightarrow> trace_line \<Rightarrow> strace_state \<Rightarrow> strace_state py_result" where
  "strace_line fs prefix1 t s =
     py_bind (track_pid t s) (\<lambda>s.
     (let s = s\<lparr>st_last := Some (tl_pid t)\<rparr> in
     py_bind (py_assert (\<not> contains (tl_line t) ''<unfinished ...>'')) (\<lambda>u.
     if tl_unfinished t then
       py_bind (py_assert (map_of (st_waiting s) (tl_pid t) = None)) (\<lambda>u.
       Inr (s\<lparr>st_waiting := dict_update (st_waiting s) [(tl_pid t, tl_line t @ unfinished_mark)]\<rparr>))
     else if contains (tl_line t) ''resumed>'' then
       (case map_of (st_waiting s) (tl_pid t) of
          None \<Rightarrow> Inl AssertionError
        | Some w \<Rightarrow>
            whole_call fs prefix1 (tl_pid t) (w @ '' '' @ tl_line t)
              (s\<lparr>st_waiting := dict_remove (tl_pid t) (st_waiting s)\<rparr>))
     else whole_call fs prefix1 (tl_pid t) (tl_line t) s)))"

fun strace_loop :: "file_system \<Rightarrow> string \<Rightarrow> string list \<Rightarrow> strace_state \<Rightarrow> strace_state py_result" where
  "strace_loop fs prefix1 [] s = Inr s"
| "strace_loop fs prefix1 (rawline # rawlines) s =
     py_bind (parse_trace_line rawline) (\<lambda>t.
     py_bind (strace_line fs prefix1 t s) (strace_loop fs prefix1 rawlines))"

definition strace_main :: "file_system \<Rightarrow> string \<Rightarrow> string list \<Rightarrow> string list py_result" where
  "strace_main fs prefix1 rawlines =
     py_bind (strace_loop fs prefix1 rawlines strace_init) (\<lambda>s. Inr (sort (st_files s)))"

section \<open>The calls of a trace\<close>

text \<open>
  A trace as the list of its calls: the two halves of an interrupted call together, in the order in
  which the calls end.  Notices that a process exited are no calls.
\<close>

fun trace_calls :: "(string \<Rightarrow> string option) \<Rightarrow> trace_line list \<Rightarrow> string list" where
  "trace_calls w [] = []"
| "trace_calls w (t # ts) =
     (if tl_unfinished t then trace_calls (w(tl_pid t := Some (tl_line t @ unfinished_mark))) ts
      else if contains (tl_line t) ''resumed>'' then
        (case w (tl_pid t) of None \<Rightarrow> [] | Some h \<Rightarrow> [h @ '' '' @ tl_line t]) @ trace_calls (w(tl_pid t := None)) ts
      else tl_line t # trace_calls w ts)"

definition opened_file :: "file_system \<Rightarrow> string \<Rightarrow> string \<Rightarrow> string option" where
  "opened_file fs prefix1 line =
     (if contains line ''exited with'' \<or> contains line ''-1 ENOENT'' then None
      else case call_path prefix1 line of
        None \<Rightarrow> None | Some p \<Rightarrow> if fs_isdir fs p then None else Some p)"

definition trace_lines :: "string list \<Rightarrow> trace_line list" where
  "trace_lines rawlines =
     concat (map (\<lambda>r. case parse_trace_line r of Inl e \<Rightarrow> [] | Inr t \<Rightarrow> [t]) rawlines)"

lemma map_of_dict_remove: "map_of (dict_remove k d) = (map_of d)(k := None)"
  by (induction d) (auto simp: dict_remove_def)

lemma map_of_dict_update1: "map_of (dict_update d [(k, v)]) = (map_of d)(k \<mapsto> v)"
  by (simp add: update_conv')

text \<open>What one step does to the set of files and to the calls under way.\<close>

definition good_file :: "file_system \<Rightarrow> string \<Rightarrow> string \<Rightarrow> bool" where
  "good_file fs prefix1 p \<longleftrightarrow> startswith p prefix1 \<and> fs_exists fs p \<and> \<not> fs_isdir fs p"

definition files_added :: "file_system \<Rightarrow> string \<Rightarrow> string list \<Rightarrow> strace_state \<Rightarrow> strace_state \<Rightarrow> bool" where
  "files_added fs prefix1 calls s s' \<longleftrightarrow>
     set (st_files s') = set (st_files s) \<union> {p. \<exists>c \<in> set calls. opened_file fs prefix1 c = Some p}
     \<and> (distinct (st_files s) \<longrightarrow> distinct (st_files s'))
     \<and> (\<forall>c \<in> set calls. \<forall>p. opened_file fs prefix1 c = Some p \<longrightarrow> good_file fs prefix1 p)"

lemma files_added_refl [simp]: "files_added fs prefix1 [] s s"
  by (simp add: files_added_def)

lemma files_added_trans:
  "files_added fs prefix1 cs s s' \<Longrightarrow> files_added fs prefix1 ds s' s'' \<Longrightarrow> files_added fs prefix1 (cs @ ds) s s''"
  unfolding files_added_def by (simp add: Un_assoc Collect_disj_eq [symmetric] bex_Un ball_Un)

lemma files_added_same:
  "st_files t = st_files s \<Longrightarrow> files_added fs prefix1 cs t s' = files_added fs prefix1 cs s s'"
  by (simp add: files_added_def)

lemma track_pid_Inr:
  assumes "track_pid t s = Inr s'"
  shows "st_files s' = st_files s" "st_waiting s' = st_waiting s"
  using assms by (auto simp: track_pid_def py_bind_Inr_iff split: if_splits option.splits)

lemma found_file_Inr:
  assumes "found_file fs prefix1 line s = Inr s'" "\<not> contains line ''exited with''"
  shows "files_added fs prefix1 [line] s s' \<and> st_waiting s' = st_waiting s"
  using assms
  by (auto simp: found_file_def files_added_def opened_file_def good_file_def split: option.splits if_splits)

lemma whole_call_Inr:
  assumes "whole_call fs prefix1 pid line s = Inr s'"
  shows "files_added fs prefix1 [line] s s' \<and> st_waiting s' = st_waiting s"
proof (cases "contains line ''exited with''")
  case True
  with assms show ?thesis
    by (auto simp: whole_call_def py_bind_Inr_iff files_added_def opened_file_def split: if_splits)
next
  case False
  define t where "t = (if contains line ''execve'' \<and> map_of (st_cmds s) pid \<noteq> Some line
    then s\<lparr>st_cmds := dict_update (st_cmds s) [(pid, line)]\<rparr> else s)"
  have "found_file fs prefix1 line t = Inr s'"
    using assms False unfolding whole_call_def t_def [symmetric] by (simp split: if_splits)
  from found_file_Inr [OF this False] have "files_added fs prefix1 [line] t s'" "st_waiting s' = st_waiting t"
    by blast+
  moreover have "st_files t = st_files s" "st_waiting t = st_waiting s" by (simp_all add: t_def)
  ultimately show ?thesis by (simp add: files_added_same [of t s])
qed

lemma strace_line_Inr:
  assumes "strace_line fs prefix1 t s = Inr s'"
  shows "\<exists>cs. files_added fs prefix1 cs s s'
     \<and> (\<forall>ts. trace_calls (map_of (st_waiting s)) (t # ts) = cs @ trace_calls (map_of (st_waiting s')) ts)"
proof -
  from assms obtain s1 where s1: "track_pid t s = Inr s1" by (auto simp: strace_line_def py_bind_Inr_iff)
  note same = track_pid_Inr [OF s1]
  let ?s = "s1\<lparr>st_last := Some (tl_pid t)\<rparr>"
  show ?thesis
  proof (cases "tl_unfinished t")
    case True
    with assms s1 same show ?thesis
      by (intro exI [of _ "[]"])
        (auto simp: strace_line_def files_added_def map_of_dict_update1 Let_def simp del: dict_update_simps split: if_splits)
  next
    case False
    show ?thesis
    proof (cases "contains (tl_line t) ''resumed>''")
      case True
      with assms s1 False same obtain w where w: "map_of (st_waiting s) (tl_pid t) = Some w"
          "whole_call fs prefix1 (tl_pid t) (w @ '' '' @ tl_line t)
             (?s\<lparr>st_waiting := dict_remove (tl_pid t) (st_waiting s)\<rparr>) = Inr s'"
        by (auto simp: strace_line_def Let_def split: if_splits option.splits)
      from whole_call_Inr [OF w(2)] True False w(1) same show ?thesis
        by (intro exI [of _ "[w @ '' '' @ tl_line t]"]) (auto simp: files_added_def map_of_dict_remove)
    next
      case whole: False
      with assms s1 False have "whole_call fs prefix1 (tl_pid t) (tl_line t) ?s = Inr s'"
        by (auto simp: strace_line_def Let_def split: if_splits)
      from whole_call_Inr [OF this] whole False same show ?thesis
        by (intro exI [of _ "[tl_line t]"]) (auto simp: files_added_def)
    qed
  qed
qed

lemma strace_loop_Inr:
  "strace_loop fs prefix1 rawlines s = Inr s' \<Longrightarrow>
   files_added fs prefix1 (trace_calls (map_of (st_waiting s)) (trace_lines rawlines)) s s'"
proof (induction rawlines arbitrary: s)
  case (Cons r rs)
  then obtain t s1 where t: "parse_trace_line r = Inr t" "strace_line fs prefix1 t s = Inr s1"
      "strace_loop fs prefix1 rs s1 = Inr s'"
    by (auto simp: py_bind_Inr_iff)
  from strace_line_Inr [OF t(2)] obtain cs where cs: "files_added fs prefix1 cs s s1"
      "\<And>ts. trace_calls (map_of (st_waiting s)) (t # ts) = cs @ trace_calls (map_of (st_waiting s1)) ts" by blast
  have "trace_lines (r # rs) = t # trace_lines rs" by (simp add: trace_lines_def t(1))
  with files_added_trans [OF cs(1) Cons.IH [OF t(3)]] show ?case by (simp only: cs(2))
qed (simp add: trace_lines_def)

text \<open>
  C38 (files of a trace): if the script gets through a trace, it prints, sorted and each once, the
  files named by the successful calls of the trace, where the two halves of an interrupted call
  count as one call; every file printed lies under the prefix, exists and is no directory.
\<close>

theorem strace_files:
  assumes "strace_main fs prefix1 rawlines = Inr out"
  shows "set out = {p. \<exists>c \<in> set (trace_calls Map.empty (trace_lines rawlines)). opened_file fs prefix1 c = Some p}
       \<and> sorted out \<and> distinct out \<and> list_all (good_file fs prefix1) out"
proof -
  from assms obtain s where s: "strace_loop fs prefix1 rawlines strace_init = Inr s" "out = sort (st_files s)"
    by (auto simp: strace_main_def py_bind_Inr_iff)
  from strace_loop_Inr [OF s(1)] show ?thesis
    by (auto simp: s(2) files_added_def strace_init_def list_all_iff)
qed

text \<open>Two processes; the open call of the first is interrupted by the second.\<close>

definition demo_fs :: file_system where
  "demo_fs = \<lparr>fs_exists = (\<lambda>p. p = ''/opt/X/a''), fs_isdir = (\<lambda>p. False)\<rparr>"

definition demo_quote :: "string \<Rightarrow> string" where
  "demo_quote s = CHR 0x22 # s @ [CHR 0x22]"

definition demo_trace :: "string list" where
  "demo_trace =
     [''31 execve('' @ demo_quote ''/bin/map'' @ '') = 0'',
      ''31 open('' @ demo_quote ''/opt/X//a'' @ '' <unfinished ...>'',
      ''32 execve('' @ demo_quote ''/bin/par'' @ '') = 0'',
      ''31 <... open resumed> ) = 3'',
      ''32 open('' @ demo_quote ''/opt/X/b'' @ '') = -1 ENOENT'']"

theorem strace_files_witness:
  "strace_main demo_fs ''/opt/X/'' demo_trace = Inr [''/opt/X/a'']
   \<and> set [''/opt/X/a''] =
     {p. \<exists>c \<in> set (trace_calls Map.empty (trace_lines demo_trace)). opened_file demo_fs ''/opt/X/'' c = Some p}"
proof -
  have run: "strace_main demo_fs ''/opt/X/'' demo_trace = Inr [''/opt/X/a'']" by code_simp
  with strace_files [OF run] show ?thesis by simp
qed

end
