(* ===== verification/Gateware_Log.thy ===== *)
theory Gateware_Log
  imports Py_Strings "HOL-Library.List_Lexorder" "HOL-Library.Char_ord" "HOL-Library.Sublist"
begin

text \<open>
  \<open>.travis/run-make-gateware-filter.py\<close>, through which the continuous integration pipes the output of the
  Xilinx tools: it writes every line to a log file and prints a digest.  The file system, for the
  shortening of paths, is a parameter; the thread that turns a wheel while the tools are silent is the
  operation \<open>keepalive_tick\<close>, and a run is any sequence of lines and ticks.  Shown: the buffer of
  lines, the log, what happens at an error, and that no line passes in silence.
\<close>

section \<open>Output\<close>

record filter_state =
  gf_buffer :: "string list"
  gf_fsm_triggered :: bool
  gf_specials :: "string list"
  gf_log :: string
  gf_out :: string
  gf_before :: string
  gf_last :: string
  gf_flag :: bool
  gf_pos :: nat

definition buffer_size :: nat where
  "buffer_size = 200"

definition filter_init :: filter_state where
  "filter_init =
     \<lparr>gf_buffer = replicate buffer_size [], gf_fsm_triggered = False, gf_specials = [], gf_log = [],
      gf_out = [], gf_before = [], gf_last = [], gf_flag = False, gf_pos = 0\<rparr>"

definition newline :: string where
  "newline = [CHR 0x0A]"

text \<open>Under Python 2, \<open>encode\<close> of a byte string decodes it as ASCII first.\<close>

definition emit :: "string \<Rightarrow> string \<Rightarrow> filter_state \<Rightarrow> filter_state py_result" where
  "emit before data s =
     (if list_ex (\<lambda>c. 128 \<le> (of_char c :: nat)) data then Inl UnicodeError
      else if data = [] then Inr (s\<lparr>gf_flag := True\<rparr>)
      else Inr (s\<lparr>gf_flag := True, gf_out := gf_out s @ gf_before s @ data, gf_before := before,
                  gf_last := data\<rparr>))"

abbreviation put :: "string \<Rightarrow> filter_state \<Rightarrow> filter_state py_result" where
  "put \<equiv> emit []"

definition rotate_wheel :: "string list" where
  "rotate_wheel = ['' - '', [CHR '' '', CHR 0x5C, CHR '' ''], '' | '', '' / '']"

definition keepalive_tick :: "filter_state \<Rightarrow> filter_state py_result" where
  "keepalive_tick s =
     py_bind (emit (replicate 3 (CHR 0x08)) (rotate_wheel ! gf_pos s) s) (\<lambda>s.
     Inr (s\<lparr>gf_pos := (gf_pos s + 1) mod length rotate_wheel\<rparr>))"

section \<open>Strings\<close>

definition delim_major :: string where
  "delim_major = replicate 73 (CHR ''='')"

definition error_bar :: string where
  "error_bar = concat (replicate 35 ''*~'') @ ''*''"

definition stars :: string where
  "stars = replicate 70 (CHR ''*'')"

definition hashes :: string where
  "hashes = replicate 70 (CHR ''#'')"

text \<open>\<open>strip\<close> and \<open>split\<close> of a byte string under Python 2.\<close>

definition is_blank :: "char \<Rightarrow> bool" where
  "is_blank c = (let k = (of_char c :: nat) in k = 32 \<or> (9 \<le> k \<and> k \<le> 13))"

definition bytes_strip :: "string \<Rightarrow> string" where
  "bytes_strip s = rev (dropWhile is_blank (rev (dropWhile is_blank s)))"

fun bytes_split :: "string \<Rightarrow> string \<Rightarrow> string list" where
  "bytes_split [] w = (if w = [] then [] else [w])"
| "bytes_split (c # cs) w =
     (if is_blank c then (if w = [] then bytes_split cs [] else w # bytes_split cs [])
      else bytes_split cs (w @ [c]))"

definition strip_line_end :: "string \<Rightarrow> string" where
  "strip_line_end s =
     (let p = (\<lambda>c. c = CHR 0x0A \<or> c = CHR 0x0D) in rev (dropWhile p (rev (dropWhile p s))))"

definition ljust :: "nat \<Rightarrow> string \<Rightarrow> string" where
  "ljust n s = s @ replicate (n - length s) (CHR '' '')"

definition rjust :: "nat \<Rightarrow> string \<Rightarrow> string" where
  "rjust n s = replicate (n - length s) (CHR '' '') @ s"

text \<open>\<open>s[2:-2]\<close>, \<open>xs[k]\<close> for \<open>k \<ge> 0\<close>, and \<open>s.split(sep)\<close> for a nonempty separator.\<close>

definition inner2 :: "string \<Rightarrow> string" where
  "inner2 s = drop 2 (take (length s - 2) s)"

definition py_nth :: "'a list \<Rightarrow> nat \<Rightarrow> 'a py_result" where
  "py_nth xs k = (if k < length xs then Inr (xs ! k) else Inl IndexError)"

function split_on :: "string \<Rightarrow> string \<Rightarrow> string \<Rightarrow> string list" where
  "split_on sep s w =
     (if s = [] \<or> sep = [] then [w]
      else if startswith s sep then w # split_on sep (drop (length sep) s) []
      else split_on sep (tl s) (w @ [hd s]))"
  by pat_completeness auto
termination by (relation "measure (\<lambda>(sep, s, w). length s)") auto

declare split_on.simps [simp del]

definition chop_dot :: "string \<Rightarrow> string" where
  "chop_dot s = (if endswith s ''.'' then butlast s else s)"

text \<open>The quoted strings of a line, and the line with the names of files made relative.\<close>

record path_env =
  pe_top :: string
  pe_isfile :: "string \<Rightarrow> bool"

function quoted_strings :: "string \<Rightarrow> string list" where
  "quoted_strings s =
     (case dropWhile (\<lambda>c. c \<noteq> CHR 0x22) s of
        [] \<Rightarrow> []
      | q # r \<Rightarrow>
          (let w = takeWhile (\<lambda>c. c \<noteq> CHR 0x22) r; rest = dropWhile (\<lambda>c. c \<noteq> CHR 0x22) r
           in if rest = [] then [] else if w = [] then quoted_strings r else w # quoted_strings (tl rest)))"
  by pat_completeness auto
termination
proof (relation "measure length", goal_cases)
  case (2 s q r x y)
  then have "length (q # r) \<le> length s" by (metis length_dropWhile_le)
  then show ?case by simp
next
  case (3 s q r x y)
  then have "length (q # r) \<le> length s" "length y \<le> length r" by (metis length_dropWhile_le)+
  then show ?case by simp
qed simp

declare quoted_strings.simps [simp del]

fun common_prefix :: "string \<Rightarrow> string \<Rightarrow> nat" where
  "common_prefix (c # s) (d # t) = (if c = d then Suc (common_prefix s t) else 0)"
| "common_prefix s t = 0"

definition shorten_path :: "path_env \<Rightarrow> string \<Rightarrow> string" where
  "shorten_path env line =
     fold (\<lambda>q out. if pe_isfile env (normpath q)
             then py_replace q (drop (common_prefix (pe_top env) (normpath q) + 1) (normpath q)) out else out)
       (quoted_strings line) line"

section \<open>One line\<close>

text \<open>
  The body of the loop is a sequence of stages, one per kind of line.  A stage sees the stripped line,
  may print, may change the stripped line for the stages behind it, and may end the work on the line.
\<close>

datatype flow = Next string filter_state | Skip filter_state

type_synonym stage = "string \<Rightarrow> filter_state \<Rightarrow> flow py_result"

fun run_stages :: "stage list \<Rightarrow> stage" where
  "run_stages [] sline s = Inr (Next sline s)"
| "run_stages (f # fs) sline s =
     (case f sline s of
        Inl e \<Rightarrow> Inl e
      | Inr (Next sline s) \<Rightarrow> run_stages fs sline s
      | Inr (Skip s) \<Rightarrow> Inr (Skip s))"

fun put_all :: "string py_result list \<Rightarrow> filter_state \<Rightarrow> filter_state py_result" where
  "put_all [] s = Inr s"
| "put_all (d # ds) s = py_bind d (\<lambda>d. py_bind (put d s) (put_all ds))"

definition put_next :: "string py_result list \<Rightarrow> stage" where
  "put_next ds sline s = py_bind (put_all ds s) (\<lambda>s. Inr (Next sline s))"

definition put_skip :: "string py_result list \<Rightarrow> filter_state \<Rightarrow> flow py_result" where
  "put_skip ds s = py_bind (put_all ds s) (\<lambda>s. Inr (Skip s))"

definition mark_stage :: "string \<Rightarrow> stage" where
  "mark_stage line sline s =
     (if startswith line ''WARNING:'' then put_skip [Inr ''w''] s
      else if startswith line ''INFO:'' then put_skip [Inr ''i''] s
      else Inr (Next sline s))"

definition copyright_stage :: stage where
  "copyright_stage sline s =
     (if startswith sline ''Copyright (c)'' then
        put_skip [Inr (newline @ newline @ newline @ hashes @ newline @ ''# '' @ ljust 66 (gf_buffer s ! 1)
          @ '' #'' @ newline @ hashes @ newline)] s
      else Inr (Next sline s))"

definition is_header :: "string list \<Rightarrow> bool" where
  "is_header buf = (buf ! 0 = delim_major \<and> startswith (buf ! 1) ''*'' \<and> buf ! 2 = delim_major)"

definition header_stage :: stage where
  "header_stage sline s =
     (if is_header (gf_buffer s) then
        if contains (gf_buffer s ! 1) ''Summary'' then Inr (Skip s)
        else put_skip [Inr (newline @ newline @ stars @ newline @ ''* ''
               @ ljust 66 (bytes_strip (inner2 (gf_buffer s ! 1))) @ '' *'' @ newline @ stars @ newline)] s
      else Inr (Next sline s))"

definition summary_start :: "string list \<Rightarrow> nat option" where
  "summary_start buf =
     (case find (\<lambda>n. bytes_strip (buf ! n) = delim_major) [1..<length buf - 1] of
        None \<Rightarrow> None
      | Some n \<Rightarrow>
          (let title = bytes_strip (buf ! (n + 1))
           in if startswith title ''*'' \<and> contains title ''Summary'' then Some (n + 2) else None))"

definition summary_line :: "string \<Rightarrow> string" where
  "summary_line b =
     (let sb = bytes_strip b
      in if sb = delim_major then stars @ newline
         else if startswith sb ''*'' then ''* '' @ ljust 66 (bytes_strip (inner2 sb)) @ '' *'' @ newline
         else if startswith b ''#'' then tl b @ newline
         else b @ newline)"

definition summary_stage :: "string \<Rightarrow> stage" where
  "summary_stage line sline s =
     (if line = delim_major then
        (case summary_start (gf_buffer s) of
           None \<Rightarrow> Inr (Next sline s)
         | Some n \<Rightarrow>
             put_next (Inr (newline @ newline) #
                map (\<lambda>k. py_bind (py_nth (gf_buffer s) k) (\<lambda>b. Inr (summary_line b))) (rev [1..<n + 1]))
              sline s)
      else Inr (Next sline s))"

text \<open>A line that names a unit or a file: printed without its full stop, on a line of its own.\<close>

definition unit_stage :: "(string \<Rightarrow> string) \<Rightarrow> string \<Rightarrow> string \<Rightarrow> stage" where
  "unit_stage change start lead sline s =
     (if startswith sline start
      then put_next [Inr (lead @ change (chop_dot sline) @ '' '')] (chop_dot sline) s
      else Inr (Next sline s))"

definition analyzing_stage :: "path_env \<Rightarrow> stage" where
  "analyzing_stage env sline s =
     (if startswith sline ''Analyzing Verilog''
      then put_next [Inr (newline @ shorten_path env sline @ '' '')] sline s else Inr (Next sline s))"

definition parsing_stage :: "path_env \<Rightarrow> stage" where
  "parsing_stage env sline s =
     (if startswith sline ''Parsing '' then
        if startswith sline ''Parsing VHDL''
        then put_next [Inr (newline @ shorten_path env sline @ '' '')] sline s
        else put_next [Inr (newline @ ''  '' @ shorten_path env (chop_dot sline) @ '' '')] (chop_dot sline) s
      else Inr (Next sline s))"

definition specials_stage :: stage where
  "specials_stage sline s =
     Inr (Next sline
       (if startswith sline ''Found'' \<and> contains sline ''RAM''
        then s\<lparr>gf_specials := gf_specials s @ [sline]\<rparr> else s))"

definition inferred_line :: "string \<Rightarrow> string py_result" where
  "inferred_line b =
     (let sb = bytes_strip b
      in if sb = [] then Inl IndexError
         else Inr (''    '' @ py_upper [hd sb] @ drop 1 (take (length sb - 1) sb) @ newline))"

definition synthesized_stage :: stage where
  "synthesized_stage sline s =
     (if endswith sline ''synthesized.'' then
        (case find (\<lambda>n. endswith (bytes_strip (gf_buffer s ! n)) ''Summary:'') [0..<length (gf_buffer s)] of
           Some (Suc n) \<Rightarrow>
             py_bind (put_all
               (Inr (newline @ ''  Summary:'' @ newline)
                # map (\<lambda>special. Inr (''    '' @ special @ newline)) (sort (gf_specials s))
                @ (if gf_specials s \<noteq> [] then [Inr (''    --'' @ newline)] else [])
                @ map (\<lambda>k. inferred_line (gf_buffer s ! k)) (rev [1..<Suc n])) s) (\<lambda>s.
             Inr (Next sline (s\<lparr>gf_specials := []\<rparr>)))
         | _ \<Rightarrow> Inr (Next sline s))
      else Inr (Next sline s))"

definition fsm_stage :: stage where
  "fsm_stage sline s =
     (if startswith sline ''Analyzing FSM'' \<or> startswith sline ''Optimizing FSM'' then
        if \<not> gf_fsm_triggered s
        then py_bind (put (newline @ ''Analyzing and optimizing FSMs '') s) (\<lambda>s.
          Inr (Skip (s\<lparr>gf_fsm_triggered := True\<rparr>)))
        else put_skip [Inr ''.''] s
      else Inr (Next sline s))"

definition processing_stage :: stage where
  "processing_stage sline s =
     (if startswith sline ''Processing Unit '' then
        (let t = (if endswith sline '' :'' then take (length sline - 2) sline else sline)
         in put_next [Inr (newline @ t @ '' '')] t s)
      else Inr (Next sline s))"

definition final_stage :: stage where
  "final_stage sline s =
     (if sline = ''Final Macro Processing ...'' then put_next [Inr (newline @ sline)] sline s
      else Inr (Next sline s))"

text \<open>A report of the mapper or the router: the lines behind its heading.\<close>

definition report_stage :: "string \<Rightarrow> string \<Rightarrow> string \<Rightarrow> stage" where
  "report_stage trigger heading title sline s =
     (if startswith sline trigger then
        (case find (\<lambda>n. startswith (bytes_strip (gf_buffer s ! n)) heading) [0..<length (gf_buffer s)] of
           Some (Suc n) \<Rightarrow>
             put_next
               (Inr (newline @ newline @ stars @ newline @ ''* '' @ ljust 66 title @ '' *'' @ newline @ stars @ newline)
                # map (\<lambda>k. Inr (gf_buffer s ! k @ newline)) (rev [1..<Suc n]) @ [Inr (stars @ newline)]) sline s
         | _ \<Rightarrow> Inr (Next sline s))
      else Inr (Next sline s))"

definition phase_stage :: stage where
  "phase_stage sline s =
     (if startswith sline ''Phase'' then
        if contains sline ''REAL time:'' \<and> \<not> contains sline ''unrouted'' then
          (case split_on ''REAL time:'' sline [] of
             [phase, rtime] \<Rightarrow> put_next [Inr ('' (completed in '' @ bytes_strip rtime @ '')'' @ newline)] sline s
           | _ \<Rightarrow> Inl ValueError)
        else if gf_last s = [] then Inl IndexError
        else
          py_bind (if last (gf_last s) \<noteq> CHR 0x0A then put newline s else Inr s) (\<lambda>s.
          case bytes_split sline [] of
            b0 # b1 # bits \<Rightarrow>
              put_next [Inr (rjust 5 b0 @ '' '' @ ljust 5 b1 @ '' - '' @ join_with '' '' bits @ '' '')] sline s
          | _ \<Rightarrow> Inl IndexError)
      else Inr (Next sline s))"

definition saving_stage :: stage where
  "saving_stage sline s =
     (if startswith sline ''Saving bit stream in'' then put_next [Inr (newline @ sline)] sline s
      else Inr (Next sline s))"

definition line_stages :: "path_env \<Rightarrow> string \<Rightarrow> stage list" where
  "line_stages env line =
     [mark_stage line, copyright_stage, header_stage, summary_stage line, analyzing_stage env,
      parsing_stage env, unit_stage id ''Elaborating '' newline,
      unit_stage (py_replace [CHR 0x5C, CHR 0x22] [CHR 0x22]) ''Reading initialization file'' (newline @ ''  ''),
      unit_stage id ''Synthesizing Unit'' newline,
      unit_stage (shorten_path env) ''Related source file is'' (newline @ ''  ''),
      specials_stage, synthesized_stage, unit_stage id ''Synthesizing (advanced) Unit'' newline, fsm_stage,
      unit_stage id ''Optimizing unit'' newline, processing_stage, final_stage,
      report_stage ''Peak Memory Usage'' ''Design Summary:'' ''Design Summary'',
      report_stage ''Starting initial Timing Analysis'' ''Device Utilization Summary:''
        ''Device Utilization Summary'',
      phase_stage, saving_stage]"

text \<open>The result tells whether the loop goes on.\<close>

definition filter_line :: "path_env \<Rightarrow> string \<Rightarrow> filter_state \<Rightarrow> (bool \<times> filter_state) py_result" where
  "filter_line env rawline s =
     (let line = strip_line_end rawline; sline = bytes_strip line;
          s = s\<lparr>gf_log := gf_log s @ rawline, gf_buffer := take buffer_size (line # gf_buffer s)\<rparr>
      in if startswith line ''make'' then py_bind (put (newline @ line @ '' '') s) (\<lambda>s. Inr (True, s))
         else if sline = [] then Inr (True, s)
         else if startswith line ''ERROR:'' then
           (let s = s\<lparr>gf_buffer := tl (gf_buffer s)\<rparr>
            in py_bind (put (newline @ newline @ ''Error detected! - '' @ line @ newline @ error_bar @ newline
                   @ join_with newline (rev (gf_buffer s)) @ newline @ error_bar @ newline @ rawline) s) (\<lambda>s.
               Inr (False, s)))
         else
           case run_stages (line_stages env line) sline (s\<lparr>gf_flag := False\<rparr>) of
             Inl e \<Rightarrow> Inl e
           | Inr (Skip s) \<Rightarrow> Inr (True, s)
           | Inr (Next sline s) \<Rightarrow>
               if gf_flag s then Inr (True, s) else py_bind (put ''.'' s) (\<lambda>s. Inr (True, s)))"

section \<open>A run\<close>

datatype log_event = Line string | Tick

fun filter_loop :: "path_env \<Rightarrow> log_event list \<Rightarrow> filter_state \<Rightarrow> (filter_state \<times> log_event list) py_result" where
  "filter_loop env [] s = Inr (s, [])"
| "filter_loop env (Tick # es) s = py_bind (keepalive_tick s) (filter_loop env es)"
| "filter_loop env (Line rawline # es) s =
     py_bind (filter_line env rawline s) (\<lambda>(go_on, s). if go_on then filter_loop env es s else Inr (s, es))"

text \<open>Behind an error the lines are passed on as they are; \<open>saved\<close> is the final message.\<close>

fun echo_rest :: "log_event list \<Rightarrow> filter_state \<Rightarrow> filter_state py_result" where
  "echo_rest [] s = Inr s"
| "echo_rest (Tick # es) s = py_bind (keepalive_tick s) (echo_rest es)"
| "echo_rest (Line rawline # es) s = py_bind (put rawline s) (echo_rest es)"

definition filter_main :: "path_env \<Rightarrow> string \<Rightarrow> log_event list \<Rightarrow> filter_state py_result" where
  "filter_main env saved es =
     py_bind (filter_loop env es filter_init) (\<lambda>(s, rest).
     py_bind (echo_rest rest s) (put_all [Inr (newline @ newline), Inr saved]))"

section \<open>What a stage may do\<close>

text \<open>
  A stage keeps the buffer and the log, only appends to the output, and leaves the flag alone unless
  it prints.
\<close>

definition printed :: "filter_state \<Rightarrow> filter_state \<Rightarrow> bool" where
  "printed s s' \<longleftrightarrow> length (gf_out s) < length (gf_out s')"

definition stage_ok :: "filter_state \<Rightarrow> filter_state \<Rightarrow> bool" where
  "stage_ok s s' \<longleftrightarrow>
     gf_buffer s' = gf_buffer s \<and> gf_log s' = gf_log s \<and> prefix (gf_out s) (gf_out s')
     \<and> (gf_flag s' \<longrightarrow> gf_flag s \<or> printed s s')"

definition flow_ok :: "filter_state \<Rightarrow> flow py_result \<Rightarrow> bool" where
  "flow_ok s r \<longleftrightarrow>
     (case r of
        Inl e \<Rightarrow> True
      | Inr (Next sline s') \<Rightarrow> stage_ok s s'
      | Inr (Skip s') \<Rightarrow> stage_ok s s' \<and> (printed s s' \<or> is_header (gf_buffer s)))"

named_theorems filter_stages \<open>the stages keep to what a stage may do\<close>

lemma stage_ok_refl [simp]: "stage_ok s s"
  by (simp add: stage_ok_def)

lemma printed_prefix: "printed s t \<Longrightarrow> prefix (gf_out t) (gf_out u) \<Longrightarrow> printed s u"
  by (auto simp: printed_def dest: prefix_length_le)

lemma prefix_printed: "prefix (gf_out s) (gf_out t) \<Longrightarrow> printed t u \<Longrightarrow> printed s u"
  by (auto simp: printed_def dest: prefix_length_le)

lemma stage_ok_trans: "stage_ok s t \<Longrightarrow> stage_ok t u \<Longrightarrow> stage_ok s u"
  unfolding stage_ok_def by (auto intro: prefix_order.trans printed_prefix prefix_printed)

lemma put_ok:
  assumes "put d s = Inr s'" "d \<noteq> []"
  shows "stage_ok s s' \<and> printed s s'"
  using assms by (auto simp: emit_def stage_ok_def printed_def split: if_splits)

text \<open>What stages print is never empty, and they print something at all.\<close>

definition solid :: "string py_result list \<Rightarrow> bool" where
  "solid ds = list_all (\<lambda>d. d \<noteq> Inr []) ds"

lemma put_all_ok:
  "put_all ds s = Inr s' \<Longrightarrow> solid ds \<Longrightarrow> stage_ok s s' \<and> (ds \<noteq> [] \<longrightarrow> printed s s')"
proof (induction ds arbitrary: s)
  case (Cons d ds)
  then obtain x t where t: "d = Inr x" "put x s = Inr t" "put_all ds t = Inr s'"
    by (auto simp: py_bind_Inr_iff)
  have "stage_ok s t \<and> printed s t" using Cons.prems(2) t(1) by (intro put_ok [OF t(2)]) (simp add: solid_def)
  moreover have "stage_ok t s'" using Cons.IH [OF t(3)] Cons.prems(2) by (simp add: solid_def)
  ultimately show ?case by (auto intro: stage_ok_trans printed_prefix simp: stage_ok_def)
qed (simp add: stage_ok_def)

declare put_all.simps [simp del]

lemma put_next_ok: "solid ds \<Longrightarrow> flow_ok s (put_next ds sline s)"
  using put_all_ok by (auto simp: put_next_def flow_ok_def py_bind_def split: sum.splits)

lemma put_skip_ok: "solid ds \<Longrightarrow> ds \<noteq> [] \<Longrightarrow> flow_ok s (put_skip ds s)"
  using put_all_ok by (auto simp: put_skip_def flow_ok_def py_bind_def split: sum.splits)

lemma flow_ok_simps [simp]:
  "flow_ok s (Inl e)"
  "flow_ok s (Inr (Next sline s))"
  "is_header (gf_buffer s) \<Longrightarrow> flow_ok s (Inr (Skip s))"
  by (simp_all add: flow_ok_def)

lemma solid_simps [simp]:
  "solid []"
  "solid (Inl e # ds) = solid ds"
  "solid (Inr x # ds) = (x \<noteq> [] \<and> solid ds)"
  "solid (ds @ es) = (solid ds \<and> solid es)"
  by (simp_all add: solid_def)

lemma solid_map: "solid (map f xs) = list_all (\<lambda>x. f x \<noteq> Inr []) xs"
  by (simp add: solid_def list_all_iff)

lemma newline_neq [simp]: "newline \<noteq> []" "x @ newline \<noteq> []" "newline @ x \<noteq> []"
  by (simp_all add: newline_def)

lemma mark_stage_ok [filter_stages]: "flow_ok s (mark_stage line sline s)"
  by (simp add: mark_stage_def put_skip_ok)

lemma copyright_stage_ok [filter_stages]: "flow_ok s (copyright_stage sline s)"
  by (simp add: copyright_stage_def put_skip_ok)

lemma header_stage_ok [filter_stages]: "flow_ok s (header_stage sline s)"
  by (simp add: header_stage_def put_skip_ok)

lemma summary_line_solid: "py_bind (py_nth xs k) (\<lambda>b. Inr (summary_line b)) \<noteq> Inr []"
  by (auto simp: py_nth_def summary_line_def Let_def)

lemma summary_stage_ok [filter_stages]: "flow_ok s (summary_stage line sline s)"
  by (auto simp: summary_stage_def solid_map list_all_iff summary_line_solid simp del: upt_Suc intro!: put_next_ok
      split: option.splits)

lemma unit_stage_ok [filter_stages]: "flow_ok s (unit_stage change start lead sline s)"
  by (simp add: unit_stage_def put_next_ok)

lemma analyzing_stage_ok [filter_stages]: "flow_ok s (analyzing_stage env sline s)"
  by (simp add: analyzing_stage_def put_next_ok)

lemma parsing_stage_ok [filter_stages]: "flow_ok s (parsing_stage env sline s)"
  by (simp add: parsing_stage_def put_next_ok)

lemma specials_stage_ok [filter_stages]: "flow_ok s (specials_stage sline s)"
  by (simp add: specials_stage_def flow_ok_def stage_ok_def printed_def)

lemma inferred_line_solid: "inferred_line b \<noteq> Inr []"
  by (simp add: inferred_line_def Let_def)

lemma stage_ok_specials: "stage_ok s s' \<Longrightarrow> stage_ok s (s'\<lparr>gf_specials := xs\<rparr>)"
  by (simp add: stage_ok_def printed_def)

lemma synthesized_stage_ok [filter_stages]: "flow_ok s (synthesized_stage sline s)"
proof -
  have "flow_ok s (py_bind (put_all ds s) (\<lambda>s. Inr (Next sline (s\<lparr>gf_specials := []\<rparr>))))" if "solid ds" for ds
    using put_all_ok [OF _ that, of s] stage_ok_specials by (auto simp: flow_ok_def py_bind_def split: sum.splits)
  then show ?thesis
    by (auto simp: synthesized_stage_def solid_map list_all_iff inferred_line_solid simp del: upt_Suc
        split: option.splits nat.splits)
qed

lemma stage_ok_triggered:
  "stage_ok s s' \<and> printed s s' \<Longrightarrow> flow_ok s (Inr (Skip (s'\<lparr>gf_fsm_triggered := b\<rparr>)))"
  by (simp add: flow_ok_def stage_ok_def printed_def)

lemma fsm_stage_ok [filter_stages]: "flow_ok s (fsm_stage sline s)"
proof (cases "put (newline @ ''Analyzing and optimizing FSMs '') s")
  case (Inr t)
  from stage_ok_triggered [OF put_ok [OF Inr]] show ?thesis
    by (simp add: fsm_stage_def Inr put_skip_ok del: append.simps)
qed (simp add: fsm_stage_def put_skip_ok del: append.simps)

lemma processing_stage_ok [filter_stages]: "flow_ok s (processing_stage sline s)"
  by (simp add: processing_stage_def Let_def put_next_ok)

lemma final_stage_ok [filter_stages]: "flow_ok s (final_stage sline s)"
  by (simp add: final_stage_def put_next_ok)

lemma report_stage_ok [filter_stages]: "flow_ok s (report_stage trigger heading title sline s)"
  by (auto simp: report_stage_def solid_map list_all_iff simp del: upt_Suc intro!: put_next_ok
      split: option.splits nat.splits)

lemma flow_ok_after:
  assumes "stage_ok s t" "flow_ok t r"
  shows "flow_ok s r"
  using assms stage_ok_trans [OF assms(1)] prefix_printed
  by (auto simp: flow_ok_def stage_ok_def [of s t] split: sum.splits flow.splits)

lemma phase_stage_ok [filter_stages]: "flow_ok s (phase_stage sline s)"
proof -
  have "flow_ok s (py_bind (if b then put newline s else Inr s) f)" if "\<And>t. flow_ok t (f t)" for b f
    using that put_ok [of newline s] flow_ok_after by (auto simp: py_bind_def split: sum.splits)
  moreover have "flow_ok t (case bytes_split sline [] of
       b0 # b1 # bits \<Rightarrow> put_next [Inr (rjust 5 b0 @ '' '' @ ljust 5 b1 @ '' - '' @ join_with '' '' bits @ '' '')] sline t
     | _ \<Rightarrow> Inl IndexError)" for t
    by (auto intro: put_next_ok split: list.splits)
  ultimately show ?thesis
    by (auto simp: phase_stage_def intro!: put_next_ok split: list.splits)
qed

lemma saving_stage_ok [filter_stages]: "flow_ok s (saving_stage sline s)"
  by (simp add: saving_stage_def put_next_ok)

lemma run_stages_ok:
  "\<forall>f \<in> set fs. \<forall>sline s. flow_ok s (f sline s) \<Longrightarrow> flow_ok s (run_stages fs sline s)"
proof (induction fs arbitrary: sline s)
  case (Cons f fs)
  then have f: "flow_ok s (f sline s)" and IH: "flow_ok t (run_stages fs sl t)" for sl t by simp_all
  consider (error) e where "f sline s = Inl e" | (go_on) sl t where "f sline s = Inr (Next sl t)"
    | (stop) t where "f sline s = Inr (Skip t)"
    by (metis flow.exhaust sum.exhaust)
  then show ?case
  proof cases
    case go_on
    with f have "stage_ok s t" by (simp add: flow_ok_def)
    with go_on show ?thesis by (simp add: flow_ok_after [OF _ IH])
  qed (use f in simp_all)
qed simp

lemma line_stages_ok: "flow_ok s (run_stages (line_stages env line) sline s)"
  by (rule run_stages_ok) (simp add: line_stages_def filter_stages)

section \<open>What the filter guarantees\<close>

definition is_error :: "string \<Rightarrow> bool" where
  "is_error rawline = startswith (strip_line_end rawline) ''ERROR:''"

text \<open>A line of blanks, and a line that completes a banner, may pass in silence.\<close>

definition silent_line :: "string \<Rightarrow> filter_state \<Rightarrow> bool" where
  "silent_line rawline s \<longleftrightarrow>
     bytes_strip (strip_line_end rawline) = []
     \<or> is_header (take buffer_size (strip_line_end rawline # gf_buffer s))"

lemma not_make_error: "startswith l ''ERROR:'' \<Longrightarrow> \<not> startswith l ''make''"
  by (cases l) (auto simp: startswith_def)

lemma strip_Nil: "bytes_strip l = [] \<Longrightarrow> \<not> startswith l ''ERROR:''"
proof
  assume "bytes_strip l = []" "startswith l ''ERROR:''"
  then obtain l' where "l = CHR ''E'' # l'" by (cases l) (auto simp: startswith_def)
  moreover have "\<not> is_blank CHR ''E''" by code_simp
  ultimately have "bytes_strip l \<noteq> []"
    by (auto simp: bytes_strip_def dropWhile_eq_Nil_conv)
  with \<open>bytes_strip l = []\<close> show False by simp
qed

text \<open>A line that the stages look at: a dot is printed if none of them took it.\<close>

lemma run_stages_step:
  assumes "(case run_stages (line_stages env l) sl (t\<lparr>gf_flag := False\<rparr>) of
       Inl e \<Rightarrow> Inl e
     | Inr (Skip s) \<Rightarrow> Inr (True, s)
     | Inr (Next sline s) \<Rightarrow>
         if gf_flag s then Inr (True, s) else py_bind (put ''.'' s) (\<lambda>s. Inr (True, s))) = Inr (go_on, s')"
  shows "go_on \<and> gf_log s' = gf_log t \<and> gf_buffer s' = gf_buffer t \<and> prefix (gf_out t) (gf_out s')
    \<and> (printed t s' \<or> is_header (gf_buffer t))"
proof -
  let ?r = "run_stages (line_stages env l) sl (t\<lparr>gf_flag := False\<rparr>)"
  have ok: "flow_ok (t\<lparr>gf_flag := False\<rparr>) ?r" by (rule line_stages_ok)
  consider (skipped) "?r = Inr (Skip s')" "go_on"
    | (flagged) sl where "?r = Inr (Next sl s')" "gf_flag s'" "go_on"
    | (dot) sl u where "?r = Inr (Next sl u)" "put ''.'' u = Inr s'" "go_on"
    using assms by (auto simp: py_bind_Inr_iff split: sum.splits flow.splits if_splits)
  then show ?thesis
  proof cases
    case dot
    from put_ok [OF dot(2)] ok dot(1,3) show ?thesis
      by (auto simp: flow_ok_def stage_ok_def printed_def intro: prefix_order.trans dest: prefix_length_le)
  qed (use ok in \<open>auto simp: flow_ok_def stage_ok_def printed_def\<close>)
qed

lemma filter_line_step:
  assumes "filter_line env rawline s = Inr (go_on, s')"
  shows "go_on = (\<not> is_error rawline) \<and> gf_log s' = gf_log s @ rawline
     \<and> gf_buffer s' = (if go_on then take buffer_size (strip_line_end rawline # gf_buffer s)
          else tl (take buffer_size (strip_line_end rawline # gf_buffer s)))
     \<and> prefix (gf_out s) (gf_out s') \<and> (printed s s' \<or> silent_line rawline s)"
proof -
  let ?l = "strip_line_end rawline"
  define t where "t = s\<lparr>gf_log := gf_log s @ rawline, gf_buffer := take buffer_size (?l # gf_buffer s)\<rparr>"
  have t: "gf_log t = gf_log s @ rawline" "gf_buffer t = take buffer_size (?l # gf_buffer s)" "gf_out t = gf_out s"
    by (simp_all add: t_def)
  consider (make) "startswith ?l ''make''" | (blank) "\<not> startswith ?l ''make''" "bytes_strip ?l = []"
    | (error) "\<not> startswith ?l ''make''" "bytes_strip ?l \<noteq> []" "startswith ?l ''ERROR:''"
    | (stages) "\<not> startswith ?l ''make''" "bytes_strip ?l \<noteq> []" "\<not> startswith ?l ''ERROR:''"
    by blast
  then show ?thesis
  proof cases
    case make
    with assms have "put (newline @ ?l @ '' '') t = Inr s'" "go_on"
      by (auto simp: filter_line_def Let_def t_def [symmetric] py_bind_Inr_iff)
    with put_ok [OF this(1)] make show ?thesis
      using not_make_error t by (auto simp: is_error_def stage_ok_def printed_def)
  next
    case blank
    with assms have "s' = t" "go_on" by (auto simp: filter_line_def Let_def t_def)
    with blank strip_Nil show ?thesis by (simp add: t is_error_def silent_line_def)
  next
    case error
    with assms obtain d where "put (newline @ d) (t\<lparr>gf_buffer := tl (gf_buffer t)\<rparr>) = Inr s'" "\<not> go_on"
      by (auto simp: filter_line_def Let_def t_def [symmetric] py_bind_Inr_iff)
    with put_ok [OF this(1)] error show ?thesis
      using t by (simp add: is_error_def stage_ok_def printed_def)
  next
    case stages
    with assms have "(case run_stages (line_stages env ?l) (bytes_strip ?l) (t\<lparr>gf_flag := False\<rparr>) of
         Inl e \<Rightarrow> Inl e
       | Inr (Skip s) \<Rightarrow> Inr (True, s)
       | Inr (Next sline s) \<Rightarrow>
           if gf_flag s then Inr (True, s) else py_bind (put ''.'' s) (\<lambda>s. Inr (True, s))) = Inr (go_on, s')"
      by (simp add: filter_line_def Let_def t_def)
    from run_stages_step [OF this] stages t show ?thesis
      by (auto simp: is_error_def silent_line_def printed_def)
  qed
qed

text \<open>
  A line that the filter gets through adds at least one character to what it has
  printed, so that the build is not taken for dead, unless the line is blank or completes a banner.
\<close>

theorem gateware_line_prints:
  assumes "filter_line env rawline s = Inr (go_on, s')" "\<not> silent_line rawline s"
  shows "prefix (gf_out s) (gf_out s') \<and> length (gf_out s) < length (gf_out s')"
  using filter_line_step [OF assms(1)] assms(2) by (simp add: printed_def)

theorem gateware_line_prints_witness:
  "\<exists>s'. filter_line \<lparr>pe_top = [], pe_isfile = (\<lambda>p. False)\<rparr> (''WARNING:Xst:3035 - x'' @ newline) filter_init = Inr (True, s')
     \<and> length (gf_out filter_init) < length (gf_out s')"
proof -
  let ?env = "\<lparr>pe_top = [], pe_isfile = (\<lambda>p. False)\<rparr>"
  let ?l = "''WARNING:Xst:3035 - x'' @ newline"
  have "case filter_line ?env ?l filter_init of Inl e \<Rightarrow> False | Inr (go_on, s') \<Rightarrow> go_on" by code_simp
  then obtain s' where s': "filter_line ?env ?l filter_init = Inr (True, s')" by (auto split: sum.splits)
  moreover have "\<not> silent_line ?l filter_init" by code_simp
  ultimately show ?thesis using gateware_line_prints by blast
qed

text \<open>The lines of a run, and those up to the first error.\<close>

fun raw_lines :: "log_event list \<Rightarrow> string list" where
  "raw_lines [] = []"
| "raw_lines (Tick # es) = raw_lines es"
| "raw_lines (Line rawline # es) = rawline # raw_lines es"

fun up_to_error :: "string list \<Rightarrow> string list" where
  "up_to_error [] = []"
| "up_to_error (r # rs) = r # (if is_error r then [] else up_to_error rs)"

lemma keepalive_tick_keeps:
  assumes "keepalive_tick s = Inr s'"
  shows "gf_buffer s' = gf_buffer s \<and> gf_log s' = gf_log s"
  using assms by (auto simp: keepalive_tick_def emit_def py_bind_Inr_iff split: if_splits)

lemma take_push: "length b = n \<Longrightarrow> take n (xs @ take n (x # b)) = take n (xs @ x # b)"
  by (simp add: take_Cons' min_def)

lemma filter_loop_log:
  "filter_loop env es s = Inr (s', rest) \<Longrightarrow> length (gf_buffer s) = buffer_size \<Longrightarrow>
   gf_log s' = gf_log s @ concat (up_to_error (raw_lines es))
   \<and> raw_lines es = up_to_error (raw_lines es) @ raw_lines rest
   \<and> (\<not> list_ex is_error (raw_lines es) \<longrightarrow>
       gf_buffer s' = take buffer_size (rev (map strip_line_end (raw_lines es)) @ gf_buffer s))"
proof (induction es arbitrary: s)
  case (Cons e es)
  show ?case
  proof (cases e)
    case Tick
    with Cons.prems obtain t where t: "keepalive_tick s = Inr t" "filter_loop env es t = Inr (s', rest)"
      by (auto simp: py_bind_Inr_iff)
    from Cons.IH [OF t(2)] Cons.prems(2) keepalive_tick_keeps [OF t(1)] Tick show ?thesis by simp
  next
    case (Line r)
    with Cons.prems obtain go_on t where t: "filter_line env r s = Inr (go_on, t)"
        "(if go_on then filter_loop env es t else Inr (t, es)) = Inr (s', rest)"
      by (auto simp: py_bind_Inr_iff)
    note step = filter_line_step [OF t(1)]
    show ?thesis
    proof (cases "is_error r")
      case True
      with t(2) step Line show ?thesis by simp
    next
      case False
      with step have go_on: "go_on" and b: "gf_buffer t = take buffer_size (strip_line_end r # gf_buffer s)"
          and l: "gf_log t = gf_log s @ r"
        by simp_all
      have len: "length (gf_buffer t) = buffer_size" using Cons.prems(2) by (simp add: b)
      have "filter_loop env es t = Inr (s', rest)" using t(2) go_on by simp
      from Cons.IH [OF this len] False Line show ?thesis by (simp add: l b take_push Cons.prems(2))
    qed
  qed
qed simp

text \<open>
  C40 (log and buffer): the log file receives every line up to and including the first error, exactly as
  it came and whatever the keep-alive thread prints between; the lines behind it are left for the final
  loop.  As long as there is no error the buffer holds 200 lines, the newest first, empty ones standing
  for those before the start.
\<close>

theorem gateware_log_buffer:
  assumes "filter_loop env es filter_init = Inr (s, rest)"
  shows "gf_log s = concat (up_to_error (raw_lines es))
    \<and> raw_lines es = up_to_error (raw_lines es) @ raw_lines rest
    \<and> (\<not> list_ex is_error (raw_lines es) \<longrightarrow>
        gf_buffer s = take buffer_size (rev (map strip_line_end (raw_lines es)) @ replicate buffer_size []))"
  using filter_loop_log [OF assms] by (simp add: filter_init_def)

definition demo_log :: "log_event list" where
  "demo_log = [Line (''Parsing module <a>.'' @ newline), Tick, Line (''ERROR: b'' @ newline), Tick, Line ''c'']"

theorem gateware_log_buffer_witness:
  "\<exists>s rest. filter_loop \<lparr>pe_top = [], pe_isfile = (\<lambda>p. False)\<rparr> demo_log filter_init = Inr (s, rest)
     \<and> gf_log s = ''Parsing module <a>.'' @ newline @ ''ERROR: b'' @ newline \<and> raw_lines rest = [''c'']"
proof -
  let ?env = "\<lparr>pe_top = [], pe_isfile = (\<lambda>p. False)\<rparr>"
  have "case filter_loop ?env demo_log filter_init of Inl e \<Rightarrow> False | Inr r \<Rightarrow> True" by code_simp
  then obtain s rest where r: "filter_loop ?env demo_log filter_init = Inr (s, rest)"
    by (auto split: sum.splits)
  have "up_to_error (raw_lines demo_log) = [''Parsing module <a>.'' @ newline, ''ERROR: b'' @ newline]"
      "raw_lines demo_log = [''Parsing module <a>.'' @ newline, ''ERROR: b'' @ newline, ''c'']"
    by code_simp+
  with gateware_log_buffer [OF r] r show ?thesis by simp
qed

end
