(* ===== verification/Soc_Ethernet.thy ===== *)
theory Soc_Ethernet
  imports Boards Sub_Types
begin

text \<open>
  Two systems that bring their own clock generator: the Ethernet system of the Waxwing
  (\<open>targets/waxwing/net.py\<close>) with its base class, and the Etherbone bridge of the Mimas A7
  (\<open>targets/mimas_a7/bridge_net.py\<close>), which has no processor.
\<close>

section \<open>Waxwing\<close>

definition waxwing_net_crg :: "rat \<Rightarrow> crg_stmt list py_result" where
  "waxwing_net_crg clk_freq =
    (let f0 = 100 * 1000000;
         (n, d) = quotient_of (10 / 1);
         p = 8
     in py_bind (py_assert (f0 * of_int n / of_int d / of_int p / 4 = clk_freq)) (\<lambda>_.
        py_bind (py_assert (19 * 10 ^ 6 \<le> f0 / of_int d \<and> f0 / of_int d \<le> 500 * 10 ^ 6)) (\<lambda>_.
        py_bind (py_assert (400 * 10 ^ 6 \<le> f0 * of_int n / of_int d
                            \<and> f0 * of_int n / of_int d \<le> 1000 * 10 ^ 6)) (\<lambda>_. Inr [
      Domain ''cd_sys'' False,
      Domain ''cd_sdram_half'' False,
      Domain ''cd_sdram_full_wr'' False,
      Domain ''cd_sdram_full_rd'' False,
      Domain ''cd_eth'' False,
      Request ''clk100'' ''clk100'' None,
      Inst ''IBUFG''
        []
        [(''I'', Net ''clk100'')]
        [(''O'', ''clk100a'')],
      Inst ''BUFIO2''
        [(''DIVIDE'', PInt 1), (''DIVIDE_BYPASS'', PStr ''TRUE''), (''I_INVERT'', PStr ''FALSE'')]
        [(''I'', Net ''clk100a'')]
        [(''DIVCLK'', ''clk100b'')],
      Inst ''PLL_ADV''
        [(''SIM_DEVICE'', PStr ''SPARTAN6''), (''BANDWIDTH'', PStr ''OPTIMIZED''),
         (''COMPENSATION'', PStr ''INTERNAL''), (''REF_JITTER'', PRat (1 / 100)),
         (''DIVCLK_DIVIDE'', PInt (d)), (''CLKIN1_PERIOD'', PRat (10 ^ 9 / f0)),
         (''CLKIN2_PERIOD'', PRat 0), (''CLK_FEEDBACK'', PStr ''CLKFBOUT''),
         (''CLKFBOUT_MULT'', PInt (n)), (''CLKFBOUT_PHASE'', PRat 0),
         (''CLKOUT0_DUTY_CYCLE'', PRat (1 / 2)), (''CLKOUT0_PHASE'', PRat 0),
         (''CLKOUT0_DIVIDE'', PInt (p)), (''CLKOUT1_DUTY_CYCLE'', PRat (1 / 2)),
         (''CLKOUT1_PHASE'', PRat 0), (''CLKOUT1_DIVIDE'', PInt (p)),
         (''CLKOUT2_DUTY_CYCLE'', PRat (1 / 2)), (''CLKOUT2_PHASE'', PRat 270),
         (''CLKOUT2_DIVIDE'', PInt (p * 2)), (''CLKOUT3_DUTY_CYCLE'', PRat (1 / 2)),
         (''CLKOUT3_PHASE'', PRat 270), (''CLKOUT3_DIVIDE'', PInt (p * 2)),
         (''CLKOUT4_DUTY_CYCLE'', PRat (1 / 2)), (''CLKOUT4_PHASE'', PRat 0),
         (''CLKOUT4_DIVIDE'', PInt (p * 5)), (''CLKOUT5_DUTY_CYCLE'', PRat (1 / 2)),
         (''CLKOUT5_PHASE'', PRat 0), (''CLKOUT5_DIVIDE'', PInt (p * 4))]
        [(''DADDR'', Lit 0), (''DCLK'', Lit 0), (''DEN'', Lit 0), (''DI'', Lit 0),
         (''DWE'', Lit 0), (''RST'', Lit 0), (''REL'', Lit 0), (''CLKIN1'', Net ''clk100b''),
         (''CLKIN2'', Lit 0), (''CLKINSEL'', Lit 1), (''CLKFBIN'', Net ''pll_fb'')]
        [(''CLKFBOUT'', ''pll_fb''), (''LOCKED'', ''pll_lckd''),
         (''CLKOUT0'', ''unbuf_sdram_full''), (''CLKOUT1'', ''unbuf_unused_a''),
         (''CLKOUT2'', ''unbuf_sdram_half_a''), (''CLKOUT3'', ''unbuf_sdram_half_b''),
         (''CLKOUT4'', ''unbuf_eth''), (''CLKOUT5'', ''unbuf_sys'')],
      Wire ''reset'' (Inv (Pad ''user_btn'' (Some 0))),
      Domain ''cd_por'' False,
      Reg ''por'' 11 2047,
      Countdown ''por'' ''por'' None,
      ResetSync ''cd_por'' (Net ''reset''),
      Inst ''BUFG''
        []
        [(''I'', Net ''unbuf_sys'')]
        [(''O'', ''cd_sys.clk'')],
      Comb ''cd_por.clk'' (Net ''cd_sys.clk''),
      ResetSync ''cd_sys'' (Or (Inv (Net ''pll_lckd'')) (Gt ''por'' 0)),
      Inst ''BUFPLL''
        [(''DIVIDE'', PInt 4)]
        [(''PLLIN'', Net ''unbuf_sdram_full''), (''GCLK'', Net ''cd_sys.clk''),
         (''LOCKED'', Net ''pll_lckd'')]
        [(''IOCLK'', ''cd_sdram_full_wr.clk''), (''SERDESSTROBE'', ''self.clk4x_wr_strb'')],
      Comb ''cd_sdram_full_rd.clk'' (Net ''cd_sdram_full_wr.clk''),
      Comb ''self.clk4x_rd_strb'' (Net ''self.clk4x_wr_strb''),
      Inst ''BUFG''
        []
        [(''I'', Net ''unbuf_eth'')]
        [(''O'', ''cd_eth.clk'')],
      Inst ''BUFG''
        []
        [(''I'', Net ''unbuf_sdram_half_a'')]
        [(''O'', ''cd_sdram_half.clk'')],
      Inst ''BUFG''
        []
        [(''I'', Net ''unbuf_sdram_half_b'')]
        [(''O'', ''clk_sdram_half_shifted'')],
      Request ''clk'' ''ddram_clock'' None,
      Inst ''ODDR2''
        [(''DDR_ALIGNMENT'', PStr ''NONE''), (''INIT'', PInt 0), (''SRTYPE'', PStr ''SYNC'')]
        [(''D0'', Lit 1), (''D1'', Lit 0), (''S'', Lit 0), (''R'', Lit 0), (''CE'', Lit 1),
         (''C0'', Net ''clk_sdram_half_shifted''), (''C1'', Inv (Net ''clk_sdram_half_shifted''))]
        [(''Q'', ''clk.p'')],
      Inst ''ODDR2''
        [(''DDR_ALIGNMENT'', PStr ''NONE''), (''INIT'', PInt 0), (''SRTYPE'', PStr ''SYNC'')]
        [(''D0'', Lit 0), (''D1'', Lit 1), (''S'', Lit 0), (''R'', Lit 0), (''CE'', Lit 1),
         (''C0'', Net ''clk_sdram_half_shifted''), (''C1'', Inv (Net ''clk_sdram_half_shifted''))]
        [(''Q'', ''clk.n'')]]))))"

definition waxwing_net_base_mem_map :: "(string, int) dict \<Rightarrow> (string, int) dict" where
  "waxwing_net_base_mem_map base = dict_update [(''emulator_ram'', 0x50000000)] base"

text \<open>\<open>main_ram_size\<close> is the attribute \<open>integrated_main_ram_size\<close> that the LiteX base class sets.\<close>

definition waxwing_net_base_soc :: "int \<Rightarrow> soc_env \<Rightarrow> soc_stmt list py_result" where
  "waxwing_net_base_soc main_ram_size env =
     py_bind (dict_get (se_mem env) ''emulator_ram'') (\<lambda>mem_emulator_ram.
     (let kwargs = se_kwargs env;
          kwargs = set_default ''integrated_rom_size'' (KInt 0x8000) kwargs;
          kwargs = set_default ''integrated_sram_size'' (KInt 0x8000) kwargs;
          clk_freq = (31 + 1 / 4) * 1000 * 1000;
          size = (0x4000 :: int)
      in
     py_bind (waxwing_net_crg clk_freq) (\<lambda>crg.
     Inr ([
       Init ''SoCSDRAM'' clk_freq [] kwargs,
       Crg crg]
      @ (if linux_cpu env
      then [
         Submodule ''emulator_ram'' ''wishbone.SRAM'' [(''#0'', KInt size)],
         Register_mem ''emulator_ram'' mem_emulator_ram size]
      else [])
      @ (if main_ram_size = 0
      then [
         Use ''ddram'' None,
         Submodule ''ddrphy'' ''s6ddrphy.S6HalfRateDDRPHY'' [(''#0'', KStr ''ddram''),
          (''#1'', KStr ''sdram_module.memtype''), (''rd_bitslip'', KInt 2), (''wr_bitslip'', KInt 3),
          (''dqs_ddr_alignment'', KStr ''C1'')],
         Add_csr ''ddrphy'',
         Register_sdram ''MT46H32M16'' ''1:2'' [(''with_bandwidth'', KBool True)],
         Connect ''ddrphy.clk4x_wr_strb'' ''crg.clk4x_wr_strb'',
         Connect ''ddrphy.clk4x_rd_strb'' ''crg.clk4x_rd_strb'']
      else [])))))"

definition waxwing_net_mem_map :: "(string, int) dict \<Rightarrow> (string, int) dict" where
  "waxwing_net_mem_map base = dict_update [(''ethmac'', 0xb0000000)] (waxwing_net_base_mem_map base)"

definition waxwing_net_soc :: "int \<Rightarrow> soc_env \<Rightarrow> soc_stmt list py_result" where
  "waxwing_net_soc main_ram_size env =
     (let kwargs = set_default ''integrated_rom_size'' (KInt 0x10000) (se_kwargs env) in
     py_bind (waxwing_net_base_soc main_ram_size (env\<lparr>se_kwargs := kwargs\<rparr>)) (\<lambda>super.
     py_bind (dict_get (se_mem env) ''ethmac'') (\<lambda>mem_ethmac.
     Inr (super @ [
       Use ''eth_clocks'' None,
       Use ''eth'' None,
       Submodule ''ethphy'' ''LiteEthPHYMII'' [(''#0'', KStr ''eth_clocks''), (''#1'', KStr ''eth'')],
       Add_csr ''ethphy'',
       Submodule ''ethmac'' ''LiteEthMAC'' [(''phy'', KStr ''ethphy''), (''dw'', KInt 32),
        (''interface'', KStr ''wishbone''), (''endianness'', KStr (se_endianness env))],
       Wb_slave mem_ethmac,
       Memory_region ''ethmac'' mem_ethmac 0x2000 ''io'',
       Add_csr ''ethmac'',
       Interrupt ''ethmac'',
       Keep ''ethphy.crg.cd_eth_rx.clk'',
       Keep ''ethphy.crg.cd_eth_tx.clk'']))))"

definition waxwing_net_board :: target_board where
  "waxwing_net_board =
     \<lparr>bd_name = ''waxwing'', bd_attrs = waxwing_attrs, bd_csr_peripherals = [],
      bd_mem_map = waxwing_net_mem_map, bd_soc = waxwing_net_soc 0\<rparr>"

section \<open>Mimas A7\<close>

definition mimas_a7_bridge_crg :: "crg_stmt list" where
  "mimas_a7_bridge_crg =
     [
      Domain ''cd_sys'' False,
      Domain ''cd_clk200'' False,
      Domain ''cd_clk100'' False,
      Request ''clk100'' ''clk100'' None,
      Request ''rst'' ''cpu_reset'' None,
      Inst ''PLLE2_BASE''
        [(''STARTUP_WAIT'', PStr ''FALSE''), (''REF_JITTER1'', PRat (1 / 100)),
         (''CLKIN1_PERIOD'', PRat 10), (''CLKFBOUT_MULT'', PInt 14), (''DIVCLK_DIVIDE'', PInt 1),
         (''CLKOUT0_DIVIDE'', PInt 10), (''CLKOUT0_PHASE'', PRat 0), (''CLKOUT1_DIVIDE'', PInt 7),
         (''CLKOUT1_PHASE'', PRat 0)]
        [(''CLKIN1'', Net ''clk100''), (''CLKFBIN'', Net ''pll_fb'')]
        [(''LOCKED'', ''pll_locked''), (''CLKFBOUT'', ''pll_fb''),
         (''CLKOUT0'', ''self.pll_sys''), (''CLKOUT1'', ''pll_clk200'')],
      Inst ''BUFG''
        []
        [(''I'', Net ''self.pll_sys'')]
        [(''O'', ''cd_sys.clk'')],
      Inst ''BUFG''
        []
        [(''I'', Net ''pll_clk200'')]
        [(''O'', ''cd_clk200.clk'')],
      Inst ''BUFG''
        []
        [(''I'', Net ''clk100'')]
        [(''O'', ''cd_clk100.clk'')],
      ResetSync ''cd_sys'' (Or (Inv (Net ''pll_locked'')) (Net ''rst'')),
      ResetSync ''cd_clk200'' (Or (Inv (Net ''pll_locked'')) (Net ''rst'')),
      ResetSync ''cd_clk100'' (Or (Inv (Net ''pll_locked'')) (Net ''rst'')),
      Reg ''reset_counter'' 4 15,
      Reg ''ic_reset'' 1 1,
      Countdown ''clk200'' ''reset_counter'' (Some ''ic_reset''),
      Inst ''IDELAYCTRL''
        []
        [(''REFCLK'', ClockSig ''clk200''), (''RST'', Net ''ic_reset'')]
        []]"

definition mimas_a7_bridge_csr_peripherals :: "string list" where
  "mimas_a7_bridge_csr_peripherals = [''ethphy'', ''ethcore'']"

text \<open>The keywords that the constructor gives to the LiteX base class beside \<open>**kwargs\<close>.\<close>

definition mimas_a7_bridge_kwargs :: "(string, karg) dict" where
  "mimas_a7_bridge_kwargs =
     [(''cpu_type'', KNone), (''integrated_main_ram_size'', KInt 0x8000),
      (''integrated_rom_size'', KInt 0x8000), (''integrated_sram_size'', KInt 0x8000),
      (''csr_data_width'', KInt 32), (''with_uart'', KBool False)]"

text \<open>
  The arguments \<open>cpu_type\<close> (which is ignored), \<open>mac_address\<close> and \<open>ip_address\<close> are parameters of the
  constructor; the others reach the base class.
\<close>

definition mimas_a7_bridge_soc :: "int \<Rightarrow> string \<Rightarrow> soc_env \<Rightarrow> soc_stmt list py_result" where
  "mimas_a7_bridge_soc mac_address ip_address env =
     (let kwargs = dict_del ''cpu_type'' (se_kwargs env); clk_freq = 142000000 in
     py_bind (call_with mimas_a7_bridge_kwargs kwargs) (\<lambda>all_kwargs.
     Inr [
       Init ''SoCCore'' clk_freq mimas_a7_bridge_kwargs kwargs,
       Crg mimas_a7_bridge_crg,
       Keep ''crg.cd_sys.clk'',
       Sys_period (period_ns clk_freq),
       Use ''eth_clocks'' None,
       Use ''eth'' None,
       Submodule ''ethphy'' ''LiteEthPHYRGMII'' [(''#0'', KStr ''eth_clocks''), (''#1'', KStr ''eth'')],
       Submodule ''ethcore'' ''LiteEthUDPIPCore'' [(''#0'', KStr ''ethphy''), (''#1'', KInt mac_address),
        (''#2'', KStr ip_address), (''#3'', KStr ''clk_freq''), (''with_icmp'', KBool True)],
       Submodule ''cpu_or_bridge'' ''LiteEthEtherbone'' [(''#0'', KStr ''ethcore.udp''), (''#1'', KInt 1234)],
       Wb_master ''cpu_or_bridge.wishbone.bus'',
       Keep ''ethphy.crg.cd_eth_rx.clk'',
       Keep ''ethphy.crg.cd_eth_tx.clk'',
       Net_period ''ethphy.crg.cd_eth_rx.clk'' (period_ns 125000000),
       Net_period ''ethphy.crg.cd_eth_tx.clk'' (period_ns 125000000),
       False_path [''crg.cd_sys.clk'', ''ethphy.crg.cd_eth_rx.clk'', ''ethphy.crg.cd_eth_tx.clk'']]))"

definition mimas_a7_bridge_board :: target_board where
  "mimas_a7_bridge_board =
     \<lparr>bd_name = ''mimas_a7'', bd_attrs = mimas_a7_attrs, bd_csr_peripherals = mimas_a7_bridge_csr_peripherals,
      bd_mem_map = id, bd_soc = mimas_a7_bridge_soc 0x10e2d5000000 ''192.168.100.50''\<rparr>"

section \<open>Clocks\<close>

text \<open>The \<open>sys\<close> clock of the Waxwing system is the one it is built for.\<close>

lemma waxwing_net_clock: "sys_clock_ok documented 0 (litex_map rom sram csr main_ram) waxwing_net_board"
  by code_simp

definition bridge_clocks :: "prim_freq \<Rightarrow> (string, int) dict \<Rightarrow> bool" where
  "bridge_clocks pf base =
     (case base_soc mimas_a7_bridge_board base of
        Inl e \<Rightarrow> False
      | Inr ss \<Rightarrow> soc_sys_clock pf mimas_a7_bridge_board ss = Some 140000000 \<and> soc_told_clock ss = [142000000])"

lemma bridge_clocks_documented: "bridge_clocks documented (litex_map rom sram csr main_ram)"
  by code_simp

lemma bridge_clocks_vendor:
  assumes "vendor_clocks pf"
  shows "bridge_clocks pf = bridge_clocks documented"
  unfolding bridge_clocks_def soc_sys_clock_documented [OF assms] ..

text \<open>
  On the Mimas A7 the PLL of the bridge makes 140 MHz, while the
  system, its timing constraint and its network core are built for 142 MHz.  The clock of the Waxwing
  Ethernet system is the one it is built for.
\<close>

theorem ethernet_clocks:
  assumes "vendor_clocks pf"
  shows "sys_clock_ok pf 0 (litex_map rom sram csr main_ram) waxwing_net_board
       \<and> bridge_clocks pf (litex_map rom sram csr main_ram)"
  unfolding sys_clock_ok_documented [OF assms] bridge_clocks_vendor [OF assms]
  by (intro conjI waxwing_net_clock bridge_clocks_documented)

theorem ethernet_clocks_witness:
  "bridge_clocks documented (litex_map 0 0x10000000 0xe0000000 0x40000000)"
  using ethernet_clocks [OF vendor_clocks_documented] by blast

end
