(* ===== verification/Netlists.thy ===== *)
theory Netlists
  imports Boards Soc_Ethernet
begin

text \<open>
  Static checks of the clock generators as netlists: which nets a statement reads and which it
  gives a value to.  A netlist is well formed when no net has two sources, every net that is read has
  one, and every statement that names a clock domain names a declared one; in a well-formed netlist
  a net has a unique source.  The clock generators of all boards but the Basys 3 and the Cmod A7 are
  well formed and make every clock domain run; those two declare domains that nothing drives.
\<close>

section \<open>Reads and sources\<close>

fun sig_reads :: "sig \<Rightarrow> string list" where
  "sig_reads (Net n) = [n]"
| "sig_reads (Inv e) = sig_reads e"
| "sig_reads (Or e f) = sig_reads e @ sig_reads f"
| "sig_reads (Gt n k) = [n]"
| "sig_reads (Neq n k) = [n]"
| "sig_reads (ClockSig d) = [''cd_'' @ d @ ''.clk'']"
| "sig_reads (ResetSig d) = [''cd_'' @ d @ ''.rst'']"
| "sig_reads (Lit k) = []"
| "sig_reads (Pad n k) = []"

fun nets_read :: "crg_stmt \<Rightarrow> string list" where
  "nets_read (Wire v e) = sig_reads e"
| "nets_read (Inst prim ps ins outs) = concat (map (\<lambda>i. sig_reads (snd i)) ins)"
| "nets_read (Comb v e) = sig_reads e"
| "nets_read (ResetSync d e) = (d @ ''.clk'') # sig_reads e"
| "nets_read (Countdown d v f) = [''cd_'' @ d @ ''.clk'', v]"
| "nets_read (Period v t) = [v]"
| "nets_read _ = []"

fun nets_given :: "crg_stmt \<Rightarrow> string list" where
  "nets_given (Request v n k) = [v]"
| "nets_given (Reg v w r) = [v]"
| "nets_given (Wire v e) = [v]"
| "nets_given (Inst prim ps ins outs) = map snd outs"
| "nets_given (Comb v e) = [v]"
| "nets_given (ResetSync d e) = [d @ ''.rst'']"
| "nets_given _ = []"

fun domains_named :: "crg_stmt \<Rightarrow> string list" where
  "domains_named (ResetSync d e) = [d]"
| "domains_named (Countdown d v f) = [''cd_'' @ d]"
| "domains_named _ = []"

text \<open>
  \<open>self.reset\<close> is the input of a clock generator, which LiteX connects to the reset register of the
  system's controller; without that register it stays at zero.
\<close>

definition input_nets :: "string list" where
  "input_nets = [''self.reset'']"

definition netlist_ok :: "crg_stmt list \<Rightarrow> bool" where
  "netlist_ok ss =
     (let given = concat (map nets_given ss)
      in distinct given
         \<and> list_all (\<lambda>n. List.member (input_nets @ given) n) (concat (map nets_read ss))
         \<and> list_all (\<lambda>d. List.member (domains ss) d) (concat (map domains_named ss)))"

text \<open>In a well-formed netlist each net that is read is an input or has exactly one source.\<close>

lemma distinct_concat_source:
  assumes "distinct (concat (map f ss))" "i < length ss" "j < length ss" "i \<noteq> j"
  shows "set (f (ss ! i)) \<inter> set (f (ss ! j)) = {}"
  using assms
proof (induction ss arbitrary: i j)
  case (Cons s ss)
  have tail: "set (f s) \<inter> set (f (ss ! k)) = {}" if "k < length ss" for k
    using Cons.prems(1) nth_mem [OF that] by auto
  show ?case
  proof (cases i)
    case 0
    then show ?thesis using Cons.prems tail by (cases j) auto
  next
    case (Suc i')
    then show ?thesis using Cons.prems tail Cons.IH [of i'] by (cases j) auto
  qed
qed simp

lemma netlist_unique_source:
  assumes "netlist_ok ss" "r \<in> set ss" "n \<in> set (nets_read r)" "n \<notin> set input_nets"
  shows "\<exists>!i. i < length ss \<and> n \<in> set (nets_given (ss ! i))"
proof -
  have all: "list_all (\<lambda>n. List.member (input_nets @ concat (map nets_given ss)) n) (concat (map nets_read ss))"
    and dist: "distinct (concat (map nets_given ss))"
    using assms(1) by (simp_all only: netlist_ok_def Let_def)
  have "n \<in> set (concat (map nets_read ss))"
    using assms(2,3) by auto
  then have "List.member (input_nets @ concat (map nets_given ss)) n"
    using all by (simp only: list_all_iff)
  then have "n \<in> set (concat (map nets_given ss))"
    using assms(4) by simp
  then obtain s where "s \<in> set ss" "n \<in> set (nets_given s)" by auto
  then obtain i where i: "i < length ss" "n \<in> set (nets_given (ss ! i))"
    by (auto simp: in_set_conv_nth)
  moreover have "j = i" if "j < length ss" "n \<in> set (nets_given (ss ! j))" for j
    using distinct_concat_source [OF dist that(1) i(1)] that(2) i(2) by blast
  ultimately show ?thesis by blast
qed

section \<open>Boards\<close>

text \<open>Each domain gets a clock, given that the oscillators run.\<close>

definition clocks_run :: "prim_freq \<Rightarrow> (string \<Rightarrow> rat option) \<Rightarrow> crg_stmt list \<Rightarrow> bool" where
  "clocks_run pf src ss = list_all (\<lambda>d. clock_of pf src ss d \<noteq> None) (domains ss)"

definition generator_ok :: "prim_freq \<Rightarrow> (string, int) dict \<Rightarrow> target_board \<Rightarrow> bool" where
  "generator_ok pf base b =
     (case base_soc b base of
        Inl e \<Rightarrow> False
      | Inr ss \<Rightarrow> netlist_ok (concat (map soc_crg ss))
          \<and> clocks_run pf (pad_freq (bd_attrs b)) (concat (map soc_crg ss)))"

lemma generator_ok_documented:
  assumes "vendor_clocks pf"
  shows "generator_ok pf = generator_ok documented"
  unfolding generator_ok_def clocks_run_def clock_of_documented [OF assms] ..

lemma spartan6_netlists:
  "list_all (generator_ok documented (litex_map rom sram csr main_ram)) spartan6_boards"
  by code_simp

lemma artix7_netlists:
  "list_all (generator_ok documented (litex_map rom sram csr main_ram))
     (filter (\<lambda>b. bd_name b \<noteq> ''basys3'') artix7_boards)"
  by code_simp

lemma ice40_netlists:
  "list_all (generator_ok documented (litex_map rom sram csr main_ram)) ice40_boards"
  by code_simp

lemma other_netlists:
  "list_all (generator_ok documented (litex_map rom sram csr main_ram)) [waxwing_net_board, mimas_a7_bridge_board]"
  by code_simp

text \<open>The boards whose clock generators drive all their domains.\<close>

definition clocked_boards :: "target_board list" where
  "clocked_boards =
     spartan6_boards @ filter (\<lambda>b. bd_name b \<noteq> ''basys3'') artix7_boards @ ice40_boards
     @ [waxwing_net_board, mimas_a7_bridge_board]"

lemma cmod_a7_clk200: "clock_of pf src cmod_a7_crg ''cd_clk200'' = None"
  by (simp add: clock_of_def clocks_def cmod_a7_crg_def inst_outputs_def add_freq_def split: option.split)



end
