(* ===== verification/Instances.thy ===== *)
theory Instances
  imports Opsis_Tofe
begin

text \<open>
  The instances of hardware cores in the gateware (\<open>Instance(...)\<close> in \<open>gateware/encoder/core.py\<close>,
  \<open>gateware/s6rgmii.py\<close>, \<open>gateware/streamer/core.py\<close>, \<open>gateware/ice40.py\<close> and
  \<open>gateware/info/xadc.py\<close>): what is connected to which port, with its direction and width.  For the cores whose source is in the repository the port
  lists of their Verilog modules and VHDL entities are given as well, and each instance is checked
  against them: only ports that exist, in the declared direction, none twice, no input left open, and
  which connections differ in width.
\<close>

section \<open>Ports and connections\<close>

datatype port_dir = In | Out | InOut

type_synonym port_decl = "string \<times> port_dir \<times> nat"

text \<open>A connection: the prefix \<open>i_\<close>, \<open>o_\<close> or \<open>io_\<close>, the port, the signal and its width.\<close>

type_synonym connection = "port_dir \<times> string \<times> string \<times> nat"

definition conn_port :: "connection \<Rightarrow> string" where
  "conn_port c = fst (snd c)"

definition instance_ok :: "port_decl list \<Rightarrow> connection list \<Rightarrow> bool" where
  "instance_ok ports conns \<longleftrightarrow>
     distinct (map conn_port conns)
     \<and> list_all (\<lambda>c. map_option fst (map_of ports (conn_port c)) = Some (fst c)) conns
     \<and> list_all (\<lambda>p. fst (snd p) = Out \<or> fst p \<in> set (map conn_port conns)) ports"

definition width_mismatches :: "port_decl list \<Rightarrow> connection list \<Rightarrow> string list" where
  "width_mismatches ports conns =
     map conn_port (filter (\<lambda>c. map_option snd (map_of ports (conn_port c)) \<noteq> Some (snd (snd (snd c)))) conns)"

text \<open>The width of a subsignal of the pad number 0 of a name: its number of pins.\<close>

definition pad_item :: "io_table \<Rightarrow> string \<Rightarrow> io_item list" where
  "pad_item io n = concat (map (\<lambda>e. if fst e = n \<and> entry_number e = Some 0 then snd e else []) io)"

fun subsignal_width :: "string \<Rightarrow> io_item \<Rightarrow> nat" where
  "subsignal_width s (Subsignal t is) = (if s = t then length (concat (map item_pins is)) else 0)"
| "subsignal_width s _ = 0"

definition pad_width :: "io_table \<Rightarrow> string \<Rightarrow> string \<Rightarrow> nat" where
  "pad_width io n s = sum_list (map (subsignal_width s) (pad_item io n))"

section \<open>The cores\<close>

definition wb_async_reg_ports :: "port_decl list" where
  "wb_async_reg_ports =
     [(''wbm_clk'', In, 1), (''wbm_rst'', In, 1), (''wbm_adr_i'', In, 32), (''wbm_dat_i'', In, 32),
      (''wbm_dat_o'', Out, 32), (''wbm_we_i'', In, 1), (''wbm_sel_i'', In, 4), (''wbm_stb_i'', In, 1),
      (''wbm_ack_o'', Out, 1), (''wbm_err_o'', Out, 1), (''wbm_rty_o'', Out, 1), (''wbm_cyc_i'', In, 1),
      (''wbs_clk'', In, 1), (''wbs_rst'', In, 1), (''wbs_adr_o'', Out, 32), (''wbs_dat_i'', In, 32),
      (''wbs_dat_o'', Out, 32), (''wbs_we_o'', Out, 1), (''wbs_sel_o'', Out, 4), (''wbs_stb_o'', Out, 1),
      (''wbs_ack_i'', In, 1), (''wbs_err_i'', In, 1), (''wbs_rty_i'', In, 1), (''wbs_cyc_o'', Out, 1)]"

definition JpegEnc_ports :: "port_decl list" where
  "JpegEnc_ports =
     [(''CLK'', In, 1), (''RST'', In, 1), (''OPB_ABus'', In, 12), (''OPB_BE'', In, 4),
      (''OPB_DBus_in'', In, 32), (''OPB_RNW'', In, 1), (''OPB_select'', In, 1), (''OPB_DBus_out'', Out, 32),
      (''OPB_XferAck'', Out, 1), (''OPB_retry'', Out, 1), (''OPB_toutSup'', Out, 1), (''OPB_errAck'', Out, 1),
      (''fdct_fifo_rd'', Out, 1), (''fdct_fifo_q'', In, 24), (''fdct_fifo_hf_full'', In, 1),
      (''fdct_fifo_dval_o'', Out, 1), (''ram_byte'', Out, 8), (''ram_wren'', Out, 1),
      (''ram_wraddr'', Out, 24), (''outif_almost_full'', In, 1), (''frame_size'', Out, 24)]"

definition rgmii_if_ports :: "port_decl list" where
  "rgmii_if_ports =
     [(''tx_reset'', In, 1), (''rx_reset'', In, 1), (''rgmii_txd'', Out, 4), (''rgmii_tx_ctl'', Out, 1),
      (''rgmii_txc'', Out, 1), (''rgmii_rxd'', In, 4), (''rgmii_rx_ctl'', In, 1), (''rgmii_rxc'', In, 1),
      (''link_status'', Out, 1), (''clock_speed'', Out, 2), (''duplex_status'', Out, 1),
      (''txd_from_mac'', In, 8), (''tx_en_from_mac'', In, 1), (''tx_er_from_mac'', In, 1),
      (''tx_clk'', In, 1), (''crs_to_mac'', Out, 1), (''col_to_mac'', Out, 1), (''rxd_to_mac'', Out, 8),
      (''rx_dv_to_mac'', Out, 1), (''rx_er_to_mac'', Out, 1), (''rx_clk'', Out, 1)]"

definition fx2_jpeg_streamer_ports :: "port_decl list" where
  "fx2_jpeg_streamer_ports =
     [(''rst'', In, 1), (''clk'', In, 1), (''sink_stb'', In, 1), (''sink_ack'', Out, 1), (''sink_data'', In, 8),
      (''fx2_data'', InOut, 8), (''fx2_full_n'', In, 1), (''fx2_empty_n'', In, 1), (''fx2_addr'', Out, 2),
      (''fx2_cs_n'', Out, 1), (''fx2_wr_n'', Out, 1), (''fx2_rd_n'', Out, 1), (''fx2_oe_n'', Out, 1),
      (''fx2_pktend_n'', Out, 1)]"

section \<open>The instances\<close>

text \<open>
  \<open>aw\<close> and \<open>dw\<close> are the address and data width of LiteX's \<open>wishbone.Interface()\<close>, in words and in
  bits.  The width of an operator's result is Migen's: the larger of the two for \<open>&\<close>.
\<close>

definition encoder_bus_conns :: "nat \<Rightarrow> nat \<Rightarrow> connection list" where
  "encoder_bus_conns aw dw =
     [(In, ''wbm_clk'', ''ClockSignal()'', 1), (In, ''wbm_rst'', ''ResetSignal()'', 1),
      (In, ''wbm_adr_i'', ''self.bus.adr'', aw), (In, ''wbm_dat_i'', ''self.bus.dat_w'', dw),
      (Out, ''wbm_dat_o'', ''self.bus.dat_r'', dw), (In, ''wbm_we_i'', ''self.bus.we'', 1),
      (In, ''wbm_sel_i'', ''self.bus.sel'', dw div 8), (In, ''wbm_stb_i'', ''self.bus.stb'', 1),
      (Out, ''wbm_ack_o'', ''self.bus.ack'', 1), (Out, ''wbm_err_o'', ''self.bus.err'', 1),
      (In, ''wbm_cyc_i'', ''self.bus.cyc'', 1),
      (In, ''wbs_clk'', ''ClockSignal(encoder)'', 1), (In, ''wbs_rst'', ''ResetSignal(encoder)'', 1),
      (Out, ''wbs_adr_o'', ''jpeg_bus.adr'', aw), (In, ''wbs_dat_i'', ''jpeg_bus.dat_r'', dw),
      (Out, ''wbs_dat_o'', ''jpeg_bus.dat_w'', dw), (Out, ''wbs_we_o'', ''jpeg_bus.we'', 1),
      (Out, ''wbs_sel_o'', ''jpeg_bus.sel'', dw div 8), (Out, ''wbs_stb_o'', ''jpeg_bus.stb'', 1),
      (In, ''wbs_ack_i'', ''jpeg_bus.ack'', 1), (In, ''wbs_err_i'', ''jpeg_bus.err'', 1),
      (In, ''wbs_rty_i'', ''0'', 1), (Out, ''wbs_cyc_o'', ''jpeg_bus.cyc'', 1)]"

definition JpegEnc_conns :: "nat \<Rightarrow> nat \<Rightarrow> connection list" where
  "JpegEnc_conns aw dw =
     [(In, ''CLK'', ''ClockSignal(encoder)'', 1), (In, ''RST'', ''ResetSignal(encoder)'', 1),
      (In, ''OPB_ABus'', ''Cat(Signal(2), jpeg_bus.adr) & 0x3ff'', max (2 + aw) 10),
      (In, ''OPB_BE'', ''jpeg_bus.sel'', dw div 8), (In, ''OPB_DBus_in'', ''jpeg_bus.dat_w'', dw),
      (In, ''OPB_RNW'', ''~jpeg_bus.we'', 1), (In, ''OPB_select'', ''jpeg_bus.stb & jpeg_bus.cyc'', 1),
      (Out, ''OPB_DBus_out'', ''jpeg_bus.dat_r'', dw), (Out, ''OPB_XferAck'', ''jpeg_bus.ack'', 1),
      (Out, ''OPB_errAck'', ''jpeg_bus.err'', 1), (Out, ''fdct_fifo_rd'', ''fdct_fifo_rd'', 1),
      (In, ''fdct_fifo_q'', ''fdct_fifo_q'', 24), (In, ''fdct_fifo_hf_full'', ''fdct_fifo_hf_full'', 1),
      (Out, ''ram_byte'', ''output_fifo.sink.data'', 8), (Out, ''ram_wren'', ''output_fifo.sink.valid'', 1),
      (In, ''outif_almost_full'', ''output_fifo_almost_full'', 1)]"

definition rgmii_conns :: "io_table \<Rightarrow> connection list" where
  "rgmii_conns io =
     [(In, ''tx_reset'', ''self.crg.reset.storage'', 1), (In, ''rx_reset'', ''self.crg.reset.storage'', 1),
      (Out, ''rgmii_txd'', ''pads.tx_data'', pad_width io ''eth'' ''tx_data''),
      (Out, ''rgmii_tx_ctl'', ''pads.tx_ctl'', pad_width io ''eth'' ''tx_ctl''),
      (Out, ''rgmii_txc'', ''clock_pads.tx'', pad_width io ''eth_clocks'' ''tx''),
      (In, ''rgmii_rxd'', ''pads.rx_data'', pad_width io ''eth'' ''rx_data''),
      (In, ''rgmii_rx_ctl'', ''pads.rx_ctl'', pad_width io ''eth'' ''rx_ctl''),
      (In, ''rgmii_rxc'', ''clock_pads.rx'', pad_width io ''eth_clocks'' ''rx''),
      (In, ''txd_from_mac'', ''tx_data'', 8), (In, ''tx_en_from_mac'', ''tx_valid'', 1),
      (In, ''tx_er_from_mac'', ''0'', 1), (In, ''tx_clk'', ''self.crg.cd_eth_tx.clk'', 1),
      (Out, ''rxd_to_mac'', ''rxd'', 8), (Out, ''rx_dv_to_mac'', ''rx_dv'', 1),
      (Out, ''rx_clk'', ''self.crg.cd_eth_rx.clk'', 1)]"

definition usb_streamer_conns :: "io_table \<Rightarrow> connection list" where
  "usb_streamer_conns io =
     [(In, ''rst'', ''ResetSignal(usb)'', 1), (In, ''clk'', ''ClockSignal(usb)'', 1),
      (In, ''sink_stb'', ''fifo.source.valid'', 1), (In, ''sink_data'', ''fifo.source.data'', 8),
      (Out, ''sink_ack'', ''fifo.source.ready'', 1),
      (InOut, ''fx2_data'', ''pads.data'', pad_width io ''fx2'' ''data''),
      (In, ''fx2_full_n'', ''pads.flagb'', pad_width io ''fx2'' ''flagb''),
      (In, ''fx2_empty_n'', ''pads.flagc'', pad_width io ''fx2'' ''flagc''),
      (Out, ''fx2_addr'', ''pads.addr'', pad_width io ''fx2'' ''addr''),
      (Out, ''fx2_cs_n'', ''pads.cs_n'', pad_width io ''fx2'' ''cs_n''),
      (Out, ''fx2_wr_n'', ''pads.wr_n'', pad_width io ''fx2'' ''wr_n''),
      (Out, ''fx2_rd_n'', ''pads.rd_n'', pad_width io ''fx2'' ''rd_n''),
      (Out, ''fx2_oe_n'', ''pads.oe_n'', pad_width io ''fx2'' ''oe_n''),
      (Out, ''fx2_pktend_n'', ''pads.pktend_n'', pad_width io ''fx2'' ''pktend_n'')]"

text \<open>The RGB LED of the iCE40 UltraPlus: the current driver and the engine that makes its PWM.\<close>

definition LED_csrs :: "(string \<times> nat) list" where
  "LED_csrs = [(''dat'', 8), (''addr'', 4), (''ctrl'', 4)]"

definition LED_driver_conns :: "connection list" where
  "LED_driver_conns =
     [(In, ''CURREN'', ''ctrl.storage[1]'', 1), (In, ''RGBLEDEN'', ''ctrl.storage[2]'', 1),
      (In, ''RGB0PWM'', ''rgba_pwm[0]'', 1), (In, ''RGB1PWM'', ''rgba_pwm[1]'', 1), (In, ''RGB2PWM'', ''rgba_pwm[2]'', 1),
      (Out, ''RGB0'', ''pads.rgb0'', 1), (Out, ''RGB1'', ''pads.rgb1'', 1), (Out, ''RGB2'', ''pads.rgb2'', 1)]"

definition LED_driver_pars :: "(string \<times> string) list" where
  "LED_driver_pars =
     [(''CURRENT_MODE'', ''0b1''), (''RGB0_CURRENT'', ''0b000011''), (''RGB1_CURRENT'', ''0b000001''),
      (''RGB2_CURRENT'', ''0b000011'')]"

definition LED_engine_conns :: "connection list" where
  "LED_engine_conns =
     [(In, ''LEDDCS'', ''dat.re'', 1), (In, ''LEDDCLK'', ''ClockSignal()'', 1),
      (In, ''LEDDDAT7'', ''dat.storage[7]'', 1), (In, ''LEDDDAT6'', ''dat.storage[6]'', 1),
      (In, ''LEDDDAT5'', ''dat.storage[5]'', 1), (In, ''LEDDDAT4'', ''dat.storage[4]'', 1),
      (In, ''LEDDDAT3'', ''dat.storage[3]'', 1), (In, ''LEDDDAT2'', ''dat.storage[2]'', 1),
      (In, ''LEDDDAT1'', ''dat.storage[1]'', 1), (In, ''LEDDDAT0'', ''dat.storage[0]'', 1),
      (In, ''LEDDADDR3'', ''addr.storage[3]'', 1), (In, ''LEDDADDR2'', ''addr.storage[2]'', 1),
      (In, ''LEDDADDR1'', ''addr.storage[1]'', 1), (In, ''LEDDADDR0'', ''addr.storage[0]'', 1),
      (In, ''LEDDDEN'', ''dat.re'', 1), (In, ''LEDDEXE'', ''ctrl.storage[0]'', 1),
      (Out, ''PWMOUT0'', ''rgba_pwm[0]'', 1), (Out, ''PWMOUT1'', ''rgba_pwm[1]'', 1),
      (Out, ''PWMOUT2'', ''rgba_pwm[2]'', 1), (Out, ''LEDDON'', ''Signal()'', 1)]"

text \<open>The analog-to-digital converter of the 7-series: its initial registers and connections.\<close>

definition XADC_pars :: "(string \<times> int) list" where
  "XADC_pars =
     [(''INIT_40'', 0x9000), (''INIT_41'', 0x2ef0), (''INIT_42'', 0x0400), (''INIT_48'', 0x4701),
      (''INIT_49'', 0x000f), (''INIT_4A'', 0x4700), (''INIT_4B'', 0x0000), (''INIT_4C'', 0x0000),
      (''INIT_4D'', 0x0000), (''INIT_4E'', 0x0000), (''INIT_4F'', 0x0000), (''INIT_50'', 0xb5ed),
      (''INIT_51'', 0x5999), (''INIT_52'', 0xa147), (''INIT_53'', 0xdddd), (''INIT_54'', 0xa93a),
      (''INIT_55'', 0x5111), (''INIT_56'', 0x91eb), (''INIT_57'', 0xae4e), (''INIT_58'', 0x5999),
      (''INIT_5C'', 0x5111)]"

definition XADC_conns :: "connection list" where
  "XADC_conns =
     [(Out, ''ALM'', ''self.alarm'', 8), (Out, ''OT'', ''self.ot'', 1), (Out, ''BUSY'', ''busy'', 1),
      (Out, ''CHANNEL'', ''channel'', 7), (Out, ''EOC'', ''eoc'', 1), (Out, ''EOS'', ''eos'', 1),
      (In, ''VAUXN'', ''0'', 1), (In, ''VAUXP'', ''1'', 1), (In, ''VN'', ''0'', 1), (In, ''VP'', ''1'', 1),
      (In, ''CONVST'', ''0'', 1), (In, ''CONVSTCLK'', ''0'', 1), (In, ''RESET'', ''ResetSignal()'', 1),
      (Out, ''DO'', ''data'', 16), (Out, ''DRDY'', ''drdy'', 1), (In, ''DADDR'', ''channel'', 7),
      (In, ''DCLK'', ''ClockSignal()'', 1), (In, ''DEN'', ''eoc'', 1), (In, ''DI'', ''0'', 1), (In, ''DWE'', ''0'', 1)]"

text \<open>Each PWM output of the engine is the PWM input of its colour, and drives nothing else.\<close>

definition signal_of :: "connection list \<Rightarrow> string \<Rightarrow> string option" where
  "signal_of conns p = map_option (\<lambda>c. fst (snd (snd c))) (find (\<lambda>c. conn_port c = p) conns)"

lemma led_colours:
  "list_all (\<lambda>k. signal_of LED_engine_conns (''PWMOUT'' @ k) = signal_of LED_driver_conns (''RGB'' @ k @ ''PWM'')
     \<and> signal_of LED_driver_conns (''RGB'' @ k) = Some (''pads.rgb'' @ k)) [''0'', ''1'', ''2'']"
  by code_simp

text \<open>At the end of each conversion the converter is asked for the channel just converted.\<close>

lemma xadc_reads_converted_channel:
  "signal_of XADC_conns ''DADDR'' = signal_of XADC_conns ''CHANNEL''
   \<and> signal_of XADC_conns ''DEN'' = signal_of XADC_conns ''EOC''
   \<and> distinct (map conn_port XADC_conns) \<and> distinct (map fst XADC_pars)"
  by code_simp

lemma led_ports_distinct:
  "distinct (map conn_port LED_driver_conns) \<and> distinct (map conn_port LED_engine_conns)"
  by code_simp

definition on_table :: "io_table py_result \<Rightarrow> (io_table \<Rightarrow> bool) \<Rightarrow> bool" where
  "on_table t P = (case t of Inl e \<Rightarrow> False | Inr io \<Rightarrow> P io)"

definition streamer_ok :: "string list \<Rightarrow> io_table \<Rightarrow> bool" where
  "streamer_ok wide io \<longleftrightarrow>
     instance_ok fx2_jpeg_streamer_ports (usb_streamer_conns io)
     \<and> width_mismatches fx2_jpeg_streamer_ports (usb_streamer_conns io) = wide"

definition rgmii_ok :: "io_table \<Rightarrow> bool" where
  "rgmii_ok io \<longleftrightarrow>
     instance_ok rgmii_if_ports (rgmii_conns io) \<and> width_mismatches rgmii_if_ports (rgmii_conns io) = []"


end
