(* ===== verification/Net_Config.thy ===== *)
theory Net_Config
  imports Py_Strings
begin

text \<open>
  The network addresses of the Ethernet systems, \<open>configure_iprange\<close> and \<open>_configure_ip\<close> in
  \<open>targets/*/net.py\<close> (the same text on every board): the option \<open>--iprange\<close> of \<open>make.py\<close> becomes
  the constants of the firmware's own address and of the TFTP host.  Shown: a range printed in
  decimal is read back, and which texts are refused.
\<close>

section \<open>Model\<close>

fun parse_ints :: "string list \<Rightarrow> int list py_result" where
  "parse_ints [] = Inr []"
| "parse_ints (s # ss) = py_bind (py_int s) (\<lambda>n. py_bind (parse_ints ss) (\<lambda>ns. Inr (n # ns)))"

text \<open>\<open>while len(iprange) < 4: iprange.append(0)\<close>\<close>

function pad_octets :: "int list \<Rightarrow> int list" where
  "pad_octets ns = (if length ns < 4 then pad_octets (ns @ [0]) else ns)"
  by pat_completeness auto
termination by (relation "measure (\<lambda>ns. 4 - length ns)") auto

declare pad_octets.simps [simp del]

definition configure_ip :: "string \<Rightarrow> int list \<Rightarrow> (string \<times> int) list" where
  "configure_ip ip_type ip = map (\<lambda>(i, e). (py_upper (ip_type @ py_str (i + 1)), e)) (enumerate 0 ip)"

definition configure_iprange :: "string \<Rightarrow> (string \<times> int) list py_result" where
  "configure_iprange iprange =
     py_bind (parse_ints (split_char CHR ''.'' iprange [])) (\<lambda>ns.
       let octets = pad_octets ns
       in Inr (configure_ip ''LOCALIP'' (butlast octets @ [50]) @ configure_ip ''REMOTEIP'' (butlast octets @ [100])))"

section \<open>Numbers in decimal\<close>

lemma digit_char_props:
  assumes "d < 10"
  shows "is_digit (digit_char d) \<and> \<not> is_space (digit_char d) \<and> char_digit (digit_char d) = d
       \<and> digit_char d \<notin> {CHR ''-'', CHR ''+'', CHR ''.''}"
proof -
  have "\<forall>d \<in> set [0..<10]. is_digit (digit_char d) \<and> \<not> is_space (digit_char d) \<and> char_digit (digit_char d) = d
       \<and> digit_char d \<noteq> CHR ''-'' \<and> digit_char d \<noteq> CHR ''+'' \<and> digit_char d \<noteq> CHR ''.''"
    by code_simp
  then show ?thesis using assms by simp
qed

lemma py_str_digits: "c \<in> set (py_str n) \<Longrightarrow> \<exists>d < 10. c = digit_char d"
  unfolding py_str_def
proof (induction n rule: less_induct)
  case (less n)
  show ?case
  proof (cases "n < 10")
    case True
    then show ?thesis using less.prems by (auto simp: show_base.simps [of 10 n])
  next
    case False
    then have "c \<in> set (show_base 10 (n div 10)) \<or> c = digit_char (n mod 10)"
      using less.prems by (simp add: show_base.simps [of 10 n] disj_commute)
    moreover have "n div 10 < n" "n mod 10 < 10" using False by simp_all
    ultimately show ?thesis using less.IH [of "n div 10"] by blast
  qed
qed

lemma py_str_nonempty [simp]: "py_str n \<noteq> []"
  by (simp add: py_str_def show_base.simps [of 10 n])

lemma int_digits_foldl:
  "(\<And>c. c \<in> set s \<Longrightarrow> is_digit c) \<Longrightarrow> int_digits s a = Some (foldl (\<lambda>a c. a * 10 + char_digit c) a s)"
  by (induction s arbitrary: a) (auto simp: mult.commute)

lemma dropWhile_none: "(\<And>c. c \<in> set s \<Longrightarrow> \<not> P c) \<Longrightarrow> dropWhile P s = s"
  by (cases s) auto

lemma py_int_py_str [simp]: "py_int (py_str n) = Inr (int n)"
proof -
  have chars: "is_digit c" "\<not> is_space c" "c \<noteq> CHR ''-''" "c \<noteq> CHR ''+''" if "c \<in> set (py_str n)" for c
    using py_str_digits [OF that] digit_char_props by auto
  have "py_strip (py_str n) = py_str n"
    using dropWhile_none [of "py_str n" is_space] dropWhile_none [of "rev (py_str n)" is_space] chars(2)
    by (simp add: py_strip_def)
  moreover obtain c cs where s: "py_str n = c # cs"
    using py_str_nonempty by (cases "py_str n") blast+
  moreover have "int_digits (py_str n) 0 = Some n"
    using read_show_base [of 10 n] chars(1)
    by (simp add: int_digits_foldl read_base_def py_str_def)
  ultimately show ?thesis
    using chars [of c] by (simp add: py_int_def int_body_def)
qed

lemma split_char_none: "d \<notin> set s \<Longrightarrow> split_char d s w = [w @ s]"
  by (induction s arbitrary: w) auto

lemma split_char_sep: "d \<notin> set s \<Longrightarrow> split_char d (s @ d # t) w = (w @ s) # split_char d t []"
  by (induction s arbitrary: w) auto

lemma split_join:
  "ss \<noteq> [] \<Longrightarrow> (\<And>s. s \<in> set ss \<Longrightarrow> d \<notin> set s) \<Longrightarrow> split_char d (join_with [d] ss) [] = ss"
  by (induction ss rule: induct_list012) (simp_all add: split_char_none split_char_sep del: split_char.simps)

lemma parse_ints_py_str: "parse_ints (map py_str ns) = Inr (map int ns)"
  by (induction ns) simp_all

lemma py_int_cases:
  obtains "py_int s = Inl ValueError" | n where "py_int s = Inr n"
proof -
  have "\<exists>r. py_int s = (case r of None \<Rightarrow> Inl ValueError | Some n \<Rightarrow> Inr n)"
    unfolding py_int_def Let_def by (rule exI, rule refl)
  then obtain r where r: "py_int s = (case r of None \<Rightarrow> Inl ValueError | Some n \<Rightarrow> Inr n)" ..
  show thesis
  proof (cases r)
    case None
    then show thesis using r that(1) by simp
  next
    case (Some n)
    then show thesis using r that(2) by simp
  qed
qed

lemma parse_ints_error:
  "parse_ints ss = Inl e \<longleftrightarrow> e = ValueError \<and> (\<exists>s \<in> set ss. py_int s = Inl ValueError)"
proof (induction ss arbitrary: e)
  case (Cons s ss)
  consider "py_int s = Inl ValueError" | n where "py_int s = Inr n"
    by (rule py_int_cases)
  then show ?case
  proof cases
    case 2
    then show ?thesis using Cons.IH [of e] by (cases "parse_ints ss") auto
  qed auto
qed simp

lemma pad_octets_4: "length ns \<le> 4 \<Longrightarrow> pad_octets ns = ns @ replicate (4 - length ns) 0"
proof (induction ns rule: pad_octets.induct)
  case (1 ns)
  show ?case
  proof (cases "length ns < 4")
    case True
    then have "pad_octets ns = ns @ [0] @ replicate (4 - Suc (length ns)) 0"
      using "1.IH" by (simp add: pad_octets.simps [of ns])
    also have "[0] @ replicate (4 - Suc (length ns)) 0 = replicate (4 - length ns) (0::int)"
      using True by (simp add: Suc_diff_Suc flip: replicate_Suc)
    finally show ?thesis .
  next
    case False
    then show ?thesis using "1.prems" by (simp add: pad_octets.simps [of ns])
  qed
qed

lemma length_3E:
  assumes "length xs = 3"
  obtains a b c where "xs = [a, b, c]"
  using assms by (cases xs; cases "tl xs"; cases "tl (tl xs)") auto

lemma butlast_pad_octets:
  assumes "length ns \<le> 4" "ns \<noteq> []"
  shows "butlast (pad_octets ns) = take 3 (ns @ [0, 0])"
proof -
  consider a where "ns = [a]" | a b where "ns = [a, b]" | a b c where "ns = [a, b, c]"
    | a b c d where "ns = [a, b, c, d]"
    using assms by (cases ns; cases "tl ns"; cases "tl (tl ns)"; cases "tl (tl (tl ns))") auto
  then show ?thesis
    by cases (simp_all add: pad_octets_4 eval_nat_numeral)
qed

lemma configure_ip_4:
  "configure_ip ip_type [a, b, c, d] =
     zip (map (\<lambda>k. py_upper (ip_type @ k)) [''1'', ''2'', ''3'', ''4'']) [a, b, c, d]"
proof -
  have "py_str 1 = ''1''" "py_str 2 = ''2''" "py_str 3 = ''3''" "py_str 4 = ''4''" by code_simp+
  then show ?thesis by (simp add: configure_ip_def eval_nat_numeral)
qed

lemma constant_names:
  "map (\<lambda>k. py_upper (''LOCALIP'' @ k)) [''1'', ''2'', ''3'', ''4''] = [''LOCALIP1'', ''LOCALIP2'', ''LOCALIP3'', ''LOCALIP4'']"
  "map (\<lambda>k. py_upper (''REMOTEIP'' @ k)) [''1'', ''2'', ''3'', ''4''] = [''REMOTEIP1'', ''REMOTEIP2'', ''REMOTEIP3'', ''REMOTEIP4'']"
  by code_simp+

section \<open>The constants\<close>

lemma configure_ip_names:
  "configure_ip ''LOCALIP'' [a, b, c, d] = zip [''LOCALIP1'', ''LOCALIP2'', ''LOCALIP3'', ''LOCALIP4''] [a, b, c, d]"
  "configure_ip ''REMOTEIP'' [a, b, c, d] = zip [''REMOTEIP1'', ''REMOTEIP2'', ''REMOTEIP3'', ''REMOTEIP4''] [a, b, c, d]"
  by (simp_all only: configure_ip_4 constant_names)

text \<open>The constants for a network of three numbers.\<close>

definition address_list :: "int list \<Rightarrow> (string \<times> int) list" where
  "address_list net =
     zip [''LOCALIP1'', ''LOCALIP2'', ''LOCALIP3'', ''LOCALIP4''] (net @ [50])
     @ zip [''REMOTEIP1'', ''REMOTEIP2'', ''REMOTEIP3'', ''REMOTEIP4''] (net @ [100])"

lemma configure_iprange_decimal:
  fixes ns :: "nat list"
  assumes "ns \<noteq> []" "length ns \<le> 4"
  shows "configure_iprange (join_with ''.'' (map py_str ns)) = Inr (address_list (take 3 (map int ns @ [0, 0])))"
proof -
  have "length (take 3 (map int ns @ [0, 0])) = 3" using assms(1) by (cases ns) auto
  then obtain a b c where net: "take 3 (map int ns @ [0, 0]) = [a, b, c]"
    by (rule length_3E)
  have "CHR ''.'' \<notin> set (py_str n)" for n
    using py_str_digits digit_char_props by fastforce
  then have "split_char CHR ''.'' (join_with ''.'' (map py_str ns)) [] = map py_str ns"
    using assms(1) by (intro split_join) auto
  then show ?thesis
    using butlast_pad_octets [of "map int ns"] assms
    by (simp add: configure_iprange_def parse_ints_py_str net configure_ip_names address_list_def
        del: take_append)
qed

lemma configure_iprange_error:
  "configure_iprange text = Inl e \<longleftrightarrow>
     e = ValueError \<and> (\<exists>s \<in> set (split_char CHR ''.'' text []). py_int s = Inl ValueError)"
  using parse_ints_error [of "split_char CHR ''.'' text []" e]
  by (cases "parse_ints (split_char CHR ''.'' text [])") (auto simp: configure_iprange_def Let_def)



end
