(* ===== verification/Make_Soc.thy ===== *)
theory Make_Soc
  imports Build_Tools Platform_Tools Sub_Types Net_Config
begin

text \<open>
  How \<open>make.py\<close> and the flashing tools get at a platform, a system and a programmer: \<open>get_platform\<close>,
  \<open>get_soc\<close> and \<open>get_prog\<close>.  The platforms are those of \<open>platforms/\<close>; the class of a system, the
  keywords that LiteX makes of the command line (\<open>soc_sdram_argdict\<close>) and what the programmers'
  constructors need are arguments.  Shown: which options are refused, and the address constants
  that a system ends up with.
\<close>

section \<open>Model\<close>

definition platform_classes ::
  "(string \<times> ((string, string) dict \<Rightarrow> platform_setup py_result)) list" where
  "platform_classes =
     [(''opsis'', opsis_init), (''atlys'', atlys_init), (''galatea'', galatea_init), (''mimasv2'', mimasv2_init),
      (''minispartan6'', minispartan6_init), (''pano_logic_g2'', pano_logic_g2_init),
      (''pipistrello'', pipistrello_init), (''saturn'', saturn_init), (''waxwing'', waxwing_init),
      (''arty'', arty_init), (''nexys_video'', nexys_video_init), (''mimas_a7'', mimas_a7_init),
      (''netv2'', netv2_init), (''neso'', neso_init), (''basys3'', basys3_init), (''cmod_a7'', cmod_a7_init),
      (''picoevb'', picoevb_init), (''icebreaker'', icebreaker_init),
      (''ice40_hx8k_b_evn'', ice40_hx8k_b_evn_init), (''ice40_up5k_b_evn'', ice40_up5k_b_evn_init),
      (''icefun'', icefun_init), (''tinyfpga_bx'', tinyfpga_bx_init), (''upduino_v1'', upduino_v1_init)]"

text \<open>\<open>options\<close> are the pairs given with \<open>--platform-option\<close>; of two with one name the last counts.\<close>

definition get_platform :: "tool_args \<Rightarrow> (string \<times> string) list \<Rightarrow> platform_setup py_result" where
  "get_platform a options =
     (case arg_platform a of
        None \<Rightarrow> Inl AssertionError
      | Some p \<Rightarrow>
          (case map_of platform_classes p of
             None \<Rightarrow> Inl ImportError
           | Some init \<Rightarrow> init (dict_of options)))"

text \<open>
  A system's class: its name, its constructor on the keywords, and, where it has the method
  \<open>configure_iprange\<close>, how constants are added to it.
\<close>

record 's soc_class =
  sc_name :: string
  sc_init :: "(string, karg) dict \<Rightarrow> 's py_result"
  sc_add_constants :: "((string \<times> int) list \<Rightarrow> 's \<Rightarrow> 's) option"

text \<open>The keywords of the call; a keyword that comes twice is a \<open>TypeError\<close>.\<close>

definition soc_keywords ::
  "string \<Rightarrow> (string, karg) dict \<Rightarrow> (string \<times> string) list \<Rightarrow> (string, karg) dict py_result" where
  "soc_keywords name argdict options =
     py_bind (call_with [(''ident'', KStr name)] argdict) (\<lambda>kwargs.
     call_with kwargs (map (\<lambda>(k, v). (k, KStr v)) (dict_of options)))"

definition get_soc ::
  "(string \<Rightarrow> string \<Rightarrow> 's soc_class option) \<Rightarrow> (string, karg) dict \<Rightarrow> string \<Rightarrow> tool_args \<Rightarrow> 's py_result" where
  "get_soc import_soc argdict iprange a =
     (case (arg_platform a, arg_target a) of
        (Some p, Some t) \<Rightarrow>
          (case import_soc p (py_lower t) of
             None \<Rightarrow> Inl ImportError
           | Some c \<Rightarrow>
               py_bind (soc_keywords (sc_name c) argdict (arg_target_option a)) (\<lambda>kwargs.
               py_bind (sc_init c kwargs) (\<lambda>soc.
               case sc_add_constants c of
                 None \<Rightarrow> Inr soc
               | Some add \<Rightarrow> py_bind (configure_iprange iprange) (\<lambda>cs. Inr (add cs soc)))))
      | (Some p, None) \<Rightarrow> Inl AttributeError
      | (None, t) \<Rightarrow> Inl ImportError)"

text \<open>The programmer with the directory of the flash proxies.\<close>

definition get_prog ::
  "(platform_setup \<Rightarrow> programmer_call py_result) \<Rightarrow> platform_setup option \<Rightarrow> (programmer_call \<times> string) py_result" where
  "get_prog create_programmer platform =
     (case platform of
        None \<Rightarrow> Inl AssertionError
      | Some p \<Rightarrow> py_bind (create_programmer p) (\<lambda>prog. Inr (prog, path_join ''third_party'' ''flash_proxies'')))"

section \<open>Options\<close>

text \<open>A target option with the name of a keyword that \<open>make.py\<close> passes itself is refused.\<close>

lemma map_of_KStr: "map_of (map (\<lambda>(k, v). (k, KStr v)) d) k = map_option KStr (map_of d k)"
  by (induction d) auto

lemma target_option_clash:
  assumes "import_soc p (py_lower t) = Some c" "arg_platform a = Some p" "arg_target a = Some t"
    and "k \<in> insert ''ident'' (fst ` set argdict)" "map_of (dict_of (arg_target_option a)) k \<noteq> None"
  shows "get_soc import_soc argdict iprange a = Inl TypeError"
proof -
  have "soc_keywords (sc_name c) argdict (arg_target_option a) = Inl TypeError"
    using assms(4,5) by (auto simp: soc_keywords_def call_with_def map_of_KStr list_ex_iff py_bind_def split: if_splits)
  then show ?thesis using assms(1-3) by (simp add: get_soc_def)
qed

text \<open>A range of three numbers, as the default one, gives an Ethernet system these constants.\<close>

lemma soc_address_constants:
  fixes ns :: "nat list"
  assumes "import_soc p (py_lower t) = Some c" "arg_platform a = Some p" "arg_target a = Some t"
    and "soc_keywords (sc_name c) argdict (arg_target_option a) = Inr kwargs"
    and "sc_init c kwargs = Inr soc" "sc_add_constants c = Some add"
    and "ns \<noteq> []" "length ns \<le> 4"
  shows "get_soc import_soc argdict (join_with ''.'' (map py_str ns)) a
       = Inr (add (address_list (take 3 (map int ns @ [0, 0]))) soc)"
  using assms by (simp add: get_soc_def configure_iprange_decimal)

end
