(* ===== verification/Small_Cores.thy ===== *)
theory Small_Cores
  imports Hdl_Prelude
begin

text \<open>
  Small modules: the UART shared between several sets of pins (\<open>gateware/shared_uart.py\<close>), the
  probe of the DRAM self test for the logic analyzer (\<open>gateware/memtest.py\<close>), the output
  registers of the TOFE connector (\<open>GPIO2TOFE\<close> in \<open>targets/opsis/axiom.py\<close>) and the lines of the
  TOFE boards (\<open>gateware/tofe.py\<close>).  Shown: a shared UART
  receives from the one line that is active, and the registers of the TOFE outputs have the names of
  the signals.
\<close>

section \<open>Shared UART\<close>

record uart_pads =
  up_tx :: string
  up_rx :: string

record shared_uart =
  su_tx_signals :: "string list"
  su_rx_signals :: "string list"

definition shared_uart_init :: shared_uart where
  "shared_uart_init = \<lparr>su_tx_signals = [], su_rx_signals = []\<rparr>"

definition add_uart_pads :: "uart_pads \<Rightarrow> shared_uart \<Rightarrow> shared_uart" where
  "add_uart_pads new_pads s =
     s\<lparr>su_tx_signals := su_tx_signals s @ [up_tx new_pads], su_rx_signals := su_rx_signals s @ [up_rx new_pads]\<rparr>"

text \<open>
  \<open>do_finalize\<close>: the level of the transmit line of every set of pins (\<open>None\<close> for a signal that the
  module does not drive), and the received level; a signal that nothing drives is low.
\<close>

definition shared_tx :: "shared_uart \<Rightarrow> bool \<Rightarrow> string \<Rightarrow> bool option" where
  "shared_tx s tx sig = (if sig \<in> set (su_tx_signals s) then Some tx else None)"

definition shared_rx :: "shared_uart \<Rightarrow> (string \<Rightarrow> bool) \<Rightarrow> bool" where
  "shared_rx s level =
     (case su_rx_signals s of [] \<Rightarrow> False | r # rs \<Rightarrow> foldl (\<lambda>a b. a \<and> b) (level r) (map level rs))"

lemma foldl_conj: "foldl (\<lambda>a b. a \<and> b) a bs \<longleftrightarrow> a \<and> list_all id bs"
  by (induction bs arbitrary: a) auto

lemma shared_rx_all:
  "su_rx_signals s \<noteq> [] \<Longrightarrow> shared_rx s level \<longleftrightarrow> (\<forall>r \<in> set (su_rx_signals s). level r)"
  by (auto simp: shared_rx_def foldl_conj list_all_iff split: list.split)

text \<open>While all other lines idle, which is high, the UART receives the line that is active.\<close>

lemma shared_rx_active:
  assumes "p \<in> set ps" "\<And>q. q \<in> set ps \<Longrightarrow> up_rx q \<noteq> up_rx p \<Longrightarrow> level (up_rx q)"
  shows "shared_rx (fold add_uart_pads ps shared_uart_init) level = level (up_rx p)"
proof -
  have "su_rx_signals (fold add_uart_pads ps s) = su_rx_signals s @ map up_rx ps" for s
    by (induction ps arbitrary: s) (simp_all add: add_uart_pads_def)
  then have rx: "su_rx_signals (fold add_uart_pads ps shared_uart_init) = map up_rx ps"
    by (simp add: shared_uart_init_def)
  moreover have "map up_rx ps \<noteq> []" using assms(1) by auto
  moreover have "level (up_rx q) \<or> \<not> level (up_rx p)" if "q \<in> set ps" for q
    using assms(2) [OF that] by (cases "up_rx q = up_rx p") auto
  ultimately show ?thesis using assms(1) by (auto simp: shared_rx_all)
qed

section \<open>Probe of the DRAM self test\<close>

text \<open>
  The signals as numbers; \<open>aw\<close> and \<open>dw\<close> are the widths of the checker's counter and of its data.
\<close>

record bist_core =
  bc_valid :: bool
  bc_data :: nat
  bc_gen_o :: nat
  bc_base :: nat
  bc_counter :: nat

record bist_scope =
  bs_error :: bool
  bs_address :: nat
  bs_expected :: nat
  bs_actual :: nat

definition bist_scope_signals :: "nat \<Rightarrow> nat \<Rightarrow> bist_core \<Rightarrow> bist_scope" where
  "bist_scope_signals aw dw c =
     (let actual = bc_data c mod 2 ^ dw; expected = bc_gen_o c mod 2 ^ dw
      in \<lparr>bs_error = (bc_valid c \<and> actual \<noteq> expected), bs_address = (bc_base c + bc_counter c) mod 2 ^ aw,
          bs_expected = expected, bs_actual = actual\<rparr>)"

section \<open>Outputs of the TOFE connector\<close>

text \<open>\<open>csrs name\<close> are the registers of LiteX's \<open>GPIOOut\<close> on the signal \<open>name\<close>.\<close>

fun gpio2tofe_csrs :: "(string \<Rightarrow> 'c list) \<Rightarrow> (string \<times> nat) list \<Rightarrow> (string \<times> 'c) list py_result" where
  "gpio2tofe_csrs csrs [] = Inr []"
| "gpio2tofe_csrs csrs ((name, sz) # layout) =
     py_bind (py_assert (length (csrs name) = 1)) (\<lambda>u.
     py_bind (gpio2tofe_csrs csrs layout) (\<lambda>rest. Inr ((name, hd (csrs name)) # rest)))"

lemma gpio2tofe_names:
  "gpio2tofe_csrs csrs layout = Inr rs \<Longrightarrow>
     map fst rs = map fst layout \<and> (\<forall>(n, c) \<in> set rs. csrs n = [c])"
proof (induction layout arbitrary: rs)
  case (Cons l layout)
  obtain name sz where l: "l = (name, sz)" by force
  from Cons.prems obtain rest where rest: "gpio2tofe_csrs csrs layout = Inr rest" "length (csrs name) = 1"
      "rs = (name, hd (csrs name)) # rest"
    by (auto simp: l py_bind_Inr_iff split: if_splits)
  then show ?case
    using Cons.IH [OF rest(1)] by (auto simp: l length_Suc_conv)
qed simp

section \<open>Parts of the TOFE boards\<close>

text \<open>
  The reset line of a TOFE board (\<open>TOFE\<close> in \<open>gateware/tofe.py\<close>) is driven low while the register
  \<open>rst\<close> enables the tristate buffer, and otherwise has the level of its pull-up.  The LowSpeedIO
  board has four LEDs on a register and four switches, which are active low.
\<close>

definition tofe_rst :: "bool \<Rightarrow> bool \<Rightarrow> bool" where
  "tofe_rst oe pulled = (if oe then False else pulled)"

definition lsio_led :: "4 word \<Rightarrow> nat \<Rightarrow> bool" where
  "lsio_led leds k = bit leds k"

definition lsio_sws :: "(nat \<Rightarrow> bool) \<Rightarrow> 4 word" where
  "lsio_sws pad =
     of_bool (\<not> pad 0) OR push_bit 1 (of_bool (\<not> pad 1)) OR push_bit 2 (of_bool (\<not> pad 2))
     OR push_bit 3 (of_bool (\<not> pad 3))"

lemma lsio_sws_bit: "k < 4 \<Longrightarrow> bit (lsio_sws pad) k \<longleftrightarrow> \<not> pad k"
  by (cases "k = 0"; cases "k = 1"; cases "k = 2"; cases "k = 3") (auto simp: lsio_sws_def bit_simps)

text \<open>A board with the pull-up is in reset exactly while the register is set.\<close>

lemma tofe_rst_pulled: "tofe_rst oe True \<longleftrightarrow> \<not> oe"
  by (simp add: tofe_rst_def)

end
