(* ===== verification/Encoder_Path.thy ===== *)
theory Encoder_Path
  imports Encoder_Dma Encoder_Buffer "HOL-Library.Sublist"
begin

text \<open>
  The way of a frame from the DRAM to the JPEG encoder, as \<open>targets/opsis/hdmi2usb.py\<close> connects it:
  the frame reader in the system clock domain, the DMA engine and the clock crossing, and the block
  buffer in the clock domain of the encoder.  The DMA engine with the memory behind it and the
  clock crossing are library code; together they are a parameter, with the law that the word of each
  accepted address comes out once and in order, after any delay.  The clocks of the two domains tick in
  any order.  Shown: the encoder gets the pixels of the frame in blocks of eight by eight.
\<close>

section \<open>Model\<close>

text \<open>
  The library part: \<open>ch_sys\<close> is an edge of the system clock with the address that the reader offers,
  \<open>ch_enc\<close> one of the encoder clock with the \<open>ready\<close> of the buffer.
\<close>

record 's channel_ops =
  ch_init :: 's
  ch_ready :: "'s \<Rightarrow> bool"
  ch_sys :: "nat option \<Rightarrow> 's \<Rightarrow> 's"
  ch_valid :: "'s \<Rightarrow> bool"
  ch_data :: "'s \<Rightarrow> 128 word"
  ch_enc :: "bool \<Rightarrow> 's \<Rightarrow> 's"

definition ordered_channel :: "(nat \<Rightarrow> 128 word) \<Rightarrow> 's channel_ops \<Rightarrow> ('s \<Rightarrow> nat list) \<Rightarrow> bool" where
  "ordered_channel mem ops inflight \<longleftrightarrow>
     inflight (ch_init ops) = []
     \<and> (\<forall>a s. inflight (ch_sys ops a s) = inflight s @ (if ch_ready ops s then case a of None \<Rightarrow> [] | Some x \<Rightarrow> [x] else []))
     \<and> (\<forall>s. ch_valid ops s \<longrightarrow> inflight s \<noteq> [] \<and> ch_data ops s = mem (hd (inflight s)))
     \<and> (\<forall>r s. inflight (ch_enc ops r s) = (if ch_valid ops s \<and> r then tl (inflight s) else inflight s))"

record 's encoder_path =
  pa_reader :: dma_reader
  pa_channel :: 's
  pa_buffer :: enc_buffer

definition encoder_path_init :: "'s channel_ops \<Rightarrow> 's encoder_path" where
  "encoder_path_init ops =
     \<lparr>pa_reader = dma_reader_init, pa_channel = ch_init ops, pa_buffer = enc_buffer_init\<rparr>"

text \<open>An edge of one of the two clocks, with the registers of the reader or the \<open>ready\<close> of the encoder.\<close>

datatype path_event = Sys_clk bool "32 word" "16 word" "16 word" | Enc_clk bool

definition reader_in :: "'s channel_ops \<Rightarrow> bool \<Rightarrow> 32 word \<Rightarrow> 16 word \<Rightarrow> 16 word \<Rightarrow> 's encoder_path \<Rightarrow> dma_reader_in" where
  "reader_in ops start base h v p =
     \<lparr>dmar_start = start, dmar_base_csr = base, dmar_h_width = h, dmar_v_width = v,
      dmar_ready = ch_ready ops (pa_channel p)\<rparr>"

definition buffer_in :: "'s channel_ops \<Rightarrow> bool \<Rightarrow> 's encoder_path \<Rightarrow> enc_buffer_in" where
  "buffer_in ops ready p =
     \<lparr>sink_valid = ch_valid ops (pa_channel p), sink_data = ch_data ops (pa_channel p), source_ready = ready\<rparr>"

definition offered_address :: "nat \<Rightarrow> nat \<Rightarrow> nat \<Rightarrow> dma_reader_in \<Rightarrow> dma_reader \<Rightarrow> nat option" where
  "offered_address aw ab bp i s = (if ds_valid (dma_fsm_act bp i s) then Some (dma_address aw ab i s) else None)"

fun encoder_path_step :: "'s channel_ops \<Rightarrow> nat \<Rightarrow> nat \<Rightarrow> nat \<Rightarrow> path_event \<Rightarrow> 's encoder_path \<Rightarrow> 's encoder_path" where
  "encoder_path_step ops aw ab bp (Sys_clk start base h v) p =
     (let i = reader_in ops start base h v p
      in p\<lparr>pa_reader := dma_reader_step bp i (pa_reader p),
           pa_channel := ch_sys ops (offered_address aw ab bp i (pa_reader p)) (pa_channel p)\<rparr>)"
| "encoder_path_step ops aw ab bp (Enc_clk ready) p =
     (let i = buffer_in ops ready p
      in p\<lparr>pa_channel := ch_enc ops (sink_ready (pa_buffer p)) (pa_channel p),
           pa_buffer := enc_buffer_step i (pa_buffer p)\<rparr>)"

text \<open>The pixels that the encoder takes, with their last flags.\<close>

fun encoder_path_out ::
  "'s channel_ops \<Rightarrow> (128 word \<Rightarrow> 3 word \<Rightarrow> 'p) \<Rightarrow> path_event \<Rightarrow> 's encoder_path \<Rightarrow> ('p \<times> bool) list" where
  "encoder_path_out ops chooser (Sys_clk start base h v) p = []"
| "encoder_path_out ops chooser (Enc_clk ready) p = eb_given chooser (buffer_in ops ready p) (pa_buffer p)"

section \<open>The buffer in the path\<close>

fun path_buffer_in :: "'s channel_ops \<Rightarrow> path_event \<Rightarrow> 's encoder_path \<Rightarrow> enc_buffer_in list" where
  "path_buffer_in ops (Sys_clk start base h v) p = []"
| "path_buffer_in ops (Enc_clk ready) p = [buffer_in ops ready p]"

fun path_words :: "'s channel_ops \<Rightarrow> path_event \<Rightarrow> 's encoder_path \<Rightarrow> 128 word list" where
  "path_words ops (Sys_clk start base h v) p = []"
| "path_words ops (Enc_clk ready) p =
     (if ch_valid ops (pa_channel p) \<and> sink_ready (pa_buffer p) then [ch_data ops (pa_channel p)] else [])"

lemma path_buffer:
  fixes ops aw ab bp
  defines "step \<equiv> encoder_path_step ops aw ab bp"
  shows "collect step (encoder_path_out ops ch) es p
           = collect enc_buffer_step (eb_given ch) (collect step (path_buffer_in ops) es p) (pa_buffer p)"
    and "collect step (path_words ops) es p
           = map snd (collect enc_buffer_step eb_taken (collect step (path_buffer_in ops) es p) (pa_buffer p))"
proof -
  have "collect step (encoder_path_out ops ch) es p
           = collect enc_buffer_step (eb_given ch) (collect step (path_buffer_in ops) es p) (pa_buffer p)
       \<and> collect step (path_words ops) es p
           = map snd (collect enc_buffer_step eb_taken (collect step (path_buffer_in ops) es p) (pa_buffer p))"
  proof (induction es arbitrary: p)
    case (Cons e es)
    then show ?case
      by (cases e) (simp_all add: step_def Let_def eb_taken_def buffer_in_def)
  qed simp
  then show "collect step (encoder_path_out ops ch) es p
           = collect enc_buffer_step (eb_given ch) (collect step (path_buffer_in ops) es p) (pa_buffer p)"
    and "collect step (path_words ops) es p
           = map snd (collect enc_buffer_step eb_taken (collect step (path_buffer_in ops) es p) (pa_buffer p))"
    by simp_all
qed

section \<open>The channel in the path\<close>

fun path_addresses :: "'s channel_ops \<Rightarrow> nat \<Rightarrow> nat \<Rightarrow> nat \<Rightarrow> path_event \<Rightarrow> 's encoder_path \<Rightarrow> nat list" where
  "path_addresses ops aw ab bp (Enc_clk ready) p = []"
| "path_addresses ops aw ab bp (Sys_clk start base h v) p =
     (if ch_ready ops (pa_channel p)
      then case offered_address aw ab bp (reader_in ops start base h v p) (pa_reader p) of None \<Rightarrow> [] | Some x \<Rightarrow> [x]
      else [])"

lemma path_channel_step:
  assumes "ordered_channel mem ops inflight"
  shows "map mem (inflight (pa_channel p)) @ map mem (path_addresses ops aw ab bp e p)
       = path_words ops e p @ map mem (inflight (pa_channel (encoder_path_step ops aw ab bp e p)))"
proof (cases e)
  case (Enc_clk ready)
  with assms show ?thesis
    by (cases "inflight (pa_channel p)") (auto simp: ordered_channel_def Let_def)
qed (use assms in \<open>auto simp: ordered_channel_def Let_def split: option.split\<close>)

text \<open>The channel is a stage of a stream: it takes addresses and gives words.\<close>

lemma channel_stream:
  assumes "ordered_channel mem ops inflight"
  shows "stream_module (encoder_path_step ops aw ab bp) (encoder_path_init ops) (\<lambda>p. True)
           (path_addresses ops aw ab bp) (path_words ops) (\<lambda>a. [mem a]) (\<lambda>p. map mem (inflight (pa_channel p)))"
proof
  show "map mem (inflight (pa_channel (encoder_path_init ops))) = []"
    using assms by (simp add: ordered_channel_def encoder_path_init_def)
qed (use path_channel_step [OF assms] in simp_all)

section \<open>The reader in the path\<close>

fun path_reader_in :: "'s channel_ops \<Rightarrow> path_event \<Rightarrow> 's encoder_path \<Rightarrow> dma_reader_in list" where
  "path_reader_in ops (Enc_clk ready) p = []"
| "path_reader_in ops (Sys_clk start base h v) p = [reader_in ops start base h v p]"

lemma path_reader:
  fixes ops aw ab bp
  defines "step \<equiv> encoder_path_step ops aw ab bp"
  shows "pa_reader (run step es p) = run (dma_reader_step bp) (collect step (path_reader_in ops) es p) (pa_reader p)"
proof (induction es arbitrary: p)
  case (Cons e es)
  then show ?case by (cases e) (simp_all add: step_def Let_def)
qed simp

text \<open>The address of the burst at a pixel position, and the events of a scan that is not started anew.\<close>

definition burst_address :: "nat \<Rightarrow> nat \<Rightarrow> 32 word \<Rightarrow> 16 word \<Rightarrow> nat \<times> nat \<Rightarrow> nat" where
  "burst_address aw ab base H = (\<lambda>(v, h).
     take_bit aw (drop_bit ab (unat base) + drop_bit (ab - 1) (take_bit (aw + ab) (v * unat H + h))))"

fun scan_event :: "16 word \<Rightarrow> 16 word \<Rightarrow> path_event \<Rightarrow> bool" where
  "scan_event H V (Enc_clk ready) = True"
| "scan_event H V (Sys_clk start base h v) = (\<not> start \<and> h = H \<and> v = V)"

lemma path_scan:
  fixes ops aw ab bp
  defines "step \<equiv> encoder_path_step ops aw ab bp"
  assumes "list_all (scan_event H V) es"
  shows "list_all (dma_input_ok H V) (collect step (path_reader_in ops) es p)
       \<and> collect step (path_addresses ops aw ab bp) es p
           = map (burst_address aw ab (dmar_base (pa_reader p)) H)
               (collect (dma_reader_step bp) (dma_accepted bp) (collect step (path_reader_in ops) es p) (pa_reader p))"
  using assms(2)
proof (induction es arbitrary: p)
  case (Cons e es)
  have base: "dmar_base (pa_reader (step e p)) = dmar_base (pa_reader p)"
    using Cons.prems by (cases e) (simp_all add: step_def Let_def dma_reader_step_def reader_in_def)
  have rest: "list_all (scan_event H V) es" using Cons.prems by simp
  note IH = Cons.IH [OF rest, of "step e p", unfolded base]
  show ?case
  proof (cases e)
    case (Enc_clk ready)
    then show ?thesis using IH by (simp add: step_def Let_def)
  next
    case (Sys_clk start bs h v)
    have acc: "path_addresses ops aw ab bp e p
        = map (burst_address aw ab (dmar_base (pa_reader p)) H)
            (dma_accepted bp (reader_in ops start bs h v p) (pa_reader p))"
      using Cons.prems Sys_clk
      by (simp add: dma_accepted_def offered_address_def burst_address_def dma_address_def dma_read_address_def reader_in_def)
    have ok: "dma_input_ok H V (reader_in ops start bs h v p)"
      using Cons.prems by (simp add: Sys_clk dma_input_ok_def reader_in_def)
    have reader: "pa_reader (step e p) = dma_reader_step bp (reader_in ops start bs h v p) (pa_reader p)"
      by (simp add: step_def Sys_clk Let_def)
    show ?thesis
      using IH acc ok unfolding reader by (simp add: Sys_clk del: path_addresses.simps)
  qed
qed simp

text \<open>Before the start nothing is fetched.\<close>

definition quiet :: "path_event \<Rightarrow> bool" where
  "quiet e = (case e of Sys_clk start base h v \<Rightarrow> \<not> start | Enc_clk ready \<Rightarrow> True)"

lemma path_quiet:
  fixes ops aw ab bp
  defines "step \<equiv> encoder_path_step ops aw ab bp"
  assumes "list_all quiet es" "dmar_fsm (pa_reader p) = DMA_IDLE"
  shows "dmar_fsm (pa_reader (run step es p)) = DMA_IDLE \<and> collect step (path_addresses ops aw ab bp) es p = []"
  using assms(2,3)
proof (induction es arbitrary: p)
  case (Cons e es)
  have "dmar_fsm (pa_reader (step e p)) = DMA_IDLE" "path_addresses ops aw ab bp e p = []"
    using Cons.prems by (cases e; simp add: step_def quiet_def Let_def reader_in_def dma_reader_step_def dma_fsm_act_def
        dma_no_strobes_def offered_address_def)+
  then show ?case using Cons by simp
qed simp

section \<open>The order of the pixels\<close>

text \<open>Blocks of eight by eight pixels, from left to right and from top to bottom, each line by line.\<close>

definition block_order :: "nat \<Rightarrow> nat \<Rightarrow> (nat \<times> nat) list" where
  "block_order H V =
     concat (map (\<lambda>bv. concat (map (\<lambda>bh. concat (map (\<lambda>y. map (\<lambda>x. (8 * bv + y, 8 * bh + x)) [0..<8])
       [0..<8])) [0..<H div 8])) [0..<V div 8])"

text \<open>
  The pixel at line \<open>v\<close> and column \<open>x\<close> of the frame in memory, and the frame as the encoder is to see
  it, with the last flag on the last pixel of each block.
\<close>

definition frame_pixel ::
  "(128 word \<Rightarrow> 3 word \<Rightarrow> 'p) \<Rightarrow> (nat \<Rightarrow> 128 word) \<Rightarrow> (nat \<times> nat \<Rightarrow> nat) \<Rightarrow> nat \<times> nat \<Rightarrow> 'p" where
  "frame_pixel chooser mem addr = (\<lambda>(v, x). chooser (mem (addr (v, 8 * (x div 8)))) (of_nat (x mod 8)))"

definition frame_blocks ::
  "(128 word \<Rightarrow> 3 word \<Rightarrow> 'p) \<Rightarrow> (nat \<Rightarrow> 128 word) \<Rightarrow> (nat \<times> nat \<Rightarrow> nat) \<Rightarrow> nat \<Rightarrow> nat \<Rightarrow> ('p \<times> bool) list" where
  "frame_blocks chooser mem addr H V =
     map (\<lambda>(k, q). (frame_pixel chooser mem addr q, k mod 64 = 63)) (enumerate 0 (block_order H V))"

lemma concat_concat_map: "concat (concat xss) = concat (map concat xss)"
  by (induction xss) simp_all

lemma block_order_scan:
  "block_order H V = concat (map (\<lambda>(v, h). map (\<lambda>x. (v, h + x)) [0..<8]) (scan_frame 8 H V))"
  by (simp add: block_order_def scan_frame_def scan_band_def scan_block_def scan_row_def map_concat concat_concat_map o_def)

lemma enumerate_concat8:
  assumes "\<And>z. z \<in> set zs \<Longrightarrow> length (g z) = 8"
  shows "map F (enumerate (8 * n) (concat (map g zs)))
       = concat (map (\<lambda>(k, z). map F (enumerate (8 * k) (g z))) (enumerate n zs))"
  using assms
proof (induction zs arbitrary: n)
  case (Cons z zs)
  have "length (g z) = 8" using Cons.prems by simp
  then have "map F (enumerate (8 * n) (concat (map g (z # zs))))
      = map F (enumerate (8 * n) (g z)) @ map F (enumerate (8 * Suc n) (concat (map g zs)))"
    by (simp add: enumerate_append_eq add.commute)
  also have "map F (enumerate (8 * Suc n) (concat (map g zs)))
      = concat (map (\<lambda>(k, z). map F (enumerate (8 * k) (g z))) (enumerate (Suc n) zs))"
    using Cons.prems by (intro Cons.IH) auto
  finally show ?case by simp
qed simp

lemma last_of_block: "j < 8 \<Longrightarrow> (8 * k + j) mod 64 = 63 \<longleftrightarrow> j = 7 \<and> k mod 8 = (7::nat)"
  using mod_mult2_eq [of "8 * k + j" 8 8] by (simp, linarith)

lemma of_nat_eq_7: "(of_nat k :: 3 word) = 7 \<longleftrightarrow> k mod 8 = 7"
  using word_of_nat_eq_iff [of k 7, where 'a = 3] by (simp add: take_bit_eq_mod)

lemma word_line:
  assumes "8 dvd h"
  shows "word_pixels ch (of_nat k, mem (addr (v, h)))
       = map (\<lambda>(k, q). (frame_pixel ch mem addr q, k mod 64 = 63)) (enumerate (8 * k) (map (\<lambda>x. (v, h + x)) [0..<8]))"
proof -
  have col: "8 * ((h + x) div 8) = h" "(h + x) mod 8 = x" if "x < 8" for x
    using assms that by presburger+
  have pixel: "frame_pixel ch mem addr (v, h + x) = ch (mem (addr (v, h))) (of_nat x)" if "x < 8" for x
    using col [OF that] by (simp add: frame_pixel_def)
  have "map (\<lambda>(k, q). (frame_pixel ch mem addr q, k mod 64 = 63)) (enumerate (8 * k) (map (\<lambda>x. (v, h + x)) [0..<8]))
      = map (\<lambda>x. (frame_pixel ch mem addr (v, h + x), (8 * k + x) mod 64 = 63)) [0..<8]"
    by (intro nth_equalityI) (simp_all add: nth_enumerate_eq)
  also have "\<dots> = map (\<lambda>x. (ch (mem (addr (v, h))) (of_nat x), x = 7 \<and> k mod 8 = 7)) [0..<8]"
    using pixel by (intro map_cong refl) (auto simp: last_of_block)
  also have "\<dots> = word_pixels ch (of_nat k, mem (addr (v, h)))"
    by (simp add: word_pixels_def of_nat_eq_7 upt_conv_Cons)
  finally show ?thesis ..
qed

lemma frame_blocks_words:
  assumes "\<And>v h. (v, h) \<in> set (scan_frame 8 H V) \<Longrightarrow> 8 dvd h"
  shows "frame_blocks ch mem addr H V
       = concat (map (word_pixels ch) (map (\<lambda>(k, q). (of_nat k, mem (addr q))) (enumerate 0 (scan_frame 8 H V))))"
proof -
  let ?F = "\<lambda>(k, q). (frame_pixel ch mem addr q, k mod 64 = 63)"
  let ?g = "\<lambda>(v, h). map (\<lambda>x. (v, h + x)) [0..<8]"
  have "frame_blocks ch mem addr H V = map ?F (enumerate (8 * 0) (concat (map ?g (scan_frame 8 H V))))"
    by (simp add: frame_blocks_def block_order_scan)
  also have "\<dots> = concat (map (\<lambda>(k, z). map ?F (enumerate (8 * k) (?g z))) (enumerate 0 (scan_frame 8 H V)))"
    by (intro enumerate_concat8) auto
  also have "map (\<lambda>(k, z). map ?F (enumerate (8 * k) (?g z))) (enumerate 0 (scan_frame 8 H V))
      = map (\<lambda>(k, q). word_pixels ch (of_nat k, mem (addr q))) (enumerate 0 (scan_frame 8 H V))"
  proof (intro map_cong refl)
    fix kz assume kz: "kz \<in> set (enumerate 0 (scan_frame 8 H V))"
    obtain k v h where [simp]: "kz = (k, v, h)" by (metis prod.collapse)
    have "(v, h) \<in> set (scan_frame 8 H V)"
      using imageI [OF kz, of snd] unfolding set_map [symmetric] map_snd_enumerate by simp
    from word_line [OF assms [OF this], of ch k mem addr v]
    show "(case kz of (k, z) \<Rightarrow> map ?F (enumerate (8 * k) (?g z))) = (case kz of (k, q) \<Rightarrow> word_pixels ch (of_nat k, mem (addr q)))"
      by simp
  qed
  finally show ?thesis by (simp add: o_def split_def)
qed

lemma prefix_frame_words:
  fixes f :: "3 word \<times> 128 word \<Rightarrow> 'b list"
  assumes "prefix ws (map (\<lambda>q. mem (addr q)) qs)"
  shows "prefix (concat (map f (zip (map of_nat [0..<length ws]) ws)))
           (concat (map f (map (\<lambda>(k, q). (of_nat k, mem (addr q))) (enumerate 0 qs))))"
proof -
  let ?n = "length ws"
  have ws: "ws = map (\<lambda>q. mem (addr q)) (take ?n qs)"
    using assms by (metis append_eq_conv_conj prefix_def take_map)
  have n: "?n \<le> length qs" using assms prefix_length_le by fastforce
  have "zip (map of_nat [0..<?n]) ws
      = map (\<lambda>(k, q). (of_nat k :: 3 word, mem (addr q))) (enumerate 0 (take ?n qs))"
    using n by (subst (2) ws) (auto intro!: nth_equalityI simp: nth_enumerate_eq)
  then have "concat (map f (zip (map of_nat [0..<?n]) ws))
      = concat (map f (map (\<lambda>(k, q). (of_nat k, mem (addr q))) (enumerate 0 (take ?n qs))))" by simp
  moreover have "enumerate 0 qs = enumerate 0 (take ?n qs) @ enumerate ?n (drop ?n qs)"
    using enumerate_append_eq [of 0 "take ?n qs" "drop ?n qs"] n by (simp add: min_def)
  ultimately show ?thesis by (simp add: prefix_def)
qed

section \<open>What the encoder sees\<close>

lemma scan_frame_column: "(v, h) \<in> set (scan_frame 8 H V) \<Longrightarrow> 8 dvd h"
  by (auto simp: scan_frame_def scan_band_def scan_block_def scan_row_def)

lemma eb_words_zip:
  fixes "is"
  defines "t \<equiv> collect enc_buffer_step eb_taken is enc_buffer_init"
  shows "zip (map of_nat [0..<length (map snd t)]) (map snd t) = t"
proof -
  have "map fst t = map of_nat [0..<length t]"
    using eb_taken_lines [OF enc_buf.inv_init, of 0 "is"] by (simp add: enc_buffer_init_def t_def)
  then show ?thesis by (metis length_map zip_map_fst_snd)
qed

lemma path_words_frame:
  fixes ops aw ab
  defines "step \<equiv> encoder_path_step ops aw ab 8"
  assumes ch: "ordered_channel mem ops inflight" and f: "frame_ok 8 H V"
    and "list_all quiet before" "list_all (scan_event H V) after"
  shows "prefix (collect step (path_words ops) (before @ Sys_clk True base H V # after) (encoder_path_init ops))
           (map (\<lambda>q. mem (burst_address aw ab base H q)) (scan_frame 8 (unat H) (unat V)))"
proof -
  let ?p0 = "encoder_path_init ops" and ?i0 = "reader_in ops True base H V"
  let ?es = "before @ Sys_clk True base H V # after"
  define p1 where "p1 = run step before ?p0"
  define p2 where "p2 = step (Sys_clk True base H V) p1"
  have "dmar_fsm (pa_reader ?p0) = DMA_IDLE" by (simp add: encoder_path_init_def dma_reader_init_def)
  from path_quiet [OF assms(4) this, of ops aw ab 8]
  have idle: "dmar_fsm (pa_reader p1) = DMA_IDLE" and none: "collect step (path_addresses ops aw ab 8) before ?p0 = []"
    by (simp_all add: p1_def step_def)
  have p2: "pa_reader p2 = dma_reader_step 8 (?i0 p1) (pa_reader p1)"
    by (simp add: p2_def step_def Let_def)
  have start: "path_addresses ops aw ab 8 (Sys_clk True base H V) p1 = []" "dmar_base (pa_reader p2) = base"
    using idle by (simp_all add: offered_address_def p2 dma_fsm_act_def dma_no_strobes_def dma_reader_step_def reader_in_def)
  from path_scan [OF assms(5), of ops aw ab 8 p2]
  have "collect step (path_addresses ops aw ab 8) after p2
      = map (burst_address aw ab base H) (collect (dma_reader_step 8) (dma_accepted 8) (collect step (path_reader_in ops) after p2) (pa_reader p2))"
    and ok: "list_all (dma_input_ok H V) (collect step (path_reader_in ops) after p2)"
    using start(2) by (simp_all add: step_def)
  moreover have "dmar_start (?i0 p1)" by (simp add: reader_in_def)
  from dma_scan_order [OF f idle this ok] obtain m where
    "collect (dma_reader_step 8) (dma_accepted 8) (collect step (path_reader_in ops) after p2) (pa_reader p2)
      = take m (scan_frame 8 (unat H) (unat V))" by (auto simp: p2)
  ultimately have addrs: "collect step (path_addresses ops aw ab 8) ?es ?p0
      = map (burst_address aw ab base H) (take m (scan_frame 8 (unat H) (unat V)))"
    using none start(1) by (simp add: p1_def [symmetric] p2_def [symmetric])
  have "prefix (collect step (path_words ops) ?es ?p0) (map mem (collect step (path_addresses ops aw ab 8) ?es ?p0))"
  proof -
    have "concat (map (\<lambda>a. [mem a]) (collect step (path_addresses ops aw ab 8) ?es ?p0))
        = collect step (path_words ops) ?es ?p0 @ map mem (inflight (pa_channel (run step ?es ?p0)))"
      unfolding step_def by (rule stream_module.conservation [OF channel_stream [OF ch]])
    then show ?thesis by (simp add: prefix_def)
  qed
  also have "prefix (map mem (collect step (path_addresses ops aw ab 8) ?es ?p0))
      (map (\<lambda>q. mem (burst_address aw ab base H q)) (scan_frame 8 (unat H) (unat V)))"
    unfolding addrs by (simp add: take_map [symmetric] take_is_prefix o_def)
  finally show ?thesis .
qed

text \<open>
  C1 (pixel order): the path from the DRAM to the encoder, from reset, with both clocks ticking in any
  order, any delays of the DMA engine and the clock crossing and any pauses of the encoder: after the
  frame reader has been started for a frame with sides that are multiples of eight, the pixels that
  the encoder takes are, one after the other and none left out, those of the frame in blocks of eight by
  eight, and the last flag comes with the last pixel of each block.
\<close>

theorem encoder_sees_blocks:
  assumes "ordered_channel mem ops inflight" "frame_ok 8 H V"
    and "list_all quiet before" "list_all (scan_event H V) after"
  shows "prefix
     (collect (encoder_path_step ops aw ab (burst_pixels 128)) (encoder_path_out ops chooser)
        (before @ Sys_clk True base H V # after) (encoder_path_init ops))
     (frame_blocks chooser mem (burst_address aw ab base H) (unat H) (unat V))"
proof -
  let ?es = "before @ Sys_clk True base H V # after" and ?p0 = "encoder_path_init ops"
  let ?step = "encoder_path_step ops aw ab 8"
  let ?ibs = "collect ?step (path_buffer_in ops) ?es ?p0"
  let ?ws = "map snd (collect enc_buffer_step eb_taken ?ibs enc_buffer_init)"
  have bp: "burst_pixels 128 = 8" by (simp add: burst_pixels_def pixel_bits_def)
  have p0: "pa_buffer ?p0 = enc_buffer_init" by (simp add: encoder_path_init_def)
  have "prefix (collect ?step (encoder_path_out ops chooser) ?es ?p0)
      (concat (map (word_pixels chooser) (zip (map of_nat [0..<length ?ws]) ?ws)))"
    unfolding path_buffer(1) p0 eb_words_zip using enc_buf.conservation [of chooser ?ibs]
    by (simp add: prefix_def)
  also have "prefix \<dots> (frame_blocks chooser mem (burst_address aw ab base H) (unat H) (unat V))"
    using prefix_frame_words [of ?ws mem "burst_address aw ab base H" "scan_frame 8 (unat H) (unat V)" "word_pixels chooser"]
      path_words_frame [OF assms, of aw ab base, unfolded path_buffer(2) p0]
      frame_blocks_words [of "unat H" "unat V" chooser mem "burst_address aw ab base H"] scan_frame_column
    by simp
  finally show ?thesis unfolding bp .
qed

text \<open>Where the frame lies inside the memory of a 128-bit port, a burst is eight pixels of the line.\<close>

lemma burst_address_inside:
  assumes "v * unat H + h < 2 ^ (aw + 4)" "unat base div 16 + (v * unat H + h) div 8 < 2 ^ aw"
  shows "burst_address aw 4 base H (v, h) = unat base div 16 + (v * unat H + h) div 8"
  using assms by (simp add: burst_address_def take_bit_nat_eq_self drop_bit_eq_div)

text \<open>A channel that is always ready and delivers at once.\<close>

definition queue_channel :: "(nat \<Rightarrow> 128 word) \<Rightarrow> nat list channel_ops" where
  "queue_channel mem =
     \<lparr>ch_init = [], ch_ready = (\<lambda>q. True), ch_sys = (\<lambda>a q. case a of None \<Rightarrow> q | Some x \<Rightarrow> q @ [x]),
      ch_valid = (\<lambda>q. q \<noteq> []), ch_data = (\<lambda>q. mem (hd q)), ch_enc = (\<lambda>r q. if r then tl q else q)\<rparr>"

lemma queue_channel_ordered: "ordered_channel mem (queue_channel mem) id"
  by (auto simp: ordered_channel_def queue_channel_def split: option.split)

definition path_demo :: "path_event list" where
  "path_demo = replicate 9 (Sys_clk False 0 16 8) @ replicate 11 (Enc_clk False) @ replicate 9 (Enc_clk True)"

definition mem_demo :: "nat \<Rightarrow> 128 word" where
  "mem_demo a = of_nat a"

lemma path_demo_out:
  "collect (encoder_path_step (queue_channel mem) 5 4 (burst_pixels 128)) (encoder_path_out (queue_channel mem) Pair)
      ([] @ Sys_clk True 0 16 8 # path_demo) (encoder_path_init (queue_channel mem))
      = [((mem 0, 0), False), ((mem 0, 1), False), ((mem 0, 2), False), ((mem 0, 3), False), ((mem 0, 4), False),
         ((mem 0, 5), False), ((mem 0, 6), False), ((mem 0, 7), False), ((mem 2, 0), False)]"
  by code_simp

theorem encoder_sees_blocks_witness:
  "prefix [((mem_demo 0, 0), False), ((mem_demo 0, 1), False), ((mem_demo 0, 2), False), ((mem_demo 0, 3), False), ((mem_demo 0, 4), False), ((mem_demo 0, 5), False),
           ((mem_demo 0, 6), False), ((mem_demo 0, 7), False), ((mem_demo 2, 0), False)]
     (frame_blocks Pair mem_demo (burst_address 5 4 0 16) 16 8)"
proof -
  have "frame_ok 8 16 8" "list_all (scan_event 16 8) path_demo"
    by (simp_all add: frame_ok_def path_demo_def list_all_iff)
  from encoder_sees_blocks [OF queue_channel_ordered this(1) _ this(2), of "[]" mem_demo 5 4 Pair 0] show ?thesis
    unfolding path_demo_out by simp
qed

end
