(* ===== verification/Py_Float.thy ===== *)
theory Py_Float
  imports Complex_Main Py_Strings
begin

text \<open>
  Python's floats, as far as the tools of the repository use them: literals, conversion from
  integers, the four operations and \<open>int\<close> of a float.  A float is a binary fraction, an integer
  times a power of two; every operation computes the exact result and rounds it once, to the nearest
  fraction with 53 significant bits and to the even one of two that are equally near, with the
  gradual underflow of IEEE 754.  Magnitudes from two to the 1024 on, where Python has infinities or
  raises an error, are outside the model, and so is the sign of zero, which none of the tools can
  tell.  Shown: the error of one rounding, and that integers below two to the 53 are exact.
\<close>

section \<open>Powers of two and bit lengths\<close>

text \<open>Two to the \<open>k\<close>, and one for a negative \<open>k\<close>.\<close>

function pow2 :: "int \<Rightarrow> int" where
  "pow2 k = (if k \<le> 0 then 1 else 2 * pow2 (k - 1))"
  by pat_completeness auto
termination by (relation "measure nat") auto

declare pow2.simps [simp del]

function bit_length :: "int \<Rightarrow> int" where
  "bit_length n = (if n \<le> 0 then 0 else 1 + bit_length (n div 2))"
  by pat_completeness auto
termination by (relation "measure nat") auto

declare bit_length.simps [simp del]

lemma pow2_power: "pow2 k = 2 ^ nat k"
proof (induction k rule: pow2.induct)
  case (1 k)
  show ?case
  proof (cases "k \<le> 0")
    case True
    then show ?thesis by (simp add: pow2.simps)
  next
    case False
    then have "nat k = Suc (nat (k - 1))" by simp
    with False "1" show ?thesis by (subst pow2.simps) simp
  qed
qed

lemma pow2_pos [simp]: "0 < pow2 k"
  by (simp add: pow2_power)

lemma bit_length_bounds:
  "0 < n \<Longrightarrow> 1 \<le> bit_length n \<and> pow2 (bit_length n - 1) \<le> n \<and> n < pow2 (bit_length n)"
proof (induction n rule: bit_length.induct)
  case (1 n)
  show ?case
  proof (cases "n = 1")
    case True
    then show ?thesis by (simp add: bit_length.simps pow2.simps)
  next
    case False
    with "1.prems" have h: "0 < n div 2" by auto
    let ?m = "bit_length (n div 2)"
    from "1.IH" "1.prems" h have IH: "1 \<le> ?m" "pow2 (?m - 1) \<le> n div 2" "n div 2 < pow2 ?m"
      by auto
    have b: "bit_length n = ?m + 1" using "1.prems" by (simp add: bit_length.simps [of n])
    have "pow2 ?m = 2 * pow2 (?m - 1)" "pow2 (?m + 1) = 2 * pow2 ?m"
      using IH(1) by (simp_all add: pow2.simps [of ?m] pow2.simps [of "?m + 1"])
    moreover have "n = 2 * (n div 2) + n mod 2" "0 \<le> n mod 2" "n mod 2 < 2" by simp_all
    ultimately have "pow2 ?m \<le> n" "n < pow2 (?m + 1)" using IH by linarith+
    with IH(1) show ?thesis unfolding b by simp
  qed
qed

section \<open>Floats\<close>

text \<open>\<open>Flt m e\<close> stands for \<open>m\<close> times two to the \<open>e\<close>.\<close>

datatype py_float = Flt int int

definition flt_val :: "py_float \<Rightarrow> rat" where
  "flt_val x = (case x of Flt m e \<Rightarrow> of_int m * 2 powi e)"

text \<open>The integer nearest to a quotient, the even one of two.\<close>

definition round_div :: "int \<Rightarrow> int \<Rightarrow> int" where
  "round_div a b =
     (let q = a div b; r = a mod b
      in if 2 * r < b \<or> (2 * r = b \<and> even q) then q else q + 1)"

text \<open>The exponent of the last of the 53 bits of a quotient; it does not go below that of the subnormals.\<close>

definition ulp_exp :: "int \<Rightarrow> int \<Rightarrow> int" where
  "ulp_exp a b =
     (let k = bit_length \<bar>a\<bar> - bit_length b
      in max (if \<bar>a\<bar> * pow2 (- k) < b * pow2 k then k - 53 else k - 52) (- 1074))"

definition flt_ratio :: "int \<Rightarrow> int \<Rightarrow> py_float" where
  "flt_ratio a b =
     (if a = 0 then Flt 0 0
      else let e = ulp_exp a b in Flt (round_div (a * pow2 (- e)) (b * pow2 e)) e)"

definition flt_of_int :: "int \<Rightarrow> py_float" where
  "flt_of_int n = flt_ratio n 1"

definition flt_neg :: "py_float \<Rightarrow> py_float" where
  "flt_neg x = (case x of Flt m e \<Rightarrow> Flt (- m) e)"

definition flt_mul :: "py_float \<Rightarrow> py_float \<Rightarrow> py_float" where
  "flt_mul x y =
     (case x of Flt m e \<Rightarrow> case y of Flt n f \<Rightarrow> flt_ratio (m * n * pow2 (e + f)) (pow2 (- (e + f))))"

definition flt_add :: "py_float \<Rightarrow> py_float \<Rightarrow> py_float" where
  "flt_add x y =
     (case x of Flt m e \<Rightarrow> case y of Flt n f \<Rightarrow>
        let g = min e f
        in flt_ratio ((m * pow2 (e - g) + n * pow2 (f - g)) * pow2 g) (pow2 (- g)))"

definition flt_sub :: "py_float \<Rightarrow> py_float \<Rightarrow> py_float" where
  "flt_sub x y = flt_add x (flt_neg y)"

definition flt_div :: "py_float \<Rightarrow> py_float \<Rightarrow> py_float py_result" where
  "flt_div x y =
     (case x of Flt m e \<Rightarrow> case y of Flt n f \<Rightarrow>
        if n = 0 then Inl ZeroDivisionError
        else Inr (flt_ratio (sgn n * m * pow2 (e - f)) (\<bar>n\<bar> * pow2 (f - e))))"

text \<open>\<open>int\<close> of a float cuts the fraction off.\<close>

definition int_of_flt :: "py_float \<Rightarrow> int" where
  "int_of_flt x = (case x of Flt m e \<Rightarrow> sgn m * ((\<bar>m\<bar> * pow2 e) div pow2 (- e)))"

section \<open>One rounding\<close>

lemma pow2_powi: "(of_int (pow2 e) :: rat) / of_int (pow2 (- e)) = 2 powi e"
  by (auto simp: pow2_power power_int_def field_simps)

lemma round_div_error:
  assumes "0 < b"
  shows "\<bar>(of_int (round_div a b) :: rat) - of_int a / of_int b\<bar> \<le> 1 / 2"
proof -
  let ?q = "a div b" let ?r = "a mod b"
  have r: "0 \<le> ?r" "?r < b" "?q * b = a - ?r" using assms by (simp_all add: minus_mod_eq_div_mult)
  have "2 * \<bar>round_div a b * b - a\<bar> \<le> b"
  proof (cases "2 * ?r < b \<or> (2 * ?r = b \<and> even ?q)")
    case True
    then have "round_div a b * b - a = - ?r" using r(3) by (simp add: round_div_def)
    with True r show ?thesis by auto
  next
    case False
    then have "round_div a b = ?q + 1" by (auto simp: round_div_def Let_def)
    then have "round_div a b * b - a = b - ?r" using r(3) by (simp add: distrib_right)
    with False r(1,2) show ?thesis by auto
  qed
  then have "(of_int (2 * \<bar>round_div a b * b - a\<bar>) :: rat) \<le> of_int b" by (simp only: of_int_le_iff)
  moreover have "(of_int (round_div a b) :: rat) - of_int a / of_int b = of_int (round_div a b * b - a) / of_int b"
    using assms by (simp add: field_simps)
  ultimately show ?thesis using assms by (simp add: abs_divide field_simps)
qed

lemma round_div_exact [simp]: "0 < b \<Longrightarrow> round_div (n * b) b = n"
  by (simp add: round_div_def)

text \<open>The rounding as a function of the quotient: the nearest multiple of the last place.\<close>

lemma flt_ratio_error:
  assumes "0 < b"
  shows "\<bar>flt_val (flt_ratio a b) - of_int a / of_int b\<bar> \<le> 2 powi (ulp_exp a b - 1)"
proof (cases "a = 0")
  case True
  then show ?thesis by (simp add: flt_ratio_def flt_val_def)
next
  case False
  let ?e = "ulp_exp a b"
  have "\<bar>(of_int (round_div (a * pow2 (- ?e)) (b * pow2 ?e)) :: rat)
      - of_int (a * pow2 (- ?e)) / of_int (b * pow2 ?e)\<bar> \<le> 1 / 2"
    by (rule round_div_error) (simp add: assms)
  moreover have "(of_int (a * pow2 (- ?e)) :: rat) / of_int (b * pow2 ?e) = of_int a / of_int b / 2 powi ?e"
    using assms by (simp add: pow2_powi [symmetric] field_simps)
  ultimately have "\<bar>(of_int (round_div (a * pow2 (- ?e)) (b * pow2 ?e)) :: rat) - of_int a / of_int b / 2 powi ?e\<bar>
      * 2 powi ?e \<le> 1 / 2 * 2 powi ?e"
    by (intro mult_right_mono) auto
  also have "\<bar>x - y / 2 powi ?e\<bar> * 2 powi ?e = \<bar>x * 2 powi ?e - y\<bar>" for x y :: rat
  proof -
    have "\<bar>x - y / 2 powi ?e\<bar> * 2 powi ?e = \<bar>(x - y / 2 powi ?e) * 2 powi ?e\<bar>" by (simp add: abs_mult)
    then show ?thesis by (simp add: left_diff_distrib)
  qed
  also have "of_int (round_div (a * pow2 (- ?e)) (b * pow2 ?e)) * 2 powi ?e = flt_val (flt_ratio a b)"
    using False by (simp add: flt_ratio_def flt_val_def Let_def)
  also have "(1 / 2 :: rat) * 2 powi ?e = 2 powi (?e - 1)" by (simp add: power_int_diff)
  finally show ?thesis .
qed

definition unit_err :: rat where
  "unit_err = 2 powi (- 53)"

definition tiny_err :: rat where
  "tiny_err = 2 powi (- 1075)"

lemma err_pos [simp]: "0 \<le> unit_err" "0 \<le> tiny_err"
  by (simp_all add: unit_err_def tiny_err_def del: power_int_minus)

lemma unit_err_shift: "(2 :: rat) powi k * unit_err = 2 powi (k - 53)"
  using power_int_add [of "2 :: rat" k "- 53"] by (simp add: unit_err_def del: power_int_minus)

text \<open>The bit lengths give the quotient up to a factor of two.\<close>

lemma quotient_lower:
  assumes "0 < b" "a \<noteq> 0"
  shows "(2 :: rat) powi (bit_length \<bar>a\<bar> - bit_length b - 1) \<le> of_int \<bar>a\<bar> / of_int b"
proof -
  let ?la = "bit_length \<bar>a\<bar>" and ?lb = "bit_length b"
  from bit_length_bounds [of "\<bar>a\<bar>"] assms(2)
  have a: "1 \<le> ?la" "pow2 (?la - 1) \<le> \<bar>a\<bar>" by simp_all
  from bit_length_bounds [OF assms(1)] have b: "1 \<le> ?lb" "b < pow2 ?lb" by simp_all
  have "(2 :: rat) powi (?la - 1) \<le> of_int \<bar>a\<bar>" "(of_int b :: rat) \<le> 2 powi ?lb"
    using a b of_int_le_iff [of "pow2 (?la - 1)" "\<bar>a\<bar>", where ?'a = rat]
      of_int_le_iff [of b "pow2 ?lb", where ?'a = rat]
    by (simp_all add: pow2_power power_int_def)
  then have "(2 :: rat) powi (?la - 1) / 2 powi ?lb \<le> of_int \<bar>a\<bar> / of_int b"
    using assms(1) by (intro frac_le) auto
  moreover have "(2 :: rat) powi (?la - 1) / 2 powi ?lb = 2 powi (?la - ?lb - 1)"
    by (simp add: power_int_diff [symmetric] algebra_simps)
  ultimately show ?thesis by simp
qed

lemma ulp_exp_cases:
  assumes "0 < b" "a \<noteq> 0"
  shows "(2 :: rat) powi (ulp_exp a b - 1) \<le> \<bar>of_int a / of_int b\<bar> * unit_err \<or> ulp_exp a b = - 1074"
proof -
  let ?k = "bit_length \<bar>a\<bar> - bit_length b" and ?x = "\<bar>of_int a / of_int b :: rat\<bar>"
  have x: "?x = of_int \<bar>a\<bar> / of_int b" using assms(1) by (simp add: abs_divide)
  note k = quotient_lower [OF assms, folded x]
  have big: "(2 :: rat) powi ?k \<le> ?x" if "\<not> \<bar>a\<bar> * pow2 (- ?k) < b * pow2 ?k"
  proof -
    from that have "(of_int (b * pow2 ?k) :: rat) \<le> of_int (\<bar>a\<bar> * pow2 (- ?k))"
      by (simp only: of_int_le_iff not_less)
    then show ?thesis using assms(1) by (simp add: x pow2_powi [symmetric] field_simps)
  qed
  have scaled: "(2 :: rat) powi (j - 53) \<le> ?x * unit_err" if "2 powi j \<le> ?x" for j
    using mult_right_mono [OF that err_pos(1)] by (simp add: unit_err_shift)
  show ?thesis
  proof (cases "ulp_exp a b = - 1074")
    case False
    then consider "ulp_exp a b = ?k - 53" | "ulp_exp a b = ?k - 52" "\<not> \<bar>a\<bar> * pow2 (- ?k) < b * pow2 ?k"
      by (auto simp: ulp_exp_def Let_def max_def split: if_splits)
    then show ?thesis
    proof cases
      case 1
      with scaled [OF k] show ?thesis by simp
    next
      case 2
      with scaled [OF big [OF 2(2)]] show ?thesis by simp
    qed
  qed simp
qed

text \<open>Half a unit in the last place: relative, or absolute for the subnormals.\<close>

theorem flt_ratio_near:
  assumes "0 < b"
  shows "\<bar>flt_val (flt_ratio a b) - of_int a / of_int b\<bar> \<le> \<bar>of_int a / of_int b\<bar> * unit_err + tiny_err"
proof (cases "a = 0")
  case True
  then show ?thesis by (simp add: flt_ratio_def flt_val_def)
next
  case False
  have p: "0 \<le> \<bar>of_int a / of_int b :: rat\<bar> * unit_err" by simp
  from ulp_exp_cases [OF assms False] show ?thesis
  proof
    assume "2 powi (ulp_exp a b - 1) \<le> \<bar>of_int a / of_int b\<bar> * unit_err"
    with flt_ratio_error [OF assms, of a] show ?thesis using err_pos(2) by linarith
  next
    assume "ulp_exp a b = - 1074"
    then have "2 powi (ulp_exp a b - 1) = tiny_err" by (simp add: tiny_err_def del: power_int_minus)
    with flt_ratio_error [OF assms, of a] p show ?thesis by linarith
  qed
qed

text \<open>Integers of up to 53 bits are exact.\<close>

lemma ulp_exp_int:
  assumes "0 < b" "\<bar>n\<bar> < 2 ^ 53" "n \<noteq> 0"
  shows "ulp_exp (n * b) b \<le> 0"
proof (rule ccontr)
  let ?k = "bit_length \<bar>n * b\<bar> - bit_length b"
  have nb: "\<bar>n * b\<bar> = \<bar>n\<bar> * b" using assms(1) by (simp add: abs_mult)
  have "0 < \<bar>n * b\<bar>" using assms(1,3) by simp
  note a = bit_length_bounds [OF this] and b = bit_length_bounds [OF assms(1)]
  have less: "\<bar>n\<bar> * b < 2 ^ 53 * b" using assms by (intro mult_strict_right_mono)
  assume "\<not> ulp_exp (n * b) b \<le> 0"
  then have "53 < ?k \<or> ?k = 53 \<and> \<not> \<bar>n * b\<bar> * pow2 (- ?k) < b * pow2 ?k"
    unfolding ulp_exp_def Let_def by (simp split: if_splits) linarith
  then show False
  proof
    assume "53 < ?k"
    then have "nat (bit_length b) + 53 \<le> nat (bit_length \<bar>n * b\<bar> - 1)" using b by linarith
    then have "(2 :: int) ^ (nat (bit_length b) + 53) \<le> 2 ^ nat (bit_length \<bar>n * b\<bar> - 1)"
      by (intro power_increasing) simp_all
    then have "pow2 (bit_length b) * 2 ^ 53 \<le> pow2 (bit_length \<bar>n * b\<bar> - 1)"
      by (simp add: pow2_power power_add)
    also have "\<dots> \<le> \<bar>n\<bar> * b" using a nb by simp
    also have "\<dots> < 2 ^ 53 * b" by (rule less)
    also have "\<dots> \<le> pow2 (bit_length b) * 2 ^ 53" using b by simp
    finally show False by simp
  next
    assume "?k = 53 \<and> \<not> \<bar>n * b\<bar> * pow2 (- ?k) < b * pow2 ?k"
    then have "\<not> \<bar>n * b\<bar> * pow2 (- 53) < b * pow2 53" by (elim conjE) (simp only: simp_thms)
    then have "b * 2 ^ 53 \<le> \<bar>n\<bar> * b" by (simp add: nb pow2_power)
    with less show False by simp
  qed
qed

lemma flt_ratio_int:
  assumes "0 < b" "\<bar>n\<bar> < 2 ^ 53"
  shows "flt_val (flt_ratio (n * b) b) = of_int n"
proof (cases "n = 0")
  case True
  then show ?thesis by (simp add: flt_ratio_def flt_val_def)
next
  case False
  let ?e = "ulp_exp (n * b) b"
  note e = ulp_exp_int [OF assms False]
  then have "n * b * pow2 (- ?e) = n * pow2 (- ?e) * (b * pow2 ?e)" by (simp add: pow2.simps [of ?e])
  then have "round_div (n * b * pow2 (- ?e)) (b * pow2 ?e) = n * pow2 (- ?e)"
    using assms(1) by (simp only: round_div_exact pow2_pos mult_pos_pos)
  then have "flt_ratio (n * b) b = Flt (n * pow2 (- ?e)) ?e"
    using False assms(1) by (simp add: flt_ratio_def Let_def)
  moreover have "2 powi ?e = 1 / (of_int (pow2 (- ?e)) :: rat)"
    using e pow2_powi [of ?e] by (simp add: pow2.simps [of ?e])
  moreover have "(of_int (pow2 (- ?e)) :: rat) \<noteq> 0" by (simp add: pow2_power)
  ultimately show ?thesis by (simp add: flt_val_def)
qed

corollary flt_of_int_exact: "\<bar>n\<bar> < 2 ^ 53 \<Longrightarrow> flt_val (flt_of_int n) = of_int n"
  using flt_ratio_int [of 1 n] by (simp add: flt_of_int_def)

section \<open>The operations\<close>

lemma pow2_quotient: "of_int (c * pow2 e) / of_int (pow2 (- e)) = of_int c * (2 :: rat) powi e"
  by (simp add: pow2_powi [symmetric])

lemma flt_val_neg [simp]: "flt_val (flt_neg x) = - flt_val x"
  by (cases x) (simp add: flt_neg_def flt_val_def)

lemma flt_mul_ratio:
  "\<exists>a b. 0 < b \<and> flt_mul x y = flt_ratio a b \<and> of_int a / of_int b = flt_val x * flt_val y"
proof (cases x; cases y)
  fix m e n f assume xy: "x = Flt m e" "y = Flt n f"
  have "of_int (m * n * pow2 (e + f)) / of_int (pow2 (- (e + f))) = flt_val x * flt_val y"
    unfolding pow2_quotient by (simp add: xy flt_val_def power_int_add)
  moreover have "flt_mul x y = flt_ratio (m * n * pow2 (e + f)) (pow2 (- (e + f)))"
    by (simp add: xy flt_mul_def)
  ultimately show ?thesis using pow2_pos by blast
qed

lemma flt_add_ratio:
  "\<exists>a b. 0 < b \<and> flt_add x y = flt_ratio a b \<and> of_int a / of_int b = flt_val x + flt_val y"
proof (cases x; cases y)
  fix m e n f assume xy: "x = Flt m e" "y = Flt n f"
  let ?g = "min e f" let ?c = "m * pow2 (e - ?g) + n * pow2 (f - ?g)"
  have p: "(of_int (pow2 (h - ?g)) :: rat) * 2 powi ?g = 2 powi h" if "h = e \<or> h = f" for h
  proof -
    have "(of_int (pow2 (h - ?g)) :: rat) = 2 powi (h - ?g)" using that by (auto simp: pow2_power power_int_def)
    then show ?thesis by (simp add: power_int_diff)
  qed
  have "of_int (?c * pow2 ?g) / of_int (pow2 (- ?g)) = flt_val x + flt_val y"
    unfolding pow2_quotient using p [of e] p [of f]
    by (simp add: xy flt_val_def distrib_right mult.assoc del: min_def)
  moreover have "flt_add x y = flt_ratio (?c * pow2 ?g) (pow2 (- ?g))"
    by (simp add: xy flt_add_def Let_def)
  ultimately show ?thesis using pow2_pos by blast
qed

lemma flt_div_ratio:
  assumes "flt_val y \<noteq> 0"
  shows "\<exists>a b. 0 < b \<and> flt_div x y = Inr (flt_ratio a b) \<and> of_int a / of_int b = flt_val x / flt_val y"
proof (cases x; cases y)
  fix m e n f assume xy: "x = Flt m e" "y = Flt n f"
  with assms have n: "n \<noteq> 0" by (simp add: flt_val_def)
  have "of_int (sgn n * m * pow2 (e - f)) / of_int (\<bar>n\<bar> * pow2 (f - e)) = flt_val x / flt_val y"
    using n pow2_quotient [of m "e - f"]
    by (simp add: xy flt_val_def power_int_diff sgn_if abs_if field_simps split: if_splits)
  moreover have "flt_div x y = Inr (flt_ratio (sgn n * m * pow2 (e - f)) (\<bar>n\<bar> * pow2 (f - e)))"
    using n by (simp add: xy flt_div_def)
  moreover have "0 < \<bar>n\<bar> * pow2 (f - e)" using n by simp
  ultimately show ?thesis by blast
qed

text \<open>The error of an operation, and operations whose exact result is an integer.\<close>

theorem flt_mul_near:
  "\<bar>flt_val (flt_mul x y) - flt_val x * flt_val y\<bar> \<le> \<bar>flt_val x * flt_val y\<bar> * unit_err + tiny_err"
  using flt_mul_ratio [of x y] flt_ratio_near by metis

theorem flt_add_near:
  "\<bar>flt_val (flt_add x y) - (flt_val x + flt_val y)\<bar> \<le> \<bar>flt_val x + flt_val y\<bar> * unit_err + tiny_err"
  using flt_add_ratio [of x y] flt_ratio_near by metis

lemma flt_ratio_exact:
  assumes "0 < b" "of_int a / of_int b = (of_int n :: rat)" "\<bar>n\<bar> < 2 ^ 53"
  shows "flt_val (flt_ratio a b) = of_int n"
proof -
  from assms(1,2) have "(of_int a :: rat) = of_int (n * b)" by (simp add: field_simps)
  then have "a = n * b" by (simp only: of_int_eq_iff)
  with flt_ratio_int [OF assms(1,3)] show ?thesis by simp
qed

theorem flt_mul_exact: "flt_val x * flt_val y = of_int n \<Longrightarrow> \<bar>n\<bar> < 2 ^ 53 \<Longrightarrow> flt_val (flt_mul x y) = of_int n"
  using flt_mul_ratio [of x y] flt_ratio_exact by metis

theorem flt_div_exact:
  assumes "flt_val y \<noteq> 0" "flt_val x / flt_val y = of_int n" "\<bar>n\<bar> < 2 ^ 53"
  shows "\<exists>z. flt_div x y = Inr z \<and> flt_val z = of_int n"
  using flt_div_ratio [OF assms(1)] assms(2,3) flt_ratio_exact by metis

text \<open>The integer part, in terms of the value.\<close>

lemma flt_val_quotient: "flt_val (Flt m e) = of_int (m * pow2 e) / of_int (pow2 (- e))"
  unfolding pow2_quotient by (simp add: flt_val_def)

theorem int_of_flt_floor:
  assumes "0 \<le> flt_val x"
  shows "int_of_flt x = \<lfloor>flt_val x\<rfloor>"
proof (cases x)
  case (Flt m e)
  have "0 < (2 :: rat) powi e" by simp
  with assms have "0 \<le> m" unfolding Flt flt_val_def by (simp add: zero_le_mult_iff not_le [symmetric])
  then have "int_of_flt x = (m * pow2 e) div pow2 (- e)"
    by (cases "m = 0") (simp_all add: Flt int_of_flt_def)
  then show ?thesis unfolding Flt flt_val_quotient by (simp add: floor_divide_of_int_eq del: of_int_mult)
qed

lemma int_of_flt_neg: "int_of_flt (flt_neg x) = - int_of_flt x"
  by (cases x) (simp add: int_of_flt_def flt_neg_def)

end
