(* ===== verification/Colour_Bars.thy ===== *)
theory Colour_Bars
  imports Py_Float
begin

text \<open>
  The colour bars of the test pattern, \<open>firmware/pattern.py\<close>: conversion of a colour from RGB to
  YCbCr in floating point, packing of two pixels into a word, and the list of the eight bars.  Shown:
  the three components are the exact rational ones rounded down, except that a component whose exact
  value is an integer can come out one lower; all of them are bytes, so that nothing overlaps in the
  packed word; and the words that the script prints, three of which differ from \<open>firmware/pattern.h\<close>.
\<close>

unbundle bit_operations_syntax

section \<open>The script\<close>

text \<open>A term of the sums: a literal \<open>n / d\<close> times an integer.\<close>

definition scaled :: "int \<Rightarrow> int \<Rightarrow> int \<Rightarrow> py_float" where
  "scaled n d x = flt_mul (flt_ratio n d) (flt_of_int x)"

definition ycbcr_y :: "int \<Rightarrow> int \<Rightarrow> int \<Rightarrow> py_float" where
  "ycbcr_y r g b = flt_add (flt_add (scaled 299 1000 r) (scaled 587 1000 g)) (scaled 114 1000 b)"

definition ycbcr_cb :: "int \<Rightarrow> int \<Rightarrow> int \<Rightarrow> py_float" where
  "ycbcr_cb r g b =
     flt_add (flt_add (flt_sub (flt_mul (flt_neg (flt_ratio 1687 10000)) (flt_of_int r)) (scaled 3313 10000 g))
       (scaled 5 10 b)) (flt_of_int 128)"

definition ycbcr_cr :: "int \<Rightarrow> int \<Rightarrow> int \<Rightarrow> py_float" where
  "ycbcr_cr r g b =
     flt_add (flt_sub (flt_sub (scaled 5 10 r) (scaled 4187 10000 g)) (scaled 813 10000 b)) (flt_of_int 128)"

definition rgb2ycbcr :: "int \<Rightarrow> int \<Rightarrow> int \<Rightarrow> int \<times> int \<times> int" where
  "rgb2ycbcr r g b =
     (let y = int_of_flt (ycbcr_y r g b);
          cb = int_of_flt (ycbcr_cb r g b);
          cr = int_of_flt (ycbcr_cr r g b)
      in (y, cb, cr))"

definition ycbcr_pack :: "int \<Rightarrow> int \<Rightarrow> int \<Rightarrow> int" where
  "ycbcr_pack y cb cr =
     (let v = y;
          v = v OR push_bit 8 cr;
          v = v OR push_bit 16 y;
          v = v OR push_bit 24 cb
      in v)"

definition color_bars_rgb :: "(int \<times> int \<times> int) list" where
  "color_bars_rgb =
     [(255, 255, 255),
      (255, 255,   0),
      (0,   255, 255),
      (0,   255,   0),
      (255,   0, 255),
      (255,   0,   0),
      (0,     0, 255),
      (0,     0,   0)]"

definition color_bars_ycbcr :: "(int \<times> int \<times> int) list" where
  "color_bars_ycbcr = map (\<lambda>(r, g, b). rgb2ycbcr r g b) color_bars_rgb"

definition color_bar_values :: "int list" where
  "color_bar_values = map (\<lambda>(y, cb, cr). ycbcr_pack y cb cr) color_bars_ycbcr"

definition pattern_main :: "string list" where
  "pattern_main = map (\<lambda>v. fmt_08x (nat v)) color_bar_values"

text \<open>The constants \<open>YCBCR422_WHITE\<close> to \<open>YCBCR422_BLACK\<close> that the firmware is compiled with.\<close>

definition pattern_h :: "int list" where
  "pattern_h =
     [0x80ff80ff,
      0x00e194e1,
      0xabb200b2,
      0x2b951595,
      0xd469e969,
      0x544cff4c,
      0xff1d6f1d,
      0x80108010]"

section \<open>Rounding\<close>

text \<open>\<open>f\<close> is within \<open>d\<close> units of rounding of \<open>x\<close>.\<close>

definition near :: "rat \<Rightarrow> py_float \<Rightarrow> rat \<Rightarrow> bool" where
  "near x f d \<longleftrightarrow> \<bar>flt_val f - x\<bar> \<le> d * unit_err"

lemma err_small: "tiny_err \<le> unit_err" "unit_err \<le> 1 / 10 ^ 15"
  by (simp_all add: tiny_err_def unit_err_def)

lemma near_lit:
  assumes "0 < d" "0 \<le> n" "n \<le> d"
  shows "near (of_int n / of_int d) (flt_ratio n d) 2"
proof -
  have "\<bar>of_int n / of_int d :: rat\<bar> \<le> 1" using assms by simp
  from mult_right_mono [OF this err_pos(1)] flt_ratio_near [OF assms(1), of n] err_small(1)
  show ?thesis unfolding near_def by linarith
qed

lemma near_mono: "near x f a \<Longrightarrow> a \<le> b \<Longrightarrow> near x f b"
  unfolding near_def using mult_right_mono [OF _ err_pos(1), of a b] by linarith

lemma near_widen: "near x f a \<Longrightarrow> x = y \<Longrightarrow> a \<le> b \<Longrightarrow> near y f b"
  using near_mono by blast

lemma near_neg: "near x f d \<Longrightarrow> near (- x) (flt_neg f) d"
  by (simp add: near_def)

lemma near_mul:
  assumes "near c f 2" "\<bar>c\<bar> \<le> 1" "\<bar>n\<bar> \<le> 255"
  shows "near (c * of_int n) (flt_mul f (flt_of_int n)) 1000"
proof -
  have n: "flt_val (flt_of_int n) = of_int n" using assms(3) by (intro flt_of_int_exact) simp
  have rn: "\<bar>of_int n :: rat\<bar> \<le> 255" using assms(3) of_int_le_iff [of "\<bar>n\<bar>" 255, where ?'a = rat] by simp
  have d: "\<bar>flt_val f * of_int n - c * of_int n\<bar> \<le> 510 * unit_err"
  proof -
    have "\<bar>flt_val f - c\<bar> * \<bar>of_int n\<bar> \<le> (2 * unit_err) * 255"
      using assms(1) rn unfolding near_def by (intro mult_mono) auto
    then show ?thesis by (simp add: abs_mult [symmetric] left_diff_distrib)
  qed
  have "\<bar>c * of_int n\<bar> \<le> 1 * 255" unfolding abs_mult using assms(2) rn by (intro mult_mono) auto
  moreover have "510 * unit_err \<le> 1" using err_small(2) by simp
  ultimately have "\<bar>flt_val f * of_int n\<bar> \<le> 256" using d by linarith
  from mult_right_mono [OF this err_pos(1)] flt_mul_near [of f "flt_of_int n"] d err_small(1)
  show ?thesis unfolding near_def n by linarith
qed

lemma near_add:
  assumes "near x f a" "near y g b" "\<bar>x + y\<bar> \<le> 512" "a + b \<le> 10000"
  shows "near (x + y) (flt_add f g) (a + b + 514)"
proof -
  have s: "\<bar>flt_val f + flt_val g - (x + y)\<bar> \<le> (a + b) * unit_err"
    using assms(1,2) unfolding near_def distrib_right by linarith
  moreover have "(a + b) * unit_err \<le> 10000 * (1 / 10 ^ 15)"
    using mult_right_mono [OF assms(4) err_pos(1)] err_small(2) by linarith
  ultimately have "\<bar>flt_val f + flt_val g\<bar> \<le> 513" using assms(3) by simp
  from mult_right_mono [OF this err_pos(1)] flt_add_near [of f g] s err_small(1)
  show ?thesis unfolding near_def distrib_right by linarith
qed

text \<open>An integer part close to a fraction with denominator \<open>d\<close>.\<close>

definition floor_or_below :: "int \<Rightarrow> int \<Rightarrow> int \<Rightarrow> bool" where
  "floor_or_below n d k \<longleftrightarrow> k = n div d \<or> (0 < n \<and> d dvd n \<and> k = n div d - 1)"

lemma floor_between:
  assumes "0 < d" "0 \<le> v" "of_int (n - 1) / of_int d < v" "v < (of_int (n + 1) / of_int d :: rat)"
  shows "floor_or_below n d \<lfloor>v\<rfloor>"
proof -
  let ?k = "\<lfloor>v\<rfloor>"
  have "of_int ?k < (of_int (n + 1) / of_int d :: rat)" using assms(4) of_int_floor_le [of v] by linarith
  then have "(of_int (?k * d) :: rat) < of_int (n + 1)" using assms(1) by (simp add: field_simps)
  then have "?k * d < n + 1" by (simp only: of_int_less_iff)
  then have lo: "?k * d \<le> n" by simp
  have "(of_int (n - 1) / of_int d :: rat) < of_int (?k + 1)" using assms(3) by linarith
  then have "(of_int (n - 1) :: rat) < of_int ((?k + 1) * d)" using assms(1) by (simp add: field_simps)
  then have "n - 1 < (?k + 1) * d" by (simp only: of_int_less_iff)
  then have up: "n \<le> (?k + 1) * d" by simp
  show ?thesis
  proof (cases "n = (?k + 1) * d")
    case True
    with assms(1,2) show ?thesis by (simp add: floor_or_below_def)
  next
    case False
    with lo up have "n - ?k * d < d" "0 \<le> n - ?k * d" by (simp_all add: distrib_right)
    then have "n div d = ?k" by (intro int_div_pos_eq [of n d _ "n - ?k * d"]) (simp_all add: mult.commute)
    then show ?thesis by (simp add: floor_or_below_def)
  qed
qed

lemma int_near:
  assumes "near (of_int n / of_int d) f 10000" "0 < d" "d \<le> 10000" "0 \<le> n"
  shows "floor_or_below n d (int_of_flt f)"
proof -
  let ?v = "flt_val f"
  have "(1 :: rat) / 10000 \<le> 1 / of_int d"
    using assms(2,3) of_int_le_iff [of d 10000, where ?'a = rat] by (intro divide_left_mono) simp_all
  moreover have "10000 * unit_err < 1 / 10000" using err_small(2) by simp
  ultimately have v: "\<bar>?v - of_int n / of_int d\<bar> < 1 / of_int d"
    using assms(1) unfolding near_def by linarith
  then have up: "?v < of_int (n + 1) / of_int d" and lo: "of_int (n - 1) / of_int d < ?v"
    by (simp_all add: add_divide_distrib diff_divide_distrib abs_less_iff)
  show ?thesis
  proof (cases "0 \<le> ?v")
    case True
    from floor_between [OF assms(2) True lo up] show ?thesis by (simp add: int_of_flt_floor [OF True])
  next
    case False
    have "(of_int (n - 1) / of_int d :: rat) < 0" using lo False by linarith
    then have n: "n = 0" using assms(2,4) by (simp add: divide_less_0_iff)
    with v have "- ?v < 1 / of_int d" by simp
    moreover have "(1 :: rat) / of_int d \<le> 1" using assms(2) by simp
    ultimately have "\<lfloor>flt_val (flt_neg f)\<rfloor> = 0" using False by (simp add: floor_eq_iff)
    then have "int_of_flt f = 0"
      using int_of_flt_floor [of "flt_neg f"] False by (simp add: int_of_flt_neg)
    then show ?thesis by (simp add: floor_or_below_def n)
  qed
qed

section \<open>The components\<close>

definition is_byte :: "int \<Rightarrow> bool" where
  "is_byte x \<longleftrightarrow> 0 \<le> x \<and> x \<le> 255"

lemma near_scaled:
  assumes "0 < d" "0 \<le> n" "n \<le> d" "is_byte x"
  shows "near (of_int n / of_int d * of_int x) (scaled n d x) 1000"
  unfolding scaled_def using assms by (intro near_mul near_lit) (simp_all add: is_byte_def)

lemma near_sub: "near x f a \<Longrightarrow> near y g b \<Longrightarrow> \<bar>x - y\<bar> \<le> 512 \<Longrightarrow> a + b \<le> 10000 \<Longrightarrow> near (x - y) (flt_sub f g) (a + b + 514)"
  using near_add [of x f a "- y" "flt_neg g" b] near_neg [of y g b] by (simp add: flt_sub_def)

lemma byte_rat:
  assumes "is_byte x"
  shows "0 \<le> (of_int x :: rat)" "(of_int x :: rat) \<le> 255"
  using assms of_int_le_iff [of x 255, where ?'a = rat] by (simp_all add: is_byte_def)

lemma near_128: "near 128 (flt_of_int 128) 0"
  by (simp add: near_def flt_of_int_exact)

lemma near_y:
  assumes "is_byte r" "is_byte g" "is_byte b"
  shows "near (of_int (299 * r + 587 * g + 114 * b) / of_int 1000) (ycbcr_y r g b) 10000"
proof -
  note byte = assms [THEN byte_rat(1)] assms [THEN byte_rat(2)]
  have "near (of_int 299 / of_int 1000 * of_int r + of_int 587 / of_int 1000 * of_int g
      + of_int 114 / of_int 1000 * of_int b) (ycbcr_y r g b) (1000 + 1000 + 514 + 1000 + 514)"
    unfolding ycbcr_y_def using assms byte by (intro near_add near_scaled) simp_all
  then show ?thesis by (rule near_widen) (simp_all add: add_divide_distrib)
qed

lemma near_cb:
  assumes "is_byte r" "is_byte g" "is_byte b"
  shows "near (of_int (1280000 - 1687 * r - 3313 * g + 5000 * b) / of_int 10000) (ycbcr_cb r g b) 10000"
proof -
  note byte = assms [THEN byte_rat(1)] assms [THEN byte_rat(2)]
  have "near (- (of_int 1687 / of_int 10000) * of_int r) (flt_mul (flt_neg (flt_ratio 1687 10000)) (flt_of_int r)) 1000"
    using assms(1) by (intro near_mul near_neg near_lit) (simp_all add: is_byte_def)
  then have "near (- (of_int 1687 / of_int 10000) * of_int r - of_int 3313 / of_int 10000 * of_int g
      + of_int 5 / of_int 10 * of_int b + 128) (ycbcr_cb r g b) (1000 + 1000 + 514 + 1000 + 514 + 0 + 514)"
    unfolding ycbcr_cb_def using assms byte by (intro near_add near_sub near_scaled near_128) (simp_all add: abs_le_iff)
  then show ?thesis by (rule near_widen) (simp_all add: add_divide_distrib diff_divide_distrib)
qed

lemma near_cr:
  assumes "is_byte r" "is_byte g" "is_byte b"
  shows "near (of_int (1280000 + 5000 * r - 4187 * g - 813 * b) / of_int 10000) (ycbcr_cr r g b) 10000"
proof -
  note byte = assms [THEN byte_rat(1)] assms [THEN byte_rat(2)]
  have "near (of_int 5 / of_int 10 * of_int r - of_int 4187 / of_int 10000 * of_int g
      - of_int 813 / of_int 10000 * of_int b + 128) (ycbcr_cr r g b) (1000 + 1000 + 514 + 1000 + 514 + 0 + 514)"
    unfolding ycbcr_cr_def using assms byte by (intro near_add near_sub near_scaled near_128) (simp_all add: abs_le_iff)
  then show ?thesis by (rule near_widen) (simp_all add: add_divide_distrib diff_divide_distrib)
qed

text \<open>
  The conversion of a colour of three bytes, in exact arithmetic: thousandths for the luma and
  ten-thousandths for the two differences, rounded down; binary rounding lowers a component by one
  at most, and only if its exact value is an integer.
\<close>

lemma rgb2ycbcr_exact:
  assumes "is_byte r" "is_byte g" "is_byte b" "rgb2ycbcr r g b = (y, cb, cr)"
  shows "floor_or_below (299 * r + 587 * g + 114 * b) 1000 y
       \<and> floor_or_below (1280000 - 1687 * r - 3313 * g + 5000 * b) 10000 cb
       \<and> floor_or_below (1280000 + 5000 * r - 4187 * g - 813 * b) 10000 cr"
proof -
  have "y = int_of_flt (ycbcr_y r g b)" "cb = int_of_flt (ycbcr_cb r g b)" "cr = int_of_flt (ycbcr_cr r g b)"
    using assms(4) by (simp_all add: rgb2ycbcr_def)
  moreover have "floor_or_below (299 * r + 587 * g + 114 * b) 1000 (int_of_flt (ycbcr_y r g b))"
    using assms(1-3) by (intro int_near near_y) (simp_all add: is_byte_def)
  moreover have "floor_or_below (1280000 - 1687 * r - 3313 * g + 5000 * b) 10000 (int_of_flt (ycbcr_cb r g b))"
    using assms(1-3) by (intro int_near near_cb) (simp_all add: is_byte_def)
  moreover have "floor_or_below (1280000 + 5000 * r - 4187 * g - 813 * b) 10000 (int_of_flt (ycbcr_cr r g b))"
    using assms(1-3) by (intro int_near near_cr) (simp_all add: is_byte_def)
  ultimately show ?thesis by blast
qed

lemma floor_or_below_byte:
  assumes "floor_or_below n d k" "0 < d" "0 \<le> n" "n < 256 * d"
  shows "is_byte k"
proof -
  have "n div d * d \<le> n" using assms(2) minus_mod_eq_div_mult [of n d] pos_mod_sign [of d n] by linarith
  then have "n div d * d < 256 * d" using assms(4) by linarith
  then have "n div d < 256" using assms(2) by simp
  moreover have "0 \<le> n div d" using assms(2,3) by (simp add: pos_imp_zdiv_nonneg_iff)
  moreover have "0 < n div d" if "0 < n" "d dvd n"
    using that assms(2) by (auto elim!: dvdE simp: zero_less_mult_iff)
  ultimately show ?thesis using assms(1) by (auto simp: floor_or_below_def is_byte_def)
qed

lemma rgb2ycbcr_bytes:
  assumes "is_byte r" "is_byte g" "is_byte b" "rgb2ycbcr r g b = (y, cb, cr)"
  shows "is_byte y" "is_byte cb" "is_byte cr"
proof -
  note f = rgb2ycbcr_exact [OF assms]
  show "is_byte y" using assms(1-3) f by (elim conjE floor_or_below_byte) (simp_all add: is_byte_def)
  show "is_byte cb" using assms(1-3) f by (elim conjE, elim floor_or_below_byte) (simp_all add: is_byte_def)
  show "is_byte cr" using assms(1-3) f by (elim conjE, elim floor_or_below_byte) (simp_all add: is_byte_def)
qed

section \<open>Packing\<close>

lemma or_push_bit:
  fixes a b :: int
  assumes "0 \<le> a" "a < 2 ^ n"
  shows "a OR push_bit n b = a + b * 2 ^ n"
proof -
  have "a AND push_bit n b = 0"
  proof (rule bit_eqI)
    fix k
    show "bit (a AND push_bit n b) k = bit 0 k"
    proof (cases "k < n")
      case False
      then have "\<not> bit a k" using assms
        by (metis (no_types, lifting) bit_take_bit_iff take_bit_int_eq_self)
      then show ?thesis by (simp add: bit_simps)
    qed (simp add: bit_simps)
  qed
  then show ?thesis using disjunctive_add_eq_or [of a "push_bit n b"] by (simp add: push_bit_eq_mult)
qed

lemma ycbcr_pack_sum:
  assumes "is_byte y" "is_byte cb" "is_byte cr"
  shows "ycbcr_pack y cb cr = y + 0x100 * cr + 0x10000 * y + 0x1000000 * cb"
proof -
  have "y OR push_bit 8 cr = y + 0x100 * cr"
    using or_push_bit [of y 8 cr] assms by (simp add: is_byte_def)
  moreover have "(y + 0x100 * cr) OR push_bit 16 y = y + 0x100 * cr + 0x10000 * y"
    using or_push_bit [of "y + 0x100 * cr" 16 y] assms by (simp add: is_byte_def)
  moreover have "(y + 0x100 * cr + 0x10000 * y) OR push_bit 24 cb = y + 0x100 * cr + 0x10000 * y + 0x1000000 * cb"
    using or_push_bit [of "y + 0x100 * cr + 0x10000 * y" 24 cb] assms by (simp add: is_byte_def)
  ultimately show ?thesis by (simp add: ycbcr_pack_def Let_def)
qed

text \<open>The four bytes of a word, lowest first.\<close>

definition word_bytes :: "int \<Rightarrow> int list" where
  "word_bytes v = [v mod 0x100, v div 0x100 mod 0x100, v div 0x10000 mod 0x100, v div 0x1000000]"

lemma byte_digit:
  assumes "is_byte a"
  shows "(a + 0x100 * x) mod 0x100 = a" "(a + 0x100 * x) div 0x100 = x"
  using assms by (simp_all add: is_byte_def)

lemma word_bytes_step:
  "word_bytes v = [v mod 0x100, v div 0x100 mod 0x100, v div 0x100 div 0x100 mod 0x100,
     v div 0x100 div 0x100 div 0x100]"
  by (simp add: word_bytes_def zdiv_zmult2_eq [symmetric])

lemma word_bytes_sum:
  assumes "is_byte a" "is_byte b" "is_byte c"
  shows "word_bytes (a + 0x100 * b + 0x10000 * c + 0x1000000 * d) = [a, b, c, d]"
proof -
  have v: "a + 0x100 * b + 0x10000 * c + 0x1000000 * d = a + 0x100 * (b + 0x100 * (c + 0x100 * d))" by simp
  show ?thesis
    unfolding v word_bytes_step byte_digit [OF assms(1)] byte_digit [OF assms(2)] byte_digit [OF assms(3)] ..
qed

text \<open>
  C33 (colour conversion): a colour of three bytes becomes a word of four bytes: the luma twice, with
  the red difference between and the blue difference on top.  Each component is the exact one
  (thousandths for the luma, ten-thousandths for the differences) rounded down; binary rounding
  lowers it by one at most, and only if the exact value is an integer.
\<close>

theorem colour_word:
  assumes "is_byte r" "is_byte g" "is_byte b" "rgb2ycbcr r g b = (y, cb, cr)"
  shows "word_bytes (ycbcr_pack y cb cr) = [y, cr, y, cb] \<and> is_byte y \<and> is_byte cb \<and> is_byte cr
       \<and> floor_or_below (299 * r + 587 * g + 114 * b) 1000 y
       \<and> floor_or_below (1280000 - 1687 * r - 3313 * g + 5000 * b) 10000 cb
       \<and> floor_or_below (1280000 + 5000 * r - 4187 * g - 813 * b) 10000 cr"
proof -
  note bytes = rgb2ycbcr_bytes [OF assms]
  have "word_bytes (ycbcr_pack y cb cr) = [y, cr, y, cb]"
    unfolding ycbcr_pack_sum [OF bytes] by (rule word_bytes_sum [OF bytes(1,3,1)])
  with rgb2ycbcr_exact [OF assms] bytes show ?thesis by blast
qed

theorem colour_word_witness:
  "rgb2ycbcr 255 0 255 = (105, 212, 234) \<and> word_bytes (ycbcr_pack 105 212 234) = [105, 234, 105, 212]"
proof -
  have "is_byte 255" "is_byte 0" by (simp_all add: is_byte_def)
  moreover have c: "rgb2ycbcr 255 0 255 = (105, 212, 234)" by code_simp
  ultimately show ?thesis using colour_word [of 255 0 255 105 212 234] by simp
qed

text \<open>
  The words that the script prints.  The header of the firmware has other words for three bars: the
  red difference of purple is e9 there and not ea, that of blue 6f and not 6b, and the luma of black
  is 16 and not 0.
\<close>

lemma color_bar_values_eq:
  "color_bar_values =
     [0x80ff80ff, 0x00e194e1, 0xabb200b2, 0x2b951595, 0xd469ea69, 0x544cff4c, 0xff1d6b1d, 0x80008000]"
  by code_simp

theorem color_bar_words:
  "pattern_main = map fmt_08x
     [0x80ff80ff, 0x00e194e1, 0xabb200b2, 0x2b951595, 0xd469ea69, 0x544cff4c, 0xff1d6b1d, 0x80008000]"
  by (simp add: pattern_main_def color_bar_values_eq)

theorem pattern_h_differs:
  "filter (\<lambda>(v, h). v \<noteq> h) (zip color_bar_values pattern_h) =
     [(0xd469ea69, 0xd469e969), (0xff1d6b1d, 0xff1d6f1d), (0x80008000, 0x80108010)]"
  by (simp add: color_bar_values_eq pattern_h_def)

end
