(* ===== verification/Clock_Units.thy ===== *)
theory Clock_Units
  imports Py_Float Sub_Types "HOL-Library.Product_Lexorder"
begin

text \<open>
  The rest of \<open>targets/utils.py\<close>: the period of a frequency, the check of the parameters of a PLL, the
  unit \<open>MHz\<close> (class \<open>MHzType\<close>, an integer of hertz whose products and texts go through floats) and
  the variant of the slot allocation that prints.  Shown: multiples of \<open>MHz\<close> are exact as long as
  they have 53 bits, and the check of a PLL compares whole megahertz.
\<close>

section \<open>Definitions\<close>

text \<open>A number: an integer or a float.\<close>

datatype py_num = PInt int | PFlt py_float

definition num_float :: "py_num \<Rightarrow> py_float" where
  "num_float x = (case x of PInt n \<Rightarrow> flt_of_int n | PFlt f \<Rightarrow> f)"

text \<open>The literals \<open>1e6\<close> and \<open>1e9\<close>, and division by the first, which is not zero.\<close>

definition flt_1e6 :: py_float where
  "flt_1e6 = flt_of_int (10 ^ 6)"

definition flt_1e9 :: py_float where
  "flt_1e9 = flt_of_int (10 ^ 9)"

definition per_mega :: "py_float \<Rightarrow> py_float" where
  "per_mega x = (case flt_div x flt_1e6 of Inl e \<Rightarrow> x | Inr y \<Rightarrow> y)"

definition flt_period_ns :: "py_num \<Rightarrow> py_float py_result" where
  "flt_period_ns freq = flt_div flt_1e9 (num_float freq)"

text \<open>The quotient of two integers is rounded once.\<close>

definition int_truediv :: "int \<Rightarrow> int \<Rightarrow> py_float py_result" where
  "int_truediv a b = (if b = 0 then Inl ZeroDivisionError else Inr (flt_ratio (sgn b * a) \<bar>b\<bar>))"

definition assert_pll_clock :: "int \<Rightarrow> int \<Rightarrow> int \<Rightarrow> int \<Rightarrow> unit py_result" where
  "assert_pll_clock requested_freq inp feedback div_by =
     py_bind (int_truediv (inp * feedback) div_by) (\<lambda>x.
       (let output_freq = int_of_flt (per_mega x)
        in py_assert (output_freq = int_of_flt (per_mega (flt_of_int requested_freq)))))"

definition mhz_new :: "py_num \<Rightarrow> int" where
  "mhz_new x = int_of_flt (flt_mul (num_float x) flt_1e6)"

definition mhz_mul :: "int \<Rightarrow> py_num \<Rightarrow> int" where
  "mhz_mul self ot = mhz_new (PFlt (per_mega (flt_mul (flt_of_int self) (num_float ot))))"

definition mhz_to_ns :: "int \<Rightarrow> py_float py_result" where
  "mhz_to_ns self = flt_div flt_1e9 (flt_of_int self)"

definition MHz :: int where
  "MHz = mhz_new (PInt 1)"

text \<open>The formats \<open>%i\<close> of an integer and \<open>%f\<close> of a float (six decimals, from the exact value).\<close>

definition fmt_i :: "int \<Rightarrow> string" where
  "fmt_i n = (if n < 0 then ''-'' else []) @ py_str (nat \<bar>n\<bar>)"

definition fmt_f :: "py_float \<Rightarrow> string" where
  "fmt_f x =
     (case x of Flt m e \<Rightarrow>
        let k = round_div (\<bar>m\<bar> * pow2 e * 10 ^ 6) (pow2 (- e)); frac = py_str (nat (k mod 10 ^ 6))
        in (if m < 0 then ''-'' else []) @ py_str (nat (k div 10 ^ 6)) @ ''.''
           @ replicate (6 - length frac) CHR ''0'' @ frac)"

definition mhz_str :: "int \<Rightarrow> string" where
  "mhz_str self = fmt_i (int_of_flt (per_mega (flt_of_int self))) @ '' MHz''"

definition mhz_repr :: "int \<Rightarrow> string" where
  "mhz_repr self = fmt_f (per_mega (flt_of_int self)) @ '' * MHz()''"

text \<open>
  \<open>csr_map_update_print\<close>: the new map, and what it prints, the largest slot before and after and the
  slots in order.  Unlike \<open>csr_map_update\<close> it fails on an empty map.
\<close>

record csr_report =
  previous_max :: nat
  new_max :: nat
  csr_values :: "(nat \<times> string) list"

definition max_value :: "csr_map \<Rightarrow> nat py_result" where
  "max_value m = (if m = [] then Inl ValueError else Inr (fold max (dict_values m) 0))"

definition csr_map_update_print :: "csr_map \<Rightarrow> string list \<Rightarrow> (csr_map \<times> csr_report) py_result" where
  "csr_map_update_print m csr_peripherals =
     py_bind (max_value m) (\<lambda>previous.
       (let s = previous + 1; 
            m = dict_update m (dict_of (zip csr_peripherals [s..<s + length csr_peripherals]))
        in py_bind (max_value m) (\<lambda>new.
             Inr (m, \<lparr>previous_max = previous, new_max = new, csr_values = sort (map (\<lambda>(a, b). (b, a)) m)\<rparr>))))"

section \<open>Megahertz\<close>

lemma flt_val_1e6 [simp]: "flt_val flt_1e6 = 10 ^ 6"
  using flt_of_int_exact [of "10 ^ 6"] by (simp add: flt_1e6_def)

lemma per_mega_div: "flt_div x flt_1e6 = Inr (per_mega x)"
proof -
  have "flt_val flt_1e6 \<noteq> 0" by simp
  from flt_div_ratio [OF this, of x] show ?thesis by (auto simp: per_mega_def)
qed

lemma per_mega_exact:
  assumes "flt_val x = of_int (10 ^ 6 * n)" "\<bar>n\<bar> < 2 ^ 53"
  shows "flt_val (per_mega x) = of_int n"
proof -
  have "flt_val x / flt_val flt_1e6 = of_int n" using assms(1) by simp
  from flt_div_exact [OF _ this assms(2)] show ?thesis by (auto simp: per_mega_div)
qed

lemma int_of_flt_exact: "flt_val x = of_int n \<Longrightarrow> int_of_flt x = n"
  using int_of_flt_floor [of x] int_of_flt_floor [of "flt_neg x"] int_of_flt_neg [of x]
  by (cases "0 \<le> n") auto

lemma mhz_new_exact:
  assumes "flt_val (num_float x) = of_int n" "\<bar>10 ^ 6 * n\<bar> < 2 ^ 53"
  shows "mhz_new x = 10 ^ 6 * n"
proof -
  have "flt_val (num_float x) * flt_val flt_1e6 = of_int (10 ^ 6 * n)" using assms(1) by simp
  from flt_mul_exact [OF this assms(2)] show ?thesis unfolding mhz_new_def by (rule int_of_flt_exact)
qed

text \<open>
  An integer times a frequency of whole megahertz is exact, and so is
  its text, as long as the result in hertz has 53 bits.
\<close>

theorem mhz_multiples:
  assumes "\<bar>10 ^ 6 * (k * n)\<bar> < 2 ^ 53" "\<bar>n\<bar> < 2 ^ 53" "\<bar>10 ^ 6 * k\<bar> < 2 ^ 53"
  shows "mhz_mul (10 ^ 6 * k) (PInt n) = 10 ^ 6 * (k * n) \<and> mhz_str (10 ^ 6 * k) = fmt_i k @ '' MHz''"
proof -
  have "flt_val (flt_of_int (10 ^ 6 * k)) * flt_val (num_float (PInt n)) = of_int (10 ^ 6 * (k * n))"
    using assms(2,3) by (simp add: num_float_def flt_of_int_exact)
  from flt_mul_exact [OF this assms(1)]
  have "flt_val (per_mega (flt_mul (flt_of_int (10 ^ 6 * k)) (num_float (PInt n)))) = of_int (k * n)"
    using assms(1) by (intro per_mega_exact) simp_all
  then have "mhz_mul (10 ^ 6 * k) (PInt n) = 10 ^ 6 * (k * n)"
    using assms(1) unfolding mhz_mul_def by (intro mhz_new_exact) (simp_all add: num_float_def)
  moreover have "int_of_flt (per_mega (flt_of_int (10 ^ 6 * k))) = k"
    using assms(3) by (intro int_of_flt_exact per_mega_exact flt_of_int_exact) simp_all
  ultimately show ?thesis by (simp add: mhz_str_def)
qed

theorem mhz_multiples_witness: "mhz_mul (10 ^ 6) (PInt 200) = 200000000"
  using mhz_multiples [of 1 200] by simp

text \<open>The doctest of the class expects a thousand times as much and another text.\<close>

lemma mhz_doctest: "MHz = 10 ^ 6" "mhz_repr MHz = ''1.000000 * MHz()''"
  by code_simp+

text \<open>
  The period in floating point is within half a unit in the last place of the exact one, which the
  systems are described with (\<open>period_ns\<close>).
\<close>

theorem flt_period_ns_near:
  assumes "flt_val (num_float freq) \<noteq> 0"
  shows "\<exists>p. flt_period_ns freq = Inr p \<and>
    \<bar>flt_val p - period_ns (flt_val (num_float freq))\<bar> \<le> \<bar>period_ns (flt_val (num_float freq))\<bar> * unit_err + tiny_err"
proof -
  have "flt_val flt_1e9 = 10 ^ 9" using flt_of_int_exact [of "10 ^ 9"] by (simp add: flt_1e9_def)
  then have q: "flt_val flt_1e9 / flt_val (num_float freq) = period_ns (flt_val (num_float freq))"
    by (simp add: period_ns_def)
  obtain a b where ab: "0 < b" "flt_div flt_1e9 (num_float freq) = Inr (flt_ratio a b)"
      "of_int a / of_int b = period_ns (flt_val (num_float freq))"
    using flt_div_ratio [OF assms, of flt_1e9] unfolding q by blast
  from flt_ratio_near [OF ab(1), of a] ab(2) show ?thesis unfolding ab(3) by (simp add: flt_period_ns_def)
qed

section \<open>The check of a PLL\<close>

lemma per_mega_floor:
  assumes "flt_val x = of_int n" "0 \<le> n" "n < 2 ^ 50"
  shows "int_of_flt (per_mega x) = n div 10 ^ 6"
proof (cases "n mod 10 ^ 6 = 0")
  case True
  then have n: "n = 10 ^ 6 * (n div 10 ^ 6)" by (metis add.right_neutral mult_div_mod_eq)
  have "n div 10 ^ 6 \<le> n" using assms(2) by (rule zdiv_mono2 [of n 1, simplified]) simp
  then have "flt_val (per_mega x) = of_int (n div 10 ^ 6)"
    using assms n by (intro per_mega_exact) (simp_all add: pos_imp_zdiv_nonneg_iff)
  then show ?thesis by (rule int_of_flt_exact)
next
  case False
  let ?q = "n div 10 ^ 6" and ?x = "of_int n / 10 ^ 6 :: rat"
  obtain a b where ab: "0 < b" "per_mega x = flt_ratio a b" "of_int a / of_int b = ?x"
    using flt_div_ratio [of flt_1e6 x] by (auto simp: per_mega_div assms(1))
  have u: "?x * unit_err + tiny_err < 1 / 10 ^ 6"
  proof -
    have "?x \<le> 2 ^ 50 / 10 ^ 6" using assms(3) of_int_less_iff [of n "2 ^ 50", where ?'a = rat] by simp
    from mult_right_mono [OF this err_pos(1)] show ?thesis by (simp add: unit_err_def tiny_err_def)
  qed
  have "0 \<le> ?x" using assms(2) by simp
  with flt_ratio_near [OF ab(1), of a] u have near: "\<bar>flt_val (per_mega x) - ?x\<bar> < 1 / 10 ^ 6"
    unfolding ab(2,3) by simp
  have "0 \<le> n mod 10 ^ 6" "n mod 10 ^ 6 < 10 ^ 6" by simp_all
  with False have "1 \<le> n mod 10 ^ 6" "n mod 10 ^ 6 \<le> 10 ^ 6 - 1" by linarith+
  then have "10 ^ 6 * ?q + 1 \<le> n" "n + 1 \<le> 10 ^ 6 * (?q + 1)"
    using mult_div_mod_eq [of "10 ^ 6" n] unfolding distrib_left by linarith+
  then have "(of_int (10 ^ 6 * ?q + 1) :: rat) \<le> of_int n" "(of_int (n + 1) :: rat) \<le> of_int (10 ^ 6 * (?q + 1))"
    by (simp_all only: of_int_le_iff)
  then have "of_int ?q + 1 / 10 ^ 6 \<le> ?x" "?x + 1 / 10 ^ 6 \<le> of_int ?q + 1" by (simp_all add: field_simps)
  with near have f: "of_int ?q \<le> flt_val (per_mega x)" "flt_val (per_mega x) < of_int ?q + 1" by linarith+
  moreover have "0 \<le> ?q" using assms(2) by simp
  ultimately have "0 \<le> flt_val (per_mega x)" by (meson of_int_0_le_iff order_trans)
  with f show ?thesis by (simp add: int_of_flt_floor floor_eq_iff)
qed

text \<open>
  A PLL whose output is \<open>p\<close> hertz passes the check exactly if the
  requested frequency has the same number of whole megahertz.
\<close>

theorem assert_pll_clock_iff:
  assumes "0 < div_by" "inp * feedback = p * div_by" "0 \<le> p" "p < 2 ^ 50" "0 \<le> requested" "requested < 2 ^ 50"
  shows "assert_pll_clock requested inp feedback div_by = Inr () \<longleftrightarrow> p div 10 ^ 6 = requested div 10 ^ 6"
proof -
  have "flt_val (flt_ratio (p * div_by) div_by) = of_int p" using assms(1,3,4) by (intro flt_ratio_int) simp_all
  then have "int_of_flt (per_mega (flt_ratio (p * div_by) div_by)) = p div 10 ^ 6"
    using assms(3,4) by (intro per_mega_floor)
  moreover have "int_of_flt (per_mega (flt_of_int requested)) = requested div 10 ^ 6"
    using assms(5,6) by (intro per_mega_floor flt_of_int_exact) simp_all
  ultimately show ?thesis
    using assms(1) by (simp add: assert_pll_clock_def int_truediv_def assms(2) py_assert_def)
qed

theorem assert_pll_clock_iff_witness:
  "assert_pll_clock 83333333 50000000 20 10 = Inr () \<longleftrightarrow> (100000000 :: int) div 10 ^ 6 = 83333333 div 10 ^ 6"
  using assert_pll_clock_iff [of 10 50000000 20 100000000 83333333] by simp

section \<open>The allocation that prints\<close>

theorem csr_map_update_print_eq:
  "csr_map_update_print m ps =
     (if m = [] then Inl ValueError
      else Inr (csr_map_update m ps,
                \<lparr>previous_max = csr_start m - 1, new_max = csr_start (csr_map_update m ps) - 1,
                 csr_values = sort (map (\<lambda>(a, b). (b, a)) (csr_map_update m ps))\<rparr>))"
proof (cases "m = []")
  case False
  then have "dict_update m e \<noteq> []" for e :: csr_map
    using set_dict_keys_update [of m e] by auto
  then have "csr_map_update m ps \<noteq> []" unfolding csr_map_update_def Let_def .
  with False show ?thesis
    by (simp add: csr_map_update_print_def max_value_def csr_map_update_def csr_start_def Let_def)
qed (simp add: csr_map_update_print_def max_value_def)

end
