(* ===== verification/Prebuilt_Publish.thy ===== *)
theory Prebuilt_Publish
  imports Prebuilt
begin

text \<open>
  The second half of \<open>.travis/generate-prebuilt-list.py\<close>: the working copy of the pages, as a tree of
  directories, into which the script writes its files, the list of checksums of all files, and the
  commit.  Shown: the list has every file outside hidden directories and no other, the files that the
  script has just written among them, and a commit is made exactly if \<open>svn status\<close> has more or less
  to say than one line.
\<close>

section \<open>Trees of files\<close>

datatype dir_tree = Dir_Tree (tree_files: "string list") (tree_dirs: "(string \<times> dir_tree) list")

text \<open>Opening a file for writing and \<open>os.makedirs(..., exist_ok=True)\<close>, on the components of a relative path.\<close>

fun put_file :: "string list \<Rightarrow> dir_tree \<Rightarrow> dir_tree py_result" where
  "put_file [] t = Inl IsADirectoryError"
| "put_file [f] (Dir_Tree fs ds) =
     (if map_of ds f \<noteq> None then Inl IsADirectoryError else Inr (Dir_Tree (List.insert f fs) ds))"
| "put_file (d # e # cs) (Dir_Tree fs ds) =
     (case map_of ds d of
        None \<Rightarrow> Inl (if d \<in> set fs then NotADirectoryError else FileNotFoundError)
      | Some t \<Rightarrow> py_bind (put_file (e # cs) t) (\<lambda>t'. Inr (Dir_Tree fs (AList.update d t' ds))))"

fun make_dirs :: "string list \<Rightarrow> dir_tree \<Rightarrow> dir_tree py_result" where
  "make_dirs [] t = Inr t"
| "make_dirs (d # cs) (Dir_Tree fs ds) =
     (if d \<in> set fs then Inl (if cs = [] then FileExistsError else NotADirectoryError)
      else py_bind (make_dirs cs (case map_of ds d of None \<Rightarrow> Dir_Tree [] [] | Some t \<Rightarrow> t))
        (\<lambda>t'. Inr (Dir_Tree fs (AList.update d t' ds))))"

definition path_comps :: "string \<Rightarrow> string list" where
  "path_comps p = filter (\<lambda>c. c \<noteq> [] \<and> c \<noteq> ''.'') (split_char CHR ''/'' p [])"

section \<open>The files that the script writes\<close>

definition pre_base_url :: "prebuilt_args \<Rightarrow> string" where
  "pre_base_url a = ''https://github.com/'' @ pb_owner a @ ''/'' @ pb_repo a @ ''/branches/gh-pages''"

definition out_dir :: "prebuilt_args \<Rightarrow> string" where
  "out_dir a = path_joins (pb_full_platform a) [pb_target a, pb_full_cpu a]"

fun put_files :: "string list \<Rightarrow> dir_tree \<Rightarrow> dir_tree py_result" where
  "put_files [] t = Inr t"
| "put_files (p # ps) t = py_bind (put_file (path_comps p) t) (put_files ps)"

definition output_paths :: "prebuilt_args \<Rightarrow> prebuilt_files \<Rightarrow> string list" where
  "output_paths a files =
     path_join (out_dir a) ''channels.txt'' # map (\<lambda>f. path_join (out_dir a) (fst f)) (pf_sums files)"

definition write_outputs :: "prebuilt_args \<Rightarrow> prebuilt_files \<Rightarrow> dir_tree \<Rightarrow> dir_tree py_result" where
  "write_outputs a files t =
     py_bind (put_file [''revs.txt''] t) (\<lambda>t.
     py_bind (make_dirs (path_comps (out_dir a)) t) (\<lambda>t.
     put_files (output_paths a files) t))"

section \<open>Checksums and commit\<close>

text \<open>\<open>os.walk('.')\<close>, with the hidden directories taken out of the list that it descends into.\<close>

lemma size_subtree: "(d, t) \<in> set ds \<Longrightarrow> size t < size (Dir_Tree fs ds)"
  by (induction ds) auto

function walk_files :: "string \<Rightarrow> dir_tree \<Rightarrow> string list" where
  "walk_files root (Dir_Tree fs ds) =
     map (path_join root) (filter (\<lambda>f. f \<noteq> ''index.txt'') fs) @
     concat (map (\<lambda>(d, t). if startswith d ''.'' then [] else walk_files (path_join root d) t) ds)"
  by pat_completeness auto
termination
  by (relation "measure (\<lambda>(root, t). size t)", simp, simp del: dir_tree.size, metis size_subtree)

definition all_files :: "dir_tree \<Rightarrow> string list" where
  "all_files t = sort (walk_files ''.'' t)"

definition call_command :: "command \<Rightarrow> string list \<Rightarrow> string py_result" where
  "call_command cmd ws = (case cmd ws of None \<Rightarrow> Inl CalledProcessError | Some out \<Rightarrow> Inr out)"

record published =
  pu_index :: string
  pu_commit :: "(string list \<times> string) option"

definition commit_message :: "string option \<Rightarrow> string" where
  "commit_message build =
     ''Updating channels (in Travis build '' @ (case build of None \<Rightarrow> ''None'' | Some b \<Rightarrow> b) @ '')'' @ [CHR 0x0A]"

definition commit_changes ::
  "command \<Rightarrow> prebuilt_args \<Rightarrow> string option \<Rightarrow> string \<Rightarrow> string \<Rightarrow> string \<Rightarrow> published py_result" where
  "commit_changes cmd a build tmpfile index changes =
     (if length (split_lines changes []) = 1 then Inr \<lparr>pu_index = index, pu_commit = None\<rparr>
      else let commit = split_space (''svn commit '' @ svn_args a @ '' --file '' @ tmpfile) [] in
        py_bind (call_command cmd commit) (\<lambda>u.
        Inr \<lparr>pu_index = index, pu_commit = Some (commit, commit_message build)\<rparr>))"

definition publish ::
  "command \<Rightarrow> prebuilt_args \<Rightarrow> string option \<Rightarrow> string \<Rightarrow> dir_tree \<Rightarrow> published py_result" where
  "publish cmd a build tmpfile t =
     (let files = all_files t in
     py_bind (call_command cmd (''sha256sum'' # files)) (\<lambda>index.
     py_bind (call_command cmd ([''svn'', ''add'', ''--parents'', ''--force''] @ files)) (\<lambda>u.
     py_bind (call_command cmd [''svn'', ''add'', ''--parents'', ''--force'', ''index.txt'']) (\<lambda>u.
     py_bind (call_command cmd (split_space ''svn status -u --depth infinity'' [])) (\<lambda>changes.
     py_bind (call_command cmd (split_space ''svn diff .'' [])) (\<lambda>u.
     commit_changes cmd a build tmpfile index changes))))))"

text \<open>
  The whole script: the files are computed, the pages are checked out unless they are there already,
  and the files are written and published.
\<close>

definition checkout :: "command \<Rightarrow> prebuilt_args \<Rightarrow> dir_tree option \<Rightarrow> dir_tree \<Rightarrow> dir_tree py_result" where
  "checkout cmd a there fresh =
     (case there of
        Some t \<Rightarrow> Inr t
      | None \<Rightarrow>
          py_bind (call_command cmd (split_space (''svn checkout '' @ svn_args a @ '' -q '' @ pre_base_url a) []))
            (\<lambda>u. Inr fresh))"

definition prebuilt_script ::
  "command \<Rightarrow> string list list \<Rightarrow> prebuilt_args \<Rightarrow> string option \<Rightarrow> string \<Rightarrow> dir_tree option \<Rightarrow> dir_tree
     \<Rightarrow> (prebuilt_files \<times> dir_tree \<times> published) py_result" where
  "prebuilt_script cmd rows a build tmpfile there fresh =
     py_bind (prebuilt_main cmd rows a) (\<lambda>files.
     py_bind (checkout cmd a there fresh) (\<lambda>t.
     py_bind (write_outputs a files t) (\<lambda>t.
     py_bind (publish cmd a build tmpfile t) (\<lambda>p.
     Inr (files, t, p)))))"

section \<open>What the walk finds\<close>

text \<open>The files of a tree, as the list of the directories above and the name.\<close>

inductive tree_file :: "dir_tree \<Rightarrow> string list \<Rightarrow> bool" where
  here: "f \<in> set fs \<Longrightarrow> tree_file (Dir_Tree fs ds) [f]"
| below: "(d, t) \<in> set ds \<Longrightarrow> tree_file t p \<Longrightarrow> tree_file (Dir_Tree fs ds) (d # p)"

inductive_simps tree_file_simps: "tree_file (Dir_Tree fs ds) p"

lemma tree_file_nonempty: "tree_file t p \<Longrightarrow> p \<noteq> []"
  by (induction rule: tree_file.induct) auto

definition in_index :: "string list \<Rightarrow> bool" where
  "in_index p \<longleftrightarrow> last p \<noteq> ''index.txt'' \<and> list_all (\<lambda>d. \<not> startswith d ''.'') (butlast p)"

lemma in_index_Cons: "p \<noteq> [] \<Longrightarrow> in_index (d # p) \<longleftrightarrow> \<not> startswith d ''.'' \<and> in_index p"
  by (auto simp: in_index_def)

lemma in_index_single: "in_index [f] \<longleftrightarrow> f \<noteq> ''index.txt''"
  by (simp add: in_index_def)

lemma walk_files_sound:
  "x \<in> set (walk_files root t) \<Longrightarrow> \<exists>p. tree_file t p \<and> in_index p \<and> x = path_joins root p"
proof (induction root t arbitrary: x rule: walk_files.induct)
  case (1 root fs ds)
  from "1.prems" consider f where "f \<in> set fs" "f \<noteq> ''index.txt''" "x = path_join root f"
    | d t where "(d, t) \<in> set ds" "\<not> startswith d ''.''" "x \<in> set (walk_files (path_join root d) t)"
    by (auto split: if_splits)
  then show ?case
  proof cases
    case 1
    then show ?thesis
      by (intro exI [of _ "[f]"]) (simp add: tree_file.here in_index_single)
  next
    case 2
    from "1.IH" [OF 2(1) refl 2(2,3)] obtain p where
      p: "tree_file t p" "in_index p" "x = path_joins (path_join root d) p" by blast
    with 2 tree_file_nonempty [OF p(1)] show ?thesis
      by (intro exI [of _ "d # p"]) (simp add: tree_file.below in_index_Cons)
  qed
qed

lemma walk_files_complete:
  "tree_file t p \<Longrightarrow> in_index p \<Longrightarrow> path_joins root p \<in> set (walk_files root t)"
proof (induction arbitrary: root rule: tree_file.induct)
  case (here f fs ds)
  then show ?case by (simp add: in_index_single)
next
  case (below d t ds p fs)
  then have "\<not> startswith d ''.''" "path_joins (path_join root d) p \<in> set (walk_files (path_join root d) t)"
    using tree_file_nonempty [OF below.hyps(2)] by (simp_all add: in_index_Cons)
  with below.hyps(1) show ?case by (auto intro!: bexI [of _ "(d, t)"])
qed

lemma walk_files_iff:
  "x \<in> set (walk_files root t) \<longleftrightarrow> (\<exists>p. tree_file t p \<and> in_index p \<and> x = path_joins root p)"
  using walk_files_sound walk_files_complete by blast

section \<open>Writing keeps what is there\<close>

lemma update_other:
  "(k, v) \<in> set ds \<Longrightarrow> (k, v) \<in> set (AList.update d t ds) \<or> k = d \<and> map_of ds d = Some v"
  by (induction ds) (auto split: if_splits)

lemma update_here: "(d, t) \<in> set (AList.update d t ds)"
  by (induction ds) auto

text \<open>Putting a subtree with at least as many files in the place of one keeps all files.\<close>

definition grows :: "dir_tree \<Rightarrow> dir_tree \<Rightarrow> bool" where
  "grows t t' \<longleftrightarrow> (\<forall>p. tree_file t p \<longrightarrow> tree_file t' p)"

lemma grows_refl [simp]: "grows t t"
  by (simp add: grows_def)

lemma grows_trans: "grows s t \<Longrightarrow> grows t u \<Longrightarrow> grows s u"
  by (simp add: grows_def)

lemma grows_subtree:
  assumes "map_of ds d = None \<or> map_of ds d = Some t \<and> grows t t'"
  shows "grows (Dir_Tree fs ds) (Dir_Tree fs (AList.update d t' ds))"
  unfolding grows_def
proof (intro allI impI)
  fix p assume "tree_file (Dir_Tree fs ds) p"
  then show "tree_file (Dir_Tree fs (AList.update d t' ds)) p"
  proof cases
    case (below k u q)
    from update_other [OF below(2), of d t'] show ?thesis
    proof
      assume "k = d \<and> map_of ds d = Some u"
      with assms below(3) have "tree_file t' q" by (auto simp: grows_def)
      with \<open>k = d \<and> map_of ds d = Some u\<close> show ?thesis
        unfolding below(1) by (auto intro: tree_file.below update_here)
    qed (auto simp: below(1) intro: tree_file.below below(3))
  qed (auto intro: tree_file.here)
qed

lemma put_file_grows: "put_file p t = Inr t' \<Longrightarrow> grows t t' \<and> tree_file t' p"
proof (induction p t arbitrary: t' rule: put_file.induct)
  case (2 f fs ds)
  then have t': "t' = Dir_Tree (List.insert f fs) ds" by (auto split: if_splits)
  show ?case unfolding t' by (auto simp add: grows_def tree_file_simps)
next
  case (3 d e cs fs ds)
  then obtain t t1 where t: "map_of ds d = Some t" "put_file (e # cs) t = Inr t1"
      "t' = Dir_Tree fs (AList.update d t1 ds)"
    by (auto split: option.splits elim: py_bindE)
  with "3.IH" have "grows t t1" "tree_file t1 (e # cs)" by blast+
  with t show ?case by (auto intro: grows_subtree tree_file.below update_here)
qed simp

lemma make_dirs_grows: "make_dirs p t = Inr t' \<Longrightarrow> grows t t'"
proof (induction p t arbitrary: t' rule: make_dirs.induct)
  case (2 d cs fs ds)
  let ?t = "case map_of ds d of None \<Rightarrow> Dir_Tree [] [] | Some t \<Rightarrow> t"
  from "2.prems" obtain t1 where t1: "make_dirs cs ?t = Inr t1" "t' = Dir_Tree fs (AList.update d t1 ds)" "d \<notin> set fs"
    by (auto split: if_splits elim: py_bindE)
  from "2.IH" [OF t1(3,1)] have "grows ?t t1" .
  then have "map_of ds d = None \<or> map_of ds d = Some ?t \<and> grows ?t t1" by (auto split: option.splits)
  then show ?case unfolding t1(2) by (rule grows_subtree)
qed simp

lemma put_files_grows:
  "put_files ps t = Inr t' \<Longrightarrow> grows t t' \<and> (\<forall>p \<in> set ps. tree_file t' (path_comps p))"
proof (induction ps arbitrary: t)
  case (Cons p ps)
  then obtain t1 where "put_file (path_comps p) t = Inr t1" "put_files ps t1 = Inr t'" by (auto elim: py_bindE)
  with put_file_grows Cons.IH show ?case by (fastforce simp: grows_def)
qed simp

lemma write_outputs_grows:
  assumes "write_outputs a files t = Inr t'"
  shows "grows t t' \<and> tree_file t' [''revs.txt''] \<and> (\<forall>p \<in> set (output_paths a files). tree_file t' (path_comps p))"
proof -
  from assms obtain t1 t2 where w: "put_file [''revs.txt''] t = Inr t1"
      "make_dirs (path_comps (out_dir a)) t1 = Inr t2" "put_files (output_paths a files) t2 = Inr t'"
    by (auto simp: write_outputs_def elim!: py_bindE)
  from put_file_grows [OF w(1)] make_dirs_grows [OF w(2)] put_files_grows [OF w(3)] show ?thesis
    by (auto simp: grows_def)
qed

section \<open>The index of checksums\<close>

lemma commit_changes_Inr:
  assumes "commit_changes cmd a build tmpfile index changes = Inr p"
  shows "pu_index p = index" "pu_commit p = None \<longleftrightarrow> length (split_lines changes []) = 1"
proof -
  define quiet where "quiet \<longleftrightarrow> length (split_lines changes []) = 1"
  define commit where "commit = split_space (''svn commit '' @ svn_args a @ '' --file '' @ tmpfile) []"
  have "(quiet \<and> p = \<lparr>pu_index = index, pu_commit = None\<rparr>)
      \<or> (\<not> quiet \<and> p = \<lparr>pu_index = index, pu_commit = Some (commit, commit_message build)\<rparr>)"
    using assms unfolding commit_changes_def Let_def quiet_def [symmetric] commit_def [symmetric]
    by (cases quiet) (auto simp add: py_bind_Inr_iff)
  then show "pu_index p = index" "pu_commit p = None \<longleftrightarrow> length (split_lines changes []) = 1"
    unfolding quiet_def [symmetric] by auto
qed

lemma publish_Inr:
  assumes "publish cmd a build tmpfile t = Inr p"
  shows "cmd (''sha256sum'' # all_files t) = Some (pu_index p)"
    and "\<exists>changes. cmd (split_space ''svn status -u --depth infinity'' []) = Some changes
       \<and> (pu_commit p = None \<longleftrightarrow> length (split_lines changes []) = 1)"
proof -
  define files status where "files = all_files t" and "status = split_space ''svn status -u --depth infinity'' []"
  have c: "cmd ws = Some out" if "call_command cmd ws = Inr out" for ws out
    using that by (simp add: call_command_def split: option.splits)
  from assms obtain index changes where
      i: "call_command cmd (''sha256sum'' # files) = Inr index" and s: "call_command cmd status = Inr changes" and
      p: "commit_changes cmd a build tmpfile index changes = Inr p"
    unfolding publish_def Let_def files_def [symmetric] status_def [symmetric] py_bind_Inr_iff
    by (elim exE conjE) (rule that)
  from c [OF i] c [OF s] commit_changes_Inr [OF p]
  have r: "cmd (''sha256sum'' # files) = Some (pu_index p)" "cmd status = Some changes"
    "pu_commit p = None \<longleftrightarrow> length (split_lines changes []) = 1" by (simp_all only:)
  show "cmd (''sha256sum'' # all_files t) = Some (pu_index p)"
    using r(1) unfolding files_def .
  show "\<exists>changes. cmd (split_space ''svn status -u --depth infinity'' []) = Some changes
       \<and> (pu_commit p = None \<longleftrightarrow> length (split_lines changes []) = 1)"
    using r(2,3) unfolding status_def by (intro exI conjI)
qed

text \<open>
  The checksums that the script publishes are those of the files that lie
  outside hidden directories and are not called \<open>index.txt\<close>, sorted.  No file of the working copy is
  lost, and the files of the index are in it.  A commit is made unless \<open>svn status\<close> has exactly one line.
\<close>

theorem prebuilt_index_of_files:
  assumes "prebuilt_script cmd rows a build tmpfile there fresh = Inr (files, t, p)"
  shows "cmd (''sha256sum'' # all_files t) = Some (pu_index p) \<and> sorted (all_files t)
    \<and> (\<forall>x. x \<in> set (all_files t) \<longleftrightarrow> (\<exists>q. tree_file t q \<and> in_index q \<and> x = path_joins ''.'' q))
    \<and> (\<forall>q. tree_file (case there of None \<Rightarrow> fresh | Some old \<Rightarrow> old) q \<longrightarrow> tree_file t q)
    \<and> tree_file t [''revs.txt''] \<and> (\<forall>f \<in> set (output_paths a files). tree_file t (path_comps f))
    \<and> (\<exists>changes. cmd (split_space ''svn status -u --depth infinity'' []) = Some changes
         \<and> (pu_commit p = None \<longleftrightarrow> length (split_lines changes []) = 1))"
proof -
  from assms obtain t0 where t0: "checkout cmd a there fresh = Inr t0" "write_outputs a files t0 = Inr t"
      "publish cmd a build tmpfile t = Inr p"
    by (auto simp: prebuilt_script_def elim!: py_bindE)
  have "t0 = (case there of None \<Rightarrow> fresh | Some old \<Rightarrow> old)"
    using t0(1) by (auto simp: checkout_def split: option.splits elim!: py_bindE)
  with write_outputs_grows [OF t0(2)] publish_Inr [OF t0(3)] show ?thesis
    by (simp add: all_files_def walk_files_iff grows_def)
qed

text \<open>A server with one revision, and a working copy with a file and a hidden directory.\<close>

definition small_server :: command where
  "small_server ws =
     (if take 2 ws = [''svn'', ''list''] then Some (''v1-2-g/'' @ [CHR 0x0A])
      else if take 2 ws = [''svn'', ''cat''] then Some ''ab ./x''
      else if take 2 ws = [''svn'', ''status''] then Some ''Status''
      else Some [])"

definition small_args :: prebuilt_args where
  "small_args = \<lparr>pb_repo = ''r'', pb_owner = ''o'', pb_branch = ''master'', pb_full_platform = ''p'', pb_target = ''t'',
     pb_full_cpu = ''c'', pb_gh_user = ''u'', pb_gh_token = ''k''\<rparr>"

definition small_copy :: dir_tree where
  "small_copy = Dir_Tree [''a''] [(''.svn'', Dir_Tree [''b''] [])]"

theorem prebuilt_index_of_files_witness:
  "\<exists>files t p. prebuilt_script small_server [] small_args None ''m'' (Some small_copy) small_copy = Inr (files, t, p)
     \<and> tree_file t [''revs.txt''] \<and> tree_file t [''p'', ''t'', ''c'', ''channels.txt''] \<and> tree_file t [''a'']"
proof -
  have "case prebuilt_script small_server [] small_args None ''m'' (Some small_copy) small_copy of
      Inl e \<Rightarrow> False | Inr r \<Rightarrow> True"
    by code_simp
  then obtain files t p where r: "prebuilt_script small_server [] small_args None ''m'' (Some small_copy) small_copy = Inr (files, t, p)"
    by (auto split: sum.splits)
  have "path_comps (path_join (out_dir small_args) ''channels.txt'') = [''p'', ''t'', ''c'', ''channels.txt'']"
    by code_simp
  moreover have "tree_file small_copy [''a'']" by (simp add: small_copy_def tree_file.here)
  ultimately show ?thesis
    using prebuilt_index_of_files [OF r] r by (auto simp: output_paths_def)
qed

end
