(* ===== verification/Toolchain_Archive.thy ===== *)
theory Toolchain_Archive
  imports Py_Strings "HOL-Library.List_Lexorder" "HOL-Library.Char_ord" "HOL-Library.Sublist"
begin

text \<open>
  The helpers that collect the files of the vendor's tool chain:
  \<open>.travis/package-xilinx-cluefs-filter.py\<close>, which reads the file accesses of a build from a CSV file
  and prints the paths of the tool chain among them, and \<open>.travis/copy-files.py\<close>, which copies the
  paths it reads below a directory.  \<open>.travis/package-xilinx-step2-create-tar.sh\<close> feeds the first into
  the second.  The file system is a map from paths (lists of components) to directories, files and
  symbolic links; paths are resolved as POSIX does.  Shown: the copy of a sorted list of paths ends
  without an error and has every path of the list, whatever was there is untouched, and the list of
  the filter is sorted.
\<close>

section \<open>Files, directories and links\<close>

datatype fs_node = Dir_node | File_node string | Link_node string

type_synonym fs_tree = "string list \<Rightarrow> fs_node option"

text \<open>
  Path resolution: the directory reached so far and the components that are left.  At most as many
  links are followed as the first argument says; the kernel allows forty.
\<close>

function walk_path :: "fs_tree \<Rightarrow> nat \<Rightarrow> string list \<Rightarrow> string list \<Rightarrow> string list option" where
  "walk_path fs n cur [] = Some cur"
| "walk_path fs n cur (c # cs) =
     (if fs cur \<noteq> Some Dir_node then None
      else if c = [] \<or> c = ''.'' then walk_path fs n cur cs
      else if c = ''..'' then walk_path fs n (butlast cur) cs
      else case fs (cur @ [c]) of
        None \<Rightarrow> None
      | Some (Link_node t) \<Rightarrow>
          (case n of
             0 \<Rightarrow> None
           | Suc m \<Rightarrow> walk_path fs m (if startswith t ''/'' then [] else cur) (split_char CHR ''/'' t [] @ cs))
      | Some _ \<Rightarrow> walk_path fs n (cur @ [c]) cs)"
  by pat_completeness auto
termination
  by (relation "measures [\<lambda>(fs, n, cur, cs). n, \<lambda>(fs, n, cur, cs). length cs]") auto

definition max_links :: nat where
  "max_links = 40"

text \<open>A relative path starts at the root, which stands for the working directory.\<close>

definition resolve :: "fs_tree \<Rightarrow> string \<Rightarrow> string list option" where
  "resolve fs p = (if p = [] then None else walk_path fs max_links [] (split_char CHR ''/'' p []))"

definition path_exists :: "fs_tree \<Rightarrow> string \<Rightarrow> bool" where
  "path_exists fs p = (resolve fs p \<noteq> None)"

definition path_isdir :: "fs_tree \<Rightarrow> string \<Rightarrow> bool" where
  "path_isdir fs p = (case resolve fs p of None \<Rightarrow> False | Some q \<Rightarrow> fs q = Some Dir_node)"

text \<open>The entry that a path names, without following a link at its end: its directory and its name.\<close>

definition entry_of :: "fs_tree \<Rightarrow> string \<Rightarrow> string list option" where
  "entry_of fs p =
     (let cs = split_char CHR ''/'' p [] in
      if p = [] \<or> last cs \<in> {[], ''.'', ''..''} then resolve fs p
      else case walk_path fs max_links [] (butlast cs) of
        None \<Rightarrow> None
      | Some q \<Rightarrow> if fs q = Some Dir_node then Some (q @ [last cs]) else None)"

definition mkdir :: "string \<Rightarrow> fs_tree \<Rightarrow> fs_tree py_result" where
  "mkdir p fs =
     (case entry_of fs (rstrip_slash p) of
        None \<Rightarrow> Inl FileNotFoundError
      | Some q \<Rightarrow> if fs q \<noteq> None then Inl FileExistsError else Inr (fs(q \<mapsto> Dir_node)))"

definition path_basename :: "string \<Rightarrow> string" where
  "path_basename p = rev (takeWhile (\<lambda>c. c \<noteq> CHR ''/'') (rev p))"

text \<open>\<open>os.makedirs\<close>: missing parents first; that another one has made the parent is not an error.\<close>

fun makedirs_at :: "nat \<Rightarrow> string \<Rightarrow> fs_tree \<Rightarrow> fs_tree py_result" where
  "makedirs_at 0 p fs = mkdir p fs"
| "makedirs_at (Suc n) p fs =
     (let head1 = path_dirname p; tail1 = path_basename p;
          head = (if tail1 = [] then path_dirname head1 else head1);
          tail = (if tail1 = [] then path_basename head1 else tail1)
      in py_bind
           (if head \<noteq> [] \<and> tail \<noteq> [] \<and> \<not> path_exists fs head then
              (case makedirs_at n head fs of Inl FileExistsError \<Rightarrow> Inr (fs, True) | Inl e \<Rightarrow> Inl e | Inr fs \<Rightarrow> Inr (fs, True))
            else Inr (fs, False))
           (\<lambda>(fs, made). if made \<and> tail = ''.'' then Inr fs else mkdir p fs))"

definition makedirs :: "string \<Rightarrow> fs_tree \<Rightarrow> fs_tree py_result" where
  "makedirs p fs = makedirs_at (length p) p fs"

text \<open>
  \<open>shutil.copy2(src, dst, follow_symlinks=False)\<close>: a link is made again, a file is copied.  Times and
  permissions are outside the model, and so is a broken link in the place of the copy.
\<close>

definition copy2 :: "string \<Rightarrow> string \<Rightarrow> fs_tree \<Rightarrow> fs_tree py_result" where
  "copy2 src dst fs =
     (let dst = (if path_isdir fs dst then path_join dst (path_basename src) else dst) in
      case entry_of fs src of
        None \<Rightarrow> Inl FileNotFoundError
      | Some s \<Rightarrow>
          (case fs s of
             Some (Link_node t) \<Rightarrow>
               (case entry_of fs dst of
                  None \<Rightarrow> Inl FileNotFoundError
                | Some q \<Rightarrow> if fs q \<noteq> None then Inl FileExistsError else Inr (fs(q \<mapsto> Link_node t)))
           | Some (File_node x) \<Rightarrow>
               (case resolve fs dst of
                  Some q \<Rightarrow> if q = s then Inl SameFileError
                            else if fs q = Some Dir_node then Inl IsADirectoryError else Inr (fs(q \<mapsto> File_node x))
                | None \<Rightarrow>
                    (case entry_of fs dst of
                       None \<Rightarrow> Inl FileNotFoundError
                     | Some q \<Rightarrow> if fs q = None then Inr (fs(q \<mapsto> File_node x)) else Inl FileNotFoundError))
           | Some Dir_node \<Rightarrow> Inl IsADirectoryError
           | None \<Rightarrow> Inl FileNotFoundError))"

section \<open>\<open>copy-files.py\<close>\<close>

definition real_path :: "string \<Rightarrow> string" where
  "real_path src = py_replace ''/opt/Xilinx/'' ''/opt/Xilinx.real/'' src"

definition copy_line :: "string \<Rightarrow> string \<Rightarrow> fs_tree \<Rightarrow> fs_tree py_result" where
  "copy_line d l fs =
     (let src = py_strip l in
     py_bind (py_assert (src \<noteq> [])) (\<lambda>u.
     py_bind (py_assert (startswith src ''/'')) (\<lambda>u.
       let out = path_join d (tl src);
           outdir = path_dirname out;
           src = real_path src
       in py_bind (if \<not> path_exists fs outdir then makedirs outdir fs else Inr fs) (\<lambda>fs.
          if path_isdir fs src then makedirs out fs else copy2 src out fs))))"

fun copy_lines :: "string \<Rightarrow> string list \<Rightarrow> fs_tree \<Rightarrow> fs_tree py_result" where
  "copy_lines d [] fs = Inr fs"
| "copy_lines d (l # ls) fs = py_bind (copy_line d l fs) (copy_lines d ls)"

definition copy_main :: "string \<Rightarrow> string list \<Rightarrow> fs_tree \<Rightarrow> fs_tree py_result" where
  "copy_main d ls fs = py_bind (py_assert (d \<noteq> [])) (\<lambda>u. copy_lines d ls fs)"

section \<open>\<open>package-xilinx-cluefs-filter.py\<close>\<close>

text \<open>
  The reader of CSV files, a state machine over the characters of each line, with an end mark
  (\<open>None\<close>) behind the last.
\<close>

datatype csv_mode = Start_record | Start_field | In_field | In_quoted | Quote_in_quoted | Eat_newline

record csv_state =
  csv_mode :: csv_mode
  csv_field :: string
  csv_fields :: "string list"

definition csv_init :: csv_state where
  "csv_init = \<lparr>csv_mode = Start_record, csv_field = [], csv_fields = []\<rparr>"

definition save_field :: "csv_mode \<Rightarrow> csv_state \<Rightarrow> csv_state" where
  "save_field m s = s\<lparr>csv_mode := m, csv_field := [], csv_fields := csv_fields s @ [csv_field s]\<rparr>"

definition add_char :: "csv_mode \<Rightarrow> char \<Rightarrow> csv_state \<Rightarrow> csv_state" where
  "add_char m c s = s\<lparr>csv_mode := m, csv_field := csv_field s @ [c]\<rparr>"

definition is_newline :: "char \<Rightarrow> bool" where
  "is_newline c = (c = CHR 0x0A \<or> c = CHR 0x0D)"

definition csv_char :: "csv_state \<Rightarrow> char option \<Rightarrow> csv_state py_result" where
  "csv_char s ch =
     (let field_end = (\<lambda>s. case ch of
            None \<Rightarrow> Some (save_field Start_record s)
          | Some c \<Rightarrow> if is_newline c then Some (save_field Eat_newline s)
                      else if c = CHR '','' then Some (save_field Start_field s) else None);
          field_start = (case field_end s of
            Some s' \<Rightarrow> s'
          | None \<Rightarrow> (case ch of None \<Rightarrow> s | Some c \<Rightarrow>
              if c = CHR 0x22 then s\<lparr>csv_mode := In_quoted\<rparr> else add_char In_field c s))
      in case csv_mode s of
        Start_record \<Rightarrow>
          (case ch of None \<Rightarrow> Inr s | Some c \<Rightarrow> if is_newline c then Inr (s\<lparr>csv_mode := Eat_newline\<rparr>) else Inr field_start)
      | Start_field \<Rightarrow> Inr field_start
      | In_field \<Rightarrow> (case field_end s of Some s' \<Rightarrow> Inr s' | None \<Rightarrow> Inr (case ch of None \<Rightarrow> s | Some c \<Rightarrow> add_char In_field c s))
      | In_quoted \<Rightarrow>
          (case ch of None \<Rightarrow> Inr s
           | Some c \<Rightarrow> Inr (if c = CHR 0x22 then s\<lparr>csv_mode := Quote_in_quoted\<rparr> else add_char In_quoted c s))
      | Quote_in_quoted \<Rightarrow>
          (case ch of
             Some c \<Rightarrow> if c = CHR 0x22 then Inr (add_char In_quoted c s)
                       else Inr (case field_end s of Some s' \<Rightarrow> s' | None \<Rightarrow> add_char In_field c s)
           | None \<Rightarrow> Inr (save_field Start_record s))
      | Eat_newline \<Rightarrow>
          (case ch of None \<Rightarrow> Inr (s\<lparr>csv_mode := Start_record\<rparr>)
           | Some c \<Rightarrow> if is_newline c then Inr s else Inl CsvError))"

fun csv_chars :: "char option list \<Rightarrow> csv_state \<Rightarrow> csv_state py_result" where
  "csv_chars [] s = Inr s"
| "csv_chars (ch # chs) s = py_bind (csv_char s ch) (csv_chars chs)"

text \<open>
  The rows in front of the first error, and that error.  A record may go over several lines; an
  unfinished one at the end of the file counts as well.
\<close>

fun csv_rows :: "string list \<Rightarrow> csv_state \<Rightarrow> string list list \<times> py_error option" where
  "csv_rows [] s =
     (if csv_mode s = Start_record then []
      else if csv_field s \<noteq> [] \<or> csv_mode s = In_quoted then [csv_fields s @ [csv_field s]] else [], None)"
| "csv_rows (l # ls) s =
     (case csv_chars (map Some l @ [None]) s of
        Inl e \<Rightarrow> ([], Some e)
      | Inr s \<Rightarrow>
          if csv_mode s = Start_record
          then (case csv_rows ls csv_init of (rows, e) \<Rightarrow> (csv_fields s # rows, e))
          else csv_rows ls s)"

text \<open>\<open>csv.DictReader\<close> skips empty rows and gives \<open>None\<close> for a missing column; the path is the tenth.\<close>

definition row_path :: "string list \<Rightarrow> string option" where
  "row_path row = (if length row \<le> 9 then None else Some (row ! 9))"

fun tool_paths :: "(string \<Rightarrow> bool) \<Rightarrow> string list list \<Rightarrow> string list \<Rightarrow> string list py_result" where
  "tool_paths exists [] paths = Inr paths"
| "tool_paths exists (row # rows) paths =
     (if row = [] then tool_paths exists rows paths
      else case row_path row of
        None \<Rightarrow> Inl AttributeError
      | Some p \<Rightarrow>
          if \<not> startswith p ''/opt/Xilinx'' then tool_paths exists rows paths
          else if \<not> exists p then tool_paths exists rows paths
          else tool_paths exists rows (List.insert (py_replace ''/opt/Xilinx.real/'' ''/opt/Xilinx/'' p) paths))"

definition cluefs_main :: "fs_tree \<Rightarrow> string list \<Rightarrow> string list py_result" where
  "cluefs_main fs csvlines =
     (case csv_rows csvlines csv_init of (rows, err) \<Rightarrow>
        py_bind (tool_paths (path_exists fs) rows []) (\<lambda>paths.
        case err of Some e \<Rightarrow> Inl e | None \<Rightarrow> Inr (sort paths)))"

section \<open>The list of the filter\<close>

lemma tool_paths_distinct:
  "tool_paths exists rows paths = Inr ps \<Longrightarrow> distinct paths \<Longrightarrow> distinct ps"
  by (induction exists rows paths rule: tool_paths.induct) (auto split: if_splits option.splits)

lemma cluefs_sorted:
  assumes "cluefs_main fs csvlines = Inr ps"
  shows "sorted ps" "distinct ps"
  using assms tool_paths_distinct [of "path_exists fs" _ "[]"]
  by (auto simp: cluefs_main_def split: prod.splits option.splits elim!: py_bindE)

section \<open>Canonical paths\<close>

definition good_comp :: "string \<Rightarrow> bool" where
  "good_comp c \<longleftrightarrow> c \<noteq> [] \<and> c \<noteq> ''.'' \<and> c \<noteq> ''..'' \<and> CHR ''/'' \<notin> set c \<and> \<not> is_space (last c)"

definition abs_path :: "string list \<Rightarrow> string" where
  "abs_path cs = concat (map (\<lambda>c. CHR ''/'' # c) cs)"

definition canonical :: "string list \<Rightarrow> bool" where
  "canonical cs \<longleftrightarrow> cs \<noteq> [] \<and> list_all good_comp cs"

lemma abs_path_simps [simp]: "abs_path [] = []" "abs_path (c # cs) = CHR ''/'' # c @ abs_path cs"
  "abs_path (cs @ ds) = abs_path cs @ abs_path ds"
  by (simp_all add: abs_path_def)

lemma split_comp: "CHR ''/'' \<notin> set c \<Longrightarrow> split_char CHR ''/'' (c @ s) w = split_char CHR ''/'' s (w @ c)"
  by (induction c arbitrary: w) auto

lemma split_abs_path: "list_all good_comp cs \<Longrightarrow> split_char CHR ''/'' (abs_path cs) w = w # cs"
  by (induction cs arbitrary: w) (auto simp: good_comp_def split_comp)

lemma rstrip_slash_last: "s \<noteq> [] \<Longrightarrow> last s \<noteq> CHR ''/'' \<Longrightarrow> rstrip_slash s = s"
  by (cases s rule: rev_cases) (simp_all add: rstrip_slash_def)

lemma abs_path_last:
  assumes "canonical cs"
  shows "abs_path cs \<noteq> []" "last (abs_path cs) \<noteq> CHR ''/''" "\<not> is_space (last (abs_path cs))"
proof -
  from assms obtain ds c where cs: "cs = ds @ [c]" and c: "good_comp c"
    by (cases cs rule: rev_cases) (auto simp: canonical_def)
  from c have "c \<noteq> []" "CHR ''/'' \<notin> set c" "\<not> is_space (last c)" "last c \<in> set c"
 
    by (simp_all add: good_comp_def)
  moreover from this have "last c \<noteq> CHR ''/''" by metis
  ultimately show "abs_path cs \<noteq> []" "last (abs_path cs) \<noteq> CHR ''/''" "\<not> is_space (last (abs_path cs))"
    unfolding cs by auto
qed

lemma abs_path_snoc:
  assumes "good_comp c" "list_all good_comp cs"
  shows "path_basename (abs_path (cs @ [c])) = c"
    "path_dirname (abs_path (cs @ [c])) = (if cs = [] then ''/'' else abs_path cs)"
proof -
  have c: "CHR ''/'' \<notin> set c" using assms(1) by (simp add: good_comp_def)
  have "takeWhile (\<lambda>x. x \<noteq> CHR ''/'') (rev c @ CHR ''/'' # rev (abs_path cs)) = rev c"
    "dropWhile (\<lambda>x. x \<noteq> CHR ''/'') (rev c @ CHR ''/'' # rev (abs_path cs)) = CHR ''/'' # rev (abs_path cs)"
    using c by (subst takeWhile_append2 dropWhile_append2; force)+
  moreover have "rstrip_slash (abs_path cs @ ''/'') = abs_path cs" if "cs \<noteq> []"
    using abs_path_last [of cs] rstrip_slash_last [of "abs_path cs"] that assms(2)
    by (simp add: canonical_def rstrip_slash_def)
  moreover have "rstrip_slash ''/'' = []" by (simp add: rstrip_slash_def)
  ultimately show "path_basename (abs_path (cs @ [c])) = c"
    "path_dirname (abs_path (cs @ [c])) = (if cs = [] then ''/'' else abs_path cs)"
    using abs_path_last [of cs] assms(2)
    by (auto simp: path_basename_def path_dirname_def canonical_def)
qed

lemma strip_abs_path:
  assumes "canonical cs"
  shows "py_strip (abs_path cs @ [CHR 0x0A]) = abs_path cs"
proof -
  obtain s where s: "abs_path cs = CHR ''/'' # s" using assms by (cases cs) (auto simp: canonical_def)
  have l: "is_space CHR 0x0A" "\<not> is_space CHR ''/''" by code_simp+
  have "dropWhile is_space (abs_path cs @ [CHR 0x0A]) = abs_path cs @ [CHR 0x0A]" using l by (simp add: s)
  moreover have "dropWhile is_space (rev (abs_path cs)) = rev (abs_path cs)"
    using abs_path_last [OF assms] by (cases "abs_path cs" rule: rev_cases) simp_all
  ultimately show ?thesis using l by (simp add: py_strip_def)
qed

section \<open>Resolving plain paths\<close>

text \<open>Along the path \<open>p\<close> there are directories only, and nothing below the first gap.\<close>

definition plain :: "fs_tree \<Rightarrow> string list \<Rightarrow> bool" where
  "plain fs p \<longleftrightarrow> (\<forall>q. prefix q p \<longrightarrow> fs q = None \<or> fs q = Some Dir_node)
     \<and> (\<forall>q r. prefix q r \<longrightarrow> prefix r p \<longrightarrow> fs r \<noteq> None \<longrightarrow> fs q \<noteq> None)"

lemma plain_prefix: "plain fs p \<Longrightarrow> prefix q p \<Longrightarrow> plain fs q"
  unfolding plain_def by (meson prefix_order.trans)

lemma walk_plain:
  "plain fs (cur @ cs) \<Longrightarrow> list_all good_comp cs \<Longrightarrow> fs cur = Some Dir_node \<Longrightarrow>
   walk_path fs n cur cs = (if fs (cur @ cs) = Some Dir_node then Some (cur @ cs) else None)"
proof (induction cs arbitrary: cur)
  case (Cons c cs)
  have c: "c \<noteq> []" "c \<noteq> ''.''" "c \<noteq> ''..''" using Cons.prems(2) by (simp_all add: good_comp_def)
  have p: "prefix (cur @ [c]) (cur @ c # cs)" by simp
  then have "fs (cur @ [c]) = None \<or> fs (cur @ [c]) = Some Dir_node"
    using Cons.prems(1) unfolding plain_def by blast
  then show ?case
  proof
    assume "fs (cur @ [c]) = None"
    moreover from this have "fs (cur @ c # cs) = None"
      using Cons.prems(1) p unfolding plain_def by blast
    ultimately show ?thesis using c Cons.prems(3) by simp
  next
    assume "fs (cur @ [c]) = Some Dir_node"
    with Cons.IH [of "cur @ [c]"] Cons.prems c show ?thesis by simp
  qed
qed simp

lemma resolve_plain:
  assumes "plain fs p" "canonical p" "fs [] = Some Dir_node"
  shows "resolve fs (abs_path p) = (if fs p = Some Dir_node then Some p else None)"
proof -
  have "list_all good_comp p" using assms(2) by (simp add: canonical_def)
  with walk_plain [of fs "[]" p] assms abs_path_last(1) [OF assms(2)] show ?thesis
    by (simp add: resolve_def split_abs_path)
qed

lemma resolve_root: "fs [] = Some Dir_node \<Longrightarrow> resolve fs ''/'' = Some []"
  by (simp add: resolve_def)

lemma entry_Some:
  assumes "plain fs (p @ [c])" "canonical (p @ [c])" "fs [] = Some Dir_node"
  shows "entry_of fs (abs_path (p @ [c])) = (if fs p = Some Dir_node then Some (p @ [c]) else None)"
proof -
  have pl: "plain fs p" using assms(1) by (rule plain_prefix) simp
  have g: "list_all good_comp p" "good_comp c" "c \<noteq> []" "c \<noteq> ''.''" "c \<noteq> ''..''"
    using assms(2) by (simp_all add: canonical_def good_comp_def)
  have "split_char CHR ''/'' (abs_path (p @ [c])) [] = [] # p @ [c]"
    using g by (intro split_abs_path) simp
  moreover have "abs_path (p @ [c]) \<noteq> []" by simp
  moreover have "walk_path fs max_links [] ([] # p) = (if fs p = Some Dir_node then Some p else None)"
    using walk_plain [of fs "[]" p] pl assms(3) g by simp
  ultimately show ?thesis using g(3-5) by (simp add: entry_of_def butlast_append del: abs_path_simps)
qed

section \<open>Making directories\<close>

text \<open>The tree with the directories along a path added.\<close>

definition add_dirs :: "fs_tree \<Rightarrow> string list \<Rightarrow> fs_tree" where
  "add_dirs fs p = (\<lambda>q. if fs q = None \<and> prefix q p then Some Dir_node else fs q)"

lemma plain_add_dirs: "plain fs p \<Longrightarrow> plain (add_dirs fs q) p"
  unfolding plain_def add_dirs_def by (auto dest: prefix_order.trans)

lemma add_dirs_root: "fs [] = Some Dir_node \<Longrightarrow> add_dirs fs [] = fs"
  by (auto simp: add_dirs_def fun_eq_iff)

lemma add_dirs_present: "plain fs p \<Longrightarrow> fs p = Some Dir_node \<Longrightarrow> add_dirs fs p = fs"
  by (auto simp: add_dirs_def plain_def fun_eq_iff)

lemma add_dirs_snoc:
  "fs (p @ [c]) = None \<Longrightarrow> (add_dirs fs p)(p @ [c] \<mapsto> Dir_node) = add_dirs fs (p @ [c])"
  by (auto simp: add_dirs_def fun_eq_iff)

lemma mkdir_plain:
  assumes "plain fs (p @ [c])" "canonical (p @ [c])" "fs [] = Some Dir_node" "fs p = Some Dir_node" "fs (p @ [c]) = None"
  shows "mkdir (abs_path (p @ [c])) fs = Inr (fs(p @ [c] \<mapsto> Dir_node))"
  using entry_Some [OF assms(1-3)] assms(4,5) abs_path_last [OF assms(2)]
  by (simp add: mkdir_def rstrip_slash_last del: abs_path_simps)

lemma makedirs_at_plain:
  "plain fs p \<Longrightarrow> canonical p \<Longrightarrow> fs [] = Some Dir_node \<Longrightarrow> fs p = None \<Longrightarrow> length p \<le> Suc n \<Longrightarrow>
   makedirs_at n (abs_path p) fs = Inr (add_dirs fs p)"
proof (induction n arbitrary: p)
  case 0
  then obtain c where p: "p = [] @ [c]" by (cases p) (auto simp: canonical_def)
  from mkdir_plain [of fs "[]" c] 0 add_dirs_snoc [of fs "[]" c] add_dirs_root show ?case by (simp add: p)
next
  case (Suc n)
  then obtain q c where p: "p = q @ [c]" by (cases p rule: rev_cases) (auto simp: canonical_def)
  note pl = Suc.prems(1) [unfolded p] and ca = Suc.prems(2) [unfolded p]
  have g: "good_comp c" "list_all good_comp q" "c \<noteq> []" "c \<noteq> ''.''"
    using ca by (simp_all add: canonical_def good_comp_def)
  note dir = abs_path_snoc [OF g(1,2)]
  have plq: "plain fs q" using pl by (rule plain_prefix) simp
  have none: "fs (q @ [c]) = None" using Suc.prems(4) by (simp add: p)
  show ?case
  proof (cases "fs q = Some Dir_node")
    case True
    then have "path_exists fs (path_dirname (abs_path p))"
      using resolve_plain [OF plq _ Suc.prems(3)] resolve_root [of fs] Suc.prems(3) g(2)
      by (simp add: p dir path_exists_def canonical_def del: abs_path_simps)
    then show ?thesis
      using mkdir_plain [OF pl ca Suc.prems(3) True none] add_dirs_snoc [of fs q c] none
        add_dirs_present [OF plq True] dir(1) g(3,4)
      by (simp add: p Let_def del: abs_path_simps)
  next
    case False
    then have q: "fs q = None" "q \<noteq> []" using plq Suc.prems(3) unfolding plain_def by auto
    then have cq: "canonical q" using g(2) by (simp add: canonical_def)
    have "makedirs_at n (abs_path q) fs = Inr (add_dirs fs q)"
      using Suc.IH [OF plq cq Suc.prems(3) q(1)] Suc.prems(5) by (simp add: p)
    moreover have "\<not> path_exists fs (abs_path q)"
      using resolve_plain [OF plq cq Suc.prems(3)] q(1) by (simp add: path_exists_def)
    moreover have "mkdir (abs_path (q @ [c])) (add_dirs fs q) = Inr ((add_dirs fs q)(q @ [c] \<mapsto> Dir_node))"
      using pl ca Suc.prems(3) none q(1)
      by (intro mkdir_plain plain_add_dirs) (auto simp: add_dirs_def)
    ultimately show ?thesis
      using add_dirs_snoc [of fs q c] none q(2) abs_path_last(1) [OF cq] dir g(3,4)
      by (simp add: p Let_def del: abs_path_simps)
  qed
qed

lemma makedirs_plain:
  assumes "plain fs p" "canonical p" "fs [] = Some Dir_node" "fs p = None"
  shows "makedirs (abs_path p) fs = Inr (add_dirs fs p)"
proof -
  have "length p \<le> length (abs_path p)" by (induction p) simp_all
  then show ?thesis unfolding makedirs_def by (intro makedirs_at_plain assms) simp
qed

section \<open>Additions do not disturb resolution\<close>

lemma map_le_Some: "fs \<subseteq>\<^sub>m fs' \<Longrightarrow> fs q = Some x \<Longrightarrow> fs' q = Some x"
  by (auto simp: map_le_def dom_def)

lemma walk_steps:
  assumes "fs cur = Some Dir_node"
  shows "c = [] \<or> c = ''.'' \<Longrightarrow> walk_path fs n cur (c # cs) = walk_path fs n cur cs"
    and "walk_path fs n cur (''..'' # cs) = walk_path fs n (butlast cur) cs"
    and "c \<noteq> [] \<Longrightarrow> c \<noteq> ''.'' \<Longrightarrow> c \<noteq> ''..'' \<Longrightarrow> fs (cur @ [c]) = Some x \<Longrightarrow> \<forall>t. x \<noteq> Link_node t \<Longrightarrow>
      walk_path fs n cur (c # cs) = walk_path fs n (cur @ [c]) cs"
    and "c \<noteq> [] \<Longrightarrow> c \<noteq> ''.'' \<Longrightarrow> c \<noteq> ''..'' \<Longrightarrow> fs (cur @ [c]) = Some (Link_node t) \<Longrightarrow>
      walk_path fs (Suc m) cur (c # cs) =
        walk_path fs m (if startswith t ''/'' then [] else cur) (split_char CHR ''/'' t [] @ cs)"
    and "c \<noteq> [] \<Longrightarrow> c \<noteq> ''.'' \<Longrightarrow> c \<noteq> ''..'' \<Longrightarrow> fs (cur @ [c]) = Some (Link_node t) \<Longrightarrow>
      walk_path fs 0 cur (c # cs) = None"
    and "c \<noteq> [] \<Longrightarrow> c \<noteq> ''.'' \<Longrightarrow> c \<noteq> ''..'' \<Longrightarrow> fs (cur @ [c]) = None \<Longrightarrow> walk_path fs n cur (c # cs) = None"
  using assms by (auto split: fs_node.splits)

declare walk_path.simps(2) [simp del]

lemma walk_dir: "walk_path fs n cur (c # cs) = Some q \<Longrightarrow> fs cur = Some Dir_node"
  by (simp add: walk_path.simps(2) split: if_splits)

lemma walk_cases:
  assumes "walk_path fs n cur (c # cs) = Some q"
  obtains (skip) "c = [] \<or> c = ''.''"
    | (up) "\<not> (c = [] \<or> c = ''.'')" "c = ''..''"
    | (link) t m where "\<not> (c = [] \<or> c = ''.'')" "c \<noteq> ''..''" "fs (cur @ [c]) = Some (Link_node t)" "n = Suc m"
    | (node) x where "\<not> (c = [] \<or> c = ''.'')" "c \<noteq> ''..''" "fs (cur @ [c]) = Some x" "\<forall>t. x \<noteq> Link_node t"
proof -
  note steps = walk_steps [of fs cur, OF walk_dir [OF assms]]
  consider "c = [] \<or> c = ''.'' \<or> c = ''..''" | "c \<noteq> []" "c \<noteq> ''.''" "c \<noteq> ''..''" by blast
  then show thesis
  proof cases
    case 2
    with assms steps(6) [OF 2, of n cs] obtain x where x: "fs (cur @ [c]) = Some x" by (cases "fs (cur @ [c])") auto
    show ?thesis
    proof (cases x)
      case (Link_node t)
      with assms steps(5) [OF 2, of t cs] x obtain m where "n = Suc m" by (cases n) auto
      with link 2 x Link_node show ?thesis by blast
    qed (use node 2 x in auto)
  qed (use skip up in blast)
qed

lemma walk_mono:
  "walk_path fs n cur cs = Some q \<Longrightarrow> fs \<subseteq>\<^sub>m fs' \<Longrightarrow> walk_path fs' n cur cs = Some q"
proof (induction fs n cur cs rule: walk_path.induct)
  case (2 fs n cur c cs)
  note cur = walk_dir [OF "2.prems"(1)]
  note le = map_le_Some [OF "2.prems"(2)]
  note steps = walk_steps [of fs cur, OF cur] and steps' = walk_steps [of fs' cur, OF le [OF cur]]
  have dir: "\<not> fs cur \<noteq> Some Dir_node" using cur by simp
  from "2.prems"(1) show ?case
  proof (cases rule: walk_cases)
    case skip
    with "2.IH"(1) [OF dir skip _ "2.prems"(2)] "2.prems"(1) show ?thesis
      by (simp only: steps(1) [OF skip] steps'(1) [OF skip])
  next
    case up
    with "2.IH"(2) [OF dir up _ "2.prems"(2)] "2.prems"(1) show ?thesis
      by (simp only: steps(2) steps'(2))
  next
    case (link t m)
    then have c: "c \<noteq> []" "c \<noteq> ''.''" by simp_all
    show ?thesis
      using "2.IH"(5) [OF dir link(1-3) refl link(4) _ "2.prems"(2)] "2.prems"(1)
      unfolding link(4) steps(4) [OF c link(2,3)] steps'(4) [OF c link(2) le [OF link(3)]] by simp
  next
    case (node x)
    then have c: "c \<noteq> []" "c \<noteq> ''.''" by simp_all
    have "walk_path fs n (cur @ [c]) cs = Some q \<Longrightarrow> walk_path fs' n (cur @ [c]) cs = Some q"
      using "2.IH"(3,4) [OF dir node(1-3)] "2.prems"(2) node(4) by (cases x) auto
    with "2.prems"(1) show ?thesis
      unfolding steps(3) [OF c node(2-4)] steps'(3) [OF c node(2) le [OF node(3)] node(4)] by simp
  qed
qed simp

lemma resolve_mono: "resolve fs p = Some q \<Longrightarrow> fs \<subseteq>\<^sub>m fs' \<Longrightarrow> resolve fs' p = Some q"
  unfolding resolve_def by (simp split: if_splits) (rule walk_mono)

lemma entry_mono: "entry_of fs p = Some q \<Longrightarrow> fs \<subseteq>\<^sub>m fs' \<Longrightarrow> entry_of fs' p = Some q"
proof -
  assume e: "entry_of fs p = Some q" and le: "fs \<subseteq>\<^sub>m fs'"
  let ?cs = "split_char CHR ''/'' p []"
  show ?thesis
  proof (cases "p = [] \<or> last ?cs \<in> {[], ''.'', ''..''}")
    case True
    with e have "resolve fs p = Some q" by (simp add: entry_of_def)
    from resolve_mono [OF this le] True show ?thesis by (simp add: entry_of_def)
  next
    case False
    with e obtain d where d: "walk_path fs max_links [] (butlast ?cs) = Some d" "fs d = Some Dir_node" "q = d @ [last ?cs]"
      by (auto simp: entry_of_def Let_def split: if_splits option.splits)
    from False walk_mono [OF d(1) le] map_le_Some [OF le d(2)] d(3) show ?thesis by (simp add: entry_of_def Let_def)
  qed
qed

section \<open>One line\<close>

text \<open>What the copy of a source should be.\<close>

definition source_node :: "fs_tree \<Rightarrow> string \<Rightarrow> fs_node option" where
  "source_node fs src =
     (if path_isdir fs src then Some Dir_node
      else case entry_of fs src of None \<Rightarrow> None | Some s \<Rightarrow> if fs s = Some Dir_node then None else fs s)"

definition source_ok :: "fs_tree \<Rightarrow> string \<Rightarrow> bool" where
  "source_ok fs src \<longleftrightarrow> (case resolve fs src of None \<Rightarrow> False | Some q \<Rightarrow> fs q \<noteq> None) \<and> source_node fs src \<noteq> None"

lemma isdir_mono:
  assumes "fs \<subseteq>\<^sub>m fs'" "source_ok fs p"
  shows "path_isdir fs' p = path_isdir fs p"
proof -
  obtain q x where q: "resolve fs p = Some q" "fs q = Some x"
    using assms(2) by (auto simp: source_ok_def split: option.splits)
  with resolve_mono [OF q(1) assms(1)] map_le_Some [OF assms(1) q(2)] show ?thesis
    by (simp add: path_isdir_def)
qed

lemma add_dirs_le: "fs \<subseteq>\<^sub>m add_dirs fs p"
  by (auto simp: map_le_def add_dirs_def)

lemma copy2_new:
  assumes "plain fs' p" "canonical p" "fs' [] = Some Dir_node" "fs' p = None" "fs' (butlast p) = Some Dir_node"
    and "entry_of fs' src = Some s" "fs' s = Some x" "x \<noteq> Dir_node"
  shows "copy2 src (abs_path p) fs' = Inr (fs'(p \<mapsto> x))"
proof -
  obtain q c where p: "p = q @ [c]" using assms(2) by (cases p rule: rev_cases) (auto simp: canonical_def)
  have r: "resolve fs' (abs_path p) = None" using resolve_plain [OF assms(1-3)] assms(4) by simp
  have e: "entry_of fs' (abs_path p) = Some p" using entry_Some [of fs' q c] assms by (simp add: p)
  have d: "\<not> path_isdir fs' (abs_path p)" by (simp add: path_isdir_def r)
  show ?thesis using assms(4,6-8) by (cases x) (simp_all add: copy2_def r e d)
qed

lemma join_abs_path:
  assumes "canonical d" "canonical p"
  shows "path_join (abs_path d) (tl (abs_path p)) = abs_path (d @ p)"
proof -
  obtain c cs where p: "p = c # cs" "good_comp c" using assms(2) by (cases p) (auto simp: canonical_def)
  then obtain x y where "c = x # y" "x \<noteq> CHR ''/''" by (cases c) (auto simp: good_comp_def)
  with p abs_path_last [OF assms(1)] show ?thesis by (simp add: path_join_def startswith_def)
qed

lemma canonical_append: "canonical d \<Longrightarrow> canonical p \<Longrightarrow> canonical (d @ p)"
  by (simp add: canonical_def)

text \<open>The copy itself, with the parent directory there.\<close>

lemma copy_entry:
  assumes fs: "fs \<subseteq>\<^sub>m fs'" "source_ok fs src"
    and p: "plain fs' (q @ [c])" "canonical (q @ [c])" "fs' [] = Some Dir_node" "fs' (q @ [c]) = None" "fs' q = Some Dir_node"
  shows "(if path_isdir fs' src then makedirs (abs_path (q @ [c])) fs' else copy2 src (abs_path (q @ [c])) fs')
    = Inr (fs'(q @ [c] \<mapsto> the (source_node fs src)))"
proof (cases "path_isdir fs src")
  case True
  have "add_dirs fs' (q @ [c]) = fs'(q @ [c] \<mapsto> Dir_node)"
    using add_dirs_snoc [of fs' q c] p(4) add_dirs_present [OF plain_prefix [OF p(1), of q] p(5)] by simp
  with True makedirs_plain [OF p(1-4)] isdir_mono [OF fs] show ?thesis by (simp add: source_node_def)
next
  case False
  with fs(2) obtain s x where s: "entry_of fs src = Some s" "fs s = Some x" "x \<noteq> Dir_node"
    by (auto simp: source_ok_def source_node_def split: option.splits if_splits)
  with False have "source_node fs src = Some x" by (simp add: source_node_def)
  with copy2_new [OF p(1-4) _ entry_mono [OF s(1) fs(1)] map_le_Some [OF fs(1) s(2)] s(3)] p(5)
    isdir_mono [OF fs] False show ?thesis by simp
qed

lemma copy_line_step:
  assumes fs: "fs \<subseteq>\<^sub>m fs'" "source_ok fs (real_path (abs_path p))"
    and d: "canonical d" "canonical p" "plain fs' (d @ p)" "fs' [] = Some Dir_node" "fs' (d @ p) = None"
  shows "copy_line (abs_path d) (abs_path p @ [CHR 0x0A]) fs' =
    Inr ((add_dirs fs' (butlast (d @ p)))(d @ p \<mapsto> the (source_node fs (real_path (abs_path p)))))"
proof -
  let ?b = "butlast (d @ p)" and ?src = "real_path (abs_path p)" and ?out = "abs_path (d @ p)"
  define fs1 where "fs1 = add_dirs fs' ?b"
  obtain c where dp: "d @ p = ?b @ [c]" using d(2) by (cases p rule: rev_cases) (auto simp: canonical_def butlast_append)
  have can: "canonical (d @ p)" using canonical_append [OF d(1,2)] .
  have b: "?b \<noteq> []" "list_all good_comp ?b" "good_comp c"
    using d(1,2) can dp by (auto simp: canonical_def butlast_append dest: arg_cong [of _ _ "list_all good_comp"])
  have cb: "canonical ?b" using b by (simp add: canonical_def)
  have plb: "plain fs' ?b" using d(3) by (rule plain_prefix) (metis dp prefixI)
  have dirname: "path_dirname ?out = abs_path ?b" using abs_path_snoc(2) [OF b(3,2)] b(1) dp by metis
  have made: "(if \<not> path_exists fs' (abs_path ?b) then makedirs (abs_path ?b) fs' else Inr fs') = Inr fs1"
  proof (cases "fs' ?b = Some Dir_node")
    case True
    then show ?thesis using resolve_plain [OF plb cb d(4)] add_dirs_present [OF plb True]
      by (simp add: path_exists_def fs1_def)
  next
    case False
    then have "fs' ?b = None" using plb unfolding plain_def by auto
    then show ?thesis using resolve_plain [OF plb cb d(4)] makedirs_plain [OF plb cb d(4)]
      by (simp add: path_exists_def fs1_def)
  qed
  have le: "fs \<subseteq>\<^sub>m fs1" unfolding fs1_def using fs(1) add_dirs_le map_le_trans by blast
  have fs1: "plain fs1 (d @ p)" "fs1 [] = Some Dir_node" "fs1 (d @ p) = None" "fs1 ?b = Some Dir_node"
  proof -
    show "plain fs1 (d @ p)" unfolding fs1_def using d(3) by (rule plain_add_dirs)
    show "fs1 [] = Some Dir_node" using d(4) by (simp add: fs1_def add_dirs_def)
    have "\<not> prefix (d @ p) ?b" using dp by (metis append_eq_conv_conj not_Cons_self2 prefix_order.antisym prefixI self_append_conv)
    then show "fs1 (d @ p) = None" using d(5) by (simp add: fs1_def add_dirs_def)
    show "fs1 ?b = Some Dir_node" using plb by (auto simp: fs1_def add_dirs_def plain_def)
  qed
  have "(if path_isdir fs1 ?src then makedirs ?out fs1 else copy2 ?src ?out fs1)
      = Inr (fs1(d @ p \<mapsto> the (source_node fs ?src)))"
    using copy_entry [OF le fs(2), of ?b c] fs1 can unfolding dp [symmetric] by blast
  moreover have "abs_path p \<noteq> []" "startswith (abs_path p) ''/''"
    using d(2) by (cases p; simp add: canonical_def startswith_def)+
  ultimately show ?thesis
    unfolding copy_line_def Let_def strip_abs_path [OF d(2)] join_abs_path [OF d(1,2)] dirname made
      py_bind_simps fs1_def [symmetric]
    by simp
qed

section \<open>All lines\<close>

text \<open>The tree with a list of paths copied below \<open>d\<close>, written down directly.\<close>

definition archived :: "fs_tree \<Rightarrow> string list \<Rightarrow> string list list \<Rightarrow> fs_tree" where
  "archived fs d ps =
     (\<lambda>q. if \<exists>r p. r \<noteq> [] \<and> q = d @ r \<and> p \<in> set ps \<and> prefix r p
          then (let r = drop (length d) q
                in if r \<in> set ps then source_node fs (real_path (abs_path r)) else Some Dir_node)
          else fs q)"

text \<open>A directory that has nothing in it, and paths that can be copied into it one by one.\<close>

definition empty_dir :: "fs_tree \<Rightarrow> string list \<Rightarrow> bool" where
  "empty_dir fs d \<longleftrightarrow> canonical d \<and> (\<forall>q. prefix q d \<longrightarrow> fs q = Some Dir_node) \<and> (\<forall>r. r \<noteq> [] \<longrightarrow> fs (d @ r) = None)"

definition sources_ok :: "fs_tree \<Rightarrow> string list list \<Rightarrow> bool" where
  "sources_ok fs ps \<longleftrightarrow>
     (\<forall>p \<in> set ps. canonical p \<and> source_ok fs (real_path (abs_path p)))
     \<and> (\<forall>p \<in> set ps. \<forall>q \<in> set ps. strict_prefix q p \<longrightarrow> source_node fs (real_path (abs_path q)) = Some Dir_node)"

lemma archived_Nil [simp]: "archived fs d [] = fs"
  by (simp add: archived_def)

lemma archived_below:
  assumes "empty_dir fs d" "r \<noteq> []"
  shows "archived fs d ps (d @ r) =
    (if r \<in> set ps then source_node fs (real_path (abs_path r))
     else if \<exists>p \<in> set ps. prefix r p then Some Dir_node else None)"
  using assms by (auto simp: archived_def empty_dir_def)

lemma archived_other: "\<not> (\<exists>r. r \<noteq> [] \<and> q = d @ r) \<Longrightarrow> archived fs d ps q = fs q"
  by (auto simp: archived_def)

lemma archived_dir: "prefix q d \<Longrightarrow> empty_dir fs d \<Longrightarrow> archived fs d ps q = Some Dir_node"
  by (subst archived_other) (auto simp: empty_dir_def prefix_def)

lemma archived_le:
  assumes "empty_dir fs d"
  shows "fs \<subseteq>\<^sub>m archived fs d ps"
  unfolding map_le_def
proof
  fix q assume "q \<in> dom fs"
  then have "\<not> (\<exists>r. r \<noteq> [] \<and> q = d @ r)" using assms by (auto simp: empty_dir_def)
  then show "fs q = archived fs d ps q" by (simp add: archived_other)
qed

lemma archived_plain:
  assumes "empty_dir fs d" "sources_ok fs (ps @ [p])" "\<forall>q \<in> set ps. \<not> prefix p q"
  shows "plain (archived fs d ps) (d @ p)"
  unfolding plain_def
proof (intro conjI allI impI)
  fix q assume q: "prefix q (d @ p)"
  then have "prefix q d \<or> (\<exists>r. q = d @ r \<and> prefix r p)" by (auto simp: prefix_append)
  then consider "prefix q d" | r where "r \<noteq> []" "q = d @ r" "prefix r p"
    by (metis append_Nil2 prefix_order.refl)
  then show "archived fs d ps q = None \<or> archived fs d ps q = Some Dir_node"
  proof cases
    case 1
    then show ?thesis using archived_dir assms(1) by blast
  next
    case 2
    have "source_node fs (real_path (abs_path r)) = Some Dir_node" if "r \<in> set ps"
      using that assms(2,3) 2(3) unfolding sources_ok_def by (auto simp: strict_prefix_def)
    then show ?thesis by (simp add: 2(2) archived_below [OF assms(1) 2(1)])
  qed
next
  fix q r assume q: "prefix q r" "prefix r (d @ p)" and r: "archived fs d ps r \<noteq> None"
  show "archived fs d ps q \<noteq> None"
  proof (cases "prefix q d")
    case True
    then show ?thesis using archived_dir assms(1) by simp
  next
    case False
    with q obtain s t where s: "q = d @ s" "s \<noteq> []" "r = d @ s @ t"
      by (metis append_assoc append_self_conv prefixE prefix_order.trans prefix_same_cases same_prefix_prefix prefixI)
    with r archived_below [OF assms(1), of "s @ t" ps] obtain u where u: "u \<in> set ps" "prefix (s @ t) u"
      by (auto split: if_splits)
    from u(2) have "prefix s u" by (rule append_prefixD)
    moreover have "source_node fs (real_path (abs_path s)) \<noteq> None" if "s \<in> set ps"
      using that assms(2) by (auto simp: sources_ok_def source_ok_def)
    ultimately show ?thesis using u(1) s archived_below [OF assms(1) s(2), of ps] by auto
  qed
qed

lemma archived_snoc:
  assumes "empty_dir fs d" "sources_ok fs (ps @ [p])" "\<forall>q \<in> set ps. \<not> prefix p q"
  shows "(add_dirs (archived fs d ps) (butlast (d @ p)))(d @ p \<mapsto> the (source_node fs (real_path (abs_path p))))
    = archived fs d (ps @ [p])"
proof
  fix q
  have p: "p \<noteq> []" "source_node fs (real_path (abs_path p)) \<noteq> None" "p \<notin> set ps"
    using assms(2,3) by (auto simp: sources_ok_def canonical_def source_ok_def)
  have b: "butlast (d @ p) = d @ butlast p" using p(1) by (simp add: butlast_append)
  have pre: "prefix r (butlast p) \<longleftrightarrow> prefix r p \<and> r \<noteq> p" for r
  proof -
    have "prefix r p \<longleftrightarrow> r = p \<or> prefix r (butlast p)"
      using prefix_snoc [of r "butlast p" "last p"] p(1) by simp
    moreover have "\<not> prefix p (butlast p)" using prefix_length_le [of p "butlast p"] p(1) by (cases p) auto
    ultimately show ?thesis by blast
  qed
  show "((add_dirs (archived fs d ps) (butlast (d @ p)))(d @ p \<mapsto> the (source_node fs (real_path (abs_path p))))) q
    = archived fs d (ps @ [p]) q"
  proof (cases "\<exists>r. r \<noteq> [] \<and> q = d @ r")
    case True
    then obtain r where r: "r \<noteq> []" "q = d @ r" by blast
    note below = archived_below [OF assms(1) r(1)]
    show ?thesis
    proof (cases "r = p")
      case True
      with p(2) below [of "ps @ [p]"] show ?thesis by (auto simp: r(2))
    next
      case False
      have "archived fs d ps (d @ r) \<noteq> None" if "r \<in> set ps"
        using that assms(2) below by (auto simp: sources_ok_def source_ok_def)
      with False below [of ps] below [of "ps @ [p]"] pre [of r] show ?thesis
        by (auto simp: r(2) b add_dirs_def)
    qed
  next
    case False
    then have "q \<noteq> d @ p" using p(1) by blast
    moreover have "fs q = Some Dir_node" if "prefix q (d @ butlast p)"
    proof -
      from that have "prefix q d" using False by (auto simp: prefix_append)
      with assms(1) show ?thesis by (simp add: empty_dir_def)
    qed
    ultimately show ?thesis using archived_other [OF False] by (auto simp: add_dirs_def b)
  qed
qed

lemma copy_lines_append:
  "copy_lines d (ls @ ls') fs = py_bind (copy_lines d ls fs) (copy_lines d ls')"
  by (induction ls arbitrary: fs) (auto simp: py_bind_def split: sum.splits)

definition line_of :: "string \<Rightarrow> string" where
  "line_of p = p @ [CHR 0x0A]"

lemma copy_lines_archived:
  assumes "empty_dir fs d" "sources_ok fs ps"
    and order: "\<forall>i j. i < j \<longrightarrow> j < length ps \<longrightarrow> \<not> prefix (ps ! j) (ps ! i)"
  shows "copy_lines (abs_path d) (map (\<lambda>p. line_of (abs_path p)) ps) fs = Inr (archived fs d ps)"
  using assms(2) order
proof (induction ps rule: rev_induct)
  case (snoc p ps)
  have ok: "sources_ok fs ps" using snoc.prems(1) by (simp add: sources_ok_def)
  have ord: "\<forall>i j. i < j \<longrightarrow> j < length ps \<longrightarrow> \<not> prefix (ps ! j) (ps ! i)"
  proof (intro allI impI)
    fix i j assume ij: "i < j" "j < length ps"
    with snoc.prems(2) [rule_format, of i j] show "\<not> prefix (ps ! j) (ps ! i)" by (simp add: nth_append)
  qed
  have new: "\<forall>q \<in> set ps. \<not> prefix p q"
  proof
    fix q assume "q \<in> set ps"
    then obtain i where "i < length ps" "ps ! i = q" by (auto simp: in_set_conv_nth)
    with snoc.prems(2) [rule_format, of i "length ps"] show "\<not> prefix p q" by (simp add: nth_append)
  qed
  have p: "canonical p" "source_ok fs (real_path (abs_path p))" "p \<noteq> []"
    using snoc.prems(1) by (auto simp: sources_ok_def canonical_def)
  have d: "canonical d" using assms(1) by (simp add: empty_dir_def)
  have none: "archived fs d ps (d @ p) = None"
    using archived_below [OF assms(1) p(3), of ps] new by auto
  have root: "archived fs d ps [] = Some Dir_node" using assms(1) by (intro archived_dir) simp_all
  have "copy_line (abs_path d) (line_of (abs_path p)) (archived fs d ps) = Inr (archived fs d (ps @ [p]))"
    unfolding line_of_def archived_snoc [OF assms(1) snoc.prems(1) new, symmetric]
    by (rule copy_line_step [OF archived_le [OF assms(1)] p(2) d p(1) archived_plain [OF assms(1) snoc.prems(1) new] root none])
  with snoc.IH [OF ok ord] show ?case by (simp add: copy_lines_append)
qed simp

section \<open>Sorted lists\<close>

lemma prefix_le: "prefix xs ys \<Longrightarrow> xs \<le> (ys :: string)"
  by (induction xs arbitrary: ys) (auto simp: prefix_def)

lemma abs_path_prefix: "prefix p q \<Longrightarrow> prefix (abs_path p) (abs_path q)"
  by (auto elim!: prefixE)

lemma sorted_order:
  assumes "sorted (map abs_path ps)" "distinct (map abs_path ps)" "i < j" "j < length ps"
  shows "\<not> prefix (ps ! j) (ps ! i)"
proof
  assume "prefix (ps ! j) (ps ! i)"
  then have "abs_path (ps ! j) \<le> abs_path (ps ! i)" by (intro prefix_le abs_path_prefix)
  moreover have "abs_path (ps ! i) \<le> abs_path (ps ! j)"
    using sorted_nth_mono [OF assms(1), of i j] assms(3,4) by simp
  ultimately have "map abs_path ps ! i = map abs_path ps ! j" using assms(3,4) by simp
  then show False using assms(2-4) by (simp add: nth_eq_iff_index_eq del: nth_map)
qed

text \<open>
  C39 (archive of the tool chain): what the filter prints, fed into the copy script, is copied without
  an error: each path of the list lies below the target directory, a directory for a directory, a
  link for a link and a file with the same contents for a file, together with the directories above
  it and nothing else, and everything outside is as it was.  The target has to be an existing, empty
  directory; the paths have to be canonical, to exist below the directory that \<open>real_path\<close> leads to,
  and a path above another one has to be a directory.
\<close>

theorem toolchain_archive:
  assumes "cluefs_main fs csvlines = Inr (map abs_path ps)" "empty_dir fs d" "sources_ok fs ps"
  shows "\<exists>fs'. copy_main (abs_path d) (map line_of (map abs_path ps)) fs = Inr fs'
    \<and> (\<forall>p \<in> set ps. fs' (d @ p) = source_node fs (real_path (abs_path p)))
    \<and> (\<forall>r. r \<noteq> [] \<longrightarrow> (fs' (d @ r) \<noteq> None \<longleftrightarrow> (\<exists>p \<in> set ps. prefix r p)))
    \<and> (\<forall>q. \<not> strict_prefix d q \<longrightarrow> fs' q = fs q)"
proof (intro exI conjI ballI allI impI)
  note cluefs_sorted [OF assms(1)]
  then have order: "\<forall>i j. i < j \<longrightarrow> j < length ps \<longrightarrow> \<not> prefix (ps ! j) (ps ! i)"
    using sorted_order by blast
  have "abs_path d \<noteq> []" using assms(2) abs_path_last(1) by (simp add: empty_dir_def)
  with copy_lines_archived [OF assms(2,3) order]
  show "copy_main (abs_path d) (map line_of (map abs_path ps)) fs = Inr (archived fs d ps)"
    by (simp add: copy_main_def comp_def)
next
  fix p assume p: "p \<in> set ps"
  then have "p \<noteq> []" using assms(3) by (auto simp: sources_ok_def canonical_def)
  with p archived_below [OF assms(2)] show "archived fs d ps (d @ p) = source_node fs (real_path (abs_path p))"
    by simp
next
  fix r :: "string list" assume r: "r \<noteq> []"
  have "source_node fs (real_path (abs_path r)) \<noteq> None" if "r \<in> set ps"
    using that assms(3) by (auto simp: sources_ok_def source_ok_def)
  with archived_below [OF assms(2) r, of ps]
  show "archived fs d ps (d @ r) \<noteq> None \<longleftrightarrow> (\<exists>p \<in> set ps. prefix r p)" by auto
next
  fix q assume "\<not> strict_prefix d q"
  then show "archived fs d ps q = fs q" by (intro archived_other) (auto simp: strict_prefix_def)
qed

text \<open>A tool with one file, seen through a link, and the empty target \<open>/b\<close>.\<close>

definition small_fs :: fs_tree where
  "small_fs = map_of
     [([], Dir_node), ([''b''], Dir_node), ([''opt''], Dir_node),
      ([''opt'', ''Xilinx''], Link_node ''/opt/Xilinx.real''), ([''opt'', ''Xilinx.real''], Dir_node),
      ([''opt'', ''Xilinx.real'', ''x''], File_node ''1'')]"

definition small_csv :: "string list" where
  "small_csv = [''0,1,2,3,4,5,6,7,8,/opt/Xilinx/x,file'' @ [CHR 0x0A]]"

theorem toolchain_archive_witness:
  "\<exists>fs'. copy_main ''/b'' [''/opt/Xilinx/x'' @ [CHR 0x0A]] small_fs = Inr fs'
     \<and> fs' [''b'', ''opt'', ''Xilinx'', ''x''] = Some (File_node ''1'')"
proof -
  let ?ps = "[[''opt'', ''Xilinx'', ''x'']]"
  have f: "cluefs_main small_fs small_csv = Inr (map abs_path ?ps)" by code_simp
  have d: "empty_dir small_fs [''b'']"
    by (auto simp: empty_dir_def canonical_def good_comp_def is_space_def small_fs_def prefix_Cons)
  have n: "source_node small_fs (real_path (abs_path [''opt'', ''Xilinx'', ''x''])) = Some (File_node ''1'')"
    by code_simp
  have "case resolve small_fs (real_path (abs_path [''opt'', ''Xilinx'', ''x''])) of None \<Rightarrow> False | Some q \<Rightarrow> small_fs q \<noteq> None"
    by code_simp
  with n have "sources_ok small_fs ?ps"
    by (simp add: sources_ok_def source_ok_def canonical_def good_comp_def is_space_def del: abs_path_simps)
  from toolchain_archive [OF f d this] n show ?thesis by (auto simp: line_of_def)
qed

end
