(* ===== verification/Spec2Isabelle.thy ===== *)
theory Spec2Isabelle
  imports Pwm Freq_Measurement Encoder_Dma Encoder_Buffer Build_Tools Opsis_I2c Spi_Flash Boards
    Cpu_Interface Spi_Master Spram Board_Info I2c_Pads Rgmii Board_Pins Platform_Tools
    Targets Rtp Prebuilt Strace_Filter Gateware_Log Soc_Ethernet Endian_Swap Netlists Instances
    Make_Soc Small_Cores Encoder_Path Colour_Bars Clock_Units
    Prebuilt_Publish Toolchain_Archive
begin

text \<open>
  HDMI2USB-litex-firmware: gateware, system descriptions and tools.

  The repository builds FPGA systems for some twenty boards.  Python classes in \<open>gateware/\<close> describe
  hardware modules in Migen; \<open>targets/<board>/\<close> composes them, with library cores, to systems on a
  chip; \<open>platforms/<board>.py\<close> has the pins, clocks, flash chip and programmer of a board.  \<open>make.py\<close>
  builds a system, \<open>mkimage.py\<close> joins bitstream, BIOS and firmware into a flash image, \<open>flash.py\<close> and
  \<open>load.py\<close> bring it to the board, and scripts in \<open>.travis/\<close> filter logs, collect the vendor's tool
  chain and publish the results.  This development models the Python code of all of these and proves
  what makes it correct.  This theory imports all others and has the properties that span
  systems, platforms and the image tools.


  How the parts interact

  In an HDMI to USB system a frame lies in DRAM.  The frame reader (\<open>Encoder_Dma\<close>) fetches it in
  blocks of eight by eight pixels, through the DMA engine and a clock crossing, into the block buffer
  (\<open>Encoder_Buffer\<close>), from which the JPEG core takes single pixels; \<open>Encoder_Path\<close> composes the three and
  has the theorem for the whole way.  The JPEG stream leaves through the FX2 or as RTP packets (\<open>Rtp\<close>).
  The FX2 loads its firmware over I2C from a shift register target (\<open>Opsis_I2c\<close>) behind a multiplexer
  (\<open>I2c_Pads\<close>).  The processor of a system boots from a memory-mapped flash (\<open>Spi_Flash\<close>), a block RAM
  filled at build time (\<open>Board_Info\<close>) or the RAM blocks of the FPGA (\<open>Spram\<close>), at the address
  \<open>FLASH_BOOT_ADDRESS\<close>.  The constructor of the system computes that address (\<open>Soc_*\<close>) from an attribute of the
  platform (\<open>Platform_Attrs\<close>), and \<open>mkimage.py\<close> (\<open>Build_Tools\<close>) puts the firmware where it thinks the
  address is; the theorems below relate the two.  Software finds registers by the map that
  \<open>Cpu_Interface\<close> prints, in the slots that \<open>Target_Utils\<close> allocates.


  Conventions of the model

  A gateware module is a record of its registers with a step function, one clock edge; inputs of a
  cycle are a record as well, outputs are functions of inputs and registers.  Migen's statements of
  one clock domain act together on the old values, and a later statement wins; state machines
  (\<open>FSM\<close>) are datatypes with the states' names.  Words have their width, by type where the source fixes
  it and by lists of bits or explicit \<open>mod\<close> where it is a parameter.  A constructor of a clock
  generator or of a system is the list of its statements, in the order of the source, as a datatype
  with one constructor per kind of statement; a table of pins is a list of entries as the source writes
  them.  Tools are functions to \<open>py_error + 'a\<close>, where every \<open>assert\<close>, \<open>raise\<close> and failing lookup is a
  branch.  Files, commands and directories come in as functions or trees and go out as values.


  Theories

  \<^item> \<open>Hdl_Prelude\<close>: runs of synchronous machines, the interfaces \<open>sync_module\<close> (an invariant that every
    edge keeps) and \<open>stream_module\<close> (what went in is what came out and what is pending), the error
    type, printing of numbers.  \<open>Py_Strings\<close>: the string, path, dictionary and file operations of Python that
    the tools use.  \<open>Py_Float\<close>: binary floating point, with the error of a rounding and the exactness of
    integers.
  \<^item> Video.  \<open>Encoder_Dma\<close>, \<open>Encoder_Buffer\<close> (\<open>gateware/encoder/core.py\<close>: \<open>EncoderDMAReader\<close>, \<open>EncoderBuffer\<close>,
    \<open>Encoder\<close>), \<open>Encoder_Path\<close> (their composition in \<open>targets/opsis/hdmi2usb.py\<close>), \<open>Rtp\<close>
    (\<open>gateware/streamer/rtp.py\<close>), \<open>Colour_Bars\<close> (\<open>firmware/pattern.py\<close>).
  \<^item> Buses and memories.  \<open>Spi_Flash\<close> (\<open>gateware/spi_flash.py\<close>), \<open>Spram\<close> (\<open>gateware/ice40.py\<close>), \<open>Endian_Swap\<close>
    (\<open>WishboneEndianSwap\<close> in \<open>targets/netv2/hdmi2pcie.py\<close>).
  \<^item> Peripherals.  \<open>Opsis_I2c\<close>, \<open>I2c_Pads\<close> (\<open>gateware/opsis_i2c.py\<close>, \<open>gateware/i2c.py\<close>), \<open>Spi_Master\<close>
    (\<open>gateware/oled.py\<close>), \<open>Pwm\<close> (\<open>gateware/pwm.py\<close>, \<open>led.py\<close>), \<open>Freq_Measurement\<close>, \<open>Rgmii\<close>
    (\<open>gateware/s6rgmii.py\<close>), \<open>Cas\<close> (\<open>gateware/cas.py\<close>), \<open>Board_Info\<close> (\<open>gateware/info/\<close>, \<open>firmware.py\<close>),
    \<open>Small_Cores\<close> (\<open>shared_uart.py\<close>, \<open>memtest.py\<close>, \<open>tofe.py\<close>), \<open>Instances\<close> (connections of VHDL, Verilog and
    vendor cores).
  \<^item> Boards.  \<open>Pins\<close>, \<open>Platform_Io_Spartan6\<close>, \<open>Platform_Io_Artix7\<close>, \<open>Platform_Io_Ice40\<close>, \<open>Opsis_Tofe\<close>
    (the tables of \<open>platforms/*.py\<close>), \<open>Platform_Attrs\<close>, \<open>Platform_Tools\<close> (attributes, constructors and
    programmers), \<open>Platform_Request\<close> (the interface \<open>litex_platform\<close>), \<open>Board_Pins\<close> (what the pads of a
    board go to).
  \<^item> Clocks.  \<open>Clocking\<close>, \<open>Crg_Spartan6\<close>, \<open>Crg_Artix7\<close>, \<open>Crg_Ice40\<close> (the \<open>_CRG\<close> classes of
    \<open>targets/*/base.py\<close>), \<open>Netlists\<close> (their well-formedness), \<open>Clock_Units\<close> (the rest of
    \<open>targets/utils.py\<close>).
  \<^item> Systems.  \<open>Target_Utils\<close> (\<open>csr_map_update\<close>), \<open>Cpu_Interface\<close> (\<open>targets/common/cpu_interface.py\<close>), \<open>Soc_Types\<close>,
    \<open>Soc_Spartan6\<close>, \<open>Soc_Artix7\<close>, \<open>Soc_Ice40\<close> (the \<open>BaseSoC\<close> classes), \<open>Boards\<close>, \<open>Sub_Types\<close>, \<open>Soc_Sub_Spartan6\<close>,
    \<open>Soc_Sub_Series7\<close>, \<open>Soc_Ethernet\<close> (the derived systems), \<open>Targets\<close>, \<open>Net_Config\<close> (\<open>configure_iprange\<close>).
  \<^item> Tools.  \<open>Build_Tools\<close> (\<open>make.py\<close>, \<open>mkimage.py\<close>, \<open>flash.py\<close>, \<open>load.py\<close>), \<open>Make_Soc\<close> (\<open>get_platform\<close>,
    \<open>get_soc\<close>, \<open>get_prog\<close>), \<open>Gateware_Log\<close>, \<open>Strace_Filter\<close>, \<open>Toolchain_Archive\<close>, \<open>Prebuilt\<close>, \<open>Prebuilt_Publish\<close>
    (the scripts of \<open>.travis/\<close>).


  What the lemmas show

  \<^item> The frame reader issues its bursts in the order of four nested loops, whatever the stalls, and ends
    after the last; the block buffer refines a queue, keeps writer and reader on different banks and does
    not deadlock; together the encoder gets the pixels of the frame in blocks, for any interleaving of
    the two clocks.  The RTP generator cuts the byte stream into whole packets with the length each
    announces, and packets are numbered in order.
  \<^item> Memories refine arrays: the RAM over bus transactions with byte enables, the bridge with its bytes
    swapped, the flash reader word by word with the command it sends.
  \<^item> Serial protocols: address match and acknowledgement, bytes in and clock stretching of the I2C target;
    a core that the multiplexer has not selected has no influence; a transfer of the SPI master; the
    frames of the RGMII receiver; duty cycle and frequency count.
  \<^item> For all boards: the system clock has the declared frequency, netlists of the clock generators are
    well formed, no pad is given to two requests, bus windows and interrupts of the systems do not
    collide, CSR slots stay distinct, register addresses do not overlap, and regions of the flash lie
    behind each other.  The boards and systems for which one of these fails are left out of it by name,
    and what happens there is a theorem of its own.
  \<^item> The image tools put every byte where the layout says, the parts flashed one by one are those of
    the image, and the boot address is that of the firmware, except where a theorem says otherwise.
  \<^item> The scripts: the digest of a build log, the files of a system call trace, the archive of the tool
    chain and the index of prebuilt firmware, each against a definition without its caches and loops.

  The locales are the interfaces: \<open>sync_module\<close> and \<open>stream_module\<close> are interpreted on the modules that
  keep an invariant or conserve data, \<open>spi_transaction\<close> on the reads of the flash, \<open>slot_allocator\<close> on
  \<open>csr_map_update\<close>, and \<open>litex_platform\<close> on the pin tables and on the method with which one platform overrides
  the library's.


  What is a parameter

  Code outside the repository is an argument of the definitions, with its documented behaviour as a
  hypothesis where a theorem needs it, and with an instance in the witness: Migen's \<open>chooser\<close>, \<open>timeline\<close>,
  \<open>log2_int\<close> and \<open>bits_for\<close>; the FIFO in front of the RTP generator (\<open>sync_fifo\<close>); DMA engine, DRAM and clock
  crossing (\<open>ordered_channel\<close>); the vendors' RAM block (\<open>spram_block\<close>), \<open>DNA_PORT\<close> and clock primitives
  (\<open>vendor_clocks\<close>); LiteX's memory map (\<open>litex_map\<close>), its \<open>request\<close> (\<open>litex_platform\<close>) and what it makes of command
  lines; the answers of \<open>git\<close>, \<open>svn\<close> and the programmers; file
  systems.


  Termination and bounds

  All definitions are total.  Loops of the tools go over lists, or over a measure that the function
  package checks.  The discovery loops of \<open>Cas\<close> are partial functions, for which the theorem says that
  they end.  Path resolution follows at most forty symbolic links, as the kernel does; \<open>makedirs\<close> recurses
  at most as often as the path has characters, and every level removes some.  Machines run over any
  finite list of cycles; \<open>liveness\<close> theorems give the number of cycles or transfers.


  Not modelled

  \<^item> \<open>targets/sim/\<close> and \<open>firmware/version_data.py\<close>: not valid Python (\<open>csr_peripherals = ( , )\<close> and
    \<open>dat a == data_c\<close>), so they have no behaviour; the other three files of \<open>targets/sim\<close> import the first.
  \<^item> The inside of library cores (LiteX, LiteDRAM, LiteEth, LitePCIe, LiteVideo, Migen), of the VHDL and
    Verilog cores, and of the vendors' primitives, beyond the hypotheses above.
  \<^item> The firmware in C, the hardware test scripts (interactive sessions with a board), and the shell and
    make files.
  \<^item> Messages on the terminal, where nothing reads them; times, permissions and the clock of the
    keep-alive thread; infinities of floating point.
\<close>

section \<open>Systems and flash images\<close>

lemma soc_and_gatewareD:
  "soc_and_gateware p base b \<Longrightarrow> base_soc b base = Inr ss \<Longrightarrow> pa_gateware_size (bd_attrs b) = Some g \<Longrightarrow> p g ss"
  by (simp add: soc_and_gateware_def)

text \<open>A board as the build tools see it: bitstream space and a ROM of 32 kB.\<close>

definition image_board :: "nat \<Rightarrow> board" where
  "image_board g = \<lparr>gateware_size = g, spiflash_total_size = 0x1000000, mem_regions = [(''rom'', 0x8000)]\<rparr>"



text \<open>
  The boot address of the miniSpartan6 system is where the image
  has the BIOS; the firmware is 32 kB further on.
\<close>

theorem boot_address_minispartan6:
  assumes "base_soc minispartan6_board (litex_map rom sram csr main_ram) = Inr ss"
    and "pa_gateware_size (bd_attrs minispartan6_board) = Some (int (gateware_size tb))"
    and "concat (map rom_sizes ss) = [int (get_bios_maxsize (mem_regions tb))]"
  shows "boot_offset ss = Some (int (bios_pos tb)) \<and> firmware_pos tb = bios_pos tb + 0x8000"
proof -
  from soc_and_gatewareD [OF minispartan6_boot assms(1,2)]
  show ?thesis using assms(3) by (simp add: firmware_pos_def bios_pos_def)
qed

theorem boot_address_minispartan6_witness:
  "case base_soc minispartan6_board (litex_map 0 0x10000000 0xe0000000 0x40000000) of
     Inl e \<Rightarrow> False
   | Inr ss \<Rightarrow> boot_offset ss = Some (int (bios_pos (image_board 0x180000)))"
proof -
  have "case base_soc minispartan6_board (litex_map 0 0x10000000 0xe0000000 0x40000000) of
      Inl e \<Rightarrow> False | Inr ss \<Rightarrow> concat (map rom_sizes ss) = [0x8000]"
    by code_simp
  then obtain ss where ss: "base_soc minispartan6_board (litex_map 0 0x10000000 0xe0000000 0x40000000) = Inr ss"
      "concat (map rom_sizes ss) = [int (get_bios_maxsize (mem_regions (image_board 0x180000)))]"
    by (auto simp: image_board_def split: sum.splits)
  have "pa_gateware_size (bd_attrs minispartan6_board) = Some (int (gateware_size (image_board 0x180000)))"
    by (simp add: minispartan6_board_def minispartan6_attrs_def image_board_def)
  from boot_address_minispartan6 [OF ss(1) this ss(2)] show ?thesis
    by (simp add: ss(1))
qed

section \<open>Ethernet systems\<close>

lemma boot_and_romD:
  assumes "boot_and_rom boot r base cpu t" "target_soc_cpu base cpu [] t = Inr ss"
    and "pa_gateware_size (bd_attrs (tg_board t)) = Some g"
  shows "boot_offset ss = Some (g + boot)" "concat (map rom_sizes ss) = [r]"
  using assms by (simp_all add: boot_and_rom_def)

definition net_cpus :: "string list" where
  "net_cpus = [''lm32'', ''mor1kx'', ''picorv32'', ''vexriscv'']"

definition net_rom :: "string \<Rightarrow> int" where
  "net_rom cpu = (if cpu = ''lm32'' then 0x8000 else 0x10000)"

lemma net_boot:
  assumes "cpu \<in> set net_cpus" "t \<in> set net_boot_targets"
  shows "boot_and_rom 0x8000 (net_rom cpu) (litex_map rom sram csr main_ram) cpu t"
  using assms net_boot_lm32 net_boot_mor1kx net_boot_picorv32 net_boot_vexriscv
  unfolding net_cpus_def list_all_iff by (auto simp: net_rom_def)

text \<open>
  C35 (boot address with Ethernet): in the Ethernet systems of the Opsis, the Atlys and the Arty the
  boot address is 32 kB behind the bitstream.  That is where \<open>mkimage.py\<close> puts the firmware if the
  processor is an LM32; for the other processors the ROM has 64 kB, the firmware is 32 kB further on
  and the boot address points into the BIOS.
\<close>

theorem net_boot_in_bios:
  assumes "t \<in> set net_boot_targets" "cpu \<in> set net_cpus"
    and "target_soc_cpu (litex_map rom sram csr main_ram) cpu [] t = Inr ss"
    and "pa_gateware_size (bd_attrs (tg_board t)) = Some (int (gateware_size tb))"
    and "concat (map rom_sizes ss) = [int (get_bios_maxsize (mem_regions tb))]"
  shows "boot_offset ss = Some (int (bios_pos tb) + 0x8000)
       \<and> int (firmware_pos tb) = int (bios_pos tb) + (if cpu = ''lm32'' then 0x8000 else 0x10000)"
  using boot_and_romD [OF net_boot [OF assms(2,1)] assms(3,4)] assms(5)
  by (simp add: firmware_pos_def bios_pos_def net_rom_def)

text \<open>A board as the build tools see it, with a ROM of 64 kB.\<close>

definition net_image_board :: "nat \<Rightarrow> board" where
  "net_image_board g = image_board g\<lparr>mem_regions := [(''rom'', 0x10000)]\<rparr>"

theorem net_boot_in_bios_witness:
  "case target_soc_cpu (litex_map 0 0x10000000 0xe0000000 0x40000000) ''vexriscv'' [] arty_net_target of
     Inl e \<Rightarrow> False
   | Inr ss \<Rightarrow> boot_offset ss = Some 0x228000 \<and> firmware_pos (net_image_board 0x220000) = 0x230000"
proof -
  let ?tb = "net_image_board 0x220000"
  have "case target_soc_cpu (litex_map 0 0x10000000 0xe0000000 0x40000000) ''vexriscv'' [] arty_net_target of
      Inl e \<Rightarrow> False | Inr ss \<Rightarrow> concat (map rom_sizes ss) = [0x10000]"
    by code_simp
  then obtain ss where ss: "target_soc_cpu (litex_map 0 0x10000000 0xe0000000 0x40000000) ''vexriscv'' [] arty_net_target = Inr ss"
      "concat (map rom_sizes ss) = [int (get_bios_maxsize (mem_regions ?tb))]"
    by (auto simp: net_image_board_def split: sum.splits)
  have g: "pa_gateware_size (bd_attrs (tg_board arty_net_target)) = Some (int (gateware_size ?tb))"
    by (simp add: arty_net_target_def arty_board_def arty_attrs_def net_image_board_def image_board_def)
  have "arty_net_target \<in> set net_boot_targets" "''vexriscv'' \<in> set net_cpus"
    by (simp_all add: net_boot_targets_def net_cpus_def)
  from net_boot_in_bios [OF this ss(1) g ss(2)] show ?thesis
    by (simp add: ss(1) bios_pos_def net_image_board_def image_board_def)
qed

end
